(* ===== verification/Prelude.thy ===== *)
theory Prelude
  imports Complex_Main "HOL-Library.Word" "HOL-Library.Monad_Syntax" "HOL-Library.Multiset"
begin

text \<open>
  Shared vocabulary of the development: the machine integers of the Rust code, the two readings of
  a slice access (\<open>slice.get(a..b)\<close>, which returns an \<open>Option\<close>, and \<open>slice[a..b]\<close>, which
  panics), little-endian integers, the iterator adaptors the code is written with, and the
  saturating and checked arithmetic of the standard library.

  A computation that can panic has type \<open>'a may_panic\<close>: \<open>None\<close> is the panic and \<open>Some v\<close> is a
  normal return of \<open>v\<close>. A Rust \<open>Option\<close> that such a computation returns is nested inside. The
  \<open>do\<close> notation of the option monad sequences computations that can panic.
\<close>

section \<open>Types\<close>

type_synonym u8 = "8 word"
type_synonym u16 = "16 word"
type_synonym u32 = "32 word"
type_synonym u64 = "64 word"
type_synonym u128 = "128 word"
text \<open>Signed integers share the bit pattern of the unsigned word; \<open>sint\<close> reads them.\<close>
type_synonym i16 = "16 word"
type_synonym i32 = "32 word"
type_synonym i64 = "64 word"
type_synonym i128 = "128 word"
type_synonym bytes = "u8 list"
type_synonym 'a may_panic = "'a option"

named_theorems rust_defs \<open>definitions of the standard-library vocabulary\<close>
named_theorems panic_free \<open>closed forms of computations that are shown never to panic\<close>
named_theorems layout \<open>lengths and slices of concrete byte layouts\<close>

section \<open>Slices and vectors\<close>

text \<open>\<open>xs.get(i)\<close>\<close>
definition vec_get :: "'a list \<Rightarrow> nat \<Rightarrow> 'a option" where
  [rust_defs]: "vec_get xs i = (if i < length xs then Some (xs ! i) else None)"

text \<open>\<open>xs.get(a..b)\<close>; read as \<open>may_panic\<close> it is \<open>&xs[a..b]\<close>.\<close>
definition slice_get :: "'a list \<Rightarrow> nat \<Rightarrow> nat \<Rightarrow> 'a list option" where
  [rust_defs]: "slice_get xs a b = (if a \<le> b \<and> b \<le> length xs then Some (take (b - a) (drop a xs)) else None)"

abbreviation slice_index :: "'a list \<Rightarrow> nat \<Rightarrow> nat \<Rightarrow> 'a list may_panic" where
  "slice_index \<equiv> slice_get"

text \<open>\<open>xs.get(a..)\<close>; read as \<open>may_panic\<close> it is \<open>&xs[a..]\<close>.\<close>
definition slice_from :: "'a list \<Rightarrow> nat \<Rightarrow> 'a list option" where
  [rust_defs]: "slice_from xs a = (if a \<le> length xs then Some (drop a xs) else None)"

text \<open>\<open><[u8; N]>::try_from(slice).ok()\<close>\<close>
definition try_array :: "nat \<Rightarrow> 'a list \<Rightarrow> 'a list option" where
  [rust_defs]: "try_array n xs = (if length xs = n then Some xs else None)"

lemma vec_get_Some_iff: "vec_get xs i = Some x \<longleftrightarrow> i < length xs \<and> xs ! i = x"
  by (auto simp: vec_get_def)

lemma vec_get_None_iff: "vec_get xs i = None \<longleftrightarrow> length xs \<le> i"
  by (auto simp: vec_get_def)

lemma vec_get_Nil [simp]: "vec_get [] i = None"
  by (simp add: vec_get_def)

lemma vec_get_0 [simp]: "vec_get (x # xs) 0 = Some x"
  by (simp add: vec_get_def)

lemma vec_get_Suc [simp]: "vec_get (x # xs) (Suc i) = vec_get xs i"
  by (simp add: vec_get_def)

lemma vec_get_numeral [simp]: "vec_get (x # xs) (numeral n) = vec_get xs (pred_numeral n)"
  by (simp add: numeral_eq_Suc)

lemma vec_get_1 [simp]: "vec_get (x # xs) 1 = vec_get xs 0"
  by (simp add: vec_get_def)

lemma slice_get_Some_iff:
  "slice_get xs a b = Some ys \<longleftrightarrow> a \<le> b \<and> b \<le> length xs \<and> ys = take (b - a) (drop a xs)"
  by (auto simp: slice_get_def)

lemma slice_get_length: "slice_get xs a b = Some ys \<Longrightarrow> length ys = b - a"
  by (auto simp: slice_get_Some_iff)

lemma vec_get_append2 [layout]: "length xs \<le> i \<Longrightarrow> vec_get (xs @ ys) i = vec_get ys (i - length xs)"
  by (auto simp: vec_get_def nth_append)

lemma vec_get_append1 [layout]: "i < length xs \<Longrightarrow> vec_get (xs @ ys) i = vec_get xs i"
  by (auto simp: vec_get_def nth_append)

text \<open>A slice of a concatenation falls into the part that holds it.\<close>

lemma slice_get_append2 [layout]:
  "length xs \<le> a \<Longrightarrow> a \<le> b \<Longrightarrow> slice_get (xs @ ys) a b = slice_get ys (a - length xs) (b - length xs)"
  by (auto simp: slice_get_def)

lemma slice_get_append1 [layout]:
  "a \<le> b \<Longrightarrow> b \<le> length xs \<Longrightarrow> slice_get (xs @ ys) a b = slice_get xs a b"
  by (auto simp: slice_get_def)

lemma slice_get_whole [layout]: "n = length xs \<Longrightarrow> slice_get xs 0 n = Some xs"
  by (simp add: slice_get_def)

lemma try_array_Some_iff: "try_array n xs = Some ys \<longleftrightarrow> length xs = n \<and> ys = xs"
  by (auto simp: try_array_def)

text \<open>\<open>iter.position(p)\<close>\<close>
primrec position :: "('a \<Rightarrow> bool) \<Rightarrow> 'a list \<Rightarrow> nat option" where
  "position p [] = None"
| "position p (x # xs) = (if p x then Some 0 else map_option Suc (position p xs))"

lemma position_Some_iff:
  "position p xs = Some i \<longleftrightarrow> i < length xs \<and> p (xs ! i) \<and> (\<forall>j<i. \<not> p (xs ! j))"
proof (induction xs arbitrary: i)
  case (Cons x xs)
  show ?case
    by (cases i) (auto simp: Cons.IH less_Suc_eq_0_disj split: if_splits)
qed simp

lemma position_None_iff: "position p xs = None \<longleftrightarrow> (\<forall>x \<in> set xs. \<not> p x)"
  by (induction xs) auto

lemma position_less: "position p xs = Some i \<Longrightarrow> i < length xs"
  by (simp add: position_Some_iff)

text \<open>\<open>slice.chunks_exact(n)\<close> drops a final partial chunk; \<open>slice.chunks(n)\<close> keeps it.
  Both panic for \<open>n = 0\<close>, which the code never passes.\<close>
function chunks_exact :: "nat \<Rightarrow> 'a list \<Rightarrow> 'a list list" where
  "chunks_exact n xs = (if n = 0 \<or> length xs < n then [] else take n xs # chunks_exact n (drop n xs))"
  by pat_completeness auto
termination by (relation "measure (\<lambda>(n, xs). length xs)") auto

declare chunks_exact.simps [simp del]

function chunks :: "nat \<Rightarrow> 'a list \<Rightarrow> 'a list list" where
  "chunks n xs = (if n = 0 \<or> xs = [] then [] else take n xs # chunks n (drop n xs))"
  by pat_completeness auto
termination by (relation "measure (\<lambda>(n, xs). length xs)") auto

declare chunks.simps [simp del]

lemma chunks_exact_length: "c \<in> set (chunks_exact n xs) \<Longrightarrow> length c = n"
proof (induction n xs rule: chunks_exact.induct)
  case (1 n xs)
  then show ?case
    by (subst (asm) (2) chunks_exact.simps) (auto split: if_splits)
qed

lemma length_chunks_exact: "0 < n \<Longrightarrow> length (chunks_exact n xs) = length xs div n"
proof (induction n xs rule: chunks_exact.induct)
  case (1 n xs)
  show ?case
  proof (cases "length xs < n")
    case True
    then show ?thesis by (simp add: chunks_exact.simps [of n xs])
  next
    case False
    with 1 have "length (chunks_exact n (drop n xs)) = (length xs - n) div n" by simp
    with False 1(2) show ?thesis
      by (simp add: chunks_exact.simps [of n xs] le_div_geq)
  qed
qed

lemma concat_chunks: "0 < n \<Longrightarrow> concat (chunks n xs) = xs"
proof (induction n xs rule: chunks.induct)
  case (1 n xs)
  then show ?case
    by (cases "xs = []") (simp_all add: chunks.simps [of n xs] chunks.simps [of n "[]"])
qed

lemma chunks_length_le: "c \<in> set (chunks n xs) \<Longrightarrow> length c \<le> n"
proof (induction n xs rule: chunks.induct)
  case (1 n xs)
  then show ?case
    by (subst (asm) (2) chunks.simps) (auto split: if_splits)
qed

section \<open>Little-endian integers\<close>

primrec le_nat :: "bytes \<Rightarrow> nat" where
  "le_nat [] = 0"
| "le_nat (b # bs) = unat b + 256 * le_nat bs"

text \<open>\<open>uN::from_le_bytes\<close> of an array of the right length.\<close>
definition from_le_bytes :: "bytes \<Rightarrow> 'a::len word" where
  [rust_defs]: "from_le_bytes bs = word_of_nat (le_nat bs)"

text \<open>\<open>x.to_le_bytes()\<close>, on the value.\<close>
primrec le_bytes :: "nat \<Rightarrow> nat \<Rightarrow> bytes" where
  "le_bytes 0 k = []"
| "le_bytes (Suc n) k = word_of_nat k # le_bytes n (k div 256)"

definition to_le_bytes :: "nat \<Rightarrow> 'a::len word \<Rightarrow> bytes" where
  "to_le_bytes n w = le_bytes n (unat w)"

lemma length_le_bytes [simp]: "length (le_bytes n k) = n"
  by (induction n arbitrary: k) auto

lemma length_to_le_bytes [simp]: "length (to_le_bytes n w) = n"
  by (simp add: to_le_bytes_def)

lemma le_nat_le_bytes: "le_nat (le_bytes n k) = k mod 256 ^ n"
proof (induction n arbitrary: k)
  case (Suc n)
  have "k mod 256 + 256 * (k div 256 mod 256 ^ n) = k mod (256 * 256 ^ n)"
    by (simp add: mod_mult2_eq)
  then show ?case by (simp add: Suc unat_of_nat)
qed simp

lemma from_le_bytes_to_le_bytes:
  "LENGTH('a) \<le> 8 * n \<Longrightarrow> from_le_bytes (to_le_bytes n (w :: 'a::len word)) = w"
proof -
  assume "LENGTH('a) \<le> 8 * n"
  then have "(2::nat) ^ LENGTH('a) \<le> 2 ^ (8 * n)" by (intro power_increasing) auto
  moreover have "(256::nat) ^ n = 2 ^ (8 * n)" by (simp add: power_mult)
  ultimately have "unat w < 256 ^ n"
    using unsigned_less [of w, where ?'a = nat] by linarith
  then show ?thesis
    by (simp add: from_le_bytes_def to_le_bytes_def le_nat_le_bytes)
qed

lemma le_nat_less: "le_nat bs < 256 ^ length bs"
proof (induction bs)
  case (Cons b bs)
  have "unat b < 256" using unsigned_less [of b, where ?'a = nat] by simp
  with Cons show ?case by simp
qed simp

section \<open>Arithmetic\<close>

definition saturating_add :: "'a::len word \<Rightarrow> 'a word \<Rightarrow> 'a word" where
  [rust_defs]: "saturating_add a b = (if unat a + unat b < 2 ^ LENGTH('a) then a + b else - 1)"

definition saturating_sub :: "'a::len word \<Rightarrow> 'a word \<Rightarrow> 'a word" where
  [rust_defs]: "saturating_sub a b = (if b \<le> a then a - b else 0)"

definition saturating_mul :: "'a::len word \<Rightarrow> 'a word \<Rightarrow> 'a word" where
  [rust_defs]: "saturating_mul a b = (if unat a * unat b < 2 ^ LENGTH('a) then a * b else - 1)"

definition checked_sub :: "'a::len word \<Rightarrow> 'a word \<Rightarrow> 'a word option" where
  [rust_defs]: "checked_sub a b = (if b \<le> a then Some (a - b) else None)"

text \<open>\<open>usize::checked_add\<close> on the 64-bit target.\<close>
definition usize_checked_add :: "nat \<Rightarrow> nat \<Rightarrow> nat option" where
  [rust_defs]: "usize_checked_add a b = (if a + b < 2 ^ 64 then Some (a + b) else None)"

lemma unat_minus_1: "unat (- 1 :: 'a::len word) = 2 ^ LENGTH('a) - 1"
  by (simp add: unsigned_minus_1_eq_mask mask_eq_exp_minus_1)

lemma unat_saturating_add:
  "unat (saturating_add a b) = min (unat a + unat b) (2 ^ LENGTH('a) - 1)"
  for a b :: "'a::len word"
  by (auto simp: saturating_add_def unat_word_ariths unat_minus_1)

lemma unat_saturating_sub: "unat (saturating_sub a b) = unat a - unat b"
  by (auto simp: saturating_sub_def unat_sub word_le_nat_alt)

lemma unat_saturating_mul:
  "unat (saturating_mul a b) = min (unat a * unat b) (2 ^ LENGTH('a) - 1)"
  for a b :: "'a::len word"
  by (auto simp: saturating_mul_def unat_word_ariths unat_minus_1)

lemma checked_sub_Some_iff:
  "checked_sub a b = Some c \<longleftrightarrow> unat b \<le> unat a \<and> c = a - b"
  by (auto simp: checked_sub_def word_le_nat_alt)

lemma checked_sub_unat: "checked_sub a b = Some c \<Longrightarrow> unat b + unat c = unat a"
  by (auto simp: checked_sub_Some_iff unat_sub word_le_nat_alt)

section \<open>Options\<close>

text \<open>\<open>opt.is_none_or(p)\<close>\<close>
definition is_none_or :: "('a \<Rightarrow> bool) \<Rightarrow> 'a option \<Rightarrow> bool" where
  [rust_defs]: "is_none_or p o' = (case o' of None \<Rightarrow> True | Some x \<Rightarrow> p x)"

text \<open>\<open>opt.unwrap_or(d)\<close>\<close>
definition unwrap_or :: "'a \<Rightarrow> 'a option \<Rightarrow> 'a" where
  [rust_defs]: "unwrap_or d o' = (case o' of None \<Rightarrow> d | Some x \<Rightarrow> x)"

lemma is_none_or_simps [simp]:
  "is_none_or p None" "is_none_or p (Some x) = p x"
  by (simp_all add: is_none_or_def)

lemma unwrap_or_simps [simp]:
  "unwrap_or d None = d" "unwrap_or d (Some x) = x"
  by (simp_all add: unwrap_or_def)

text \<open>Sequencing a list of computations that can panic, left to right.\<close>
primrec map_may_panic :: "('a \<Rightarrow> 'b may_panic) \<Rightarrow> 'a list \<Rightarrow> 'b list may_panic" where
  "map_may_panic f [] = Some []"
| "map_may_panic f (x # xs) = do { y \<leftarrow> f x; ys \<leftarrow> map_may_panic f xs; Some (y # ys) }"

lemma map_may_panic_Some:
  "(\<And>x. x \<in> set xs \<Longrightarrow> f x = Some (g x)) \<Longrightarrow> map_may_panic f xs = Some (map g xs)"
  by (induction xs) auto

lemma map_may_panic_map: "map_may_panic f (map g xs) = map_may_panic (\<lambda>x. f (g x)) xs"
  by (induction xs) auto

text \<open>\<open>iter.find(p)\<close> with a predicate that can panic.\<close>
primrec find_may_panic :: "('a \<Rightarrow> bool may_panic) \<Rightarrow> 'a list \<Rightarrow> 'a option may_panic" where
  "find_may_panic p [] = Some None"
| "find_may_panic p (x # xs) = do { b \<leftarrow> p x; if b then Some (Some x) else find_may_panic p xs }"

lemma find_may_panic_Some:
  "(\<And>x. x \<in> set xs \<Longrightarrow> p x = Some (q x)) \<Longrightarrow> find_may_panic p xs = Some (List.find q xs)"
  by (induction xs) auto

section \<open>Evaluation\<close>

text \<open>Code equations over \<open>int\<close>, whose numerals are binary, for the witnesses.\<close>

primrec le_int :: "bytes \<Rightarrow> int" where
  "le_int [] = 0"
| "le_int (b # bs) = uint b + 256 * le_int bs"

primrec le_bytes_int :: "nat \<Rightarrow> int \<Rightarrow> bytes" where
  "le_bytes_int 0 k = []"
| "le_bytes_int (Suc n) k = word_of_int k # le_bytes_int n (k div 256)"

lemma le_int_nat: "le_int bs = int (le_nat bs)"
  by (induction bs) simp_all

lemma le_bytes_int_nat: "le_bytes_int n (int k) = le_bytes n k"
proof (induction n arbitrary: k)
  case (Suc n)
  have "int k div 256 = int (k div 256)" by (simp add: zdiv_int)
  with Suc show ?case by simp
qed simp

lemma from_le_bytes_code [code]: "from_le_bytes bs = word_of_int (le_int bs)"
  by (simp add: from_le_bytes_def le_int_nat)

lemma to_le_bytes_code [code]: "to_le_bytes n w = le_bytes_int n (uint w)"
  using le_bytes_int_nat [of n "unat w"] by (simp add: to_le_bytes_def)

lemma usize_checked_add_code [code]:
  "usize_checked_add a b = (if int a + int b < 2 ^ 64 then Some (a + b) else None)"
proof -
  have "int a + int b < 2 ^ 64 \<longleftrightarrow> int (a + b) < int (2 ^ 64)" by simp
  then show ?thesis unfolding usize_checked_add_def by (simp only: of_nat_less_iff)
qed

lemma saturating_code [code]:
  "saturating_add a b = (if uint a + uint b < 2 ^ LENGTH('a) then a + b else - 1)"
  "saturating_mul a b = (if uint a * uint b < 2 ^ LENGTH('a) then a * b else - 1)"
  for a b :: "'a::len word"
proof -
  have "uint a + uint b < 2 ^ LENGTH('a) \<longleftrightarrow> int (unat a + unat b) < int (2 ^ LENGTH('a))" by simp
  then show "saturating_add a b = (if uint a + uint b < 2 ^ LENGTH('a) then a + b else - 1)"
    unfolding saturating_add_def by (simp only: of_nat_less_iff)
  have "uint a * uint b < 2 ^ LENGTH('a) \<longleftrightarrow> int (unat a * unat b) < int (2 ^ LENGTH('a))" by simp
  then show "saturating_mul a b = (if uint a * uint b < 2 ^ LENGTH('a) then a * b else - 1)"
    unfolding saturating_mul_def by (simp only: of_nat_less_iff)
qed

end
