(* ===== verification/Constants.thy ===== *)
theory Constants
  imports Prelude
begin

text \<open>
  The constants of \<open>src/src/utils/constants.rs\<close>: program ids and mints as base58 text, the
  tip-provider catalogue, account positions and the 8-byte Anchor discriminators. Every constant
  unfolds with the collection \<open>constants\<close>; the facts at the end say that discriminators which
  share a dispatch differ.
\<close>

named_theorems constants \<open>constants of the collector\<close>

section \<open>Programs, mints and units\<close>

definition PUMP_SWAP_PROGRAM_ID :: "string" where
  [constants]: "PUMP_SWAP_PROGRAM_ID = ''pAMMBay6oceH9fJKBRHGP5D4bD4sWpmSwMn52FMfXEA''"

definition PUMP_PROGRAM_ID :: "string" where
  [constants]: "PUMP_PROGRAM_ID = ''6EF8rrecthR5Dkzon8Nwu78hRvfCKubJ14M5uBEwF6P''"

definition WSOL_MINT :: "string" where
  [constants]: "WSOL_MINT = ''So11111111111111111111111111111111111111112''"

definition USDC_MINT :: "string" where
  [constants]: "USDC_MINT = ''EPjFWdd5AufqSSqeM2qN1xzybapC8G4wEGGkZwyTDt1v''"

definition SOL_BASE_UNIT :: "rat" where
  [constants]: "SOL_BASE_UNIT = 1000000000"

definition USDC_BASE_UNIT :: "rat" where
  [constants]: "USDC_BASE_UNIT = 1000000"

section \<open>Tip-provider addresses\<close>

definition TEMPORAL_TIP_ADDRESSES :: "string list" where
  [constants]: "TEMPORAL_TIP_ADDRESSES = [
     ''TEMPaMeCRFAS9EKF53Jd6KpHxgL47uWLcpFArU1Fanq'',
     ''noz3jAjPiHuBPqiSPkkugaJDkJscPuRhYnSpbi8UvC4'',
     ''noz3str9KXfpKknefHji8L1mPgimezaiUyCHYMDv1GE'',
     ''noz6uoYCDijhu1V7cutCpwxNiSovEwLdRHPwmgCGDNo'',
     ''noz9EPNcT7WH6Sou3sr3GGjHQYVkN3DNirpbvDkv9YJ'',
     ''nozc5yT15LazbLTFVZzoNZCwjh3yUtW86LoUyqsBu4L'',
     ''nozFrhfnNGoyqwVuwPAW4aaGqempx4PU6g6D9CJMv7Z'',
     ''nozievPk7HyK1Rqy1MPJwVQ7qQg2QoJGyP71oeDwbsu'',
     ''noznbgwYnBLDHu8wcQVCEw6kDrXkPdKkydGJGNXGvL7'',
     ''nozNVWs5N8mgzuD3qigrCG2UoKxZttxzZ85pvAQVrbP'',
     ''nozpEGbwx4BcGp6pvEdAh1JoC2CQGZdU6HbNP1v2p6P'',
     ''nozrhjhkCr3zXT3BiT4WCodYCUFeQvcdUkM7MqhKqge'',
     ''nozrwQtWhEdrA6W8dkbt9gnUaMs52PdAv5byipnadq3'',
     ''nozUacTVWub3cL4mJmGCYjKZTnE9RbdY5AP46iQgbPJ'',
     ''nozWCyTPppJjRuw2fpzDhhWbW355fzosWSzrrMYB1Qk'',
     ''nozWNju6dY353eMkMqURqwQEoM3SFgEKC6psLCSfUne'',
     ''nozxNBgWohjR75vdspfxR5H9ceC7XXH99xpxhVGt3Bb'']"

definition NEXTBLOCK_TIP_ADDRESSES :: "string list" where
  [constants]: "NEXTBLOCK_TIP_ADDRESSES = [
     ''NextbLoCkVtMGcV47JzewQdvBpLqT9TxQFozQkN98pE'',
     ''NexTbLoCkWykbLuB1NkjXgFWkX9oAtcoagQegygXXA2'',
     ''NeXTBLoCKs9F1y5PJS9CKrFNNLU1keHW71rfh7KgA1X'',
     ''NexTBLockJYZ7QD7p2byrUa6df8ndV2WSd8GkbWqfbb'',
     ''neXtBLock1LeC67jYd1QdAa32kbVeubsfPNTJC1V5At'',
     ''nEXTBLockYgngeRmRrjDV31mGSekVPqZoMGhQEZtPVG'',
     ''NEXTbLoCkB51HpLBLojQfpyVAMorm3zzKg7w9NFdqid'',
     ''nextBLoCkPMgmG8ZgJtABeScP35qLa2AMCNKntAP7Xc'']"

definition JITO_TIP_ADDRESSES :: "string list" where
  [constants]: "JITO_TIP_ADDRESSES = [
     ''96gYZGLnJYVFmbjzopPSU6QiEV5fGqZNyN9nmNhvrZU5'',
     ''HFqU5x63VTqvQss8hp11i4wVV8bD44PvwucfZ2bU7gRe'',
     ''Cw8CFyM9FkoMi7K7Crf6HNQqf4uEMzpKw6QNghXLvLkY'',
     ''DfXygSm4jCyNCybVYYK6DwvWqjKee8pbDmJGcLWNDXjh'',
     ''ADuUkR4vqLUMWXxW9gh6D6L8pMSawimctcNZ5pGwDcEt'',
     ''DttWaMuVvTiduZRnguLF7jNxTgiMBZ1hyAumKUiL2KRL'',
     ''3AVi9Tg9Uo68tJfuvoKvqKNWKkC5wPdSSdeBnizKZ6jT'',
     ''ADaUMid9yfUytqMBgopwjb2DTLSokTSzL1zt6iGPaS49'']"

definition ZEROSLOT_TIP_ADDRESSES :: "string list" where
  [constants]: "ZEROSLOT_TIP_ADDRESSES = [
     ''6fQaVhYZA4w3MBSXjJ81Vf6W1EDYeUPXpgVQ6UQyU1Av'',
     ''4HiwLEP2Bzqj3hM2ENxJuzhcPCdsafwiet3oGkMkuQY4'',
     ''7toBU3inhmrARGngC7z6SjyP85HgGMmCTEwGNRAcYnEK'',
     ''8mR3wB1nh4D6J9RUCugxUpc6ya8w38LPxZ3ZjcBhgzws'',
     ''6SiVU5WEwqfFapRuYCndomztEwDjvS5xgtEof3PLEGm9'',
     ''TpdxgNJBWZRL8UXF5mrEsyWxDWx9HQexA9P1eTWQ42p'',
     ''D8f3WkQu6dCF33cZxuAsrKHrGsqGP2yvAHf8mX6RXnwf'',
     ''GQPFicsy3P3NXxB5piJohoxACqTvWE9fKpLgdsMduoHE'',
     ''Ey2JEr8hDkgN8qKJGrLf2yFjRhW7rab99HVxwi5rcvJE'',
     ''4iUgjMT8q2hNZnLuhpqZ1QtiV8deFPy2ajvvjEpKKgsS'',
     ''3Rz8uD83QsU8wKvZbgWAPvCNDU6Fy8TSZTMcPm3RB6zt'',
     ''DiTmWENJsHQdawVUUKnUXkconcpW4Jv52TnMWhkncF6t'',
     ''HRyRhQ86t3H4aAtgvHVpUJmw64BDrb61gRiKcdKUXs5c'',
     ''7y4whZmw388w1ggjToDLSBLv47drw5SUXcLk6jtmwixd'',
     ''J9BMEWFbCBEjtQ1fG5Lo9kouX1HfrKQxeUxetwXrifBw'',
     ''8U1JPQh3mVQ4F5jwRdFTBzvNRQaYFQppHQYoH38DJGSQ'',
     ''Eb2KpSC8uMt9GmzyAEm5Eb1AAAgTjRaXWFjKyFXHZxF3'',
     ''FCjUJZ1qozm1e8romw216qyfQMaaWKxWsuySnumVCCNe'',
     ''ENxTEjSQ1YabmUpXAdCgevnHQ9MHdLv8tzFiuiYJqa13'',
     ''6rYLG55Q9RpsPGvqdPNJs4z5WTxJVatMB8zV3WJhs5EK'',
     ''Cix2bHfqPcKcM233mzxbLk14kSggUUiz2A87fJtGivXr'',
     ''6MgjyQU7G988jgL6EGAgfHYoeesCnwYMyPeh1fpJ71FP'']"

definition BLOCKROUTE_TIP_ADDRESSES :: "string list" where
  [constants]: "BLOCKROUTE_TIP_ADDRESSES = [
     ''HWEoBxYs7ssKuudEjzjmpfJVX7Dvi7wescFsVx2L5yoY'']"

definition NODE_ONE_TIP_ADDRESSES :: "string list" where
  [constants]: "NODE_ONE_TIP_ADDRESSES = [
     ''node1PqAa3BWWzUnTHVbw8NJHC874zn9ngAkXjgWEej'',
     ''node1UzzTxAAeBTpfZkQPJXBAqixsbdth11ba1NXLBG'',
     ''node1Qm1bV4fwYnCurP8otJ9s5yrkPq7SPZ5uhj3Tsv'',
     ''node1PUber6SFmSQgvf2ECmXsHP5o3boRSGhvJyPMX1'',
     ''node1AyMbeqiVN6eoQzEAwCA6Pk826hrdqdAHR7cdJ3'',
     ''node1YtWCoTwwVYTFLfS19zquRQzYX332hs1HEuRBjC'']"

definition ASTRALANE_TIP_ADDRESSES :: "string list" where
  [constants]: "ASTRALANE_TIP_ADDRESSES = [
     ''astrazznxsGUhWShqgNtAdfrzP2G83DzcWVJDxwV9bF'',
     ''astra4uejePWneqNaJKuFFA8oonqCE1sqF6b45kDMZm'',
     ''astra9xWY93QyfG6yM8zwsKsRodscjQ2uU2HKNL5prk'',
     ''astraRVUuTHjpwEVvNBeQEgwYx9w9CFyfxjYoobCZhL'',
     ''astraEJ2fEj8Xmy6KLG7B3VfbKfsHXhHrNdCQx7iGJK'',
     ''astraubkDw81n4LuutzSQ8uzHCv4BhPVhfvTcYv8SKC'',
     ''astraZW5GLFefxNPAatceHhYjfA1ciq9gvfEg2S47xk'',
     ''astrawVNP4xDBKT7rAdxrLYiTSTdqtUr63fSMduivXK'']"

definition BLOCKRAZOR_TIP_ADDRESSES :: "string list" where
  [constants]: "BLOCKRAZOR_TIP_ADDRESSES = [
     ''FjmZZrFvhnqqb9ThCuMVnENaM3JGVuGWNyCAxRJcFpg9'',
     ''6No2i3aawzHsjtThw81iq1EXPJN6rh8eSJCLaYZfKDTG'',
     ''A9cWowVAiHe9pJfKAj3TJiN9VpbzMUq6E4kEvf5mUT22'',
     ''Gywj98ophM7GmkDdaWs4isqZnDdFCW7B46TXmKfvyqSm'',
     ''68Pwb4jS7eZATjDfhmTXgRJjCiZmw1L7Huy4HNpnxJ3o'',
     ''4ABhJh5rZPjv63RBJBuyWzBK3g9gWMUQdTZP2kiW31V9'',
     ''B2M4NG5eyZp5SBQrSdtemzk5TqVuaWGQnowGaCBt8GyM'',
     ''5jA59cXMKQqZAVdtopv8q3yyw9SYfiE3vUCbt7p8MfVf'',
     ''5YktoWygr1Bp9wiS1xtMtUki1PeYuuzuCF98tqwYxf61'',
     ''295Avbam4qGShBYK7E9H5Ldew4B3WyJGmgmXfiWdeeyV'',
     ''EDi4rSy2LZgKJX74mbLTFk4mxoTgT6F7HxxzG2HBAFyK'',
     ''BnGKHAC386n4Qmv9xtpBVbRaUTKixjBe3oagkPFKtoy6'',
     ''Dd7K2Fp7AtoN8xCghKDRmyqr5U169t48Tw5fEd3wT9mq'',
     ''AP6qExwrbRgBAVaehg4b5xHENX815sMabtBzUzVB4v8S'']"

definition HELIUS_TIP_ADDRESSES :: "string list" where
  [constants]: "HELIUS_TIP_ADDRESSES = [
     ''4ACfpUFoaSD9bfPdeu6DBt89gB6ENTeHBXCAi87NhDEE'',
     ''D2L6yPZ2FmmmTKPgzaMKdhu6EWZcTpLy1Vhx8uvZe7NZ'',
     ''9bnz4RShgq1hAnLnZbP8kbgBg1kEmcJBYQq3gQbmnSta'',
     ''5VY91ws6B2hMmBFRsXkoAAdsPHBJwRfBht4DXox3xkwn'',
     ''2nyhqdwKcJZR2vcqCyrYsaPVdAnFoJjiksCXJ7hfEYgD'',
     ''2q5pghRs6arqVjRvT5gfgWfWcHWmw1ZuCzphgd5KfWGJ'',
     ''wyvPkWjVZz1M8fHQnMMCDTQDbkManefNNhweYk5WkcF'',
     ''3KCKozbAaF75qEU33jtzozcJ29yJuaLJTy2jFdzUY8bT'',
     ''4vieeGHPYPG2MmyPRcYjdiDmmhN3ww7hsFNap8pVN3Ey'',
     ''4TQLFNWK8AovT1gFvda5jfw2oJeRMKEmw7aH6MGBJ3or'']"

definition STELLIUM_TIP_ADDRESSES :: "string list" where
  [constants]: "STELLIUM_TIP_ADDRESSES = [
     ''ste11JV3MLMM7x7EJUM2sXcJC1H7F4jBLnP9a9PG8PH'',
     ''ste11MWPjXCRfQryCshzi86SGhuXjF4Lv6xMXD2AoSt'',
     ''ste11p5x8tJ53H1NbNQsRBg1YNRd4GcVpxtDw8PBpmb'',
     ''ste11p7e2KLYou5bwtt35H7BM6uMdo4pvioGjJXKFcN'',
     ''ste11TMV68LMi1BguM4RQujtbNCZvf1sjsASpqgAvSX'']"

definition SOYAS_TIP_ADDRESSES :: "string list" where
  [constants]: "SOYAS_TIP_ADDRESSES = [
     ''soyas4s6L8KWZ8rsSk1mF3d1mQScoTGGAgjk98bF8nP'',
     ''soyascXFW5wEEYiwfEmHy2pNwomqzvggJosGVD6TJdY'',
     ''soyasDBdKjADwPz3xk82U3TNPRDKEWJj7wWLajNHZ1L'',
     ''soyasE2abjBAynmHbGWgEwk4ctBy7JMTUCNrMbjcnyH'']"

definition MOONLAND_TIP_ADDRESSES :: "string list" where
  [constants]: "MOONLAND_TIP_ADDRESSES = [
     ''moon54DmZ775AepMCPLg1wxGqDNbG3G6CQu3rALggRF'',
     ''moonwDUA7UjNWiYQFUkymrV21JUw4yEG3rQsTi8kxLq'',
     ''moonhMCQ4DrQDMwmqZFD34m4t9MsTkeCWqEfx6mZEXn'',
     ''moonAb4fx2gtqTymPNwSWHmGtTYHJRMz8UJZgWcnMkt'']"

definition FALCON_TIP_ADDRESSES :: "string list" where
  [constants]: "FALCON_TIP_ADDRESSES = [
     ''Fa1con11xLjPddfzRwRUB16sbFZggp2JeJkCeWREyR8X'',
     ''Fa1con113Bvi76nS5AzUiRDC2fqjfzkNMUNRLgQybMYt'',
     ''Fa1con1zUzb6qJVFz5tNkPq1Ahm8H1qKW7Q48252QbkQ'',
     ''Fa1con1i7mpa7Qc6epYJ6r4P9AbU77DFFz173r59Df1x'',
     ''Fa1con1GKusK2EqsfzrDzGPaYZSxQtFGzJiRMMU9Zm2g'',
     ''Fa1con11TM1RuAQzbQzYjTy4Ekfap9Lnc9fnEbQYEd6Q'',
     ''Fa1con1QGHJK232s8yZpzZZwqPexnAKcoyKj626LNsMv'',
     ''Fa1con16d3MSwd3SAiwvr2LwgkpE7ot8zntbpuec8HAx'',
     ''Fa1con18nWn8TdAGL7JX8PertfMUGVSc899NawokJ4Bq'',
     ''Fa1con1RDwVwM9VrJ53CwVefD3VU9c58EMpDawV7fLMi'']"

section \<open>PumpSwap account positions\<close>

definition PUMP_SWAP_MINT_IX_POS :: "nat" where
  [constants]: "PUMP_SWAP_MINT_IX_POS = 3"

definition PUMP_SWAP_POOL_IX_POS :: "nat" where
  [constants]: "PUMP_SWAP_POOL_IX_POS = 0"

definition PUMP_SWAP_QUOTE_MINT_IX_POS :: "nat" where
  [constants]: "PUMP_SWAP_QUOTE_MINT_IX_POS = 4"

section \<open>PumpSwap instruction discriminators\<close>

definition AMM_BUY_DISCRIMINATOR :: "bytes" where
  [constants]: "AMM_BUY_DISCRIMINATOR = [102, 6, 61, 18, 1, 218, 235, 234]"

definition AMM_SELL_DISCRIMINATOR :: "bytes" where
  [constants]: "AMM_SELL_DISCRIMINATOR = [51, 230, 133, 164, 1, 127, 131, 173]"

definition BUY_EXACT_IN_DISCRIMINATOR :: "bytes" where
  [constants]: "BUY_EXACT_IN_DISCRIMINATOR = [198, 46, 21, 82, 180, 217, 232, 112]"

definition BOOST_BUY_AND_BURN_DISCRIMINATOR :: "bytes" where
  [constants]: "BOOST_BUY_AND_BURN_DISCRIMINATOR = [105, 68, 6, 175, 0, 7, 35, 162]"

definition AMM_BUY_V2_DISCRIMINATOR :: "bytes" where
  [constants]: "AMM_BUY_V2_DISCRIMINATOR = [184, 23, 238, 97, 103, 197, 211, 61]"

definition AMM_SELL_V2_DISCRIMINATOR :: "bytes" where
  [constants]: "AMM_SELL_V2_DISCRIMINATOR = [93, 246, 130, 60, 231, 233, 64, 178]"

definition AMM_BUY_EXACT_QUOTE_IN_V2_DISCRIMINATOR :: "bytes" where
  [constants]: "AMM_BUY_EXACT_QUOTE_IN_V2_DISCRIMINATOR = [194, 171, 28, 70, 104, 77, 91, 47]"

definition AMM_MULTI_HOP_SWAP_DISCRIMINATOR :: "bytes" where
  [constants]: "AMM_MULTI_HOP_SWAP_DISCRIMINATOR = [43, 100, 73, 19, 233, 246, 111, 148]"

section \<open>Layout of multi_hop_swap\<close>

definition PUMP_SWAP_MULTI_HOP_FIXED_ACCOUNTS :: "nat" where
  [constants]: "PUMP_SWAP_MULTI_HOP_FIXED_ACCOUNTS = 16"

definition PUMP_SWAP_MULTI_HOP_ACCOUNTS_PER_HOP :: "nat" where
  [constants]: "PUMP_SWAP_MULTI_HOP_ACCOUNTS_PER_HOP = 5"

definition PUMP_SWAP_MULTI_HOP_USER_IX_POS :: "nat" where
  [constants]: "PUMP_SWAP_MULTI_HOP_USER_IX_POS = 0"

definition PUMP_SWAP_MULTI_HOP_USER_IN_IX_POS :: "nat" where
  [constants]: "PUMP_SWAP_MULTI_HOP_USER_IN_IX_POS = 1"

section \<open>PumpSwap event discriminators\<close>

definition PUMP_SWAP_BUY_EVENT_DISC :: "bytes" where
  [constants]: "PUMP_SWAP_BUY_EVENT_DISC = [103, 244, 82, 31, 44, 245, 119, 119]"

definition PUMP_SWAP_SELL_EVENT_DISC :: "bytes" where
  [constants]: "PUMP_SWAP_SELL_EVENT_DISC = [62, 47, 55, 10, 165, 3, 220, 42]"

definition PUMP_SWAP_BOOST_BUY_EVENT_DISC :: "bytes" where
  [constants]: "PUMP_SWAP_BOOST_BUY_EVENT_DISC = [63, 69, 28, 22, 48, 92, 194, 185]"

section \<open>Raydium CPMM\<close>

definition RAYDIUM_CPMM_PROGRAM_ID :: "string" where
  [constants]: "RAYDIUM_CPMM_PROGRAM_ID = ''CPMMoo8L3F4NbTegBCKVNunggL7H1ZpdTHKxQB5qKP1C''"

definition STONK_CPMM_AMM_CONFIG :: "string" where
  [constants]: "STONK_CPMM_AMM_CONFIG = ''CRRS5ieQmBrZjWhcj99JuGrT5tyuWDaGAXLXLFjbAtjQ''"

definition STONK_PLATFORM_NAME :: "string" where
  [constants]: "STONK_PLATFORM_NAME = ''stonk_fun''"

definition RAYDIUM_CPMM_VENUE_NAME :: "string" where
  [constants]: "RAYDIUM_CPMM_VENUE_NAME = ''raydium_cpmm''"

definition CPMM_SWAP_BASE_INPUT_DISCRIMINATOR :: "bytes" where
  [constants]: "CPMM_SWAP_BASE_INPUT_DISCRIMINATOR = [143, 190, 90, 218, 196, 30, 51, 222]"

definition CPMM_SWAP_BASE_OUTPUT_DISCRIMINATOR :: "bytes" where
  [constants]: "CPMM_SWAP_BASE_OUTPUT_DISCRIMINATOR = [55, 217, 98, 86, 163, 74, 180, 173]"

definition CPMM_SWAP_EVENT_DISC :: "bytes" where
  [constants]: "CPMM_SWAP_EVENT_DISC = [64, 198, 205, 232, 38, 8, 113, 226]"

definition CPMM_SWAP_PAYER_IX_POS :: "nat" where
  [constants]: "CPMM_SWAP_PAYER_IX_POS = 0"

definition CPMM_SWAP_AMM_CONFIG_IX_POS :: "nat" where
  [constants]: "CPMM_SWAP_AMM_CONFIG_IX_POS = 2"

definition CPMM_SWAP_POOL_STATE_IX_POS :: "nat" where
  [constants]: "CPMM_SWAP_POOL_STATE_IX_POS = 3"

definition CPMM_SWAP_INPUT_VAULT_IX_POS :: "nat" where
  [constants]: "CPMM_SWAP_INPUT_VAULT_IX_POS = 6"

definition CPMM_SWAP_OUTPUT_VAULT_IX_POS :: "nat" where
  [constants]: "CPMM_SWAP_OUTPUT_VAULT_IX_POS = 7"

definition CPMM_SWAP_INPUT_MINT_IX_POS :: "nat" where
  [constants]: "CPMM_SWAP_INPUT_MINT_IX_POS = 10"

definition CPMM_SWAP_OUTPUT_MINT_IX_POS :: "nat" where
  [constants]: "CPMM_SWAP_OUTPUT_MINT_IX_POS = 11"

definition CPMM_SWAP_MIN_ACCOUNTS :: "nat" where
  [constants]: "CPMM_SWAP_MIN_ACCOUNTS = 13"

definition CPMM_POOL_SEED :: "bytes" where
  [constants]: "CPMM_POOL_SEED = [112, 111, 111, 108]"

section \<open>Dispatch facts\<close>

text \<open>The discriminators one dispatch compares against are 8 bytes long and pairwise different.\<close>

lemmas trade_discriminators =
  AMM_BUY_DISCRIMINATOR_def AMM_SELL_DISCRIMINATOR_def BUY_EXACT_IN_DISCRIMINATOR_def
  BOOST_BUY_AND_BURN_DISCRIMINATOR_def AMM_BUY_V2_DISCRIMINATOR_def AMM_SELL_V2_DISCRIMINATOR_def
  AMM_BUY_EXACT_QUOTE_IN_V2_DISCRIMINATOR_def AMM_MULTI_HOP_SWAP_DISCRIMINATOR_def

lemmas event_discriminators =
  PUMP_SWAP_BUY_EVENT_DISC_def PUMP_SWAP_SELL_EVENT_DISC_def PUMP_SWAP_BOOST_BUY_EVENT_DISC_def

lemmas cpmm_discriminators =
  CPMM_SWAP_BASE_INPUT_DISCRIMINATOR_def CPMM_SWAP_BASE_OUTPUT_DISCRIMINATOR_def
  CPMM_SWAP_EVENT_DISC_def

lemma event_disc_lengths [simp]:
  "length PUMP_SWAP_BUY_EVENT_DISC = 8"
  "length PUMP_SWAP_SELL_EVENT_DISC = 8"
  "length PUMP_SWAP_BOOST_BUY_EVENT_DISC = 8"
  "length CPMM_SWAP_EVENT_DISC = 8"
  by (simp_all add: event_discriminators cpmm_discriminators)

lemma event_discs_distinct [simp]:
  "PUMP_SWAP_BUY_EVENT_DISC \<noteq> PUMP_SWAP_SELL_EVENT_DISC"
  "PUMP_SWAP_SELL_EVENT_DISC \<noteq> PUMP_SWAP_BUY_EVENT_DISC"
  "PUMP_SWAP_BUY_EVENT_DISC \<noteq> PUMP_SWAP_BOOST_BUY_EVENT_DISC"
  "PUMP_SWAP_SELL_EVENT_DISC \<noteq> PUMP_SWAP_BOOST_BUY_EVENT_DISC"
  "PUMP_SWAP_BOOST_BUY_EVENT_DISC \<noteq> PUMP_SWAP_BUY_EVENT_DISC"
  "PUMP_SWAP_BOOST_BUY_EVENT_DISC \<noteq> PUMP_SWAP_SELL_EVENT_DISC"
  by (simp_all add: event_discriminators)

lemmas ix_positions [simp] =
  PUMP_SWAP_MINT_IX_POS_def PUMP_SWAP_POOL_IX_POS_def PUMP_SWAP_QUOTE_MINT_IX_POS_def
  PUMP_SWAP_MULTI_HOP_FIXED_ACCOUNTS_def PUMP_SWAP_MULTI_HOP_ACCOUNTS_PER_HOP_def
  PUMP_SWAP_MULTI_HOP_USER_IX_POS_def PUMP_SWAP_MULTI_HOP_USER_IN_IX_POS_def

lemmas cpmm_positions [simp] =
  CPMM_SWAP_PAYER_IX_POS_def CPMM_SWAP_AMM_CONFIG_IX_POS_def CPMM_SWAP_POOL_STATE_IX_POS_def
  CPMM_SWAP_INPUT_VAULT_IX_POS_def CPMM_SWAP_OUTPUT_VAULT_IX_POS_def
  CPMM_SWAP_INPUT_MINT_IX_POS_def CPMM_SWAP_OUTPUT_MINT_IX_POS_def CPMM_SWAP_MIN_ACCOUNTS_def

end
