(* ===== verification/Wire.thy ===== *)
theory Wire
  imports Constants
begin

text \<open>
  What reaches the collector from outside its own source.

  \<^item> The gRPC messages (\<open>yellowstone_grpc_proto\<close>) are records with the fields the source reads;
    an index into a list is kept at its wire width and converted where the code converts it.
  \<^item> The functions of third-party crates are the fields of the record \<open>externals\<close>, which every
    definition that calls one takes as its argument \<open>X\<close>: the text form of a public key, program
    derived addresses, base58, base64 and the id of the compute-budget program. What the code
    relies on is stated in \<open>pubkey_text_ok\<close> and \<open>pubkey_display_is_bs58\<close>.
\<close>

section \<open>Transactions as delivered by the stream\<close>

type_synonym pubkey = bytes  \<comment> \<open>\<open>Pubkey\<close>: built from exactly 32 bytes wherever the code builds one\<close>

record compiled_instruction =
  ci_program_id_index :: u32
  ci_accounts :: bytes
  ci_data :: bytes

record inner_instruction =
  ii_program_id_index :: u32
  ii_accounts :: bytes
  ii_data :: bytes
  ii_stack_height :: "u32 option"

record inner_instructions =
  block_index :: u32
  block_instructions :: "inner_instruction list"

record ui_token_amount =
  uta_amount :: string
  uta_decimals :: u32

record token_balance =
  tb_account_index :: u32
  tb_mint :: string
  tb_ui_token_amount :: "ui_token_amount option"

record transaction_status_meta =
  m_err :: "bytes option"
  m_inner_instructions :: "inner_instructions list"
  m_loaded_writable_addresses :: "bytes list"
  m_loaded_readonly_addresses :: "bytes list"
  m_pre_balances :: "u64 list"
  m_post_balances :: "u64 list"
  m_pre_token_balances :: "token_balance list"
  m_post_token_balances :: "token_balance list"
  m_log_messages :: "string list"
  m_compute_units_consumed :: "u64 option"

record message =
  msg_account_keys :: "bytes list"
  msg_instructions :: "compiled_instruction list"

record tx_info =
  tx_signature_bytes :: bytes
  tx_transaction :: "message option option"  \<comment> \<open>\<open>transaction\<close>, and its \<open>message\<close>\<close>
  tx_meta :: "transaction_status_meta option"

section \<open>Third-party functions\<close>

record externals =
  x_pubkey_to_string :: "pubkey \<Rightarrow> string"                    \<comment> \<open>\<open>Pubkey::to_string\<close>\<close>
  x_pubkey_from_str :: "string \<Rightarrow> pubkey option"              \<comment> \<open>\<open>Pubkey::from_str\<close>, \<open>parse\<close>\<close>
  x_find_program_address :: "bytes list \<Rightarrow> pubkey \<Rightarrow> pubkey"  \<comment> \<open>the address part\<close>
  x_compute_budget_id :: pubkey                             \<comment> \<open>\<open>compute_budget::id()\<close>\<close>
  x_bs58_encode :: "bytes \<Rightarrow> string"                          \<comment> \<open>\<open>bs58::encode(..).into_string()\<close>\<close>
  x_base64_decode :: "string \<Rightarrow> bytes option"                 \<comment> \<open>\<open>STANDARD.decode(..).ok()\<close>\<close>

text \<open>The text of a key parses back to the key, and only 32-byte keys are parsed.\<close>
definition pubkey_text_ok :: "externals \<Rightarrow> bool" where
  "pubkey_text_ok X \<longleftrightarrow>
     (\<forall>k. length k = 32 \<longrightarrow> x_pubkey_from_str X (x_pubkey_to_string X k) = Some k) \<and>
     (\<forall>s k. x_pubkey_from_str X s = Some k \<longrightarrow> length k = 32)"

text \<open>The text form of a key is the base58 encoding of its bytes.\<close>
definition pubkey_display_is_bs58 :: "externals \<Rightarrow> bool" where
  "pubkey_display_is_bs58 X \<longleftrightarrow> (\<forall>k. length k = 32 \<longrightarrow> x_bs58_encode X k = x_pubkey_to_string X k)"

lemma pubkey_text_roundtrip:
  "pubkey_text_ok X \<Longrightarrow> length k = 32 \<Longrightarrow> x_pubkey_from_str X (x_pubkey_to_string X k) = Some k"
  by (simp add: pubkey_text_ok_def)

lemma pubkey_text_length: "pubkey_text_ok X \<Longrightarrow> x_pubkey_from_str X s = Some k \<Longrightarrow> length k = 32"
  by (auto simp: pubkey_text_ok_def)

lemma pubkey_text_inject:
  assumes "pubkey_text_ok X" "length k = 32" "length l = 32"
  shows "x_pubkey_to_string X k = x_pubkey_to_string X l \<longleftrightarrow> k = l"
  using pubkey_text_roundtrip [OF assms(1,2)] pubkey_text_roundtrip [OF assms(1,3)]
  by (metis option.inject)

section \<open>A concrete instance\<close>

text \<open>
  An executable instance of the third-party functions for evaluating the model on concrete
  transactions. A key is written as its 32 bytes, one character each, and text of at least 32
  characters (the source's base58 constants have 43 or 44) is read back as its first 32 bytes. Addresses are derived by taking the first 32 bytes of the reversed seeds.
\<close>

definition text_of_bytes :: "bytes \<Rightarrow> string" where
  "text_of_bytes bs = map (\<lambda>b. char_of (unat b)) bs"

definition bytes_of_text :: "string \<Rightarrow> bytes" where
  "bytes_of_text s = map (\<lambda>c. word_of_nat (of_char c)) s"

definition demo_ext :: externals where
  "demo_ext = \<lparr>
     x_pubkey_to_string = text_of_bytes,
     x_pubkey_from_str = (\<lambda>s. if 32 \<le> length s then Some (take 32 (bytes_of_text s)) else None),
     x_find_program_address = (\<lambda>seeds program. take 32 (rev (concat seeds) @ program)),
     x_compute_budget_id = replicate 32 3,
     x_bs58_encode = text_of_bytes,
     x_base64_decode = (\<lambda>s. Some (bytes_of_text s))\<rparr>"

text \<open>Evaluation over \<open>int\<close>.\<close>

lemma bytes_of_text_code [code]: "bytes_of_text s = map (\<lambda>c. word_of_int (of_char c)) s"
  by (simp add: bytes_of_text_def of_nat_of_char of_int_of_char)

lemma text_of_bytes_code [code]: "text_of_bytes bs = map (\<lambda>b. char_of (uint b)) bs"
proof -
  have "char_of (unat b) = (char_of (uint b) :: char)" for b :: u8
    using char_of_nat [of "unat b", where ?'a = int] by simp
  then show ?thesis by (simp add: text_of_bytes_def)
qed

lemma length_text_of_bytes [simp]: "length (text_of_bytes bs) = length bs"
  by (simp add: text_of_bytes_def)

lemma bytes_of_text_of_bytes [simp]: "bytes_of_text (text_of_bytes bs) = bs"
proof -
  have "word_of_nat (of_char (char_of (unat b) :: char)) = b" for b :: u8
  proof -
    have "unat b < 256" using unsigned_less [of b, where ?'a = nat] by simp
    then show ?thesis by simp
  qed
  then show ?thesis
    by (simp add: bytes_of_text_def text_of_bytes_def comp_def)
qed

lemma length_bytes_of_text [simp]: "length (bytes_of_text s) = length s"
  by (simp add: bytes_of_text_def)

lemma demo_pubkey_text_ok: "pubkey_text_ok demo_ext"
  by (auto simp: pubkey_text_ok_def demo_ext_def split: if_splits)

lemma demo_pubkey_display: "pubkey_display_is_bs58 demo_ext"
  by (simp add: pubkey_display_is_bs58_def demo_ext_def)

text \<open>Building blocks of concrete transactions.\<close>

definition demo_inner :: "u32 \<Rightarrow> bytes \<Rightarrow> u32 \<Rightarrow> inner_instruction" where
  "demo_inner program dat height =
     \<lparr>ii_program_id_index = program, ii_accounts = [], ii_data = dat, ii_stack_height = Some height\<rparr>"

definition demo_meta :: "inner_instructions list \<Rightarrow> transaction_status_meta" where
  "demo_meta blocks = \<lparr>m_err = None, m_inner_instructions = blocks,
     m_loaded_writable_addresses = [], m_loaded_readonly_addresses = [],
     m_pre_balances = [], m_post_balances = [], m_pre_token_balances = [], m_post_token_balances = [],
     m_log_messages = [], m_compute_units_consumed = None\<rparr>"

end
