(* ===== verification/Float64.thy ===== *)
theory Float64
  imports Prelude "HOL-Library.Log_Nat"
begin

text \<open>
  The \<open>f64\<close> arithmetic the collector uses. A finite value is the rational number it denotes; an
  operation is the exact rational operation followed by rounding to 53 significant bits, ties to
  even, as IEEE 754 prescribes. The exponent is unbounded here: the theory \<open>MarketCap\<close> shows that
  the values the collector computes are zero or normal binary64 numbers, where this is the IEEE
  result. The rounding enters the proofs only through the locale \<open>rounding\<close>.
\<close>

type_synonym f64 = rat

section \<open>Rounding to 53 bits\<close>

definition pow2 :: "int \<Rightarrow> rat" where
  "pow2 e = (if 0 \<le> e then 2 ^ nat e else 1 / 2 ^ nat (- e))"

text \<open>The binary exponent of a positive number.\<close>
definition ilog2 :: "rat \<Rightarrow> int" where
  "ilog2 x = (let (p, q) = quotient_of x; k = bitlen p - bitlen q
              in if pow2 k \<le> x then k else k - 1)"

definition round_half_even :: "rat \<Rightarrow> int" where
  "round_half_even x =
     (let f = \<lfloor>x\<rfloor>; d = x - of_int f
      in if d < 1 / 2 then f else if 1 / 2 < d then f + 1 else if even f then f else f + 1)"

definition round_pos :: "rat \<Rightarrow> rat" where
  "round_pos x = (let s = pow2 (ilog2 x - 52) in of_int (round_half_even (x / s)) * s)"

definition rnd :: "rat \<Rightarrow> rat" where
  "rnd x = (if x = 0 then 0 else if x < 0 then - round_pos (- x) else round_pos x)"

section \<open>Operations\<close>

definition f64_of_u64 :: "u64 \<Rightarrow> f64" where
  "f64_of_u64 w = rnd (of_nat (unat w))"

lemma f64_of_u64_code [code]: "f64_of_u64 w = rnd (of_int (uint w))"
  by (simp add: f64_of_u64_def)

definition f64_add :: "f64 \<Rightarrow> f64 \<Rightarrow> f64" where
  "f64_add x y = rnd (x + y)"

definition f64_sub :: "f64 \<Rightarrow> f64 \<Rightarrow> f64" where
  "f64_sub x y = rnd (x - y)"

definition f64_mul :: "f64 \<Rightarrow> f64 \<Rightarrow> f64" where
  "f64_mul x y = rnd (x * y)"

definition f64_div :: "f64 \<Rightarrow> f64 \<Rightarrow> f64" where
  "f64_div x y = rnd (x / y)"

text \<open>\<open>f64::round\<close>: to the nearest integer, ties away from zero.\<close>
definition f64_round :: "f64 \<Rightarrow> int" where
  "f64_round x = (if 0 \<le> x then \<lfloor>x + 1 / 2\<rfloor> else - \<lfloor>1 / 2 - x\<rfloor>)"

text \<open>\<open>as u64\<close> of an integral value saturates at both ends.\<close>
definition f64_as_u64 :: "int \<Rightarrow> u64" where
  "f64_as_u64 i = (if i < 0 then 0 else if 2 ^ 64 \<le> i then - 1 else word_of_int i)"

section \<open>Powers of two and exponents\<close>

lemma pow2_pos [simp]: "0 < pow2 e"
  by (simp add: pow2_def)

lemma pow2_nonneg [simp]: "0 \<le> pow2 e"
  by (simp add: less_imp_le)

lemma pow2_nonzero [simp]: "pow2 e \<noteq> 0" "\<not> pow2 e < 0"
  using pow2_pos [of e] by linarith+

lemma pow2_of_int: "0 \<le> e \<Longrightarrow> pow2 e = of_int (2 ^ nat e)"
  by (simp add: pow2_def)

lemma pow2_powi: "pow2 e = 2 powi e"
  by (auto simp: pow2_def power_int_def field_simps)

lemma pow2_add: "pow2 (a + b) = pow2 a * pow2 b"
  by (simp add: pow2_powi power_int_add)

lemma pow2_diff: "pow2 (a - b) = pow2 a / pow2 b"
  by (simp add: pow2_powi power_int_diff)

lemma pow2_Suc: "pow2 (e + 1) = 2 * pow2 e"
  using pow2_add [of e 1] by (simp add: pow2_def [of 1])

lemma pow2_mono: "a \<le> b \<Longrightarrow> pow2 a \<le> pow2 b"
  by (simp add: pow2_powi power_int_increasing)

lemma pow2_strict_mono: "a < b \<Longrightarrow> pow2 a < pow2 b"
  by (simp add: pow2_powi power_int_strict_increasing)

lemma pow2_nat: "pow2 (int n) = 2 ^ n"
  by (simp add: pow2_def)

lemma pow2_less_iff: "pow2 a < pow2 b \<longleftrightarrow> a < b"
  by (metis linorder_not_less pow2_mono pow2_strict_mono)

lemma ilog2_unique:
  assumes "pow2 e \<le> x" "x < pow2 (e + 1)" "pow2 f \<le> x" "x < pow2 (f + 1)"
  shows "e = f"
proof -
  have "e < f + 1" "f < e + 1"
    using assms by (meson le_less_trans pow2_less_iff)+
  then show ?thesis by simp
qed

lemma bitlen_quotient_bounds:
  assumes "0 < x" "quotient_of x = (p, q)"
  shows "pow2 (bitlen p - bitlen q - 1) < x" "x < pow2 (bitlen p - bitlen q + 1)"
proof -
  have x: "x = of_int p / of_int q" and q: "0 < q"
    using quotient_of_div [OF assms(2)] quotient_of_denom_pos [OF assms(2)] by auto
  then have p: "0 < p" using assms(1) by (simp add: zero_less_divide_iff)
  have pb: "2 ^ nat (bitlen p - 1) \<le> p" "p < 2 ^ nat (bitlen p)"
    and qb: "2 ^ nat (bitlen q - 1) \<le> q" "q < 2 ^ nat (bitlen q)"
    using bitlen_bounds [OF p] bitlen_bounds [OF q] by auto
  have pos: "0 < bitlen p" "0 < bitlen q" using p q bitlen_nonneg [of p] bitlen_nonneg [of q] bitlen_eq_zero_iff [of p] bitlen_eq_zero_iff [of q]
    by linarith+
  have e: "pow2 (bitlen p - 1) = of_int (2 ^ nat (bitlen p - 1))" "pow2 (bitlen p) = of_int (2 ^ nat (bitlen p))"
    "pow2 (bitlen q - 1) = of_int (2 ^ nat (bitlen q - 1))" "pow2 (bitlen q) = of_int (2 ^ nat (bitlen q))"
    using pos by (intro pow2_of_int; simp)+
  have lift: "pow2 (bitlen p - 1) \<le> of_int p" "of_int p < pow2 (bitlen p)"
    "pow2 (bitlen q - 1) \<le> of_int q" "of_int q < pow2 (bitlen q)"
    unfolding e using pb qb by (simp_all only: of_int_le_iff of_int_less_iff)
  have "pow2 (bitlen p - bitlen q - 1) = pow2 (bitlen p - 1) / pow2 (bitlen q)"
    by (simp flip: pow2_diff add: algebra_simps)
  also have "\<dots> \<le> of_int p / pow2 (bitlen q)"
    using lift(1) by (simp add: divide_right_mono)
  also have "\<dots> < of_int p / of_int q"
    using lift(4) p q by (simp add: divide_strict_left_mono)
  finally show "pow2 (bitlen p - bitlen q - 1) < x" by (simp add: x)
  have "of_int p / of_int q \<le> of_int p / pow2 (bitlen q - 1)"
    using lift(3) p q by (simp add: divide_left_mono)
  also have "\<dots> < pow2 (bitlen p) / pow2 (bitlen q - 1)"
    using lift(2) by (simp add: divide_strict_right_mono)
  also have "\<dots> = pow2 (bitlen p - bitlen q + 1)"
    by (simp flip: pow2_diff add: algebra_simps)
  finally show "x < pow2 (bitlen p - bitlen q + 1)" by (simp add: x)
qed

lemma ilog2_bounds:
  assumes "0 < x"
  shows "pow2 (ilog2 x) \<le> x" "x < pow2 (ilog2 x + 1)"
proof -
  obtain p q where pq: "quotient_of x = (p, q)" by force
  show "pow2 (ilog2 x) \<le> x" "x < pow2 (ilog2 x + 1)"
    using bitlen_quotient_bounds [OF assms pq] by (auto simp: ilog2_def pq Let_def)
qed

lemma ilog2_eqI: "0 < x \<Longrightarrow> pow2 e \<le> x \<Longrightarrow> x < pow2 (e + 1) \<Longrightarrow> ilog2 x = e"
  using ilog2_bounds ilog2_unique by blast

section \<open>Properties of the rounding\<close>

lemma round_half_even_error: "\<bar>of_int (round_half_even x) - x\<bar> \<le> 1 / 2"
proof -
  have "of_int \<lfloor>x\<rfloor> \<le> x" "x < of_int \<lfloor>x\<rfloor> + 1" by linarith+
  then show ?thesis by (auto simp: round_half_even_def Let_def abs_le_iff; linarith)
qed

lemma round_half_even_int [simp]: "round_half_even (of_int n) = n"
  by (simp add: round_half_even_def Let_def)

lemma round_half_even_cases: "round_half_even x = \<lfloor>x\<rfloor> \<or> round_half_even x = \<lfloor>x\<rfloor> + 1"
  by (auto simp: round_half_even_def Let_def)

lemma round_half_even_mono:
  assumes "x \<le> y"
  shows "round_half_even x \<le> round_half_even y"
proof (cases "\<lfloor>x\<rfloor> = \<lfloor>y\<rfloor>")
  case True
  with assms show ?thesis by (auto simp: round_half_even_def Let_def)
next
  case False
  with assms floor_mono [of x y] have "\<lfloor>x\<rfloor> + 1 \<le> \<lfloor>y\<rfloor>" by linarith
  then show ?thesis using round_half_even_cases [of x] round_half_even_cases [of y] by auto
qed

lemma round_half_even_le: "x \<le> of_int n \<Longrightarrow> round_half_even x \<le> n"
  using round_half_even_mono [of x "of_int n"] by simp

lemma round_half_even_ge: "of_int n \<le> x \<Longrightarrow> n \<le> round_half_even x"
  using round_half_even_mono [of "of_int n" x] by simp

text \<open>The significand of a positive number lies between \<open>2 ^ 52\<close> and \<open>2 ^ 53\<close>.\<close>

lemma significand_bounds:
  assumes "0 < x"
  shows "2 ^ 52 \<le> x / pow2 (ilog2 x - 52)" "x / pow2 (ilog2 x - 52) < 2 ^ 53"
proof -
  have e: "pow2 (ilog2 x) = 2 ^ 52 * pow2 (ilog2 x - 52)"
    "pow2 (ilog2 x + 1) = 2 ^ 53 * pow2 (ilog2 x - 52)"
    using pow2_add [of 52 "ilog2 x - 52"] pow2_add [of 53 "ilog2 x - 52"]
    by (simp_all add: add.commute pow2_def [of 52] pow2_def [of 53])
  show "2 ^ 52 \<le> x / pow2 (ilog2 x - 52)" "x / pow2 (ilog2 x - 52) < 2 ^ 53"
    using ilog2_bounds [OF assms] unfolding e
    by (simp_all add: pos_le_divide_eq pos_divide_less_eq)
qed

lemma round_pos_bounds:
  assumes "0 < x"
  shows "pow2 (ilog2 x) \<le> round_pos x" "round_pos x \<le> pow2 (ilog2 x + 1)"
proof -
  define s where "s = pow2 (ilog2 x - 52)"
  have e: "pow2 (ilog2 x) = of_int (2 ^ 52) * s" "pow2 (ilog2 x + 1) = of_int (2 ^ 53) * s"
    using pow2_add [of 52 "ilog2 x - 52"] pow2_add [of 53 "ilog2 x - 52"]
    by (simp_all add: s_def add.commute pow2_def [of 52] pow2_def [of 53])
  have "2 ^ 52 \<le> round_half_even (x / s)" "round_half_even (x / s) \<le> 2 ^ 53"
    using significand_bounds [OF assms]
    by (auto simp: s_def intro!: round_half_even_ge round_half_even_le)
  then have "of_int (2 ^ 52) \<le> (of_int (round_half_even (x / s)) :: rat)"
    "(of_int (round_half_even (x / s)) :: rat) \<le> of_int (2 ^ 53)"
    by (simp_all only: of_int_le_iff)
  then show "pow2 (ilog2 x) \<le> round_pos x" "round_pos x \<le> pow2 (ilog2 x + 1)"
    unfolding e round_pos_def Let_def s_def [symmetric]
    by (auto simp: s_def intro!: mult_right_mono)
qed

lemma round_pos_error:
  assumes "0 < x"
  shows "\<bar>round_pos x - x\<bar> \<le> x / 2 ^ 53"
proof -
  define s where "s = pow2 (ilog2 x - 52)"
  have s: "0 < s" by (simp add: s_def)
  have "round_pos x - x = (of_int (round_half_even (x / s)) - x / s) * s"
    using s by (simp add: round_pos_def Let_def s_def [symmetric] left_diff_distrib)
  then have "\<bar>round_pos x - x\<bar> = \<bar>of_int (round_half_even (x / s)) - x / s\<bar> * s"
    using s by (simp add: abs_mult)
  also have "\<dots> \<le> 1 / 2 * s"
    using s round_half_even_error [of "x / s"] by (intro mult_right_mono) auto
  also have "\<dots> \<le> x / 2 ^ 53"
    using significand_bounds(1) [OF assms] s by (simp add: s_def [symmetric] field_simps)
  finally show ?thesis .
qed

lemma round_pos_mono:
  assumes "0 < x" "x \<le> y"
  shows "round_pos x \<le> round_pos y"
proof -
  have y: "0 < y" using assms by simp
  have "pow2 (ilog2 x) < pow2 (ilog2 y + 1)"
    using ilog2_bounds [OF assms(1)] ilog2_bounds [OF y] assms(2) by linarith
  then have "ilog2 x \<le> ilog2 y" by (simp add: pow2_less_iff)
  then consider "ilog2 x = ilog2 y" | "ilog2 x + 1 \<le> ilog2 y" by linarith
  then show ?thesis
  proof cases
    case 1
    have "x / pow2 (ilog2 y - 52) \<le> y / pow2 (ilog2 y - 52)"
      using assms(2) by (rule divide_right_mono) (simp add: less_imp_le)
    then show ?thesis
      unfolding round_pos_def Let_def 1
      by (intro mult_right_mono) (simp_all add: round_half_even_mono)
  next
    case 2
    have "round_pos x \<le> pow2 (ilog2 x + 1)" by (rule round_pos_bounds [OF assms(1)])
    also have "\<dots> \<le> pow2 (ilog2 y)" by (rule pow2_mono [OF 2])
    also have "\<dots> \<le> round_pos y" by (rule round_pos_bounds [OF y])
    finally show ?thesis .
  qed
qed

lemma round_pos_pos: "0 < x \<Longrightarrow> 0 < round_pos x"
  using round_pos_bounds(1) [of x] pow2_pos [of "ilog2 x"] by linarith

text \<open>A number with at most 53 significant bits is not changed.\<close>

lemma round_pos_exact:
  assumes "0 < m" "m \<le> 2 ^ 53" and x: "x = of_int m * pow2 k"
  shows "round_pos x = x"
proof -
  have pos: "0 < x" using assms by simp
  have "x \<le> of_int (2 ^ 53) * pow2 k"
    unfolding x using assms(2) by (intro mult_right_mono) (simp_all only: of_int_le_iff pow2_pos less_imp_le)
  also have "\<dots> = pow2 (53 + k)" by (simp add: pow2_add pow2_def [of 53])
  finally have le: "x \<le> pow2 (53 + k)" .
  have "\<exists>n. x / pow2 (ilog2 x - 52) = of_int n"
  proof (cases "x = pow2 (53 + k)")
    case True
    have "ilog2 x = 53 + k" using True pos by (intro ilog2_eqI) (auto intro: pow2_strict_mono)
    then have "x / pow2 (ilog2 x - 52) = pow2 52"
      unfolding True by (simp flip: pow2_diff)
    then have "x / pow2 (ilog2 x - 52) = of_int (2 ^ 52)" by (simp add: pow2_def)
    then show ?thesis by blast
  next
    case False
    with le have "pow2 (ilog2 x) < pow2 (53 + k)" using ilog2_bounds [OF pos] by linarith
    then have d: "0 \<le> k - (ilog2 x - 52)" by (simp add: pow2_less_iff)
    have "x / pow2 (ilog2 x - 52) = of_int m * pow2 (k - (ilog2 x - 52))"
      by (simp add: x pow2_diff)
    also have "\<dots> = of_int (m * 2 ^ nat (k - (ilog2 x - 52)))"
      using d by (simp add: pow2_def)
    finally show ?thesis by blast
  qed
  then obtain n where n: "x / pow2 (ilog2 x - 52) = of_int n" by blast
  have "round_pos x = of_int n * pow2 (ilog2 x - 52)"
    by (simp add: round_pos_def Let_def n)
  also have "\<dots> = x" unfolding n [symmetric] by simp
  finally show ?thesis .
qed

lemma rnd_0 [simp]: "rnd 0 = 0"
  by (simp add: rnd_def)

lemma rnd_pos: "0 < x \<Longrightarrow> rnd x = round_pos x"
  by (simp add: rnd_def)

lemma rnd_minus: "rnd (- x) = - rnd x"
  by (simp add: rnd_def)

lemma rnd_error: "\<bar>rnd x - x\<bar> \<le> \<bar>x\<bar> / 2 ^ 53"
  using round_pos_error [of x] round_pos_error [of "- x"] by (auto simp: rnd_def abs_if split: if_splits)

lemma rnd_mono: "x \<le> y \<Longrightarrow> rnd x \<le> rnd y"
  using round_pos_mono [of x y] round_pos_mono [of "- y" "- x"] round_pos_pos [of y] round_pos_pos [of "- x"]
  by (auto simp: rnd_def)

lemma rnd_exact: "\<bar>m\<bar> \<le> 2 ^ 53 \<Longrightarrow> rnd (of_int m * pow2 k) = of_int m * pow2 k"
  using round_pos_exact [of m "of_int m * pow2 k" k] round_pos_exact [of "- m" "- of_int m * pow2 k" k]
  by (auto simp: rnd_def mult_less_0_iff)

lemma round_pos_representable:
  assumes "0 < x"
  shows "\<exists>m k. 0 < m \<and> m \<le> 2 ^ 53 \<and> round_pos x = of_int m * pow2 k"
proof -
  have "2 ^ 52 \<le> round_half_even (x / pow2 (ilog2 x - 52))"
    "round_half_even (x / pow2 (ilog2 x - 52)) \<le> 2 ^ 53"
    using significand_bounds [OF assms]
    by (auto intro!: round_half_even_ge round_half_even_le)
  then show ?thesis
    by (intro exI [of _ "round_half_even (x / pow2 (ilog2 x - 52))"] exI [of _ "ilog2 x - 52"])
       (auto simp: round_pos_def Let_def)
qed

lemma rnd_idem: "rnd (rnd x) = rnd x"
proof -
  have pos: "rnd (rnd y) = rnd y" if y: "0 < y" for y
  proof -
    obtain m k where m: "0 < m" "m \<le> 2 ^ 53" and e: "round_pos y = of_int m * pow2 k"
      using round_pos_representable [OF y] by auto
    have "rnd (of_int m * pow2 k) = of_int m * pow2 k" by (rule rnd_exact) (use m in simp)
    then show ?thesis using y by (simp add: rnd_pos flip: e)
  qed
  consider "x = 0" | "0 < x" | "0 < - x" by linarith
  then show ?thesis
  proof cases
    case 3
    then show ?thesis using pos [of "- x"] by (simp add: rnd_minus)
  qed (simp_all add: pos)
qed

section \<open>What the clients use\<close>

text \<open>
  A rounding: monotone, idempotent, exact on integers up to \<open>2 ^ 53\<close>, with a relative error of at
  most \<open>u\<close>. \<open>approx n x y\<close> says that \<open>y\<close> is \<open>x\<close> after at most \<open>n\<close> roundings.
\<close>

definition approx :: "rat \<Rightarrow> nat \<Rightarrow> rat \<Rightarrow> rat \<Rightarrow> bool" where
  "approx u n x y \<longleftrightarrow> x * (1 - u) ^ n \<le> y \<and> y * (1 - u) ^ n \<le> x"

locale rounding =
  fixes rd :: "rat \<Rightarrow> rat" and u :: rat
  assumes unit_range: "0 \<le> u" "u < 1"
    and rel_error: "\<bar>rd x - x\<bar> \<le> \<bar>x\<bar> * u"
    and mono: "x \<le> y \<Longrightarrow> rd x \<le> rd y"
    and idem: "rd (rd x) = rd x"
begin

lemma rd_zero: "rd 0 = 0"
  using rel_error [of 0] by simp

lemma rd_nonneg: "0 \<le> x \<Longrightarrow> 0 \<le> rd x"
  using mono [of 0 x] by (simp add: rd_zero)

lemma rd_pos: "0 < x \<Longrightarrow> 0 < rd x"
proof -
  assume x: "0 < x"
  have "x * u < x * 1" using x unit_range by (intro mult_strict_left_mono) auto
  moreover have "x - rd x \<le> x * u" using rel_error [of x] x by (simp add: abs_le_iff)
  ultimately show "0 < rd x" by linarith
qed

lemma approx_refl: "approx u 0 x x"
  by (simp add: approx_def)

lemma approx_rd:
  assumes "0 \<le> x" "approx u n x y"
  shows "approx u (Suc n) x (rd y)"
proof -
  have q: "0 \<le> 1 - u" "1 - u \<le> 1" using unit_range by auto
  have qn: "0 \<le> (1 - u) ^ n" "(1 - u) ^ n \<le> 1" using q by (auto intro: power_le_one)
  have "0 \<le> x * (1 - u) ^ n" using assms qn by auto
  then have y: "0 \<le> y" using assms(2) by (simp add: approx_def)
  have lo: "y * (1 - u) \<le> rd y" and hi: "rd y \<le> y * (1 + u)"
    using rel_error [of y] y by (auto simp: algebra_simps abs_if split: if_splits)
  have "x * (1 - u) ^ Suc n = (x * (1 - u) ^ n) * (1 - u)" by simp
  also have "\<dots> \<le> y * (1 - u)" using assms(2) q by (intro mult_right_mono) (auto simp: approx_def)
  also have "\<dots> \<le> rd y" by (rule lo)
  finally have 1: "x * (1 - u) ^ Suc n \<le> rd y" .
  have "rd y * (1 - u) ^ Suc n \<le> (y * (1 + u)) * (1 - u) ^ Suc n"
    using hi q by (intro mult_right_mono) auto
  also have "\<dots> = (y * (1 - u) ^ n) * (1 - u * u)" by (simp add: algebra_simps)
  also have "\<dots> \<le> (y * (1 - u) ^ n) * 1"
    using y qn unit_range by (intro mult_left_mono) auto
  also have "\<dots> \<le> x" using assms(2) by (simp add: approx_def)
  finally show ?thesis using 1 by (simp add: approx_def)
qed

lemma approx_divide:
  assumes "approx u n x y" "approx u m a b" "0 \<le> x" "0 < a" "0 < b"
  shows "approx u (n + m) (x / a) (y / b)"
proof -
  have q: "0 < 1 - u" using unit_range by auto
  have "0 \<le> x * (1 - u) ^ n" using assms q by auto
  then have y: "0 \<le> y" using assms(1) by (simp add: approx_def)
  have xy: "x * (1 - u) ^ n \<le> y" "y * (1 - u) ^ n \<le> x"
    and ab: "a * (1 - u) ^ m \<le> b" "b * (1 - u) ^ m \<le> a"
    using assms by (auto simp: approx_def)
  have "x * (1 - u) ^ n * (b * (1 - u) ^ m) \<le> y * a"
    using xy ab assms q y by (intro mult_mono) auto
  moreover have "y * (1 - u) ^ n * (a * (1 - u) ^ m) \<le> x * b"
    using xy ab assms q y by (intro mult_mono) auto
  ultimately show ?thesis
    using assms by (simp add: approx_def power_add field_simps)
qed

lemma approx_mult_const: "approx u n x y \<Longrightarrow> 0 \<le> c \<Longrightarrow> approx u n (x * c) (y * c)"
  using mult_right_mono [of "x * (1 - u) ^ n" y c] mult_right_mono [of "y * (1 - u) ^ n" x c]
  by (simp only: approx_def mult_ac)

lemma approx_divide_const: "approx u n x y \<Longrightarrow> 0 < c \<Longrightarrow> approx u n (x / c) (y / c)"
  using approx_mult_const [of n x y "1 / c"] by simp

end

lemma approx_bounds:
  assumes a: "approx u n x y" and "0 \<le> x" "0 \<le> u" "2 * of_nat n * u \<le> 1"
  shows "x * (1 - of_nat n * u) \<le> y" "y \<le> x * (1 + 2 * of_nat n * u)"
proof -
  define d where "d = of_nat n * u"
  have d: "0 \<le> d" "2 * d \<le> 1" using assms by (auto simp: d_def)
  have u1: "u \<le> 1 \<or> n = 0"
  proof (cases n)
    case (Suc k)
    have "1 * u \<le> of_nat n * u" using assms(3) Suc by (intro mult_right_mono) auto
    then show ?thesis using d by (simp add: d_def)
  qed simp
  have bern: "1 - d \<le> (1 - u) ^ n"
  proof (cases "n = 0")
    case False
    with u1 have "- 1 \<le> - u" by simp
    then have "1 + of_nat n * (- u) \<le> (1 + (- u)) ^ n" by (rule Bernoulli_inequality)
    then show ?thesis by (simp add: d_def)
  qed (simp add: d_def)
  have "x * (1 - d) \<le> x * (1 - u) ^ n" using bern assms(2) by (rule mult_left_mono)
  also have "\<dots> \<le> y" using a by (simp add: approx_def)
  finally have lo: "x * (1 - d) \<le> y" .
  have "0 \<le> x * (1 - d)" using assms(2) d by (intro mult_nonneg_nonneg) auto
  with lo have y: "0 \<le> y" by linarith
  have "y * (1 - d) \<le> y * (1 - u) ^ n" using bern y by (rule mult_left_mono)
  also have "\<dots> \<le> x" using a by (simp add: approx_def)
  finally have yx: "y * (1 - d) \<le> x" .
  have "y * 1 \<le> y * ((1 - d) * (1 + 2 * d))"
  proof (rule mult_left_mono [OF _ y])
    have "d * (2 * d) \<le> d * 1" using d by (intro mult_left_mono) auto
    then show "1 \<le> (1 - d) * (1 + 2 * d)" by (simp add: algebra_simps)
  qed
  also have "\<dots> = (y * (1 - d)) * (1 + 2 * d)" by simp
  also have "\<dots> \<le> x * (1 + 2 * d)" using yx d by (intro mult_right_mono) auto
  finally show "y \<le> x * (1 + 2 * of_nat n * u)" by (simp add: d_def mult.assoc)
  show "x * (1 - of_nat n * u) \<le> y" using lo by (simp add: d_def)
qed

interpretation f64: rounding rnd "1 / 2 ^ 53"
proof (unfold_locales, goal_cases)
  case (3 x)
  show ?case using rnd_error [of x] by simp
qed (simp_all add: rnd_mono rnd_idem)

lemma rnd_of_int_small: "\<bar>m\<bar> \<le> 2 ^ 53 \<Longrightarrow> rnd (of_int m) = of_int m"
  using rnd_exact [of m 0] by (simp add: pow2_def)

end
