(* ===== verification/Records.thy ===== *)
theory Records
  imports Wire Float64
begin

text \<open>
  The rows the handlers produce (\<open>TradeRecord\<close> of \<open>src/src/database/trades.rs\<close> and
  \<open>AltTradeRecord\<close> of \<open>src/src/database/alt_trades.rs\<close>). A \<open>u64\<close> written as \<open>i64\<close> keeps its bit
  pattern. A timestamp is the number of microseconds since the epoch, the precision the database
  stores.
\<close>

type_synonym timestamp = int

record trade_record =
  tr_tx_signature :: string
  tr_ix_index :: i32
  tr_pool_address :: string
  tr_mint_address :: string
  tr_quote_mint_address :: string
  tr_instruction_type :: string
  tr_amount_source :: string
  tr_is_cpi :: bool
  tr_user_pubkey :: string
  tr_is_buy :: bool
  tr_token_amount :: u64
  tr_sol_amount :: u64
  tr_market_cap :: "u64 option"
  tr_is_usdc :: bool
  tr_success :: bool
  tr_slot :: i64
  tr_created_at :: timestamp
  tr_priority_fee :: "i64 option"
  tr_transfer_tip :: "i64 option"
  tr_tip_provider :: "string option"
  tr_compute_units_consumed :: "i64 option"
  tr_lamports_per_compute_unit :: "f64 option"

record alt_trade_record =
  ar_tx_signature :: string
  ar_ix_index :: i32
  ar_platform :: string
  ar_venue :: string
  ar_pool_address :: string
  ar_mint_address :: string
  ar_quote_mint_address :: string
  ar_instruction_type :: string
  ar_amount_source :: string
  ar_is_cpi :: bool
  ar_user_pubkey :: string
  ar_is_buy :: bool
  ar_token_amount :: u64
  ar_quote_amount :: u64
  ar_market_cap :: "u64 option"
  ar_base_reserves :: "u64 option"
  ar_quote_reserves :: "u64 option"
  ar_base_transfer_fee :: "u64 option"
  ar_trade_fee :: "u64 option"
  ar_creator_fee :: "u64 option"
  ar_base_decimals :: i16
  ar_quote_decimals :: "i16 option"
  ar_is_sol :: bool
  ar_is_usdc :: bool
  ar_success :: bool
  ar_slot :: i64
  ar_created_at :: timestamp
  ar_priority_fee :: "i64 option"
  ar_transfer_tip :: "i64 option"
  ar_tip_provider :: "string option"
  ar_compute_units_consumed :: "i64 option"
  ar_lamports_per_compute_unit :: "f64 option"

text \<open>Both handlers: whether the transaction landed; a transaction without meta counts as landed.\<close>
definition tx_succeeded :: "tx_info \<Rightarrow> bool" where
  "tx_succeeded tx = is_none_or (\<lambda>m. m_err m = None) (tx_meta tx)"

text \<open>A conversion \<open>priority_fee.map(|p| p as f64 / 1_000_000.0)\<close>, used by both handlers.\<close>
definition lamports_per_cu :: "u64 option \<Rightarrow> f64 option" where
  "lamports_per_cu priority_fee = map_option (\<lambda>p. f64_div (f64_of_u64 p) 1000000) priority_fee"

end
