(* ===== verification/Instructions.thy ===== *)
theory Instructions
  imports Wire
begin

text \<open>
  Finding trade instructions in a transaction (\<open>src/src/utils/transaction.rs\<close>): account resolution, the
  classifier of single-pool trades, and the instructions a program runs at top level and through CPI.
\<close>

section \<open>Accounts and pools\<close>

text \<open>\<open>b"..."\<close>\<close>
definition ascii :: "string \<Rightarrow> bytes" where
  "ascii s = map (\<lambda>c. word_of_nat (of_char c)) s"

lemma ascii_code [code]: "ascii s = map (\<lambda>c. word_of_int (of_char c)) s"
  by (simp add: ascii_def of_nat_of_char of_int_of_char)

definition instruction_account_pubkey :: "compiled_instruction \<Rightarrow> bytes list \<Rightarrow> nat \<Rightarrow> pubkey option" where
  "instruction_account_pubkey instr full_accounts pos = do {
     account_index \<leftarrow> vec_get (ci_accounts instr) pos;
     key \<leftarrow> vec_get full_accounts (unat account_index);
     try_array 32 key }"

definition resolve_mint_from_instr ::
  "externals \<Rightarrow> compiled_instruction \<Rightarrow> bytes list \<Rightarrow> nat \<Rightarrow> string option" where
  "resolve_mint_from_instr X instr full_accounts mint_ix_pos = do {
     acct_idx \<leftarrow> vec_get (ci_accounts instr) mint_ix_pos;
     key \<leftarrow> vec_get full_accounts (unat acct_idx);
     arr \<leftarrow> try_array 32 key;
     Some (x_pubkey_to_string X arr) }"

definition resolve_pump_swap_memecoin :: "externals \<Rightarrow> compiled_instruction \<Rightarrow> bytes list \<Rightarrow> string option" where
  "resolve_pump_swap_memecoin X instr full_accounts =
     resolve_mint_from_instr X instr full_accounts PUMP_SWAP_MINT_IX_POS"

definition resolve_pump_swap_quote_mint :: "externals \<Rightarrow> compiled_instruction \<Rightarrow> bytes list \<Rightarrow> string option" where
  "resolve_pump_swap_quote_mint X instr full_accounts =
     resolve_mint_from_instr X instr full_accounts PUMP_SWAP_QUOTE_MINT_IX_POS"

definition resolve_pump_swap_pool :: "externals \<Rightarrow> compiled_instruction \<Rightarrow> bytes list \<Rightarrow> string option" where
  "resolve_pump_swap_pool X instr full_accounts =
     resolve_mint_from_instr X instr full_accounts PUMP_SWAP_POOL_IX_POS"

definition resolve_instruction_account ::
  "externals \<Rightarrow> compiled_instruction \<Rightarrow> bytes list \<Rightarrow> nat \<Rightarrow> string option" where
  "resolve_instruction_account X instr full_accounts pos =
     resolve_mint_from_instr X instr full_accounts pos"

definition canonical_pump_swap_pool ::
  "externals \<Rightarrow> pubkey \<Rightarrow> pubkey \<Rightarrow> pubkey \<Rightarrow> pubkey \<Rightarrow> pubkey" where
  "canonical_pump_swap_pool X base_mint quote_mint pump_program_id pump_swap_program_id =
     (let pool_authority = x_find_program_address X [ascii ''pool-authority'', base_mint] pump_program_id;
          pool_index = to_le_bytes 2 (0 :: u16)
      in x_find_program_address X
           [ascii ''pool'', pool_index, pool_authority, base_mint, quote_mint]
           pump_swap_program_id)"

text \<open>The text resolvers print the key that \<open>instruction_account_pubkey\<close> finds.\<close>

lemma resolve_mint_eq:
  "resolve_mint_from_instr X instr full pos =
     map_option (x_pubkey_to_string X) (instruction_account_pubkey instr full pos)"
  by (auto simp: resolve_mint_from_instr_def instruction_account_pubkey_def
           split: Option.bind_splits option.splits)

lemmas resolve_eqs =
  resolve_pump_swap_memecoin_def resolve_pump_swap_quote_mint_def resolve_pump_swap_pool_def
  resolve_instruction_account_def resolve_mint_eq

lemma instruction_account_length:
  "instruction_account_pubkey instr full pos = Some k \<Longrightarrow> length k = 32"
  by (auto simp: instruction_account_pubkey_def try_array_Some_iff split: Option.bind_splits)

section \<open>Classification of single-pool trades\<close>

record pump_swap_trade_ix =
  ti_name :: string
  ti_is_buy :: bool
  ti_is_exact_in :: bool
  ti_event_disc :: bytes

definition pump_swap_trade_ix :: "bytes \<Rightarrow> pump_swap_trade_ix option" where
  "pump_swap_trade_ix disc = do {
     d \<leftarrow> try_array 8 disc;
     (name, is_buy, is_exact_in, event_disc) \<leftarrow>
       (if d = AMM_BUY_DISCRIMINATOR then Some (''buy'', True, False, PUMP_SWAP_BUY_EVENT_DISC)
        else if d = BUY_EXACT_IN_DISCRIMINATOR then
          Some (''buy_exact_quote_in'', True, True, PUMP_SWAP_BUY_EVENT_DISC)
        else if d = AMM_SELL_DISCRIMINATOR then Some (''sell'', False, False, PUMP_SWAP_SELL_EVENT_DISC)
        else if d = AMM_BUY_V2_DISCRIMINATOR then Some (''buy_v2'', True, False, PUMP_SWAP_BUY_EVENT_DISC)
        else if d = AMM_BUY_EXACT_QUOTE_IN_V2_DISCRIMINATOR then
          Some (''buy_exact_quote_in_v2'', True, True, PUMP_SWAP_BUY_EVENT_DISC)
        else if d = AMM_SELL_V2_DISCRIMINATOR then
          Some (''sell_v2'', False, False, PUMP_SWAP_SELL_EVENT_DISC)
        else if d = BOOST_BUY_AND_BURN_DISCRIMINATOR then
          Some (''boost_buy_and_burn'', True, True, PUMP_SWAP_BOOST_BUY_EVENT_DISC)
        else None);
     Some \<lparr>ti_name = name, ti_is_buy = is_buy, ti_is_exact_in = is_exact_in, ti_event_disc = event_disc\<rparr> }"

text \<open>The dispatch as a table, in an order of its own.\<close>

definition trade_ix_table :: "(bytes \<times> pump_swap_trade_ix) list" where
  "trade_ix_table =
     [(AMM_SELL_DISCRIMINATOR, \<lparr>ti_name = ''sell'', ti_is_buy = False, ti_is_exact_in = False,
         ti_event_disc = PUMP_SWAP_SELL_EVENT_DISC\<rparr>),
      (AMM_SELL_V2_DISCRIMINATOR, \<lparr>ti_name = ''sell_v2'', ti_is_buy = False, ti_is_exact_in = False,
         ti_event_disc = PUMP_SWAP_SELL_EVENT_DISC\<rparr>),
      (AMM_BUY_DISCRIMINATOR, \<lparr>ti_name = ''buy'', ti_is_buy = True, ti_is_exact_in = False,
         ti_event_disc = PUMP_SWAP_BUY_EVENT_DISC\<rparr>),
      (AMM_BUY_V2_DISCRIMINATOR, \<lparr>ti_name = ''buy_v2'', ti_is_buy = True, ti_is_exact_in = False,
         ti_event_disc = PUMP_SWAP_BUY_EVENT_DISC\<rparr>),
      (BUY_EXACT_IN_DISCRIMINATOR, \<lparr>ti_name = ''buy_exact_quote_in'', ti_is_buy = True,
         ti_is_exact_in = True, ti_event_disc = PUMP_SWAP_BUY_EVENT_DISC\<rparr>),
      (AMM_BUY_EXACT_QUOTE_IN_V2_DISCRIMINATOR, \<lparr>ti_name = ''buy_exact_quote_in_v2'', ti_is_buy = True,
         ti_is_exact_in = True, ti_event_disc = PUMP_SWAP_BUY_EVENT_DISC\<rparr>),
      (BOOST_BUY_AND_BURN_DISCRIMINATOR, \<lparr>ti_name = ''boost_buy_and_burn'', ti_is_buy = True,
         ti_is_exact_in = True, ti_event_disc = PUMP_SWAP_BOOST_BUY_EVENT_DISC\<rparr>)]"

text \<open>The classifier is the table lookup: its seven discriminators are pairwise different (so the
  order of the match arms is irrelevant), so are the seven names it writes, \<open>multi_hop_swap\<close> is not
  among them, every other byte string is rejected, and a trade is a sell exactly when it is located by
  a SellEvent.\<close>

theorem pump_swap_trade_ix_table:
  "pump_swap_trade_ix disc = map_of trade_ix_table disc \<and>
   distinct (map fst trade_ix_table) \<and>
   distinct (map (ti_name \<circ> snd) trade_ix_table) \<and>
   AMM_MULTI_HOP_SWAP_DISCRIMINATOR \<notin> set (map fst trade_ix_table) \<and>
   list_all (\<lambda>(_, k). ti_is_buy k \<longleftrightarrow> ti_event_disc k \<noteq> PUMP_SWAP_SELL_EVENT_DISC) trade_ix_table"
proof (intro conjI)
  have d: "distinct (map fst trade_ix_table)"
    by (simp add: trade_ix_table_def trade_discriminators)
  then show "distinct (map fst trade_ix_table)" .
  have l: "list_all (\<lambda>(d, _). length d = 8) trade_ix_table"
    by (simp add: trade_ix_table_def trade_discriminators)
  show "pump_swap_trade_ix disc = map_of trade_ix_table disc"
  proof (cases "length disc = 8")
    case True
    then show ?thesis
      using d by (auto simp: pump_swap_trade_ix_def try_array_def trade_ix_table_def)
  next
    case False
    with l have "map_of trade_ix_table disc = None"
      by (auto simp: map_of_eq_None_iff list_all_iff)
    with False show ?thesis by (simp add: pump_swap_trade_ix_def try_array_def)
  qed
  show "distinct (map (ti_name \<circ> snd) trade_ix_table)" by (simp add: trade_ix_table_def)
  show "AMM_MULTI_HOP_SWAP_DISCRIMINATOR \<notin> set (map fst trade_ix_table)"
    by (simp add: trade_ix_table_def trade_discriminators)
  show "list_all (\<lambda>(_, k). ti_is_buy k \<longleftrightarrow> ti_event_disc k \<noteq> PUMP_SWAP_SELL_EVENT_DISC) trade_ix_table"
    by (simp add: trade_ix_table_def event_discriminators)
qed

text \<open>What the handler needs of a classified instruction.\<close>

lemma trade_ix_event_disc:
  assumes "pump_swap_trade_ix disc = Some k"
  shows "length (ti_event_disc k) = 8"
    and "ti_is_buy k \<longleftrightarrow> ti_event_disc k \<noteq> PUMP_SWAP_SELL_EVENT_DISC"
  using assms
  by (auto simp: pump_swap_trade_ix_def split: Option.bind_splits if_splits)

section \<open>Instructions of a program\<close>

text \<open>\<open>full_accounts.iter().position(|key| key == program_id)\<close>, for 32-byte keys.\<close>
definition program_index_of :: "bytes list \<Rightarrow> pubkey \<Rightarrow> nat option" where
  "program_index_of full_accounts program_id =
     position (\<lambda>key. case try_array 32 key of Some arr \<Rightarrow> arr = program_id | None \<Rightarrow> False) full_accounts"

definition compiled_of_inner :: "inner_instruction \<Rightarrow> compiled_instruction" where
  "compiled_of_inner ix = \<lparr>ci_program_id_index = ii_program_id_index ix,
     ci_accounts = ii_accounts ix, ci_data = ii_data ix\<rparr>"

definition get_program_instructions ::
  "message \<Rightarrow> transaction_status_meta \<Rightarrow> bytes list \<Rightarrow> pubkey \<Rightarrow> (compiled_instruction \<times> nat \<times> nat) list" where
  "get_program_instructions msg meta full_accounts program_id =
     (case program_index_of full_accounts program_id of
        None \<Rightarrow> []
      | Some program_index \<Rightarrow>
          map (\<lambda>(i, instr). (instr, i, 0))
            (filter (\<lambda>(_, ix). unat (ci_program_id_index ix) = program_index)
               (List.enumerate 0 (msg_instructions msg))) @
          concat (map (\<lambda>inner.
            let parent_idx = unat (block_index inner)
            in map (\<lambda>(j, ix). (compiled_of_inner ix, parent_idx, j + 1))
                 (filter (\<lambda>(_, i). unat (ii_program_id_index i) = program_index)
                    (List.enumerate 0 (block_instructions inner))))
            (m_inner_instructions meta)))"

text \<open>The trade's place: a top-level instruction, or the position of a CPI in an inner block.\<close>

definition runs_at ::
  "message \<Rightarrow> transaction_status_meta \<Rightarrow> nat \<Rightarrow> compiled_instruction \<Rightarrow> nat \<Rightarrow> nat \<Rightarrow> bool" where
  "runs_at msg meta program_index instr outer start \<longleftrightarrow>
     unat (ci_program_id_index instr) = program_index \<and>
     (case start of
        0 \<Rightarrow> vec_get (msg_instructions msg) outer = Some instr
      | Suc j \<Rightarrow> list_ex (\<lambda>b. unat (block_index b) = outer \<and>
          map_option compiled_of_inner (vec_get (block_instructions b) j) = Some instr)
          (m_inner_instructions meta))"

lemma ci_compiled_of_inner [simp]:
  "ci_program_id_index (compiled_of_inner ix) = ii_program_id_index ix"
  "ci_data (compiled_of_inner ix) = ii_data ix"
  "ci_accounts (compiled_of_inner ix) = ii_accounts ix"
  by (simp_all add: compiled_of_inner_def)

lemma set_enumerate: "(i, x) \<in> set (List.enumerate 0 xs) \<longleftrightarrow> vec_get xs i = Some x"
  by (auto simp: in_set_enumerate_eq vec_get_Some_iff)

text \<open>The instructions collected for a program are exactly those that run it, at top level or
  as a CPI of some inner block, each with the place its events are searched from; nothing is
  collected when the program is not among the accounts.\<close>

theorem get_program_instructions_complete:
  "(instr, outer, start) \<in> set (get_program_instructions msg meta full program_id) \<longleftrightarrow>
   (case program_index_of full program_id of
      None \<Rightarrow> False | Some p \<Rightarrow> runs_at msg meta p instr outer start)"
proof (cases "program_index_of full program_id")
  case None
  then show ?thesis by (simp add: get_program_instructions_def)
next
  case (Some p)
  show ?thesis
  proof (cases start)
    case 0
    then show ?thesis
      using Some by (auto simp: get_program_instructions_def runs_at_def Let_def set_enumerate image_iff)
  next
    case (Suc j)
    then show ?thesis
      using Some
      by (auto simp: get_program_instructions_def runs_at_def Let_def set_enumerate image_iff list_ex_iff)
         (metis ci_compiled_of_inner(1))
  qed
qed

end
