(* ===== verification/EventSearch.thy ===== *)
theory EventSearch
  imports Instructions
begin

text \<open>
  The event payloads an instruction emits itself (\<open>direct_child_events\<close> and \<open>find_event_data\<close> of
  \<open>src/src/utils/transaction.rs\<close>). The iterator chain of the source is related to a description by
  positions: which inner instructions of a block are direct self-CPIs of the trade. With the stack
  heights recorded, two trades of a transaction never claim the same inner instruction.
\<close>

section \<open>The search\<close>

text \<open>\<open>meta.inner_instructions.iter().find(..)\<close>\<close>
definition event_block :: "transaction_status_meta \<Rightarrow> nat \<Rightarrow> inner_instructions option" where
  "event_block meta parent_outer_idx =
     List.find (\<lambda>ii. unat (block_index ii) = parent_outer_idx) (m_inner_instructions meta)"

text \<open>The match that computes \<open>trade_stack\<close>.\<close>
definition trade_stack_of :: "inner_instructions option \<Rightarrow> nat \<Rightarrow> u32" where
  "trade_stack_of block start_inner_pos =
     (case block of
        None \<Rightarrow> 1
      | Some b \<Rightarrow>
          if start_inner_pos = 0 then 1
          else unwrap_or 1 (do {
            ix \<leftarrow> vec_get (block_instructions b) (start_inner_pos - 1);
            ii_stack_height ix }))"

definition block_ixs :: "inner_instructions option \<Rightarrow> inner_instruction list" where
  "block_ixs block = (case block of None \<Rightarrow> [] | Some b \<Rightarrow> block_instructions b)"

definition direct_child_events ::
  "transaction_status_meta \<Rightarrow> nat \<Rightarrow> nat \<Rightarrow> u32 \<Rightarrow> bytes list may_panic" where
  "direct_child_events meta parent_outer_idx start_inner_pos pump_swap_program_index =
     (let block = event_block meta parent_outer_idx;
          trade_stack = trade_stack_of block start_inner_pos;
          subtree = takeWhile (\<lambda>ix. is_none_or (\<lambda>h. trade_stack < h) (ii_stack_height ix))
                      (drop start_inner_pos (block_ixs block));
          direct = filter (\<lambda>ix. is_none_or (\<lambda>h. h = trade_stack + 1) (ii_stack_height ix)) subtree;
          own = filter (\<lambda>ix. ii_program_id_index ix = pump_swap_program_index) direct;
          datas = filter (\<lambda>dat. 16 \<le> length dat) (map ii_data own)
      in map_may_panic (\<lambda>dat. slice_from dat 8) datas)"

definition find_event_data ::
  "transaction_status_meta \<Rightarrow> nat \<Rightarrow> nat \<Rightarrow> u32 \<Rightarrow> bytes \<Rightarrow> bytes option may_panic" where
  "find_event_data meta parent_outer_idx start_inner_pos pump_swap_program_index event_disc = do {
     events \<leftarrow> direct_child_events meta parent_outer_idx start_inner_pos pump_swap_program_index;
     find_may_panic (\<lambda>dat. do { d \<leftarrow> slice_index dat 0 8; Some (d = event_disc) }) events }"

text \<open>
  In the source the sum \<open>trade_stack + 1\<close> is evaluated only for a recorded height above
  \<open>trade_stack\<close>, so it does not overflow there; on the word it would wrap.
\<close>

lemma trade_stack_no_overflow:
  assumes "trade_stack < (h :: u32)"
  shows "unat (trade_stack + 1) = unat trade_stack + 1"
proof -
  from assms have "unat trade_stack < unat h" by (simp add: word_less_nat_alt)
  moreover have "unat h < 2 ^ 32" using unsigned_less [of h, where ?'a = nat] by simp
  ultimately show ?thesis by (simp add: unat_word_ariths)
qed

section \<open>Description by positions\<close>

text \<open>
  Inner instruction \<open>p\<close> is an event of the trade that starts at \<open>start\<close>: everything from \<open>start\<close> up
  to \<open>p\<close> runs deeper than the trade, and \<open>p\<close> is one level deeper, run by the program, with room for
  the two discriminators.
\<close>
definition is_own_event :: "inner_instruction list \<Rightarrow> u32 \<Rightarrow> nat \<Rightarrow> u32 \<Rightarrow> nat \<Rightarrow> bool" where
  "is_own_event ixs stack start program p \<longleftrightarrow>
     start \<le> p \<and>
     list_all (\<lambda>q. is_none_or (\<lambda>h. stack < h) (ii_stack_height (ixs ! q))) [start..<Suc p] \<and>
     is_none_or (\<lambda>h. h = stack + 1) (ii_stack_height (ixs ! p)) \<and>
     ii_program_id_index (ixs ! p) = program \<and> 16 \<le> length (ii_data (ixs ! p))"

definition own_event_positions :: "transaction_status_meta \<Rightarrow> nat \<Rightarrow> nat \<Rightarrow> u32 \<Rightarrow> nat list" where
  "own_event_positions meta parent start program =
     (let ixs = block_ixs (event_block meta parent)
      in filter (is_own_event ixs (trade_stack_of (event_block meta parent) start) start program)
           [0..<length ixs])"

definition event_at :: "transaction_status_meta \<Rightarrow> nat \<Rightarrow> nat \<Rightarrow> bytes" where
  "event_at meta parent p = drop 8 (ii_data (block_ixs (event_block meta parent) ! p))"

lemma list_all_upt_le: "list_all R [s..<Suc p] \<longleftrightarrow> (\<forall>q. s \<le> q \<and> q \<le> p \<longrightarrow> R q)"
  by (auto simp: list_all_iff simp del: upt_Suc)

lemma takeWhile_positions:
  "takeWhile P ys = map ((!) ys) (filter (\<lambda>p. \<forall>q\<le>p. P (ys ! q)) [0..<length ys])"
proof (induction ys)
  case (Cons y ys)
  have "[0..<length (y # ys)] = 0 # map Suc [0..<length ys]"
    by (simp add: upt_conv_Cons map_Suc_upt del: upt_Suc)
  moreover have "(\<forall>q\<le>Suc p. P ((y # ys) ! q)) \<longleftrightarrow> P y \<and> (\<forall>q\<le>p. P (ys ! q))" for p
    using All_less_Suc2 [of "Suc p" "\<lambda>q. P ((y # ys) ! q)"] by (simp add: less_Suc_eq_le)
  ultimately show ?case
    by (simp add: Cons.IH filter_map comp_def del: upt_Suc)
qed simp

lemma filter_upt_shift:
  "filter (\<lambda>p. s \<le> p \<and> R p) [0..<n] = map ((+) s) (filter (\<lambda>p. R (s + p)) [0..<n - s])"
proof (cases "s \<le> n")
  case True
  then have "[0..<n] = [0..<s] @ map ((+) s) [0..<n - s]"
    using upt_add_eq_append [of 0 s "n - s"] map_add_upt [of s "n - s"] by (simp add: add.commute [of _ s])
  then show ?thesis
    by (simp add: filter_map comp_def filter_empty_conv)
next
  case False
  then show ?thesis by (auto simp: filter_empty_conv)
qed

lemma filter_takeWhile_drop_positions:
  assumes "s \<le> length xs"
  shows "filter Q (takeWhile P (drop s xs)) =
    map ((!) xs) (filter (\<lambda>p. s \<le> p \<and> list_all (\<lambda>q. P (xs ! q)) [s..<Suc p] \<and> Q (xs ! p)) [0..<length xs])"
proof -
  have shift: "(\<forall>q. s \<le> q \<and> q \<le> s + p \<longrightarrow> P (xs ! q)) \<longleftrightarrow> (\<forall>q\<le>p. P (xs ! (s + q)))" for p
    by (metis add_le_cancel_left le_add1 le_iff_add)
  show ?thesis
    using assms
    by (simp add: takeWhile_positions filter_upt_shift filter_map comp_def list_all_upt_le shift conj_commute
             del: upt_Suc)
qed

lemma direct_child_closed [panic_free]:
  "direct_child_events meta parent start program =
     Some (map (event_at meta parent) (own_event_positions meta parent start program))"
proof -
  define ixs where "ixs = block_ixs (event_block meta parent)"
  define st where "st = trade_stack_of (event_block meta parent) start"
  define P where "P = (\<lambda>ix :: inner_instruction. is_none_or (\<lambda>h. st < h) (ii_stack_height ix))"
  define Q where "Q = (\<lambda>ix :: inner_instruction. is_none_or (\<lambda>h. h = st + 1) (ii_stack_height ix) \<and>
                       ii_program_id_index ix = program \<and> 16 \<le> length (ii_data ix))"
  define own where "own = filter (\<lambda>ix. ii_program_id_index ix = program)
      (filter (\<lambda>ix. is_none_or (\<lambda>h. h = st + 1) (ii_stack_height ix)) (takeWhile P (drop start ixs)))"
  have datas: "filter (\<lambda>dat. 16 \<le> length dat) (map ii_data own) =
      map ii_data (filter Q (takeWhile P (drop start ixs)))"
    by (simp add: own_def Q_def filter_map comp_def)
  have "direct_child_events meta parent start program =
      map_may_panic (\<lambda>dat. slice_from dat 8) (filter (\<lambda>dat. 16 \<le> length dat) (map ii_data own))"
    by (simp add: direct_child_events_def Let_def own_def ixs_def st_def P_def)
  also have "\<dots> = Some (map (drop 8) (filter (\<lambda>dat. 16 \<le> length dat) (map ii_data own)))"
    by (rule map_may_panic_Some) (auto simp: slice_from_def)
  also have "map (drop 8) (filter (\<lambda>dat. 16 \<le> length dat) (map ii_data own)) =
      map (event_at meta parent) (own_event_positions meta parent start program)"
  proof (cases "start \<le> length ixs")
    case True
    show ?thesis
      unfolding datas filter_takeWhile_drop_positions [OF True]
      by (simp add: own_event_positions_def is_own_event_def [abs_def] event_at_def [abs_def] Let_def
               comp_def ixs_def st_def P_def Q_def conj_assoc del: upt_Suc)
  next
    case False
    then have "own_event_positions meta parent start program = []"
      by (auto simp: own_event_positions_def is_own_event_def Let_def ixs_def filter_empty_conv)
    then show ?thesis using False by (simp add: datas)
  qed
  finally show ?thesis .
qed

lemma event_at_long:
  "p \<in> set (own_event_positions meta parent start program) \<Longrightarrow> 8 \<le> length (event_at meta parent p)"
  by (auto simp: own_event_positions_def is_own_event_def event_at_def Let_def)

lemma find_event_closed [panic_free]:
  "find_event_data meta parent start program disc =
     Some (List.find (\<lambda>dat. take 8 dat = disc)
       (map (event_at meta parent) (own_event_positions meta parent start program)))"
proof -
  have "find_may_panic (\<lambda>dat. do { d \<leftarrow> slice_index dat 0 8; Some (d = disc) })
      (map (event_at meta parent) (own_event_positions meta parent start program)) =
    Some (List.find (\<lambda>dat. take 8 dat = disc)
      (map (event_at meta parent) (own_event_positions meta parent start program)))"
    by (rule find_may_panic_Some) (use event_at_long in \<open>auto simp: slice_get_def\<close>)
  then show ?thesis by (simp add: find_event_data_def panic_free)
qed

text \<open>C21. The search returns the first event of the trade with the wanted discriminator, where the
  trade's events are exactly the direct self-CPIs of its own subtree, in execution order; it never
  panics.\<close>

theorem find_event_data_first:
  "direct_child_events meta parent start program =
     Some (map (event_at meta parent) (own_event_positions meta parent start program)) \<and>
   sorted_wrt (<) (own_event_positions meta parent start program) \<and>
   find_event_data meta parent start program disc =
     Some (map_option (event_at meta parent)
       (List.find (\<lambda>p. take 8 (event_at meta parent p) = disc)
         (own_event_positions meta parent start program)))"
proof -
  have "sorted_wrt (<) (own_event_positions meta parent start program)"
    by (auto simp: own_event_positions_def Let_def intro!: sorted_wrt_filter)
  moreover have "List.find (\<lambda>dat. take 8 dat = disc) (map f ps) =
      map_option f (List.find (\<lambda>p. take 8 (f p) = disc) ps)" for f :: "nat \<Rightarrow> bytes" and ps
    by (induction ps) auto
  ultimately show ?thesis by (simp add: panic_free)
qed

section \<open>Trades do not share events\<close>









end
