(* ===== verification/MultiHop.thy ===== *)
theory MultiHop
  imports Instructions
begin

text \<open>
  Routes of \<open>multi_hop_swap\<close> (\<open>src/src/utils/transaction.rs\<close>): the hops read from the accounts, which
  coin is only passed through, the mint a failed route spends and the side of each hop. The theorems
  describe a route as a chain of exchanges.
\<close>

section \<open>Operations\<close>

record pump_swap_hop =
  hop_base_mint :: pubkey
  hop_quote_mint :: pubkey
  hop_pool :: pubkey

text \<open>The closure \<open>key\<close>.\<close>
definition hop_key :: "bytes list \<Rightarrow> u8 \<Rightarrow> pubkey option" where
  "hop_key full_accounts ix_pos = do { k \<leftarrow> vec_get full_accounts (unat ix_pos); try_array 32 k }"

text \<open>The closure of \<open>filter_map\<close>: an index out of range panics, an unresolved key drops the hop.\<close>
definition hop_of_chunk :: "bytes list \<Rightarrow> bytes \<Rightarrow> pump_swap_hop option may_panic" where
  "hop_of_chunk full_accounts hop = do {
     i0 \<leftarrow> vec_get hop 0;
     (case hop_key full_accounts i0 of
        None \<Rightarrow> Some None
      | Some base \<Rightarrow> do {
          i1 \<leftarrow> vec_get hop 1;
          (case hop_key full_accounts i1 of
             None \<Rightarrow> Some None
           | Some quote \<Rightarrow> do {
               i2 \<leftarrow> vec_get hop 2;
               Some (map_option
                 (\<lambda>pool. \<lparr>hop_base_mint = base, hop_quote_mint = quote, hop_pool = pool\<rparr>)
                 (hop_key full_accounts i2)) }) }) }"

definition multi_hop_swap_hops :: "compiled_instruction \<Rightarrow> bytes list \<Rightarrow> pump_swap_hop list may_panic" where
  "multi_hop_swap_hops instr full_accounts = do {
     hops \<leftarrow> map_may_panic (hop_of_chunk full_accounts)
       (chunks_exact PUMP_SWAP_MULTI_HOP_ACCOUNTS_PER_HOP
         (unwrap_or [] (slice_from (ci_accounts instr) PUMP_SWAP_MULTI_HOP_FIXED_ACCOUNTS)));
     Some (List.map_filter id hops) }"

definition multi_hop_is_routed :: "pump_swap_hop list \<Rightarrow> pubkey \<Rightarrow> bool \<Rightarrow> bool" where
  "multi_hop_is_routed hops base_mint is_buy =
     (let user_hop = (if is_buy then vec_get hops (length hops - 1) else vec_get hops 0)
      in case user_hop of Some h \<Rightarrow> hop_base_mint h \<noteq> base_mint | None \<Rightarrow> False)"

text \<open>The fallback of \<open>multi_hop_input_mint\<close>: the token-balance row of \<open>user_in_token_account\<close>.\<close>
definition input_account_mint ::
  "externals \<Rightarrow> compiled_instruction \<Rightarrow> transaction_status_meta \<Rightarrow> pubkey option" where
  "input_account_mint X instr meta = do {
     input_account \<leftarrow> vec_get (ci_accounts instr) PUMP_SWAP_MULTI_HOP_USER_IN_IX_POS;
     b \<leftarrow> List.find (\<lambda>b. tb_account_index b = ucast input_account) (m_pre_token_balances meta);
     x_pubkey_from_str X (tb_mint b) }"

definition multi_hop_input_mint ::
  "externals \<Rightarrow> compiled_instruction \<Rightarrow> transaction_status_meta \<Rightarrow> pump_swap_hop list \<Rightarrow> pubkey option" where
  "multi_hop_input_mint X instr meta hops =
     (case hops of
        first # second # _ \<Rightarrow>
          (let shared = (\<lambda>m. m = hop_base_mint second \<or> m = hop_quote_mint second)
           in case (shared (hop_base_mint first), shared (hop_quote_mint first)) of
                (True, False) \<Rightarrow> Some (hop_quote_mint first)
              | (False, True) \<Rightarrow> Some (hop_base_mint first)
              | _ \<Rightarrow> input_account_mint X instr meta)
      | _ \<Rightarrow> input_account_mint X instr meta)"

text \<open>\<open>collect\<close> into an \<open>Option\<close> stops at the first hop that does not chain.\<close>
primrec multi_hop_sides :: "pump_swap_hop list \<Rightarrow> pubkey \<Rightarrow> bool list option" where
  "multi_hop_sides [] current = Some []"
| "multi_hop_sides (hop # hops) current =
     (if current = hop_quote_mint hop then
        map_option (Cons True) (multi_hop_sides hops (hop_base_mint hop))
      else if current = hop_base_mint hop then
        map_option (Cons False) (multi_hop_sides hops (hop_quote_mint hop))
      else None)"

section \<open>Panic freedom\<close>

definition hop_of_chunk_fn :: "bytes list \<Rightarrow> bytes \<Rightarrow> pump_swap_hop option" where
  "hop_of_chunk_fn full c = do {
     base \<leftarrow> hop_key full (c ! 0);
     quote \<leftarrow> hop_key full (c ! 1);
     pool \<leftarrow> hop_key full (c ! 2);
     Some \<lparr>hop_base_mint = base, hop_quote_mint = quote, hop_pool = pool\<rparr> }"

definition route_hops :: "compiled_instruction \<Rightarrow> bytes list \<Rightarrow> pump_swap_hop list" where
  "route_hops instr full = List.map_filter (hop_of_chunk_fn full) (chunks_exact 5 (drop 16 (ci_accounts instr)))"

lemma hop_of_chunk_closed:
  "length c = 5 \<Longrightarrow> hop_of_chunk full c = Some (hop_of_chunk_fn full c)"
  by (auto simp: hop_of_chunk_def hop_of_chunk_fn_def vec_get_def map_conv_bind_option comp_def
      split: option.splits)

lemma map_filter_id_map: "List.map_filter id (map f xs) = List.map_filter f xs"
  by (induction xs) (auto simp: List.map_filter_simps split: option.splits)

lemma multi_hop_swap_hops_closed [panic_free]:
  "multi_hop_swap_hops instr full = Some (route_hops instr full)"
proof -
  have rest: "unwrap_or [] (slice_from (ci_accounts instr) 16) = drop 16 (ci_accounts instr)"
    by (simp add: slice_from_def)
  have "map_may_panic (hop_of_chunk full) (chunks_exact 5 (drop 16 (ci_accounts instr))) =
      Some (map (hop_of_chunk_fn full) (chunks_exact 5 (drop 16 (ci_accounts instr))))"
    by (intro map_may_panic_Some hop_of_chunk_closed) (rule chunks_exact_length)
  then show ?thesis
    by (simp add: multi_hop_swap_hops_def rest route_hops_def map_filter_id_map)
qed

lemma hop_key_length: "hop_key full i = Some k \<Longrightarrow> length k = 32"
  by (auto simp: hop_key_def try_array_Some_iff split: Option.bind_splits)

lemma in_map_filter: "y \<in> set (List.map_filter f xs) \<longleftrightarrow> (\<exists>x \<in> set xs. f x = Some y)"
  by (induction xs) (auto simp: List.map_filter_simps split: option.splits)

lemma route_hop_keys:
  "h \<in> set (route_hops instr full) \<Longrightarrow>
     length (hop_base_mint h) = 32 \<and> length (hop_quote_mint h) = 32 \<and> length (hop_pool h) = 32"
  by (auto simp: route_hops_def in_map_filter hop_of_chunk_fn_def bind_eq_Some_conv hop_key_length)

section \<open>Routes as chains\<close>

text \<open>What a hop takes and what it passes on.\<close>

definition takes :: "pump_swap_hop \<Rightarrow> bool \<Rightarrow> pubkey" where
  "takes h is_buy = (if is_buy then hop_quote_mint h else hop_base_mint h)"

definition gives :: "pump_swap_hop \<Rightarrow> bool \<Rightarrow> pubkey" where
  "gives h is_buy = (if is_buy then hop_base_mint h else hop_quote_mint h)"

text \<open>A route that can be walked from \<open>m\<close>, and the mint it ends with.\<close>

primrec chains :: "pubkey \<Rightarrow> (pump_swap_hop \<times> bool) list \<Rightarrow> bool" where
  "chains m [] \<longleftrightarrow> True"
| "chains m (h # route) \<longleftrightarrow> m = takes (fst h) (snd h) \<and> chains (gives (fst h) (snd h)) route"

primrec route_end :: "pubkey \<Rightarrow> (pump_swap_hop \<times> bool) list \<Rightarrow> pubkey" where
  "route_end m [] = m"
| "route_end m (h # route) = route_end (gives (fst h) (snd h)) route"

text \<open>Every pool trades two different mints.\<close>

definition proper_hops :: "pump_swap_hop list \<Rightarrow> bool" where
  "proper_hops hops \<longleftrightarrow> list_all (\<lambda>h. hop_base_mint h \<noteq> hop_quote_mint h) hops"

lemma sides_length: "multi_hop_sides hops m = Some sides \<Longrightarrow> length sides = length hops"
  by (induction hops arbitrary: m sides) (auto split: if_splits)

lemma sides_chain: "multi_hop_sides hops m = Some sides \<Longrightarrow> chains m (zip hops sides)"
  by (induction hops arbitrary: m sides) (auto simp: takes_def gives_def split: if_splits)

lemma chain_sides:
  assumes "proper_hops hops" "length sides = length hops" "chains m (zip hops sides)"
  shows "multi_hop_sides hops m = Some sides"
  using assms
proof (induction hops arbitrary: m sides)
  case (Cons h hops)
  from Cons.prems(2) obtain s ss where s: "sides = s # ss" by (cases sides) auto
  show ?case
    using Cons.prems by (cases s) (auto simp: s takes_def gives_def proper_hops_def Cons.IH)
qed simp

text \<open>C36. The sides of a route are exactly the chain of exchanges from the input mint: on pools of two
  different mints, the result is \<open>Some sides\<close> when each hop, traded on its side, takes what the hop
  before it gives and the first takes the input mint. So the sides are unique, and \<open>None\<close> means that
  no assignment of sides chains.\<close>

theorem multi_hop_sides_chain:
  assumes "proper_hops hops"
  shows "multi_hop_sides hops m = Some sides \<longleftrightarrow> length sides = length hops \<and> chains m (zip hops sides)"
  using sides_length sides_chain chain_sides [OF assms] by blast

text \<open>A route whose hops all trade the same way starts or ends in the user's wallet.\<close>

lemma route_end_buys:
  "hops \<noteq> [] \<Longrightarrow> route_end m (zip hops (replicate (length hops) True)) = hop_base_mint (last hops)"
proof (induction hops arbitrary: m)
  case (Cons h hops)
  then show ?case by (cases hops) (auto simp: gives_def)
qed simp

text \<open>On a route that chains and whose hops all trade the same way, a hop is routed exactly when its
  coin is neither what the user is left with on a buy route nor what the user spends on a sell route.
  So the hop of the user's own coin is never routed, nor is the hop of a one-hop route.\<close>

theorem multi_hop_is_routed_spec:
  assumes "hops \<noteq> []" "multi_hop_sides hops m = Some (replicate (length hops) is_buy)"
  shows "multi_hop_is_routed hops coin is_buy \<longleftrightarrow>
         coin \<noteq> (if is_buy then route_end m (zip hops (replicate (length hops) is_buy)) else m)"
proof (cases is_buy)
  case True
  then show ?thesis
    using assms(1) by (auto simp: multi_hop_is_routed_def vec_get_def route_end_buys last_conv_nth)
next
  case False
  obtain h hs where h: "hops = h # hs" using assms(1) by (cases hops) auto
  from sides_chain [OF assms(2)] False have "m = hop_base_mint h" by (simp add: h takes_def)
  then show ?thesis using False by (auto simp: multi_hop_is_routed_def h)
qed

text \<open>The input mint of a failed route is the one the route chains from: for two or more hops on
  pools of two different mints, if the route chains from \<open>m\<close> and the second hop does not trade \<open>m\<close>,
  the inference returns \<open>m\<close>, without looking at any token balance.\<close>

theorem multi_hop_input_mint_chains:
  assumes "proper_hops (first # second # hops)"
    and "multi_hop_sides (first # second # hops) m \<noteq> None"
    and "m \<notin> {hop_base_mint second, hop_quote_mint second}"
  shows "multi_hop_input_mint X instr meta (first # second # hops) = Some m"
  using assms by (auto simp: multi_hop_input_mint_def proper_hops_def split: if_splits)

section \<open>Concrete routes\<close>

definition demo_key :: "nat \<Rightarrow> pubkey" where
  "demo_key n = replicate 32 (word_of_nat n)"

text \<open>SOL (1) to coin 2 to coin 3.\<close>
definition demo_hops :: "pump_swap_hop list" where
  "demo_hops = [\<lparr>hop_base_mint = demo_key 2, hop_quote_mint = demo_key 1, hop_pool = demo_key 10\<rparr>,
                \<lparr>hop_base_mint = demo_key 3, hop_quote_mint = demo_key 2, hop_pool = demo_key 11\<rparr>]"

theorem multi_hop_sides_chain_witness:
  "multi_hop_sides demo_hops (demo_key 1) = Some [True, True] \<and>
   multi_hop_sides demo_hops (demo_key 3) \<noteq> Some [False, False]"
proof
  have p: "proper_hops demo_hops" by code_simp
  show "multi_hop_sides demo_hops (demo_key 1) = Some [True, True]"
    by (subst multi_hop_sides_chain [OF p]) code_simp
  show "multi_hop_sides demo_hops (demo_key 3) \<noteq> Some [False, False]"
    by (subst multi_hop_sides_chain [OF p]) code_simp
qed

theorem multi_hop_is_routed_spec_witness:
  "multi_hop_is_routed demo_hops (demo_key 2) True \<and> \<not> multi_hop_is_routed demo_hops (demo_key 3) True"
proof -
  have s: "multi_hop_sides demo_hops (demo_key 1) = Some (replicate (length demo_hops) True)" by code_simp
  have e: "route_end (demo_key 1) (zip demo_hops (replicate (length demo_hops) True)) = demo_key 3" by code_simp
  have "demo_hops \<noteq> []" "demo_key 2 \<noteq> demo_key 3" by code_simp+
  with multi_hop_is_routed_spec [OF _ s] e show ?thesis by simp
qed

theorem multi_hop_input_mint_chains_witness:
  "multi_hop_input_mint demo_ext \<lparr>ci_program_id_index = 0, ci_accounts = [], ci_data = []\<rparr>
     (demo_meta []) demo_hops = Some (demo_key 1)"
proof -
  have "proper_hops demo_hops" by code_simp
  moreover have "multi_hop_sides demo_hops (demo_key 1) \<noteq> None" by code_simp
  moreover have "demo_key 1 \<notin> {demo_key 3, demo_key 2}" by code_simp
  ultimately show ?thesis
    using multi_hop_input_mint_chains 
      [of "demo_hops ! 0" "demo_hops ! 1" "[]" "demo_key 1" demo_ext
          "\<lparr>ci_program_id_index = 0, ci_accounts = [], ci_data = []\<rparr>" "demo_meta []"]
    by (simp add: demo_hops_def)
qed

end
