(* ===== verification/Fees.thy ===== *)
theory Fees
  imports Wire
begin

text \<open>
  Landing fees of a transaction (\<open>lookup_tip_provider\<close> and \<open>extract_transaction_fees\<close> of
  \<open>src/src/utils/transaction.rs\<close>): the compute-unit price, the tip paid to a landing service and the
  name of the service. The theorems give the two loops as searches and show that the order in which
  the provider lists are tried does not matter.
\<close>

section \<open>Operations\<close>

definition lookup_tip_provider :: "string \<Rightarrow> string option" where
  "lookup_tip_provider pubkey =
     (if pubkey \<in> set TEMPORAL_TIP_ADDRESSES then Some ''Temporal''
      else if pubkey \<in> set NEXTBLOCK_TIP_ADDRESSES then Some ''NextBlock''
      else if pubkey \<in> set JITO_TIP_ADDRESSES then Some ''Jito''
      else if pubkey \<in> set ZEROSLOT_TIP_ADDRESSES then Some ''ZeroSlot''
      else if pubkey \<in> set BLOCKROUTE_TIP_ADDRESSES then Some ''BlockRoute''
      else if pubkey \<in> set NODE_ONE_TIP_ADDRESSES then Some ''NodeOne''
      else if pubkey \<in> set ASTRALANE_TIP_ADDRESSES then Some ''Astralane''
      else if pubkey \<in> set BLOCKRAZOR_TIP_ADDRESSES then Some ''BlockRazor''
      else if pubkey \<in> set HELIUS_TIP_ADDRESSES then Some ''HeliusSender''
      else if pubkey \<in> set STELLIUM_TIP_ADDRESSES then Some ''Stellium''
      else if pubkey \<in> set SOYAS_TIP_ADDRESSES then Some ''Soyas''
      else if pubkey \<in> set MOONLAND_TIP_ADDRESSES then Some ''Moonland''
      else if pubkey \<in> set FALCON_TIP_ADDRESSES then Some ''Falcon''
      else None)"

text \<open>The first loop, from the value of \<open>priority_fee\<close> so far.\<close>
primrec priority_fee_loop :: "nat \<Rightarrow> compiled_instruction list \<Rightarrow> u64 option \<Rightarrow> u64 option may_panic" where
  "priority_fee_loop idx [] priority_fee = Some priority_fee"
| "priority_fee_loop idx (instr # instrs) priority_fee = do {
     is_price \<leftarrow> (if unat (ci_program_id_index instr) = idx \<and> 9 \<le> length (ci_data instr)
                  then do { tag \<leftarrow> vec_get (ci_data instr) 0; Some (tag = 3) }
                  else Some False);
     priority_fee \<leftarrow> (if is_price
                  then do {
                    s \<leftarrow> slice_index (ci_data instr) 1 9;
                    arr \<leftarrow> try_array 8 s;
                    Some (Some (from_le_bytes arr)) }
                  else Some priority_fee);
     priority_fee_loop idx instrs priority_fee }"

text \<open>The second loop, over the accounts from position \<open>idx\<close>: it stops at the first tip.\<close>
primrec tip_loop ::
  "externals \<Rightarrow> u64 list \<Rightarrow> u64 list \<Rightarrow> nat \<Rightarrow> bytes list \<Rightarrow> (u64 \<times> string) option may_panic" where
  "tip_loop X pre_balances post_balances idx [] = Some None"
| "tip_loop X pre_balances post_balances idx (account # accounts) =
     (let next = tip_loop X pre_balances post_balances (idx + 1) accounts in
      case try_array 32 account of
        None \<Rightarrow> next
      | Some arr \<Rightarrow>
          (case lookup_tip_provider (x_pubkey_to_string X arr) of
             None \<Rightarrow> next
           | Some service \<Rightarrow>
               if idx < length pre_balances \<and> idx < length post_balances
               then do {
                 pre \<leftarrow> vec_get pre_balances idx;
                 post \<leftarrow> vec_get post_balances idx;
                 if pre < post then Some (Some (post - pre, service)) else next }
               else next))"

definition extract_transaction_fees ::
  "externals \<Rightarrow> message \<Rightarrow> transaction_status_meta \<Rightarrow> bytes list \<Rightarrow>
   (u64 option \<times> u64 option \<times> string option) may_panic" where
  "extract_transaction_fees X msg meta full_accounts = do {
     let compute_budget_index =
       position (\<lambda>key. case try_array 32 key of Some arr \<Rightarrow> arr = x_compute_budget_id X | None \<Rightarrow> False)
         full_accounts;
     priority_fee \<leftarrow> (case compute_budget_index of
         Some idx \<Rightarrow> priority_fee_loop idx (msg_instructions msg) None
       | None \<Rightarrow> Some None);
     tip \<leftarrow> tip_loop X (m_pre_balances meta) (m_post_balances meta) 0 full_accounts;
     let transfer_tip = map_option fst tip;
     let tip_provider = map_option snd tip;
     let tip_provider =
       (if tip_provider = None
        then if 0 < unwrap_or 0 priority_fee then Some ''TPU'' else Some ''RPC''
        else tip_provider);
     Some (priority_fee, transfer_tip, tip_provider) }"

section \<open>The provider table\<close>

text \<open>The providers with their accounts, in the reverse of the order in which the code tries them.\<close>

definition tip_providers :: "(string \<times> string list) list" where
  "tip_providers =
     [(''Falcon'', FALCON_TIP_ADDRESSES), (''Moonland'', MOONLAND_TIP_ADDRESSES),
      (''Soyas'', SOYAS_TIP_ADDRESSES), (''Stellium'', STELLIUM_TIP_ADDRESSES),
      (''HeliusSender'', HELIUS_TIP_ADDRESSES), (''BlockRazor'', BLOCKRAZOR_TIP_ADDRESSES),
      (''Astralane'', ASTRALANE_TIP_ADDRESSES), (''NodeOne'', NODE_ONE_TIP_ADDRESSES),
      (''BlockRoute'', BLOCKROUTE_TIP_ADDRESSES), (''ZeroSlot'', ZEROSLOT_TIP_ADDRESSES),
      (''Jito'', JITO_TIP_ADDRESSES), (''NextBlock'', NEXTBLOCK_TIP_ADDRESSES),
      (''Temporal'', TEMPORAL_TIP_ADDRESSES)]"

definition tip_table_of :: "(string \<times> string list) list \<Rightarrow> (string \<times> string) list" where
  "tip_table_of ps = concat (map (\<lambda>(label, keys). map (\<lambda>k. (k, label)) keys) ps)"

definition tip_table :: "(string \<times> string) list" where
  "tip_table = tip_table_of tip_providers"

text \<open>Characters 17 to 19 already tell the addresses apart.\<close>

primrec char_key :: "string \<Rightarrow> int" where
  "char_key [] = 0"
| "char_key (c # cs) = of_char c + 256 * char_key cs"

definition fingerprint :: "string \<Rightarrow> int" where
  "fingerprint s = char_key (take 3 (drop 17 s))"

lemmas tip_addresses =
  FALCON_TIP_ADDRESSES_def MOONLAND_TIP_ADDRESSES_def SOYAS_TIP_ADDRESSES_def
  STELLIUM_TIP_ADDRESSES_def HELIUS_TIP_ADDRESSES_def BLOCKRAZOR_TIP_ADDRESSES_def
  ASTRALANE_TIP_ADDRESSES_def NODE_ONE_TIP_ADDRESSES_def BLOCKROUTE_TIP_ADDRESSES_def
  ZEROSLOT_TIP_ADDRESSES_def JITO_TIP_ADDRESSES_def NEXTBLOCK_TIP_ADDRESSES_def
  TEMPORAL_TIP_ADDRESSES_def

lemma tip_table_distinct: "distinct (map fst tip_table)"
proof -
  have "map fst tip_table = concat (map snd tip_providers)"
    by (simp add: tip_table_def tip_table_of_def map_concat case_prod_unfold comp_def)
  moreover have "distinct (map fingerprint (concat (map snd tip_providers)))"
    by (simp add: tip_providers_def fingerprint_def tip_addresses)
  ultimately show ?thesis by (simp only: distinct_map)
qed

lemma map_of_same_label:
  "map_of (map (\<lambda>k. (k, l)) keys @ rest) x = (if x \<in> set keys then Some l else map_of rest x)"
  by (induction keys) auto

lemma map_of_tip_table_of:
  "map_of (tip_table_of []) k = None"
  "map_of (tip_table_of ((l, keys) # ps)) k = (if k \<in> set keys then Some l else map_of (tip_table_of ps) k)"
  by (simp_all add: tip_table_of_def map_of_same_label del: map_of_append)

lemma lookup_tip_source_order: "lookup_tip_provider k = map_of (tip_table_of (rev tip_providers)) k"
  unfolding lookup_tip_provider_def tip_providers_def rev.simps append.simps map_of_tip_table_of by (rule refl)

lemma tip_table_rev: "mset (tip_table_of (rev ps)) = mset (tip_table_of ps)"
  by (induction ps) (auto simp: tip_table_of_def)

lemma map_of_permute:
  assumes "mset xs = mset ys" "distinct (map fst ys)"
  shows "map_of xs = map_of ys"
proof -
  from assms have d: "distinct (map fst xs)" by (metis mset_map mset_eq_imp_distinct_iff)
  from assms(1) have "set xs = set ys" by (rule mset_eq_setD)
  with assms(2) d show ?thesis by (metis map_of_eq_Some_iff option.exhaust ext)
qed

text \<open>The order in which the provider lists are tried is irrelevant: the thirteen lists share no
  address, and the chain of \<open>contains\<close> tests is the lookup in the table of all of them, read in the
  opposite order.\<close>

theorem lookup_tip_provider_table:
  "lookup_tip_provider k = map_of tip_table k \<and> distinct (map fst tip_table)"
  using map_of_permute [OF tip_table_rev tip_table_distinct [unfolded tip_table_def]] tip_table_distinct
  by (simp add: lookup_tip_source_order tip_table_def)

section \<open>The two loops\<close>

definition sets_price :: "nat \<Rightarrow> compiled_instruction \<Rightarrow> bool" where
  "sets_price idx instr \<longleftrightarrow>
     unat (ci_program_id_index instr) = idx \<and> 9 \<le> length (ci_data instr) \<and> ci_data instr ! 0 = 3"

definition price_of :: "compiled_instruction \<Rightarrow> u64" where
  "price_of instr = from_le_bytes (take 8 (drop 1 (ci_data instr)))"

text \<open>The price that is in force: that of the last \<open>SetComputeUnitPrice\<close>.\<close>
definition priority_fee_of :: "externals \<Rightarrow> message \<Rightarrow> bytes list \<Rightarrow> u64 option" where
  "priority_fee_of X msg full =
     (case position (\<lambda>key. key = x_compute_budget_id X \<and> length key = 32) full of
        None \<Rightarrow> None
      | Some idx \<Rightarrow> map_option price_of (List.find (sets_price idx) (rev (msg_instructions msg))))"

text \<open>The tip that account \<open>i\<close> received, when it is an account of a landing service.\<close>
definition tip_paid :: "externals \<Rightarrow> u64 list \<Rightarrow> u64 list \<Rightarrow> nat \<Rightarrow> bytes \<Rightarrow> (u64 \<times> string) option" where
  "tip_paid X pre post i account =
     (if length account = 32 \<and> i < length pre \<and> i < length post \<and> pre ! i < post ! i
      then map_option (\<lambda>s. (post ! i - pre ! i, s)) (lookup_tip_provider (x_pubkey_to_string X account))
      else None)"

definition first_tip :: "externals \<Rightarrow> transaction_status_meta \<Rightarrow> bytes list \<Rightarrow> (u64 \<times> string) option" where
  "first_tip X meta full =
     (let paid = (\<lambda>(i, account). tip_paid X (m_pre_balances meta) (m_post_balances meta) i account)
      in Option.bind (List.find (\<lambda>x. paid x \<noteq> None) (List.enumerate 0 full)) paid)"

lemma priority_fee_loop_closed [panic_free]:
  "priority_fee_loop idx instrs fee =
     Some (case List.find (sets_price idx) (rev instrs) of None \<Rightarrow> fee | Some i \<Rightarrow> Some (price_of i))"
proof (induction instrs arbitrary: fee)
  case (Cons instr instrs)
  have "priority_fee_loop idx (instr # instrs) fee =
      priority_fee_loop idx instrs (if sets_price idx instr then Some (price_of instr) else fee)"
    by (cases "9 \<le> length (ci_data instr)") (auto simp: sets_price_def price_of_def rust_defs min_def)
  moreover have "List.find P (xs @ [x]) = (case List.find P xs of None \<Rightarrow> if P x then Some x else None | Some y \<Rightarrow> Some y)"
    for P :: "compiled_instruction \<Rightarrow> bool" and xs x
    by (induction xs) auto
  ultimately show ?case
    by (simp add: Cons.IH split: option.splits)
qed simp

lemma tip_loop_closed [panic_free]:
  "tip_loop X pre post n accounts =
     Some (Option.bind (List.find (\<lambda>(i, account). tip_paid X pre post i account \<noteq> None)
             (List.enumerate n accounts)) (\<lambda>(i, account). tip_paid X pre post i account))"
proof (induction accounts arbitrary: n)
  case (Cons account accounts)
  then show ?case
    by (auto simp: Let_def tip_paid_def rust_defs split: option.splits)
qed simp

text \<open>C37. The extraction returns without panicking, for any balances and instruction data: the
  priority fee is the payload of the last \<open>SetComputeUnitPrice\<close>, the tip is the gain of the first
  account in transaction order that belongs to a landing service and gained, and the provider is
  never missing: it is the service of that tip, else \<open>TPU\<close> exactly when a positive priority fee was
  set, else \<open>RPC\<close>.\<close>

theorem extract_transaction_fees_spec:
  "extract_transaction_fees X msg meta full =
     Some (priority_fee_of X msg full,
           map_option fst (first_tip X meta full),
           Some (case first_tip X meta full of
                   Some (_, service) \<Rightarrow> service
                 | None \<Rightarrow> if \<exists>fee>0. priority_fee_of X msg full = Some fee then ''TPU'' else ''RPC''))"
proof -
  have pos: "(case try_array 32 key of Some arr \<Rightarrow> arr = x_compute_budget_id X | None \<Rightarrow> False) \<longleftrightarrow>
      key = x_compute_budget_id X \<and> length key = 32" for key
    by (auto simp: try_array_def)
  have fee: "(case position (\<lambda>key. key = x_compute_budget_id X \<and> length key = 32) full of
        Some idx \<Rightarrow> priority_fee_loop idx (msg_instructions msg) None | None \<Rightarrow> Some None) =
      Some (priority_fee_of X msg full)"
    by (auto simp: priority_fee_of_def panic_free split: option.splits)
  have tip: "tip_loop X (m_pre_balances meta) (m_post_balances meta) 0 full = Some (first_tip X meta full)"
    by (simp add: panic_free first_tip_def Let_def case_prod_unfold)
  have positive: "0 < unwrap_or 0 p \<longleftrightarrow> (\<exists>fee>0. p = Some fee)" for p :: "u64 option"
    by (cases p) auto
  show ?thesis
    unfolding extract_transaction_fees_def pos Let_def fee tip positive
    by (cases "first_tip X meta full") auto
qed

end
