(* ===== verification/MarketCap.thy ===== *)
theory MarketCap
  imports Wire Float64
begin

text \<open>
  Quote currencies and the market cap of \<open>src/src/utils/transaction.rs\<close>. The market cap is computed
  in \<open>f64\<close>; it is related to the exact rational price \<open>quote * 10^15 / base\<close>, which does not mention
  the quote currency, by an error bound.
\<close>

section \<open>Quote currencies\<close>

datatype quote_currency = Sol | Usdc | Other pubkey

definition is_usdc :: "quote_currency \<Rightarrow> bool" where
  "is_usdc c = (case c of Usdc \<Rightarrow> True | _ \<Rightarrow> False)"

definition base_unit :: "quote_currency \<Rightarrow> f64" where
  "base_unit c = (case c of Sol \<Rightarrow> SOL_BASE_UNIT | Usdc \<Rightarrow> USDC_BASE_UNIT | Other _ \<Rightarrow> 1)"

definition quote_label :: "quote_currency \<Rightarrow> string" where
  "quote_label c = (case c of Sol \<Rightarrow> ''SOL'' | Usdc \<Rightarrow> ''USDC'' | Other _ \<Rightarrow> ''OTHER'')"

definition quote_currency_of :: "externals \<Rightarrow> string \<Rightarrow> quote_currency option" where
  "quote_currency_of X quote_mint =
     (if quote_mint = WSOL_MINT then Some Sol
      else if quote_mint = USDC_MINT then Some Usdc
      else map_option Other (x_pubkey_from_str X quote_mint))"

lemma is_usdc_iff [simp]: "is_usdc c \<longleftrightarrow> c = Usdc"
  by (cases c) (simp_all add: is_usdc_def)

lemma base_unit_pos [simp]: "0 < base_unit c"
  by (cases c) (simp_all add: base_unit_def constants)

lemma base_unit_nonneg [simp]: "0 \<le> base_unit c"
  by (simp add: less_imp_le)

lemma base_unit_nonzero [simp]: "base_unit c \<noteq> 0"
  using base_unit_pos [of c] by linarith

lemma base_unit_range: "1 \<le> base_unit c" "base_unit c \<le> 10 ^ 9"
  by (cases c; simp add: base_unit_def constants)+

text \<open>The text of a key is classified by its own mint; no valid mint is rejected.\<close>

lemma quote_currency_of_key:
  assumes "pubkey_text_ok X" "length k = 32"
  shows "quote_currency_of X (x_pubkey_to_string X k) =
    Some (if x_pubkey_to_string X k = WSOL_MINT then Sol
          else if x_pubkey_to_string X k = USDC_MINT then Usdc else Other k)"
  using pubkey_text_roundtrip [OF assms] by (simp add: quote_currency_of_def)

section \<open>Market cap\<close>

definition get_market_cap_in_quote ::
  "u64 \<Rightarrow> u64 \<Rightarrow> u64 \<Rightarrow> u64 \<Rightarrow> bool \<Rightarrow> quote_currency \<Rightarrow> u64" where
  "get_market_cap_in_quote pool_base pool_quote token_amount quote_amount is_buy ccy =
     (if pool_base = 0 then 0
      else
        let base_real = f64_div (f64_of_u64 pool_base) 1000000;
            quote_base_unit = base_unit ccy;
            quote_real = f64_div (f64_of_u64 pool_quote) quote_base_unit;
            (quote_real, base_real) =
              (if is_buy then
                 (f64_add quote_real (f64_div (f64_of_u64 quote_amount) quote_base_unit),
                  f64_sub base_real (f64_div (f64_of_u64 token_amount) 1000000))
               else
                 (f64_sub quote_real (f64_div (f64_of_u64 quote_amount) quote_base_unit),
                  f64_add base_real (f64_div (f64_of_u64 token_amount) 1000000)))
        in if base_real \<le> 0 then 0
           else
             let price_per_token_in_quote = f64_div quote_real base_real;
                 total_supply = 1000000000 :: u64
             in f64_as_u64 (f64_round
                  (f64_mul (f64_mul price_per_token_in_quote (f64_of_u64 total_supply))
                     quote_base_unit)))"

definition get_market_cap_from_reserves :: "u64 \<Rightarrow> u64 \<Rightarrow> quote_currency \<Rightarrow> u64" where
  "get_market_cap_from_reserves base_reserves quote_reserves ccy =
     get_market_cap_in_quote base_reserves quote_reserves 0 0 False ccy"

section \<open>The computed price\<close>

text \<open>The intermediate results of the computation from post-trade reserves, in evaluation order.\<close>

definition base_val :: "u64 \<Rightarrow> f64" where
  "base_val base = f64_div (f64_of_u64 base) 1000000"

definition quote_val :: "u64 \<Rightarrow> quote_currency \<Rightarrow> f64" where
  "quote_val quote ccy = f64_div (f64_of_u64 quote) (base_unit ccy)"

definition price_val :: "u64 \<Rightarrow> u64 \<Rightarrow> quote_currency \<Rightarrow> f64" where
  "price_val base quote ccy = f64_div (quote_val quote ccy) (base_val base)"

definition supply_val :: "u64 \<Rightarrow> u64 \<Rightarrow> quote_currency \<Rightarrow> f64" where
  "supply_val base quote ccy = f64_mul (price_val base quote ccy) 1000000000"

definition cap_val :: "u64 \<Rightarrow> u64 \<Rightarrow> quote_currency \<Rightarrow> f64" where
  "cap_val base quote ccy = f64_mul (supply_val base quote ccy) (base_unit ccy)"

lemmas cap_defs = base_val_def quote_val_def price_val_def supply_val_def cap_val_def
lemmas f64_ops = f64_of_u64_def f64_add_def f64_sub_def f64_mul_def f64_div_def

lemma f64_of_u64_supply: "f64_of_u64 1000000000 = 1000000000"
  using rnd_of_int_small [of 1000000000] by (simp add: f64_of_u64_def)

lemma f64_of_u64_0: "f64_of_u64 0 = 0"
  by (simp add: f64_of_u64_def)

lemma rat_of_word_nonneg [simp]: "0 \<le> (unsigned w :: rat)"
  by (metis of_nat_0_le_iff of_nat_unat)

lemma rat_of_word_pos [simp]: "0 < (unsigned w :: rat) \<longleftrightarrow> w \<noteq> 0"
  by (metis of_nat_0_less_iff of_nat_unat unat_gt_0)

lemma of_nat_unat_pos: "w \<noteq> 0 \<Longrightarrow> 0 < (of_nat (unat w) :: rat)"
  by simp

lemma base_val_pos: "base \<noteq> 0 \<Longrightarrow> 0 < base_val base"
  by (simp add: base_val_def f64_ops f64.rd_pos of_nat_unat_pos)

lemma vals_nonneg:
  "0 \<le> quote_val quote ccy" "0 \<le> price_val base quote ccy" "0 \<le> supply_val base quote ccy"
  "0 \<le> cap_val base quote ccy" "0 \<le> base_val base"
  by (simp_all add: cap_defs f64_ops f64.rd_nonneg base_unit_nonneg)

text \<open>From reserves, the trade delta is zero and rounding it away changes nothing.\<close>

lemma market_cap_closed:
  "get_market_cap_from_reserves base quote ccy =
     (if base = 0 then 0 else f64_as_u64 (f64_round (cap_val base quote ccy)))"
proof (cases "base = 0")
  case False
  have "f64_sub (quote_val quote ccy) 0 = quote_val quote ccy"
    "f64_add (base_val base) 0 = base_val base"
    by (simp_all add: f64_ops quote_val_def base_val_def rnd_idem)
  then show ?thesis
    using base_val_pos [OF False] False
    by (simp add: get_market_cap_from_reserves_def get_market_cap_in_quote_def Let_def
          f64_of_u64_0 f64_of_u64_supply f64_div_def [of 0]
          flip: base_val_def quote_val_def price_val_def supply_val_def cap_val_def)
qed (simp add: get_market_cap_from_reserves_def get_market_cap_in_quote_def)

text \<open>The exact market cap: quote units per base unit, times the supply of \<open>10^15\<close> base units.\<close>

definition exact_market_cap :: "u64 \<Rightarrow> u64 \<Rightarrow> rat" where
  "exact_market_cap base quote = of_nat (unat quote) * 10 ^ 15 / of_nat (unat base)"

abbreviation ulp :: rat where
  "ulp \<equiv> 1 / 2 ^ 53"

lemma base_val_approx: "approx ulp 2 (of_nat (unat base) / 1000000) (base_val base)"
  unfolding base_val_def f64_ops numeral_2_eq_2
  by (intro f64.approx_rd f64.approx_divide_const f64.approx_refl) simp_all

lemma quote_val_approx: "approx ulp 2 (of_nat (unat quote) / base_unit ccy) (quote_val quote ccy)"
  unfolding quote_val_def f64_ops numeral_2_eq_2
  by (intro f64.approx_rd f64.approx_divide_const f64.approx_refl) simp_all

lemma price_val_approx:
  assumes "base \<noteq> 0"
  shows "approx ulp 5 ((of_nat (unat quote) / base_unit ccy) / (of_nat (unat base) / 1000000))
           (price_val base quote ccy)"
proof -
  have "approx ulp (2 + 2) ((of_nat (unat quote) / base_unit ccy) / (of_nat (unat base) / 1000000))
          (quote_val quote ccy / base_val base)"
    using assms base_val_pos [OF assms]
    by (intro f64.approx_divide quote_val_approx base_val_approx)
       simp_all
  then have "approx ulp (Suc (2 + 2))
      ((of_nat (unat quote) / base_unit ccy) / (of_nat (unat base) / 1000000))
      (rnd (quote_val quote ccy / base_val base))"
    by (intro f64.approx_rd) simp_all
  then show ?thesis by (simp add: price_val_def f64_div_def)
qed

lemma supply_val_approx:
  assumes "base \<noteq> 0"
  shows "approx ulp 6 ((of_nat (unat quote) / base_unit ccy) / (of_nat (unat base) / 1000000) * 1000000000)
           (supply_val base quote ccy)"
  using f64.approx_rd [OF _ f64.approx_mult_const [OF price_val_approx [OF assms, of quote ccy], of 1000000000]]
  by (simp add: supply_val_def f64_mul_def less_imp_le)

lemma cap_val_approx:
  assumes "base \<noteq> 0"
  shows "approx ulp 7 (exact_market_cap base quote) (cap_val base quote ccy)"
proof -
  have eq: "(of_nat (unat quote) / base_unit ccy) / (of_nat (unat base) / 1000000) * 1000000000 * base_unit ccy =
        exact_market_cap base quote"
    by (simp add: exact_market_cap_def field_simps)
  have "approx ulp (Suc 6) (exact_market_cap base quote) (rnd (supply_val base quote ccy * base_unit ccy))"
    using f64.approx_rd [OF _ f64.approx_mult_const
      [OF supply_val_approx [OF assms, of quote ccy] base_unit_nonneg [of ccy]]]
    unfolding eq by (simp add: exact_market_cap_def)
  then show ?thesis by (simp add: cap_val_def f64_mul_def)
qed

lemma cap_val_error:
  assumes "base \<noteq> 0"
  shows "\<bar>cap_val base quote ccy - exact_market_cap base quote\<bar> \<le> exact_market_cap base quote / 2 ^ 49"
proof -
  have e: "0 \<le> exact_market_cap base quote" by (simp add: exact_market_cap_def)
  define E where "E = exact_market_cap base quote"
  define v where "v = cap_val base quote ccy"
  have b: "E * (1 - of_nat 7 * ulp) \<le> v" "v \<le> E * (1 + 2 * of_nat 7 * ulp)"
    using approx_bounds [OF cap_val_approx [OF assms, of quote ccy] e] by (simp_all add: E_def v_def)
  have "E - v \<le> E * (7 * ulp)" "v - E \<le> E * (14 * ulp)"
    using b by (simp_all add: algebra_simps)
  moreover have "E * (7 * ulp) \<le> E * (1 / 2 ^ 49)" "E * (14 * ulp) \<le> E * (1 / 2 ^ 49)"
    using e by (auto simp: E_def intro!: mult_left_mono)
  ultimately have "\<bar>v - E\<bar> \<le> E * (1 / 2 ^ 49)" by (simp only: abs_le_iff) linarith
  then show ?thesis by (simp add: E_def v_def)
qed

section \<open>Properties\<close>

lemma f64_as_u64_cases:
  assumes "0 \<le> i"
  shows "of_nat (unat (f64_as_u64 i)) = (of_int (min i (2 ^ 64 - 1)) :: rat)"
proof (cases "i < 2 ^ 64")
  case True
  with assms have "unat (f64_as_u64 i) = nat i"
    by (simp add: f64_as_u64_def unat_eq_nat_uint uint_word_of_int)
  with assms True show ?thesis by simp
next
  case False
  then have "f64_as_u64 i = - 1" "min i (2 ^ 64 - 1) = 2 ^ 64 - 1"
    using assms by (simp_all add: f64_as_u64_def)
  then show ?thesis by (simp add: unat_minus_1)
qed

lemma f64_round_nonneg: "0 \<le> x \<Longrightarrow> 0 \<le> f64_round x \<and> \<bar>of_int (f64_round x) - x\<bar> \<le> 1 / 2"
  unfolding f64_round_def abs_le_iff by (auto; linarith)

text \<open>C33. The market cap written for a successful trade is within one half unit plus a relative
  error of \<open>2^-49\<close> of the exact \<open>quote * 10^15 / base\<close>, saturating at \<open>u64::MAX\<close>, and it is 0 for an
  empty base side. The exact value does not mention the quote currency: its decimals cancel up to
  this error.\<close>

theorem market_cap_error_bound:
  "if base = 0 then get_market_cap_from_reserves base quote ccy = 0
   else if get_market_cap_from_reserves base quote ccy = - 1
   then 2 ^ 64 - 1 \<le> exact_market_cap base quote * (1 + 1 / 2 ^ 49) + 1 / 2
   else \<bar>of_nat (unat (get_market_cap_from_reserves base quote ccy)) - exact_market_cap base quote\<bar>
        \<le> exact_market_cap base quote / 2 ^ 49 + 1 / 2"
proof (cases "base = 0")
  case True
  then show ?thesis by (simp add: market_cap_closed)
next
  case False
  define i where "i = f64_round (cap_val base quote ccy)"
  define E where "E = exact_market_cap base quote"
  have i: "0 \<le> i" "\<bar>of_int i - cap_val base quote ccy\<bar> \<le> 1 / 2"
    using f64_round_nonneg [OF vals_nonneg(4), of base quote ccy] by (auto simp: i_def)
  have "\<bar>cap_val base quote ccy - E\<bar> \<le> E / 2 ^ 49"
    using cap_val_error [OF False] by (simp add: E_def)
  with i(2) have err: "\<bar>of_int i - E\<bar> \<le> E / 2 ^ 49 + 1 / 2" by linarith
  have mc: "get_market_cap_from_reserves base quote ccy = f64_as_u64 i"
    using False by (simp add: market_cap_closed i_def)
  show ?thesis
  proof (cases "i < 2 ^ 64 - 1")
    case True
    have v: "of_nat (unat (f64_as_u64 i)) = (of_int i :: rat)"
      using f64_as_u64_cases [OF i(1)] True by (simp add: min_def)
    have "f64_as_u64 i \<noteq> - 1"
    proof
      assume "f64_as_u64 i = - 1"
      with v have "of_int (int (2 ^ 64 - 1)) = (of_int i :: rat)" by (simp add: unat_minus_1)
      then have "i = int (2 ^ 64 - 1)" by (simp only: of_int_eq_iff)
      with True show False by simp
    qed
    with err v False show ?thesis by (simp add: mc E_def)
  next
    case large: False
    have "f64_as_u64 i = - 1"
    proof (cases "2 ^ 64 \<le> i")
      case False
      with large have "i = 2 ^ 64 - 1" by linarith
      then show ?thesis by (simp add: f64_as_u64_def)
    qed (simp add: f64_as_u64_def)
    moreover have "of_int (2 ^ 64 - 1) \<le> (of_int i :: rat)"
      using large by (simp only: of_int_le_iff not_less)
    then have "(2 ^ 64 - 1 :: rat) \<le> of_int i" by simp
    moreover have "of_int i \<le> E + (E / 2 ^ 49 + 1 / 2)" using err by linarith
    ultimately show ?thesis using False by (simp add: mc E_def algebra_simps)
  qed
qed

text \<open>The market cap is monotone: raising the quote reserves or lowering the base reserves never
  lowers it, in spite of the roundings.\<close>

theorem market_cap_monotone:
  assumes "base' \<noteq> 0" "base' \<le> base" "quote \<le> quote'"
  shows "get_market_cap_from_reserves base quote ccy \<le> get_market_cap_from_reserves base' quote' ccy"
proof (cases "base = 0")
  case False
  have of_u64: "f64_of_u64 a \<le> f64_of_u64 b" if "a \<le> b" for a b
    using that unfolding f64_of_u64_def by (intro rnd_mono) (simp add: word_le_nat_alt del: of_nat_unat)
  have b: "base_val base' \<le> base_val base" "0 < base_val base'"
    using of_u64 [OF assms(2)] base_val_pos [OF assms(1)]
    by (auto simp: base_val_def f64_div_def intro!: rnd_mono divide_right_mono)
  have q: "quote_val quote ccy \<le> quote_val quote' ccy"
    using of_u64 [OF assms(3)]
    by (auto simp: quote_val_def f64_div_def intro!: rnd_mono divide_right_mono)
  have "price_val base quote ccy \<le> price_val base' quote' ccy"
    unfolding price_val_def f64_div_def
    using b q vals_nonneg(1) [of quote ccy] by (intro rnd_mono frac_le) auto
  then have "cap_val base quote ccy \<le> cap_val base' quote' ccy"
    unfolding cap_val_def supply_val_def f64_mul_def
    by (intro rnd_mono mult_right_mono) simp_all
  then have "f64_round (cap_val base quote ccy) \<le> f64_round (cap_val base' quote' ccy)"
    using vals_nonneg(4) by (auto simp: f64_round_def intro!: floor_mono)
  then have le: "min (f64_round (cap_val base quote ccy)) (2 ^ 64 - 1)
      \<le> min (f64_round (cap_val base' quote' ccy)) (2 ^ 64 - 1)"
    by (rule min.mono) simp
  have "(of_nat (unat (f64_as_u64 (f64_round (cap_val base quote ccy)))) :: rat) \<le>
        of_nat (unat (f64_as_u64 (f64_round (cap_val base' quote' ccy))))"
    using f64_round_nonneg [OF vals_nonneg(4)] le
    by (simp only: f64_as_u64_cases of_int_le_iff)
  then show ?thesis
    using False assms(1) by (simp add: market_cap_closed word_le_nat_alt del: of_nat_unat)
qed (simp add: market_cap_closed)

text \<open>The market cap does depend on the quote currency in the last units: the same reserves
  give different values when quoted in SOL and in USDC.\<close>

theorem market_cap_unit_dependent:
  "get_market_cap_from_reserves 1 5 Sol = 5000000000000000 \<and>
   get_market_cap_from_reserves 1 5 Usdc = 5000000000000001"
proof -
  have "f64_round (cap_val 1 5 Sol) = 5000000000000000" by code_simp
  moreover have "f64_round (cap_val 1 5 Usdc) = 5000000000000001" by code_simp
  ultimately show ?thesis by (simp add: market_cap_closed f64_as_u64_def)
qed

theorem market_cap_monotone_witness:
  "(2 :: u64) \<noteq> 0 \<and> (2 :: u64) \<le> 3 \<and> (5 :: u64) \<le> 6 \<and>
   get_market_cap_from_reserves 3 5 Sol \<le> get_market_cap_from_reserves 2 6 Sol"
  using market_cap_monotone [of 2 3 5 6 Sol] by simp

text \<open>
  A value that is zero or a normal binary64 number: the unbounded exponent of \<open>rnd\<close> then gives the
  IEEE result.
\<close>

definition binary64_range :: "f64 \<Rightarrow> bool" where
  "binary64_range x \<longleftrightarrow> x = 0 \<or> (1 / 2 ^ 1022 \<le> \<bar>x\<bar> \<and> \<bar>x\<bar> < 2 ^ 1023)"

lemma approx_range:
  assumes "approx ulp n e x" "n \<le> 7" "e = 0 \<or> 1 / 2 ^ 200 \<le> e" "e \<le> 2 ^ 200"
  shows "binary64_range x"
proof (cases "e = 0")
  case True
  have "0 < (1 - ulp) ^ n" by simp
  moreover have "0 \<le> x" "x * (1 - ulp) ^ n \<le> 0" using assms(1) True by (auto simp: approx_def)
  ultimately have "x = 0" by (metis mult_pos_pos not_less order_le_less)
  then show ?thesis by (simp add: binary64_range_def)
next
  case False
  with assms(3) have lo: "1 / 2 ^ 200 \<le> e" by simp
  then have e: "0 \<le> e" by (rule order_trans [rotated]) simp
  have n: "(of_nat n :: rat) \<le> 7" using assms(2) by (metis of_nat_le_iff of_nat_numeral)
  then have nu: "of_nat n * ulp \<le> 7 * ulp" by (intro mult_right_mono) simp_all
  then have "2 * of_nat n * ulp \<le> 1" by (simp add: mult.assoc)
  note b = approx_bounds [OF assms(1) e _ this]
  have "e * (1 / 2) \<le> e * (1 - of_nat n * ulp)"
    using nu by (intro mult_left_mono [OF _ e]) simp
  also have "\<dots> \<le> x" using b by simp
  finally have "1 / 2 ^ 201 \<le> x" using lo by simp
  moreover have "x \<le> e * (1 + 2 * of_nat n * ulp)" using b by simp
  moreover have "e * (1 + 2 * of_nat n * ulp) \<le> 2 ^ 200 * 2"
    using nu assms(4) e by (intro mult_mono) (simp_all add: mult.assoc)
  ultimately show ?thesis
    by (auto simp: binary64_range_def intro: order_trans [of _ "1 / 2 ^ 201"])
qed

lemma u64_rat_range: "(of_nat (unat (w :: u64)) :: rat) \<le> 2 ^ 64" "w \<noteq> 0 \<Longrightarrow> 1 \<le> (of_nat (unat w) :: rat)"
proof -
  have "unat w < 2 ^ 64" using unsigned_less [of w, where ?'a = nat] by simp
  then have "(of_nat (unat w) :: rat) \<le> of_nat (2 ^ 64)" by (simp only: of_nat_le_iff less_imp_le)
  then show "(of_nat (unat w) :: rat) \<le> 2 ^ 64" by simp
  assume "w \<noteq> 0"
  then have "1 \<le> unat w" by (simp add: unat_gt_0 Suc_le_eq)
  then have "(of_nat 1 :: rat) \<le> of_nat (unat w)" by (simp only: of_nat_le_iff)
  then show "1 \<le> (of_nat (unat w) :: rat)" by simp
qed

lemma quotient_range:
  assumes "q = 0 \<or> 1 \<le> q" "0 \<le> q" "q \<le> 2 ^ 64" "1 \<le> b" "b \<le> 2 ^ 64" "1 / 2 ^ 64 \<le> c" "c \<le> 2 ^ 64"
  shows "q / b * c = 0 \<or> 1 / 2 ^ 200 \<le> q / b * c" "q / b * c \<le> (2 ^ 200 :: rat)"
proof -
  have "q / b \<le> q" using assms by (simp add: divide_le_eq mult_le_cancel_left1)
  then have "q / b * c \<le> 2 ^ 64 * 2 ^ 64"
    using assms by (intro mult_mono) auto
  then show "q / b * c \<le> 2 ^ 200" by simp
  have "1 / 2 ^ 200 \<le> q / b * c" if "1 \<le> q"
  proof -
    have "1 / 2 ^ 64 \<le> q / b" using that assms by (intro frac_le) auto
    then have "1 / 2 ^ 64 * (1 / 2 ^ 64) \<le> q / b * c"
      using assms by (intro mult_mono) auto
    moreover have "1 / 2 ^ 200 \<le> (1 / 2 ^ 64 * (1 / 2 ^ 64) :: rat)" by simp
    ultimately show ?thesis by (rule order_trans [rotated])
  qed
  then show "q / b * c = 0 \<or> 1 / 2 ^ 200 \<le> q / b * c" using assms by auto
qed

text \<open>No step of the computation overflows or underflows binary64, for any reserves and any
  quote currency: every intermediate is zero or a normal number, so the result does not depend on
  infinities, subnormals or NaN.\<close>

theorem market_cap_in_binary64_range:
  "list_all binary64_range
     (if base = 0 then []
      else [f64_of_u64 base, base_val base, f64_of_u64 quote, quote_val quote ccy,
            price_val base quote ccy, supply_val base quote ccy, cap_val base quote ccy])"
proof (cases "base = 0")
  case False
  define q b U where "q = (of_nat (unat quote) :: rat)" and "b = (of_nat (unat base) :: rat)"
    and "U = base_unit ccy"
  have q: "q = 0 \<or> 1 \<le> q" "0 \<le> q" "q \<le> 2 ^ 64" and b: "1 \<le> b" "b \<le> 2 ^ 64"
    using u64_rat_range [of quote] u64_rat_range [of base] False
    by (auto simp: q_def b_def simp del: of_nat_unat; metis of_nat_0 unsigned_0)+
  have U: "1 \<le> U" "U \<le> 10 ^ 9" using base_unit_range by (simp_all add: U_def)
  have inv: "1 / 2 ^ 64 \<le> 1 / U" "1 / U \<le> 1" using U by (auto simp: divide_le_eq intro!: frac_le)
  have r1: "approx ulp 1 b (f64_of_u64 base)" "approx ulp 1 q (f64_of_u64 quote)"
    using f64.approx_rd [OF _ f64.approx_refl] by (simp_all add: f64_of_u64_def q_def b_def)
  have r2: "approx ulp 2 (b / 1000000) (base_val base)" "approx ulp 2 (q / U) (quote_val quote ccy)"
    using base_val_approx quote_val_approx by (simp_all add: q_def b_def U_def)
  have r3: "approx ulp 5 (q / b * (1000000 / U)) (price_val base quote ccy)"
    "approx ulp 6 (q / b * (1000000000000000 / U)) (supply_val base quote ccy)"
    "approx ulp 7 (q / b * 10 ^ 15) (cap_val base quote ccy)"
    using price_val_approx [OF False, of quote ccy] supply_val_approx [OF False, of quote ccy]
      cap_val_approx [OF False, of quote ccy]
    by (simp_all add: q_def b_def U_def exact_market_cap_def field_simps)
  have "binary64_range (f64_of_u64 base)"
    using quotient_range [of b 1 1] b by (intro approx_range [OF r1(1)]) auto
  moreover have "binary64_range (f64_of_u64 quote)"
    using quotient_range [of q 1 1] q by (intro approx_range [OF r1(2)]) auto
  moreover have "binary64_range (base_val base)"
    using quotient_range [of b 1 "1 / 1000000"] b by (intro approx_range [OF r2(1)]) auto
  moreover have "binary64_range (quote_val quote ccy)"
    using quotient_range [of q 1 "1 / U"] q inv by (intro approx_range [OF r2(2)]) auto
  moreover have "binary64_range (price_val base quote ccy)"
    using quotient_range [of q b "1000000 / U"] q b U
    by (intro approx_range [OF r3(1)]) (auto simp: divide_le_eq le_divide_eq)
  moreover have "binary64_range (supply_val base quote ccy)"
    using quotient_range [of q b "1000000000000000 / U"] q b U
    by (intro approx_range [OF r3(2)]) (auto simp: divide_le_eq le_divide_eq)
  moreover have "binary64_range (cap_val base quote ccy)"
    using quotient_range [of q b "10 ^ 15"] q b by (intro approx_range [OF r3(3)]) auto
  ultimately show ?thesis using False by simp
qed simp

end
