(* ===== verification/Events.thy ===== *)
theory Events
  imports Wire
begin

text \<open>
  PumpSwap event payloads: the decoders of \<open>src/src/utils/transaction.rs\<close> that read BuyEvent,
  SellEvent and BoostBuyAndBurnEvent by offset, the failed-transaction argument decoder and the
  effective quote reserves. A payload starts at the 8-byte event discriminator. The second half
  gives the byte layout of the events as an encoder and relates the decoders to it.
\<close>

section \<open>Decoders\<close>

text \<open>\<open>u64::from_le_bytes(bytes[a..a + 8].try_into().unwrap())\<close>\<close>
definition u64_index :: "bytes \<Rightarrow> nat \<Rightarrow> u64 may_panic" where
  "u64_index bs a = do { s \<leftarrow> slice_index bs a (a + 8); arr \<leftarrow> try_array 8 s; Some (from_le_bytes arr) }"

definition extract_pump_swap_event_pool :: "bytes \<Rightarrow> pubkey option" where
  "extract_pump_swap_event_pool bs = do { s \<leftarrow> slice_get bs 120 152; try_array 32 s }"

definition extract_pool_reserves_from_data :: "bytes \<Rightarrow> (u64 option \<times> u64 option) may_panic" where
  "extract_pool_reserves_from_data bs =
     (if length bs < 64 then Some (None, None)
      else do {
        base \<leftarrow> u64_index bs 48;
        quote \<leftarrow> u64_index bs 56;
        Some (Some base, Some quote) })"

definition PUMP_SWAP_SELL_VQR_OFFSET :: nat where
  [constants, simp]: "PUMP_SWAP_SELL_VQR_OFFSET = 392"

definition PUMP_SWAP_BUY_IX_NAME_OFFSET :: nat where
  [constants, simp]: "PUMP_SWAP_BUY_IX_NAME_OFFSET = 401"

definition PUMP_SWAP_BUY_POST_IX_NAME_SCALARS :: nat where
  [constants, simp]: "PUMP_SWAP_BUY_POST_IX_NAME_SCALARS = 8 * 4"

text \<open>The walk over \<open>ix_name\<close> in a BuyEvent: the position of the field, \<open>None\<close> when the early
  returns of the source are taken.\<close>
definition buy_vqr_position :: "bytes \<Rightarrow> nat option may_panic" where
  "buy_vqr_position bs =
     (let p = PUMP_SWAP_BUY_IX_NAME_OFFSET in
      case usize_checked_add p 4 of
        None \<Rightarrow> Some None
      | Some e \<Rightarrow>
          if e > length bs then Some None
          else do {
            s \<leftarrow> slice_index bs p (p + 4);
            Some (do {
              arr \<leftarrow> try_array 4 s;
              q \<leftarrow> usize_checked_add p 4;
              q \<leftarrow> usize_checked_add q (unat (from_le_bytes arr :: u32));
              usize_checked_add q PUMP_SWAP_BUY_POST_IX_NAME_SCALARS }) })"

definition extract_pump_swap_virtual_quote_reserves :: "bytes \<Rightarrow> bool \<Rightarrow> i128 option may_panic" where
  "extract_pump_swap_virtual_quote_reserves bs is_buy = do {
     pos \<leftarrow> (if is_buy then buy_vqr_position bs else Some (Some PUMP_SWAP_SELL_VQR_OFFSET));
     (case pos of
        None \<Rightarrow> Some None
      | Some p \<Rightarrow>
          (case usize_checked_add p 16 of
             None \<Rightarrow> Some None
           | Some e \<Rightarrow>
               if e > length bs then Some None
               else do {
                 s \<leftarrow> slice_index bs p (p + 16);
                 Some (map_option from_le_bytes (try_array 16 s)) })) }"

text \<open>\<open>i128::saturating_add\<close> and \<open>clamp\<close> on signed words.\<close>
definition i128_saturating_add :: "i128 \<Rightarrow> i128 \<Rightarrow> i128" where
  "i128_saturating_add a b = word_of_int (max (- (2 ^ 127)) (min (2 ^ 127 - 1) (sint a + sint b)))"

definition i128_clamp :: "i128 \<Rightarrow> i128 \<Rightarrow> i128 \<Rightarrow> i128" where
  "i128_clamp lo hi x = (if sint x < sint lo then lo else if sint hi < sint x then hi else x)"

definition effective_quote_reserves :: "u64 \<Rightarrow> i128 option \<Rightarrow> u64" where
  "effective_quote_reserves raw_quote_reserves virtual_quote_reserves =
     (case virtual_quote_reserves of
        Some virtual_reserves \<Rightarrow>
          ucast (i128_clamp 0 (ucast (- 1 :: u64))
                   (i128_saturating_add (ucast raw_quote_reserves) virtual_reserves))
      | None \<Rightarrow> raw_quote_reserves)"

definition extract_transaction_amounts :: "bytes \<Rightarrow> u64 option may_panic" where
  "extract_transaction_amounts bs =
     (if length bs < 24 then Some None else do { x \<leftarrow> u64_index bs 16; Some (Some x) })"

definition extract_pump_swap_requested_amounts :: "bytes \<Rightarrow> bool \<Rightarrow> (u64 \<times> u64) may_panic" where
  "extract_pump_swap_requested_amounts dat is_exact_in =
     (if length dat < 24 then Some (0, 0)
      else do {
        arg0 \<leftarrow> u64_index dat 8;
        arg1 \<leftarrow> u64_index dat 16;
        Some (if is_exact_in then (arg1, arg0) else (arg0, arg1)) })"

definition extract_quote_volume :: "bytes \<Rightarrow> (u64 option \<times> u64 option) may_panic" where
  "extract_quote_volume bs =
     (if length bs < 120 then Some (None, None)
      else do {
        sell \<leftarrow> u64_index bs 64;
        buy \<leftarrow> u64_index bs 112;
        Some (Some buy, Some sell) })"

text \<open>The slices of \<open>extract_boost_buy_event\<close> panic out of range; its conversions use \<open>ok()?\<close>.\<close>
definition extract_boost_buy_event :: "bytes \<Rightarrow> (u64 \<times> u64 \<times> u64 \<times> u64) option may_panic" where
  "extract_boost_buy_event bs =
     (if length bs < 200 then Some None
      else do {
        s1 \<leftarrow> slice_index bs 152 160;
        s2 \<leftarrow> slice_index bs 160 168;
        s3 \<leftarrow> slice_index bs 168 184;
        s4 \<leftarrow> slice_index bs 184 192;
        s5 \<leftarrow> slice_index bs 192 200;
        Some (do {
          quote_used \<leftarrow> map_option from_le_bytes (try_array 8 s1);
          base_burned \<leftarrow> map_option from_le_bytes (try_array 8 s2);
          virtual_quote \<leftarrow> map_option from_le_bytes (try_array 16 s3);
          real_quote \<leftarrow> map_option from_le_bytes (try_array 8 s4);
          base_after \<leftarrow> map_option from_le_bytes (try_array 8 s5);
          Some (base_burned, quote_used, base_after,
                effective_quote_reserves real_quote (Some virtual_quote)) }) })"

section \<open>Panic freedom\<close>

text \<open>The value of a \<open>uN\<close> field, where the field is in range.\<close>
definition field :: "bytes \<Rightarrow> nat \<Rightarrow> nat \<Rightarrow> 'a::len word" where
  "field bs a n = from_le_bytes (take n (drop a bs))"

lemma u64_index_in_range [panic_free]: "a + 8 \<le> length bs \<Longrightarrow> u64_index bs a = Some (field bs a 8)"
  by (simp add: u64_index_def rust_defs field_def)

lemma extract_pool_reserves_closed [panic_free]:
  "extract_pool_reserves_from_data bs =
     Some (if length bs < 64 then (None, None) else (Some (field bs 48 8), Some (field bs 56 8)))"
  by (simp add: extract_pool_reserves_from_data_def panic_free)

lemma extract_transaction_amounts_closed [panic_free]:
  "extract_transaction_amounts bs = Some (if length bs < 24 then None else Some (field bs 16 8))"
  by (simp add: extract_transaction_amounts_def panic_free)

lemma extract_quote_volume_closed [panic_free]:
  "extract_quote_volume bs =
     Some (if length bs < 120 then (None, None) else (Some (field bs 112 8), Some (field bs 64 8)))"
  by (simp add: extract_quote_volume_def panic_free)

lemma extract_requested_closed [panic_free]:
  "extract_pump_swap_requested_amounts dat is_exact_in =
     Some (if length dat < 24 then (0, 0)
           else if is_exact_in then (field dat 16 8, field dat 8 8)
           else (field dat 8 8, field dat 16 8))"
  by (simp add: extract_pump_swap_requested_amounts_def panic_free)

lemma extract_boost_closed [panic_free]:
  "extract_boost_buy_event bs =
     Some (if length bs < 200 then None
           else Some (field bs 160 8, field bs 152 8, field bs 192 8,
                      effective_quote_reserves (field bs 184 8) (Some (field bs 168 16))))"
  by (simp add: extract_boost_buy_event_def rust_defs field_def)

lemma u32_usize_sum: "405 + unat (w :: u32) + 48 < 2 ^ 64"
proof -
  have "unat w < 2 ^ 32" using unsigned_less [of w, where ?'a = nat] by simp
  then show ?thesis by simp
qed

lemma buy_vqr_position_closed [panic_free]:
  "buy_vqr_position bs =
     Some (if length bs < 405 then None
           else Some (405 + unat (field bs 401 4 :: u32) + 32))"
  using u32_usize_sum [of "field bs 401 4"]
  by (simp add: buy_vqr_position_def rust_defs field_def Let_def)

lemma extract_vqr_closed [panic_free]:
  "extract_pump_swap_virtual_quote_reserves bs is_buy =
     Some (let p = (if is_buy then 437 + unat (field bs 401 4 :: u32) else 392)
           in if (is_buy \<longrightarrow> 405 \<le> length bs) \<and> p + 16 \<le> length bs then Some (field bs p 16) else None)"
  using u32_usize_sum [of "field bs 401 4"]
  by (auto simp: extract_pump_swap_virtual_quote_reserves_def panic_free rust_defs field_def Let_def
                 add.commute)

section \<open>Effective quote reserves\<close>

lemma sint_saturating_add:
  "sint (i128_saturating_add a b) = max (- (2 ^ 127)) (min (2 ^ 127 - 1) (sint a + sint b))"
proof -
  define v where "v = max (- (2 ^ 127)) (min (2 ^ 127 - 1) (sint a + sint b))"
  have "- (2 ^ 127) \<le> v" "v < 2 ^ 127" by (auto simp: v_def)
  then have "signed_take_bit 127 v = v"
    by (intro signed_take_bit_int_eq_self) simp_all
  then show ?thesis
    by (simp add: i128_saturating_add_def sint_sbintrunc' v_def)
qed

lemma sint_i128_of_u64: "sint (ucast (w :: u64) :: i128) = uint w"
proof -
  have w: "uint w < 2 ^ 64" "0 \<le> uint w" using unsigned_less [of w, where ?'a = int] by simp_all
  moreover from w have "- (2 ^ 127) \<le> uint w" by (intro order_trans [of "- (2 ^ 127)" 0 "uint w"]) simp_all
  ultimately have "signed_take_bit 127 (uint w) = uint w"
    by (intro signed_take_bit_int_eq_self) simp_all
  with w show ?thesis
    by (simp add: sint_uint unsigned_ucast_eq take_bit_int_eq_self)
qed

lemma uint_u64_of_i128:
  "0 \<le> sint (x :: i128) \<Longrightarrow> sint x < 2 ^ 64 \<Longrightarrow> uint (ucast x :: u64) = sint x"
proof -
  assume a: "0 \<le> sint x" "sint x < 2 ^ 64"
  have "uint (ucast x :: u64) = take_bit 64 (sint x)"
    by (simp add: unsigned_ucast_eq sint_uint take_bit_signed_take_bit)
  also have "\<dots> = sint x" using a by (simp add: take_bit_int_eq_self)
  finally show ?thesis .
qed

text \<open>The effective quote reserves are the unbounded signed sum of the vault balance and the
  virtual adjustment, clamped to the range of a \<open>u64\<close>: neither the saturating \<open>i128\<close> addition nor
  the final cast ever changes the result.\<close>

theorem effective_quote_reserves_spec:
  "uint (effective_quote_reserves raw vqr) =
     (case vqr of None \<Rightarrow> uint raw | Some v \<Rightarrow> max 0 (min (2 ^ 64 - 1) (uint raw + sint v)))"
proof (cases vqr)
  case None
  then show ?thesis by (simp add: effective_quote_reserves_def)
next
  case (Some v)
  have raw: "0 \<le> uint raw" "uint raw < 2 ^ 64"
    using unsigned_less [of raw, where ?'a = int] by simp_all
  have v: "- (2 ^ 127) \<le> sint v" "sint v < 2 ^ 127"
    using sint_greater_eq [of v] sint_less [of v] by simp_all
  define s where "s = i128_saturating_add (ucast raw) v"
  have s: "sint s = max (- (2 ^ 127)) (min (2 ^ 127 - 1) (uint raw + sint v))"
    by (simp add: s_def sint_saturating_add sint_i128_of_u64)
  define c where "c = i128_clamp 0 (ucast (- 1 :: u64)) s"
  have m: "sint (ucast (- 1 :: u64) :: i128) = 2 ^ 64 - 1"
    by (simp add: sint_i128_of_u64 unsigned_minus_1_eq_mask mask_eq_exp_minus_1)
  have c: "sint c = max 0 (min (2 ^ 64 - 1) (sint s))"
    unfolding c_def i128_clamp_def m using m by (simp add: min_def max_def)
  then have "uint (ucast c :: u64) = max 0 (min (2 ^ 64 - 1) (sint s))"
    using uint_u64_of_i128 [of c] by simp
  moreover have "max 0 (min (2 ^ 64 - 1) (sint s)) = max 0 (min (2 ^ 64 - 1) (uint raw + sint v))"
    unfolding s using raw v by (simp add: min_def max_def)
  ultimately show ?thesis
    by (simp add: Some effective_quote_reserves_def flip: s_def c_def)
qed

section \<open>Layout of the events\<close>

text \<open>
  BuyEvent and SellEvent as the IDL lays them out: a shared prefix of 360 bytes, then the fields
  that differ. The three fields appended on 2026-07-15 are absent from older payloads.
\<close>

record pump_swap_event =
  pe_timestamp :: i64
  pe_base_amount :: u64
  pe_limit_amount :: u64
  pe_user_base_reserves :: u64
  pe_user_quote_reserves :: u64
  pe_pool_base_token_reserves :: u64
  pe_pool_quote_token_reserves :: u64
  pe_quote_amount :: u64
  pe_fees :: bytes              \<comment> \<open>five \<open>u64\<close>: lp and protocol fees, the quote amount after lp fee\<close>
  pe_user_quote_amount :: u64
  pe_pool :: pubkey
  pe_accounts :: bytes          \<comment> \<open>six keys: user to coin creator\<close>
  pe_creator_fees :: bytes      \<comment> \<open>two \<open>u64\<close>\<close>
  pe_ix_name :: bytes           \<comment> \<open>BuyEvent only\<close>
  pe_volume_fields :: bytes     \<comment> \<open>BuyEvent only: a \<open>bool\<close> and five 8-byte integers\<close>
  pe_late_fees :: bytes         \<comment> \<open>four \<open>u64\<close>: cashback and buyback fees\<close>
  pe_virtual_quote_reserves :: i128
  pe_can_boost :: u8
  pe_base_supply :: u64

definition event_wf :: "pump_swap_event \<Rightarrow> bool" where
  "event_wf e \<longleftrightarrow>
     length (pe_fees e) = 40 \<and> length (pe_pool e) = 32 \<and> length (pe_accounts e) = 192 \<and>
     length (pe_creator_fees e) = 16 \<and> length (pe_volume_fields e) = 41 \<and>
     length (pe_late_fees e) = 32 \<and> length (pe_ix_name e) < 2 ^ 32"

definition common_prefix :: "bytes \<Rightarrow> pump_swap_event \<Rightarrow> bytes" where
  "common_prefix disc e =
     disc @ to_le_bytes 8 (pe_timestamp e) @ to_le_bytes 8 (pe_base_amount e) @
     to_le_bytes 8 (pe_limit_amount e) @ to_le_bytes 8 (pe_user_base_reserves e) @
     to_le_bytes 8 (pe_user_quote_reserves e) @ to_le_bytes 8 (pe_pool_base_token_reserves e) @
     to_le_bytes 8 (pe_pool_quote_token_reserves e) @ to_le_bytes 8 (pe_quote_amount e) @
     pe_fees e @ to_le_bytes 8 (pe_user_quote_amount e) @ pe_pool e @ pe_accounts e @
     pe_creator_fees e"

definition appended_fields :: "pump_swap_event \<Rightarrow> bytes" where
  "appended_fields e =
     to_le_bytes 16 (pe_virtual_quote_reserves e) @ [pe_can_boost e] @ to_le_bytes 8 (pe_base_supply e)"

definition encode_buy_event :: "pump_swap_event \<Rightarrow> bool \<Rightarrow> bytes" where
  "encode_buy_event e with_appended_fields =
     common_prefix PUMP_SWAP_BUY_EVENT_DISC e @ pe_volume_fields e @
     le_bytes 4 (length (pe_ix_name e)) @ pe_ix_name e @ pe_late_fees e @
     (if with_appended_fields then appended_fields e else [])"

definition encode_sell_event :: "pump_swap_event \<Rightarrow> bool \<Rightarrow> bytes" where
  "encode_sell_event e with_appended_fields =
     common_prefix PUMP_SWAP_SELL_EVENT_DISC e @ pe_late_fees e @
     (if with_appended_fields then appended_fields e else [])"

lemma length_common_prefix [layout]:
  "event_wf e \<Longrightarrow> length disc = 8 \<Longrightarrow> length (common_prefix disc e) = 360"
  by (simp add: common_prefix_def event_wf_def)

lemma length_appended_fields [layout]: "length (appended_fields e) = 25"
  by (simp add: appended_fields_def)

lemma field_append2 [layout]:
  "length xs \<le> a \<Longrightarrow> field (xs @ ys) a n = field ys (a - length xs) n"
  by (simp add: field_def)

lemma field_append1 [layout]:
  "a + n \<le> length xs \<Longrightarrow> field (xs @ ys) a n = field xs a n"
  by (simp add: field_def)

lemma field_to_le_bytes [layout]:
  "LENGTH('a) \<le> 8 * n \<Longrightarrow> field (to_le_bytes n (w :: 'a::len word)) 0 n = w"
  by (simp add: field_def from_le_bytes_to_le_bytes)

text \<open>The decoders read the shared prefix of either event.\<close>

lemma prefix_fields:
  assumes "event_wf e" "length disc = 8"
  shows "field (common_prefix disc e @ r) 16 8 = pe_base_amount e"
    and "field (common_prefix disc e @ r) 48 8 = pe_pool_base_token_reserves e"
    and "field (common_prefix disc e @ r) 56 8 = pe_pool_quote_token_reserves e"
    and "field (common_prefix disc e @ r) 64 8 = pe_quote_amount e"
    and "field (common_prefix disc e @ r) 112 8 = pe_user_quote_amount e"
    and "extract_pump_swap_event_pool (common_prefix disc e @ r) = Some (pe_pool e)"
  using assms
  by (simp_all add: common_prefix_def event_wf_def layout extract_pump_swap_event_pool_def
                    try_array_Some_iff)

lemma field_le_bytes_u32:
  "n < 2 ^ 32 \<Longrightarrow> unat (field (le_bytes 4 n) 0 4 :: u32) = n"
  by (simp add: field_def from_le_bytes_def le_nat_le_bytes unat_of_nat)

lemma buy_event_name_length:
  assumes "event_wf e"
  shows "unat (field (encode_buy_event e b) 401 4 :: u32) = length (pe_ix_name e)"
proof -
  have "field (encode_buy_event e b) 401 4 = (field (le_bytes 4 (length (pe_ix_name e))) 0 4 :: u32)"
    using assms by (simp add: encode_buy_event_def layout event_wf_def)
  then show ?thesis using assms by (simp add: field_le_bytes_u32 event_wf_def)
qed

lemma length_encode_buy_event:
  "event_wf e \<Longrightarrow> length (encode_buy_event e b) = 437 + length (pe_ix_name e) + (if b then 25 else 0)"
  by (simp add: encode_buy_event_def layout event_wf_def)

lemma length_encode_sell_event:
  "event_wf e \<Longrightarrow> length (encode_sell_event e b) = 392 + (if b then 25 else 0)"
  by (simp add: encode_sell_event_def layout event_wf_def)

lemma buy_event_decoded:
  assumes "event_wf e"
  shows "extract_pump_swap_event_pool (encode_buy_event e b) = Some (pe_pool e) \<and>
         extract_transaction_amounts (encode_buy_event e b) = Some (Some (pe_base_amount e)) \<and>
         extract_pool_reserves_from_data (encode_buy_event e b) =
           Some (Some (pe_pool_base_token_reserves e), Some (pe_pool_quote_token_reserves e)) \<and>
         extract_quote_volume (encode_buy_event e b) =
           Some (Some (pe_user_quote_amount e), Some (pe_quote_amount e)) \<and>
         extract_pump_swap_virtual_quote_reserves (encode_buy_event e b) True =
           Some (if b then Some (pe_virtual_quote_reserves e) else None)"
proof -
  have vqr: "field (encode_buy_event e True) (437 + length (pe_ix_name e)) 16 = pe_virtual_quote_reserves e"
    using assms by (simp add: encode_buy_event_def layout event_wf_def appended_fields_def)
  show ?thesis
    using assms vqr
    by (simp add: panic_free buy_event_name_length length_encode_buy_event Let_def)
       (simp add: encode_buy_event_def prefix_fields)
qed

text \<open>C22. Every decoder of a BuyEvent inverts the layout: for an event with an \<open>ix_name\<close> of any
  length, the pool, base amount, raw reserves and quote volume are read back whether or not the
  payload carries the fields appended on 2026-07-15, and the signed virtual quote reserves are read
  back when it does and are absent when it does not.\<close>

theorem buy_event_roundtrip:
  assumes "event_wf e"
  shows "extract_pump_swap_event_pool (encode_buy_event e b) = Some (pe_pool e) \<and>
         extract_transaction_amounts (encode_buy_event e b) = Some (Some (pe_base_amount e)) \<and>
         extract_pool_reserves_from_data (encode_buy_event e b) =
           Some (Some (pe_pool_base_token_reserves e), Some (pe_pool_quote_token_reserves e)) \<and>
         extract_quote_volume (encode_buy_event e b) =
           Some (Some (pe_user_quote_amount e), Some (pe_quote_amount e)) \<and>
         extract_pump_swap_virtual_quote_reserves (encode_buy_event e b) True =
           Some (if b then Some (pe_virtual_quote_reserves e) else None)"
  using assms by (rule buy_event_decoded)

lemma sell_event_decoded:
  assumes "event_wf e"
  shows "extract_pump_swap_event_pool (encode_sell_event e b) = Some (pe_pool e) \<and>
         extract_transaction_amounts (encode_sell_event e b) = Some (Some (pe_base_amount e)) \<and>
         extract_pool_reserves_from_data (encode_sell_event e b) =
           Some (Some (pe_pool_base_token_reserves e), Some (pe_pool_quote_token_reserves e)) \<and>
         extract_quote_volume (encode_sell_event e b) =
           Some (Some (pe_user_quote_amount e), Some (pe_quote_amount e)) \<and>
         extract_pump_swap_virtual_quote_reserves (encode_sell_event e b) False =
           Some (if b then Some (pe_virtual_quote_reserves e) else None)"
proof -
  have vqr: "field (encode_sell_event e True) 392 16 = pe_virtual_quote_reserves e"
    using assms by (simp add: encode_sell_event_def layout event_wf_def appended_fields_def)
  show ?thesis
    using assms vqr
    by (simp add: panic_free length_encode_sell_event Let_def)
       (simp add: encode_sell_event_def prefix_fields)
qed

text \<open>C23. The same for a SellEvent, whose layout is fixed.\<close>

theorem sell_event_roundtrip:
  assumes "event_wf e"
  shows "extract_pump_swap_event_pool (encode_sell_event e b) = Some (pe_pool e) \<and>
         extract_transaction_amounts (encode_sell_event e b) = Some (Some (pe_base_amount e)) \<and>
         extract_pool_reserves_from_data (encode_sell_event e b) =
           Some (Some (pe_pool_base_token_reserves e), Some (pe_pool_quote_token_reserves e)) \<and>
         extract_quote_volume (encode_sell_event e b) =
           Some (Some (pe_user_quote_amount e), Some (pe_quote_amount e)) \<and>
         extract_pump_swap_virtual_quote_reserves (encode_sell_event e b) False =
           Some (if b then Some (pe_virtual_quote_reserves e) else None)"
  using assms by (rule sell_event_decoded)

text \<open>A concrete event for the witnesses: \<open>ix_name\<close> is \<open>buy\<close> and the adjustment is negative.\<close>

definition demo_event :: pump_swap_event where
  "demo_event = \<lparr>pe_timestamp = 1, pe_base_amount = 1000000000, pe_limit_amount = 7,
     pe_user_base_reserves = 8, pe_user_quote_reserves = 9,
     pe_pool_base_token_reserves = 206900000000000, pe_pool_quote_token_reserves = 85000000000,
     pe_quote_amount = 500000000, pe_fees = replicate 40 1, pe_user_quote_amount = 505000000,
     pe_pool = replicate 32 5, pe_accounts = replicate 192 6, pe_creator_fees = replicate 16 0,
     pe_ix_name = [98, 117, 121], pe_volume_fields = replicate 41 0, pe_late_fees = replicate 32 2,
     pe_virtual_quote_reserves = - 5000000000, pe_can_boost = 0, pe_base_supply = 3\<rparr>"

lemma demo_event_wf: "event_wf demo_event"
  by (simp add: event_wf_def demo_event_def)

theorem buy_event_roundtrip_witness:
  "event_wf demo_event \<and>
   extract_pump_swap_virtual_quote_reserves (encode_buy_event demo_event True) True =
     Some (Some (- 5000000000))"
  using buy_event_roundtrip [OF demo_event_wf, of True] demo_event_wf
  by (simp add: demo_event_def)

theorem sell_event_roundtrip_witness:
  "event_wf demo_event \<and>
   extract_pump_swap_virtual_quote_reserves (encode_sell_event demo_event False) False = Some None"
  using sell_event_roundtrip [OF demo_event_wf, of False] demo_event_wf
  by simp

text \<open>No decoder of an event payload or of instruction arguments panics, whatever the bytes:
  every index and every conversion is reached only when it is in range, including for a truncated
  payload or an absurd \<open>ix_name\<close> length.\<close>

theorem decoders_never_panic:
  "extract_pool_reserves_from_data bs \<noteq> None \<and>
   extract_transaction_amounts bs \<noteq> None \<and>
   extract_quote_volume bs \<noteq> None \<and>
   extract_boost_buy_event bs \<noteq> None \<and>
   extract_pump_swap_requested_amounts bs is_exact_in \<noteq> None \<and>
   extract_pump_swap_virtual_quote_reserves bs is_buy \<noteq> None"
  by (simp add: panic_free)

end
