(* ===== verification/AmmHandler.thy ===== *)
theory AmmHandler
  imports Records EventSearch MultiHop Fees MarketCap Events
begin

text \<open>
  The PumpSwap handler (\<open>src/src/handler/amm_handler.rs\<close>): one call per transaction, from the raw
  message to the trade records put on the channel of the batch inserter. The state is what the call
  changes outside itself: the channel, the log of readonly mode and the trade counter. A transaction
  yields an error value for the \<open>?\<close> exits; a panic is the outer \<open>None\<close>.

  The whitelist is a snapshot: the set is shared and refreshed concurrently, and the model reads the
  same contents throughout one transaction.
\<close>

section \<open>Data\<close>

datatype amm_error = Bad_Program_Id | Transaction_Missing | Message_Missing | Meta_Missing

definition MULTI_HOP_INSTRUCTION_TYPE :: string where
  "MULTI_HOP_INSTRUCTION_TYPE = ''multi_hop_swap''"

definition MULTI_HOP_ROUTED_INSTRUCTION_TYPE :: string where
  "MULTI_HOP_ROUTED_INSTRUCTION_TYPE = ''multi_hop_swap_routed''"

record tx_context =
  tc_tx_signature :: string
  tc_slot :: u64
  tc_now :: timestamp
  tc_success :: bool
  tc_priority_fee :: "u64 option"
  tc_transfer_tip :: "u64 option"
  tc_tip_provider :: "string option"
  tc_compute_units_consumed :: "i64 option"
  tc_lamports_per_compute_unit :: "f64 option"
  tc_whitelist :: "string set"
  tc_readonly :: bool
  tc_pump_program_id :: pubkey
  tc_pump_swap_program_id :: pubkey

record trade_fill =
  fl_pool_address :: string
  fl_mint :: string
  fl_quote_mint :: string
  fl_quote_currency :: quote_currency
  fl_instruction_type :: string
  fl_is_cpi :: bool
  fl_user :: string
  fl_is_buy :: bool
  fl_token_amount :: u64
  fl_quote_volume :: u64
  fl_market_cap :: "u64 option"
  fl_base_reserves :: u64
  fl_quote_reserves :: u64
  fl_amount_source :: string

text \<open>One line of the readonly log: the number, the record, and the fields shown beside it.\<close>
record trade_log_line =
  ll_n :: u64
  ll_record :: trade_record
  ll_quote :: f64
  ll_ccy :: string
  ll_tok :: f64
  ll_mc :: "f64 option"
  ll_base_res :: u64
  ll_quote_res :: u64

text \<open>The bounded channel, as the sequence of records sent so far, and whether its receiver is gone.\<close>
record amm_state =
  as_channel :: "trade_record list"
  as_channel_closed :: bool
  as_trade_counter :: u64
  as_log :: "trade_log_line list"

section \<open>Filters and output\<close>

definition eligible :: "externals \<Rightarrow> tx_context \<Rightarrow> pubkey \<Rightarrow> pubkey \<Rightarrow> pubkey \<Rightarrow> quote_currency option" where
  "eligible X ctx pool base quote =
     (let mint = x_pubkey_to_string X base in
      if mint = WSOL_MINT then None
      else do {
        ccy \<leftarrow> quote_currency_of X (x_pubkey_to_string X quote);
        if \<not> tc_readonly ctx \<and> mint \<notin> tc_whitelist ctx then None
        else (let canonical = canonical_pump_swap_pool X base quote
                    (tc_pump_program_id ctx) (tc_pump_swap_program_id ctx)
              in if pool = canonical then Some ccy else None) })"

definition trade_record_of :: "tx_context \<Rightarrow> trade_fill \<Rightarrow> i32 \<Rightarrow> trade_record" where
  "trade_record_of ctx fill trade_index =
     \<lparr>tr_tx_signature = tc_tx_signature ctx,
      tr_ix_index = trade_index,
      tr_pool_address = fl_pool_address fill,
      tr_mint_address = fl_mint fill,
      tr_quote_mint_address = fl_quote_mint fill,
      tr_instruction_type = fl_instruction_type fill,
      tr_amount_source = fl_amount_source fill,
      tr_is_cpi = fl_is_cpi fill,
      tr_user_pubkey = fl_user fill,
      tr_is_buy = fl_is_buy fill,
      tr_token_amount = fl_token_amount fill,
      tr_sol_amount = fl_quote_volume fill,
      tr_market_cap = fl_market_cap fill,
      tr_is_usdc = is_usdc (fl_quote_currency fill),
      tr_success = tc_success ctx,
      tr_slot = tc_slot ctx,
      tr_created_at = tc_now ctx,
      tr_priority_fee = tc_priority_fee ctx,
      tr_transfer_tip = tc_transfer_tip ctx,
      tr_tip_provider = tc_tip_provider ctx,
      tr_compute_units_consumed = tc_compute_units_consumed ctx,
      tr_lamports_per_compute_unit = tc_lamports_per_compute_unit ctx\<rparr>"

definition emit :: "tx_context \<Rightarrow> trade_fill \<Rightarrow> i32 \<Rightarrow> amm_state \<Rightarrow> amm_state" where
  "emit ctx fill trade_index st =
     (let record = trade_record_of ctx fill trade_index in
      if tc_readonly ctx then
        (let n = as_trade_counter st + 1;
             quote_base_unit = base_unit (fl_quote_currency fill)
         in st\<lparr>as_trade_counter := n,
               as_log := as_log st @
                 [\<lparr>ll_n = n, ll_record = record,
                   ll_quote = f64_div (f64_of_u64 (fl_quote_volume fill)) quote_base_unit,
                   ll_ccy = quote_label (fl_quote_currency fill),
                   ll_tok = f64_div (f64_of_u64 (fl_token_amount fill)) 1000000,
                   ll_mc = map_option (\<lambda>m. f64_div (f64_of_u64 m) quote_base_unit) (fl_market_cap fill),
                   ll_base_res = fl_base_reserves fill,
                   ll_quote_res = fl_quote_reserves fill\<rparr>]\<rparr>)
      else if as_channel_closed st then st
      else st\<lparr>as_channel := as_channel st @ [record]\<rparr>)"

section \<open>Amounts of an executed trade\<close>

type_synonym amounts = "u64 \<times> u64 \<times> u64 option \<times> u64 \<times> u64"

definition event_amounts :: "bytes \<Rightarrow> bytes \<Rightarrow> bool \<Rightarrow> quote_currency \<Rightarrow> amounts option may_panic" where
  "event_amounts event_data event_disc is_buy ccy =
     (if event_disc = PUMP_SWAP_BOOST_BUY_EVENT_DISC then do {
        boost \<leftarrow> extract_boost_buy_event event_data;
        Some (map_option (\<lambda>(token_amount, quote_volume, base_reserves, quote_reserves).
          (token_amount, quote_volume,
           Some (get_market_cap_from_reserves base_reserves quote_reserves ccy),
           base_reserves, quote_reserves)) boost) }
      else do {
        (base_reserves, raw_quote_reserves) \<leftarrow> extract_pool_reserves_from_data event_data;
        (buy_vol, sell_vol) \<leftarrow> extract_quote_volume event_data;
        (case (if is_buy then buy_vol else sell_vol) of
           None \<Rightarrow> Some None
         | Some quote_volume \<Rightarrow> do {
             amount \<leftarrow> extract_transaction_amounts event_data;
             (case amount of
                None \<Rightarrow> Some None
              | Some token_amount \<Rightarrow>
                  (case base_reserves of
                     None \<Rightarrow> Some None
                   | Some base_reserves \<Rightarrow>
                       (case raw_quote_reserves of
                          None \<Rightarrow> Some None
                        | Some raw_quote \<Rightarrow> do {
                            vqr \<leftarrow> extract_pump_swap_virtual_quote_reserves event_data is_buy;
                            let quote_reserves = effective_quote_reserves raw_quote vqr;
                            let market_cap = get_market_cap_from_reserves base_reserves quote_reserves ccy;
                            Some (Some (token_amount, quote_volume, Some market_cap,
                                        base_reserves, quote_reserves)) }))) }) })"

section \<open>The hops of a multi-hop swap\<close>

text \<open>The closure \<open>fill\<close>.\<close>
definition hop_fill ::
  "externals \<Rightarrow> pump_swap_hop list \<Rightarrow> bool \<Rightarrow> string \<Rightarrow>
   pump_swap_hop \<Rightarrow> quote_currency \<Rightarrow> bool \<Rightarrow> amounts \<Rightarrow> string \<Rightarrow> trade_fill" where
  "hop_fill X hops is_cpi user hop ccy is_buy amounts amount_source =
     (let (token_amount, quote_volume, market_cap, base_reserves, quote_reserves) = amounts in
      \<lparr>fl_pool_address = x_pubkey_to_string X (hop_pool hop),
       fl_mint = x_pubkey_to_string X (hop_base_mint hop),
       fl_quote_mint = x_pubkey_to_string X (hop_quote_mint hop),
       fl_quote_currency = ccy,
       fl_instruction_type =
         (if multi_hop_is_routed hops (hop_base_mint hop) is_buy
          then MULTI_HOP_ROUTED_INSTRUCTION_TYPE else MULTI_HOP_INSTRUCTION_TYPE),
       fl_is_cpi = is_cpi, fl_user = user, fl_is_buy = is_buy,
       fl_token_amount = token_amount, fl_quote_volume = quote_volume,
       fl_market_cap = market_cap, fl_base_reserves = base_reserves,
       fl_quote_reserves = quote_reserves, fl_amount_source = amount_source\<rparr>)"

text \<open>The hop an event belongs to: its side, its position among the hops from \<open>next_hop\<close> on.\<close>
definition event_hop :: "pump_swap_hop list \<Rightarrow> nat \<Rightarrow> bytes \<Rightarrow> (bool \<times> nat) option may_panic" where
  "event_hop hops next_hop event_data = do {
     d \<leftarrow> slice_index event_data 0 8;
     disc \<leftarrow> try_array 8 d;
     (case (if disc = PUMP_SWAP_BUY_EVENT_DISC then Some True
            else if disc = PUMP_SWAP_SELL_EVENT_DISC then Some False else None) of
        None \<Rightarrow> Some None
      | Some is_buy \<Rightarrow>
          (case extract_pump_swap_event_pool event_data of
             None \<Rightarrow> Some None
           | Some pool \<Rightarrow> do {
               rest \<leftarrow> slice_from hops next_hop;
               Some (map_option (\<lambda>offset. (is_buy, next_hop + offset))
                       (position (\<lambda>h. hop_pool h = pool) rest)) })) }"

text \<open>The event loop of a route that succeeded. An event without a hop leaves \<open>next_hop\<close> alone; a hop
  that is not eligible or whose event is truncated is consumed without a fill.\<close>
primrec multi_hop_event_loop ::
  "externals \<Rightarrow> tx_context \<Rightarrow> pump_swap_hop list \<Rightarrow> bool \<Rightarrow> string \<Rightarrow>
   bytes list \<Rightarrow> nat \<Rightarrow> trade_fill list may_panic" where
  "multi_hop_event_loop X ctx hops is_cpi user [] next_hop = Some []"
| "multi_hop_event_loop X ctx hops is_cpi user (event_data # events) next_hop = do {
     hit \<leftarrow> event_hop hops next_hop event_data;
     (case hit of
        None \<Rightarrow> multi_hop_event_loop X ctx hops is_cpi user events next_hop
      | Some (is_buy, i) \<Rightarrow> do {
          hop \<leftarrow> vec_get hops i;
          first \<leftarrow>
            (case eligible X ctx (hop_pool hop) (hop_base_mint hop) (hop_quote_mint hop) of
               None \<Rightarrow> Some []
             | Some ccy \<Rightarrow> do {
                 disc \<leftarrow> slice_index event_data 0 8;
                 amounts \<leftarrow> event_amounts event_data disc is_buy ccy;
                 Some (case amounts of
                         None \<Rightarrow> []
                       | Some a \<Rightarrow> [hop_fill X hops is_cpi user hop ccy is_buy a ''event'']) });
          fills \<leftarrow> multi_hop_event_loop X ctx hops is_cpi user events (i + 1);
          Some (first @ fills) }) }"

text \<open>The loop over the hops of a route that failed, with hop \<open>i\<close> at the head.\<close>
primrec multi_hop_request_loop ::
  "externals \<Rightarrow> tx_context \<Rightarrow> pump_swap_hop list \<Rightarrow> bool \<Rightarrow> string \<Rightarrow> u64 \<Rightarrow> u64 \<Rightarrow> nat \<Rightarrow>
   (pump_swap_hop \<times> bool) list \<Rightarrow> nat \<Rightarrow> trade_fill list" where
  "multi_hop_request_loop X ctx hops is_cpi user amount_in min_amount_out last_ix [] i = []"
| "multi_hop_request_loop X ctx hops is_cpi user amount_in min_amount_out last_ix (hs # rest) i =
     (let (hop, is_buy) = hs;
          fills = multi_hop_request_loop X ctx hops is_cpi user amount_in min_amount_out last_ix rest (i + 1)
      in case eligible X ctx (hop_pool hop) (hop_base_mint hop) (hop_quote_mint hop) of
           None \<Rightarrow> fills
         | Some ccy \<Rightarrow>
             (let (token_amount, quote_volume) = (0, 0);
                  (token_amount, quote_volume) =
                    (if i = 0 then if is_buy then (token_amount, amount_in) else (amount_in, quote_volume)
                     else (token_amount, quote_volume));
                  (token_amount, quote_volume) =
                    (if i = last_ix
                     then if is_buy then (min_amount_out, quote_volume) else (token_amount, min_amount_out)
                     else (token_amount, quote_volume))
              in hop_fill X hops is_cpi user hop ccy is_buy
                   (token_amount, quote_volume, None, 0, 0) ''instruction_request'' # fills))"

definition multi_hop_fills ::
  "externals \<Rightarrow> tx_context \<Rightarrow> compiled_instruction \<Rightarrow> transaction_status_meta \<Rightarrow> bytes list \<Rightarrow>
   nat \<Rightarrow> nat \<Rightarrow> trade_fill list may_panic" where
  "multi_hop_fills X ctx instr meta full_accounts parent_outer_idx start_inner_pos = do {
     hops \<leftarrow> multi_hop_swap_hops instr full_accounts;
     let user = unwrap_or ''unknown''
       (resolve_instruction_account X instr full_accounts PUMP_SWAP_MULTI_HOP_USER_IX_POS);
     let is_cpi = (0 < start_inner_pos);
     if tc_success ctx then do {
       events \<leftarrow> direct_child_events meta parent_outer_idx start_inner_pos (ci_program_id_index instr);
       multi_hop_event_loop X ctx hops is_cpi user events 0 }
     else
       (case Option.bind (multi_hop_input_mint X instr meta hops) (multi_hop_sides hops) of
          None \<Rightarrow> Some []
        | Some sides \<Rightarrow> do {
            (amount_in, min_amount_out) \<leftarrow> extract_pump_swap_requested_amounts (ci_data instr) False;
            Some (multi_hop_request_loop X ctx hops is_cpi user amount_in min_amount_out
                    (length hops - 1) (zip hops sides) 0) }) }"

section \<open>One transaction\<close>

text \<open>The amounts of a single-pool trade and their source: executed when the transaction landed and its
  event is found and complete, requested otherwise.\<close>
definition trade_amounts ::
  "tx_context \<Rightarrow> compiled_instruction \<Rightarrow> transaction_status_meta \<Rightarrow> nat \<Rightarrow> nat \<Rightarrow>
   pump_swap_trade_ix \<Rightarrow> quote_currency \<Rightarrow> (amounts \<times> string) may_panic" where
  "trade_amounts ctx instr meta parent_outer_idx start_inner_pos kind ccy = do {
     found \<leftarrow> (if tc_success ctx
       then find_event_data meta parent_outer_idx start_inner_pos (ci_program_id_index instr)
              (ti_event_disc kind)
       else Some None);
     executed \<leftarrow> (case found of
         None \<Rightarrow> Some None
       | Some event_data \<Rightarrow> event_amounts event_data (ti_event_disc kind) (ti_is_buy kind) ccy);
     (case executed of
        Some amounts \<Rightarrow> Some (amounts, ''event'')
      | None \<Rightarrow> do {
          (token, quote) \<leftarrow> extract_pump_swap_requested_amounts (ci_data instr) (ti_is_exact_in kind);
          Some ((token, quote, None, 0, 0), ''instruction_request'') }) }"

text \<open>The accounts of a single-pool trade: the texts written and the keys they parse to.\<close>
definition trade_keys ::
  "externals \<Rightarrow> compiled_instruction \<Rightarrow> bytes list \<Rightarrow>
   ((string \<times> string \<times> string) \<times> (pubkey \<times> pubkey \<times> pubkey)) option" where
  "trade_keys X instr full_accounts = do {
     mint \<leftarrow> resolve_pump_swap_memecoin X instr full_accounts;
     quote_mint \<leftarrow> resolve_pump_swap_quote_mint X instr full_accounts;
     pool_address \<leftarrow> resolve_pump_swap_pool X instr full_accounts;
     base \<leftarrow> x_pubkey_from_str X mint;
     quote \<leftarrow> x_pubkey_from_str X quote_mint;
     pool \<leftarrow> x_pubkey_from_str X pool_address;
     Some ((mint, quote_mint, pool_address), (base, quote, pool)) }"

text \<open>The fill of an instruction classified as a single-pool trade; \<open>None\<close> inside is a \<open>continue\<close>.\<close>
definition single_trade_fill ::
  "externals \<Rightarrow> tx_context \<Rightarrow> compiled_instruction \<Rightarrow> transaction_status_meta \<Rightarrow> bytes list \<Rightarrow>
   nat \<Rightarrow> nat \<Rightarrow> pump_swap_trade_ix \<Rightarrow> trade_fill option may_panic" where
  "single_trade_fill X ctx instr meta full_accounts parent_outer_idx start_inner_pos kind =
     (case trade_keys X instr full_accounts of
        None \<Rightarrow> Some None
      | Some ((mint, quote_mint, pool_address), (base, quote, pool)) \<Rightarrow>
          (case eligible X ctx pool base quote of
             None \<Rightarrow> Some None
           | Some ccy \<Rightarrow> do {
               let user = unwrap_or ''unknown'' (resolve_instruction_account X instr full_accounts 1);
               ((token_amount, quote_volume, market_cap, base_reserves, quote_reserves), amount_source) \<leftarrow>
                 trade_amounts ctx instr meta parent_outer_idx start_inner_pos kind ccy;
               Some (Some
                 \<lparr>fl_pool_address = pool_address, fl_mint = mint, fl_quote_mint = quote_mint,
                  fl_quote_currency = ccy, fl_instruction_type = ti_name kind,
                  fl_is_cpi = (0 < start_inner_pos), fl_user = user, fl_is_buy = ti_is_buy kind,
                  fl_token_amount = token_amount, fl_quote_volume = quote_volume,
                  fl_market_cap = market_cap, fl_base_reserves = base_reserves,
                  fl_quote_reserves = quote_reserves, fl_amount_source = amount_source\<rparr>) }))"

text \<open>\<open>ctx.emit(fill, trade_index).await; trade_index += 1;\<close> for each fill.\<close>
primrec emit_fills :: "tx_context \<Rightarrow> trade_fill list \<Rightarrow> i32 \<times> amm_state \<Rightarrow> i32 \<times> amm_state" where
  "emit_fills ctx [] s = s"
| "emit_fills ctx (fill # fills) s =
     (let (trade_index, st) = s in emit_fills ctx fills (trade_index + 1, emit ctx fill trade_index st))"

text \<open>The body of the loop over the instructions.\<close>
definition amm_step ::
  "externals \<Rightarrow> tx_context \<Rightarrow> transaction_status_meta \<Rightarrow> bytes list \<Rightarrow>
   compiled_instruction \<times> nat \<times> nat \<Rightarrow> i32 \<times> amm_state \<Rightarrow> (i32 \<times> amm_state) may_panic" where
  "amm_step X ctx meta full_accounts item s =
     (let (instr, parent_outer_idx, start_inner_pos) = item in
      if length (ci_data instr) < 8 then Some s
      else do {
        disc \<leftarrow> slice_index (ci_data instr) 0 8;
        if disc = AMM_MULTI_HOP_SWAP_DISCRIMINATOR then do {
          fills \<leftarrow> multi_hop_fills X ctx instr meta full_accounts parent_outer_idx start_inner_pos;
          Some (emit_fills ctx fills s) }
        else
          (case pump_swap_trade_ix disc of
             None \<Rightarrow> Some s
           | Some kind \<Rightarrow> do {
               fill \<leftarrow> single_trade_fill X ctx instr meta full_accounts parent_outer_idx start_inner_pos kind;
               Some (case fill of
                       None \<Rightarrow> s
                     | Some f \<Rightarrow> (let (trade_index, st) = s in (trade_index + 1, emit ctx f trade_index st))) }) })"

primrec amm_loop ::
  "externals \<Rightarrow> tx_context \<Rightarrow> transaction_status_meta \<Rightarrow> bytes list \<Rightarrow>
   (compiled_instruction \<times> nat \<times> nat) list \<Rightarrow> i32 \<times> amm_state \<Rightarrow> (i32 \<times> amm_state) may_panic" where
  "amm_loop X ctx meta full_accounts [] s = Some s"
| "amm_loop X ctx meta full_accounts (item # items) s = do {
     s \<leftarrow> amm_step X ctx meta full_accounts item s;
     amm_loop X ctx meta full_accounts items s }"

definition full_account_list :: "message \<Rightarrow> transaction_status_meta \<Rightarrow> bytes list" where
  "full_account_list msg meta =
     msg_account_keys msg @ m_loaded_writable_addresses meta @ m_loaded_readonly_addresses meta"

text \<open>The \<open>?\<close> exits, in the order the code takes them: what is needed to process the transaction.\<close>
definition amm_inputs ::
  "externals \<Rightarrow> tx_info \<Rightarrow> amm_error + (pubkey \<times> pubkey \<times> message \<times> transaction_status_meta)" where
  "amm_inputs X tx =
     (case x_pubkey_from_str X PUMP_SWAP_PROGRAM_ID of
        None \<Rightarrow> Inl Bad_Program_Id
      | Some program_id \<Rightarrow>
        (case x_pubkey_from_str X PUMP_PROGRAM_ID of
           None \<Rightarrow> Inl Bad_Program_Id
         | Some pump_program_id \<Rightarrow>
           (case tx_transaction tx of
              None \<Rightarrow> Inl Transaction_Missing
            | Some None \<Rightarrow> Inl Message_Missing
            | Some (Some msg) \<Rightarrow>
              (case tx_meta tx of
                 None \<Rightarrow> Inl Meta_Missing
               | Some meta \<Rightarrow> Inr (program_id, pump_program_id, msg, meta)))))"

text \<open>\<open>now\<close> is the value of \<open>Utc::now()\<close>.\<close>
definition process_pump_swap_tx ::
  "externals \<Rightarrow> timestamp \<Rightarrow> tx_info \<Rightarrow> u64 \<Rightarrow> string set \<Rightarrow> bool \<Rightarrow> amm_state \<Rightarrow>
   ((amm_error + unit) \<times> amm_state) may_panic" where
  "process_pump_swap_tx X now tx slot whitelist readonly st =
     (case amm_inputs X tx of
        Inl e \<Rightarrow> Some (Inl e, st)
      | Inr (program_id, pump_program_id, msg, meta) \<Rightarrow>
          (let full_accounts = full_account_list msg meta;
               all_instrs = get_program_instructions msg meta full_accounts program_id
           in if all_instrs = [] then Some (Inr (), st)
              else do {
                (priority_fee, transfer_tip, tip_provider) \<leftarrow> extract_transaction_fees X msg meta full_accounts;
                let ctx = \<lparr>tc_tx_signature = x_bs58_encode X (tx_signature_bytes tx),
                   tc_slot = slot, tc_now = now, tc_success = tx_succeeded tx,
                   tc_priority_fee = priority_fee, tc_transfer_tip = transfer_tip,
                   tc_tip_provider = tip_provider,
                   tc_compute_units_consumed = m_compute_units_consumed meta,
                   tc_lamports_per_compute_unit = lamports_per_cu priority_fee,
                   tc_whitelist = whitelist, tc_readonly = readonly,
                   tc_pump_program_id = pump_program_id, tc_pump_swap_program_id = program_id\<rparr>;
                (trade_index, st) \<leftarrow> amm_loop X ctx meta full_accounts all_instrs (0, st);
                Some (Inr (), st) }))"

end
