(* ===== verification/AmmProperties.thy ===== *)
theory AmmProperties
  imports AmmHandler "HOL-Library.Sublist"
begin

text \<open>
  What the PumpSwap handler guarantees of the records it writes. The first section shows that no step
  panics and gives the fills of a transaction as a pure list; the theorems then describe that list:
  numbering, filters, sources of the amounts, order of the hops of a route.
\<close>

section \<open>The handler as a list of fills\<close>

definition event_amounts_fn :: "bytes \<Rightarrow> bytes \<Rightarrow> bool \<Rightarrow> quote_currency \<Rightarrow> amounts option" where
  "event_amounts_fn dat disc is_buy ccy = the (event_amounts dat disc is_buy ccy)"

lemma event_amounts_total: "\<exists>r. event_amounts dat disc is_buy ccy = Some r"
  by (simp add: event_amounts_def panic_free Let_def split: option.splits)

lemma event_amounts_closed [panic_free]:
  "event_amounts dat disc is_buy ccy = Some (event_amounts_fn dat disc is_buy ccy)"
  using event_amounts_total [of dat disc is_buy ccy] by (auto simp: event_amounts_fn_def)

lemma event_hop_closed:
  assumes "8 \<le> length dat" "next_hop \<le> length hops"
  shows "event_hop hops next_hop dat =
    Some (do {
      is_buy \<leftarrow> (if take 8 dat = PUMP_SWAP_BUY_EVENT_DISC then Some True
               else if take 8 dat = PUMP_SWAP_SELL_EVENT_DISC then Some False else None);
      pool \<leftarrow> extract_pump_swap_event_pool dat;
      offset \<leftarrow> position (\<lambda>h. hop_pool h = pool) (drop next_hop hops);
      Some (is_buy, next_hop + offset) })"
  using assms
  by (auto simp: event_hop_def rust_defs map_conv_bind_option comp_def split: option.splits)

lemma event_hop_range:
  assumes "8 \<le> length dat" "next_hop \<le> length hops" "event_hop hops next_hop dat = Some (Some (is_buy, i))"
  shows "next_hop \<le> i \<and> i < length hops"
  using assms(3) unfolding event_hop_closed [OF assms(1,2)]
  by (auto simp: bind_eq_Some_conv dest!: position_less)

text \<open>The fills of the event loop, with the hop each of them belongs to.\<close>

primrec route_fills ::
  "externals \<Rightarrow> tx_context \<Rightarrow> pump_swap_hop list \<Rightarrow> bool \<Rightarrow> string \<Rightarrow> bytes list \<Rightarrow> nat \<Rightarrow>
   (nat \<times> trade_fill) list" where
  "route_fills X ctx hops is_cpi user [] next_hop = []"
| "route_fills X ctx hops is_cpi user (dat # dats) next_hop =
     (case the (event_hop hops next_hop dat) of
        None \<Rightarrow> route_fills X ctx hops is_cpi user dats next_hop
      | Some (is_buy, i) \<Rightarrow>
          (case do {
             ccy \<leftarrow> eligible X ctx (hop_pool (hops ! i)) (hop_base_mint (hops ! i)) (hop_quote_mint (hops ! i));
             a \<leftarrow> event_amounts_fn dat (take 8 dat) is_buy ccy;
             Some (hop_fill X hops is_cpi user (hops ! i) ccy is_buy a ''event'') } of
             None \<Rightarrow> []
           | Some f \<Rightarrow> [(i, f)]) @
          route_fills X ctx hops is_cpi user dats (i + 1))"

lemma multi_hop_event_loop_closed:
  assumes "\<And>d. d \<in> set dats \<Longrightarrow> 8 \<le> length d" "next_hop \<le> length hops"
  shows "multi_hop_event_loop X ctx hops is_cpi user dats next_hop =
         Some (map snd (route_fills X ctx hops is_cpi user dats next_hop))"
  using assms
proof (induction dats arbitrary: next_hop)
  case (Cons dat dats)
  then have len: "8 \<le> length dat" by simp
  then have sl: "slice_get dat 0 8 = Some (take 8 dat)" by (simp add: slice_get_def)
  note hit = event_hop_closed [OF len Cons.prems(2)]
  show ?case
  proof (cases "the (event_hop hops next_hop dat)")
    case None
    with hit have "event_hop hops next_hop dat = Some None" by simp
    with Cons show ?thesis by simp
  next
    case (Some bi)
    obtain is_buy i where bi: "bi = (is_buy, i)" by (cases bi)
    from Some hit have e: "event_hop hops next_hop dat = Some (Some (is_buy, i))" by (simp add: bi)
    from event_hop_range [OF len Cons.prems(2) e] have i: "i < length hops" by simp
    then have "multi_hop_event_loop X ctx hops is_cpi user dats (i + 1) =
        Some (map snd (route_fills X ctx hops is_cpi user dats (i + 1)))"
      using Cons by simp
    then show ?thesis
      using i by (auto simp: e sl vec_get_def panic_free split: option.splits)
  qed
qed simp

text \<open>The fills of one instruction.\<close>

definition route_fills_of ::
  "externals \<Rightarrow> tx_context \<Rightarrow> transaction_status_meta \<Rightarrow> bytes list \<Rightarrow> compiled_instruction \<times> nat \<times> nat \<Rightarrow>
   trade_fill list" where
  "route_fills_of X ctx meta full item =
     (let (instr, parent, start) = item in the (multi_hop_fills X ctx instr meta full parent start))"

definition fills_of_item ::
  "externals \<Rightarrow> tx_context \<Rightarrow> transaction_status_meta \<Rightarrow> bytes list \<Rightarrow> compiled_instruction \<times> nat \<times> nat \<Rightarrow>
   trade_fill list" where
  "fills_of_item X ctx meta full item =
     (let (instr, parent, start) = item in
      if length (ci_data instr) < 8 then []
      else if take 8 (ci_data instr) = AMM_MULTI_HOP_SWAP_DISCRIMINATOR then route_fills_of X ctx meta full item
      else (case pump_swap_trade_ix (take 8 (ci_data instr)) of
              None \<Rightarrow> []
            | Some kind \<Rightarrow>
                (case the (single_trade_fill X ctx instr meta full parent start kind) of
                   None \<Rightarrow> [] | Some f \<Rightarrow> [f])))"

lemma multi_hop_fills_success:
  assumes "tc_success ctx"
  shows "multi_hop_fills X ctx instr meta full parent start =
    Some (map snd (route_fills X ctx (route_hops instr full) (0 < start)
      (unwrap_or ''unknown'' (resolve_instruction_account X instr full PUMP_SWAP_MULTI_HOP_USER_IX_POS))
      (map (event_at meta parent) (own_event_positions meta parent start (ci_program_id_index instr))) 0))"
  unfolding multi_hop_fills_def panic_free Let_def using assms
  by (simp, subst multi_hop_event_loop_closed) (auto dest: event_at_long)

lemma multi_hop_fills_failed:
  assumes "\<not> tc_success ctx"
  shows "multi_hop_fills X ctx instr meta full parent start =
    Some (case Option.bind (multi_hop_input_mint X instr meta (route_hops instr full))
                 (multi_hop_sides (route_hops instr full)) of
            None \<Rightarrow> []
          | Some sides \<Rightarrow>
              (let (amount_in, min_amount_out) =
                     (if length (ci_data instr) < 24 then (0, 0)
                      else (field (ci_data instr) 8 8, field (ci_data instr) 16 8))
               in multi_hop_request_loop X ctx (route_hops instr full) (0 < start)
                    (unwrap_or ''unknown''
                      (resolve_instruction_account X instr full PUMP_SWAP_MULTI_HOP_USER_IX_POS))
                    amount_in min_amount_out (length (route_hops instr full) - 1)
                    (zip (route_hops instr full) sides) 0))"
  unfolding multi_hop_fills_def panic_free Let_def using assms
  by (auto split: option.splits)

lemma multi_hop_fills_closed [panic_free]:
  "multi_hop_fills X ctx instr meta full parent start =
     Some (route_fills_of X ctx meta full (instr, parent, start))"
  by (cases "tc_success ctx")
     (simp_all add: route_fills_of_def multi_hop_fills_success multi_hop_fills_failed)

lemma trade_amounts_total: "\<exists>a src. trade_amounts ctx instr meta parent start kind ccy = Some (a, src)"
  by (auto simp: trade_amounts_def panic_free split: option.splits)

lemma single_trade_fill_total: "\<exists>r. single_trade_fill X ctx instr meta full parent start kind = Some r"
proof (cases "trade_keys X instr full")
  case None
  then show ?thesis by (simp add: single_trade_fill_def)
next
  case (Some k)
  obtain mint quote_mint pool_address base quote pool
    where k: "k = ((mint, quote_mint, pool_address), (base, quote, pool))" by (cases k) auto
  show ?thesis
  proof (cases "eligible X ctx pool base quote")
    case None
    with Some show ?thesis by (simp add: single_trade_fill_def k)
  next
    case ccy: (Some ccy)
    obtain token quote_volume mc br qr src
      where "trade_amounts ctx instr meta parent start kind ccy = Some ((token, quote_volume, mc, br, qr), src)"
      using trade_amounts_total [of ctx instr meta parent start kind ccy] by auto
    with Some ccy show ?thesis by (simp add: single_trade_fill_def k)
  qed
qed

lemma single_trade_fill_closed:
  "single_trade_fill X ctx instr meta full parent start kind =
     Some (the (single_trade_fill X ctx instr meta full parent start kind))"
  using single_trade_fill_total [of X ctx instr meta full parent start kind] by auto

lemma emit_fills_append: "emit_fills ctx (fs @ gs) s = emit_fills ctx gs (emit_fills ctx fs s)"
  by (induction fs arbitrary: s) (auto split: prod.splits)

lemma amm_step_closed [panic_free]:
  "amm_step X ctx meta full item s = Some (emit_fills ctx (fills_of_item X ctx meta full item) s)"
proof -
  obtain instr parent start where item: "item = (instr, parent, start)" by (cases item)
  show ?thesis
  proof (cases "length (ci_data instr) < 8")
    case True
    then show ?thesis by (simp add: amm_step_def fills_of_item_def item)
  next
    case False
    then have sl: "slice_get (ci_data instr) 0 8 = Some (take 8 (ci_data instr))"
      by (simp add: slice_get_def)
    show ?thesis
    proof (cases "pump_swap_trade_ix (take 8 (ci_data instr))")
      case None
      with False show ?thesis by (simp add: amm_step_def fills_of_item_def item sl panic_free)
    next
      case (Some kind)
      show ?thesis
        using False Some single_trade_fill_closed [of X ctx instr meta full parent start kind]
        by (cases "the (single_trade_fill X ctx instr meta full parent start kind)")
           (simp_all add: amm_step_def fills_of_item_def item sl panic_free split: prod.splits)
    qed
  qed
qed

definition fills_of_items ::
  "externals \<Rightarrow> tx_context \<Rightarrow> transaction_status_meta \<Rightarrow> bytes list \<Rightarrow>
   (compiled_instruction \<times> nat \<times> nat) list \<Rightarrow> trade_fill list" where
  "fills_of_items X ctx meta full items = concat (map (fills_of_item X ctx meta full) items)"

lemma amm_loop_closed [panic_free]:
  "amm_loop X ctx meta full items s = Some (emit_fills ctx (fills_of_items X ctx meta full items) s)"
  by (induction items arbitrary: s) (simp_all add: fills_of_items_def panic_free emit_fills_append)

section \<open>Result of a transaction\<close>

type_synonym amm_input = "pubkey \<times> pubkey \<times> message \<times> transaction_status_meta"

definition amm_context ::
  "externals \<Rightarrow> timestamp \<Rightarrow> tx_info \<Rightarrow> u64 \<Rightarrow> string set \<Rightarrow> bool \<Rightarrow> amm_input \<Rightarrow> tx_context" where
  "amm_context X now tx slot whitelist readonly inp =
     (let (program_id, pump_program_id, msg, meta) = inp;
          full = full_account_list msg meta;
          (priority_fee, transfer_tip, tip_provider) = the (extract_transaction_fees X msg meta full)
      in \<lparr>tc_tx_signature = x_bs58_encode X (tx_signature_bytes tx),
          tc_slot = slot, tc_now = now, tc_success = tx_succeeded tx,
          tc_priority_fee = priority_fee, tc_transfer_tip = transfer_tip, tc_tip_provider = tip_provider,
          tc_compute_units_consumed = m_compute_units_consumed meta,
          tc_lamports_per_compute_unit = lamports_per_cu priority_fee,
          tc_whitelist = whitelist, tc_readonly = readonly,
          tc_pump_program_id = pump_program_id, tc_pump_swap_program_id = program_id\<rparr>)"

definition amm_fills ::
  "externals \<Rightarrow> timestamp \<Rightarrow> tx_info \<Rightarrow> u64 \<Rightarrow> string set \<Rightarrow> bool \<Rightarrow> amm_input \<Rightarrow> trade_fill list" where
  "amm_fills X now tx slot whitelist readonly inp =
     (let (program_id, pump_program_id, msg, meta) = inp; full = full_account_list msg meta in
      fills_of_items X (amm_context X now tx slot whitelist readonly inp) meta full
        (get_program_instructions msg meta full program_id))"

lemma amm_context_simps [simp]:
  "tc_success (amm_context X now tx slot wl ro inp) = tx_succeeded tx"
  "tc_whitelist (amm_context X now tx slot wl ro inp) = wl"
  "tc_readonly (amm_context X now tx slot wl ro inp) = ro"
  "tc_slot (amm_context X now tx slot wl ro inp) = slot"
  "tc_now (amm_context X now tx slot wl ro inp) = now"
  "tc_tx_signature (amm_context X now tx slot wl ro inp) = x_bs58_encode X (tx_signature_bytes tx)"
  "tc_pump_swap_program_id (amm_context X now tx slot wl ro inp) = fst inp"
  "tc_pump_program_id (amm_context X now tx slot wl ro inp) = fst (snd inp)"
  by (simp_all add: amm_context_def Let_def split: prod.splits)

lemma extract_fees_total: "\<exists>r. extract_transaction_fees X msg meta full = Some r"
  by (auto simp: extract_transaction_fees_def panic_free Let_def split: option.splits)

lemma process_closed:
  assumes "amm_inputs X tx = Inr inp"
  shows "process_pump_swap_tx X now tx slot whitelist readonly st =
    Some (Inr (), snd (emit_fills (amm_context X now tx slot whitelist readonly inp)
                         (amm_fills X now tx slot whitelist readonly inp) (0, st)))"
proof -
  obtain p q msg meta where inp: "inp = (p, q, msg, meta)" by (cases inp)
  define full where "full = full_account_list msg meta"
  obtain fee tip provider where fees: "extract_transaction_fees X msg meta full = Some (fee, tip, provider)"
    using extract_fees_total [of X msg meta full] by auto
  show ?thesis
  proof (cases "get_program_instructions msg meta full p = []")
    case True
    with assms show ?thesis
      by (simp add: process_pump_swap_tx_def inp amm_fills_def full_def [symmetric] fills_of_items_def)
  next
    case False
    with assms fees show ?thesis
      by (simp add: process_pump_swap_tx_def inp amm_fills_def amm_context_def full_def [symmetric]
                    panic_free Let_def split: prod.splits)
  qed
qed

text \<open>C18. Processing a transaction never panics, whatever the message: a call fails exactly when one
  of the inputs is missing, with the first error in the order of the code and without any effect, and
  succeeds otherwise.\<close>

theorem process_pump_swap_tx_total:
  "\<exists>st'. process_pump_swap_tx X now tx slot whitelist readonly st =
           Some (case amm_inputs X tx of Inl e \<Rightarrow> (Inl e, st) | Inr _ \<Rightarrow> (Inr (), st'))"
  using process_closed [of X tx _ now slot whitelist readonly st]
  by (cases "amm_inputs X tx") (auto simp: process_pump_swap_tx_def)

primrec numbered :: "tx_context \<Rightarrow> i32 \<Rightarrow> trade_fill list \<Rightarrow> trade_record list" where
  "numbered ctx i [] = []"
| "numbered ctx i (f # fs) = trade_record_of ctx f i # numbered ctx (i + 1) fs"

lemma length_numbered [simp]: "length (numbered ctx i fs) = length fs"
  by (induction fs arbitrary: i) auto

lemma nth_numbered: "k < length fs \<Longrightarrow> numbered ctx i fs ! k = trade_record_of ctx (fs ! k) (i + word_of_nat k)"
proof (induction fs arbitrary: i k)
  case (Cons f fs)
  then show ?case by (cases k) (auto simp: algebra_simps)
qed simp

lemma set_numbered: "r \<in> set (numbered ctx i fs) \<Longrightarrow> \<exists>f \<in> set fs. \<exists>j. r = trade_record_of ctx f j"
  by (induction fs arbitrary: i) auto

lemma emit_fills_send:
  assumes "\<not> tc_readonly ctx" "\<not> as_channel_closed st"
  shows "emit_fills ctx fs (i, st) =
    (i + word_of_nat (length fs), st\<lparr>as_channel := as_channel st @ numbered ctx i fs\<rparr>)"
  using assms
  by (induction fs arbitrary: i st) (auto simp: emit_def algebra_simps)

lemma emit_fills_readonly:
  assumes "tc_readonly ctx" "emit_fills ctx fs (i, st) = (i', st')"
  shows "as_channel st' = as_channel st \<and> as_channel_closed st' = as_channel_closed st \<and>
         as_trade_counter st' = as_trade_counter st + word_of_nat (length fs) \<and>
         map ll_record (as_log st') = map ll_record (as_log st) @ numbered ctx i fs \<and>
         map ll_n (as_log st') = map ll_n (as_log st) @
           map (\<lambda>k. as_trade_counter st + 1 + word_of_nat k) [0..<length fs]"
  using assms(2)
proof (induction fs arbitrary: i st)
  case (Cons f fs)
  have shift: "map (\<lambda>k. 1 + (c + word_of_nat k)) [0..<Suc n] =
      (1 + c) # map (\<lambda>k. c + (word_of_nat k + 2)) [0..<n]" for c :: u64 and n
    by (simp add: upt_conv_Cons map_Suc_upt [symmetric] algebra_simps del: upt_Suc)
  from Cons.prems have "emit_fills ctx fs (i + 1, emit ctx f i st) = (i', st')" by simp
  from Cons.IH [OF this] assms(1) show ?case
    by (simp add: emit_def Let_def shift algebra_simps del: upt_Suc)
qed simp

lemma sint_i32_of_nat: "k < 2 ^ 31 \<Longrightarrow> sint (word_of_nat k :: i32) = int k"
proof -
  assume "k < 2 ^ 31"
  then have k: "int k < 2 ^ 31" by simp
  have "signed_take_bit 31 (int k) = int k" by (rule signed_take_bit_int_eq_self) (use k in simp_all)
  then show ?thesis by (simp add: signed_of_nat)
qed

lemma numbered_indices:
  assumes "length fs \<le> 2 ^ 31"
  shows "map (\<lambda>r. sint (tr_ix_index r)) (numbered ctx 0 fs) = map int [0..<length fs]"
proof (rule nth_equalityI)
  fix k assume "k < length (map (\<lambda>r. sint (tr_ix_index r)) (numbered ctx 0 fs))"
  with assms show "map (\<lambda>r. sint (tr_ix_index r)) (numbered ctx 0 fs) ! k = map int [0..<length fs] ! k"
    by (simp add: nth_numbered trade_record_of_def sint_i32_of_nat)
qed simp

text \<open>C1. The records of a transaction: with the channel open and readonly off, exactly one record per
  fill is sent, in order, behind what was sent before. Their indices are 0, 1, 2, ... (up to \<open>2 ^ 31\<close>
  of them, where the counter would wrap), and all records carry the signature, slot, outcome and time of
  the transaction; the log and the counter are not touched.\<close>

theorem process_pump_swap_tx_records:
  assumes "amm_inputs X tx = Inr inp" "\<not> as_channel_closed st"
  shows "let fills = amm_fills X now tx slot whitelist False inp;
             ctx = amm_context X now tx slot whitelist False inp in
    \<exists>recs. process_pump_swap_tx X now tx slot whitelist False st =
           Some (Inr (), st\<lparr>as_channel := as_channel st @ recs\<rparr>) \<and>
         length recs = length fills \<and>
         (\<forall>k<length fills. recs ! k = trade_record_of ctx (fills ! k) (word_of_nat k)) \<and>
         (length fills \<le> 2 ^ 31 \<longrightarrow> map (\<lambda>r. sint (tr_ix_index r)) recs = map int [0..<length fills]) \<and>
         (\<forall>r\<in>set recs. tr_tx_signature r = x_bs58_encode X (tx_signature_bytes tx) \<and>
            tr_slot r = slot \<and> tr_success r = tx_succeeded tx \<and> tr_created_at r = now)"
proof -
  define fills where "fills = amm_fills X now tx slot whitelist False inp"
  define ctx where "ctx = amm_context X now tx slot whitelist False inp"
  have "process_pump_swap_tx X now tx slot whitelist False st =
      Some (Inr (), st\<lparr>as_channel := as_channel st @ numbered ctx 0 fills\<rparr>)"
    using assms(2) by (simp add: process_closed [OF assms(1)] emit_fills_send fills_def ctx_def)
  moreover have "\<forall>r\<in>set (numbered ctx 0 fills). tr_tx_signature r = x_bs58_encode X (tx_signature_bytes tx) \<and>
      tr_slot r = slot \<and> tr_success r = tx_succeeded tx \<and> tr_created_at r = now"
    by (auto dest!: set_numbered simp: trade_record_of_def ctx_def)
  ultimately show ?thesis
    unfolding Let_def fills_def [symmetric] ctx_def [symmetric]
    by (intro exI [of _ "numbered ctx 0 fills"]) (simp add: nth_numbered numbered_indices)
qed

text \<open>Readonly mode writes nothing to the channel: it logs the records that would be sent, in the
  same order, under consecutive numbers that continue the process-wide counter.\<close>

theorem process_pump_swap_tx_readonly:
  assumes "amm_inputs X tx = Inr inp"
  shows "\<exists>st'. process_pump_swap_tx X now tx slot whitelist True st = Some (Inr (), st') \<and>
    as_channel st' = as_channel st \<and>
    (let ctx = amm_context X now tx slot whitelist True inp;
         fills = amm_fills X now tx slot whitelist True inp in
     map ll_record (as_log st') = map ll_record (as_log st) @ numbered ctx 0 fills \<and>
     map ll_n (as_log st') = map ll_n (as_log st) @
       map (\<lambda>k. as_trade_counter st + 1 + word_of_nat k) [0..<length fills] \<and>
     as_trade_counter st' = as_trade_counter st + word_of_nat (length fills))"
proof -
  obtain i' st' where e: "emit_fills (amm_context X now tx slot whitelist True inp)
      (amm_fills X now tx slot whitelist True inp) (0, st) = (i', st')" by fastforce
  have "process_pump_swap_tx X now tx slot whitelist True st = Some (Inr (), st')"
    by (simp add: process_closed [OF assms] e)
  with emit_fills_readonly [OF _ e] show ?thesis by (auto simp: Let_def)
qed

section \<open>Filters\<close>

lemma eligible_iff:
  "eligible X ctx pool base quote = Some ccy \<longleftrightarrow>
     x_pubkey_to_string X base \<noteq> WSOL_MINT \<and>
     quote_currency_of X (x_pubkey_to_string X quote) = Some ccy \<and>
     (tc_readonly ctx \<or> x_pubkey_to_string X base \<in> tc_whitelist ctx) \<and>
     pool = canonical_pump_swap_pool X base quote (tc_pump_program_id ctx) (tc_pump_swap_program_id ctx)"
  by (auto simp: eligible_def Let_def bind_eq_Some_conv)

text \<open>The fill is for an eligible pool and names its keys.\<close>
definition fill_eligible :: "externals \<Rightarrow> tx_context \<Rightarrow> trade_fill \<Rightarrow> bool" where
  "fill_eligible X ctx f \<longleftrightarrow>
     (\<exists>pool base quote. length base = 32 \<and> length quote = 32 \<and>
        eligible X ctx pool base quote = Some (fl_quote_currency f) \<and>
        fl_mint f = x_pubkey_to_string X base \<and> fl_quote_mint f = x_pubkey_to_string X quote \<and>
        fl_pool_address f = x_pubkey_to_string X pool)"

text \<open>The amounts of a fill agree with their source.\<close>
definition fill_sound :: "tx_context \<Rightarrow> trade_fill \<Rightarrow> bool" where
  "fill_sound ctx f \<longleftrightarrow>
     (fl_amount_source f = ''event'' \<and> tc_success ctx \<and>
      fl_market_cap f = Some (get_market_cap_from_reserves (fl_base_reserves f) (fl_quote_reserves f)
                                (fl_quote_currency f))) \<or>
     (fl_amount_source f = ''instruction_request'' \<and> fl_market_cap f = None \<and>
      fl_base_reserves f = 0 \<and> fl_quote_reserves f = 0)"

lemma event_amounts_market_cap:
  assumes "event_amounts_fn dat disc is_buy ccy = Some (t, q, mc, br, qr)"
  shows "mc = Some (get_market_cap_from_reserves br qr ccy)"
proof -
  have "event_amounts dat disc is_buy ccy = Some (Some (t, q, mc, br, qr))"
    using assms by (simp add: event_amounts_closed)
  then show ?thesis
    by (auto simp: event_amounts_def panic_free Let_def split: option.splits if_splits prod.splits)
qed

lemma hop_fill_eligible:
  assumes "h \<in> set (route_hops instr full)"
    "eligible X ctx (hop_pool h) (hop_base_mint h) (hop_quote_mint h) = Some ccy"
  shows "fill_eligible X ctx (hop_fill X hops is_cpi user h ccy is_buy a src)"
  using assms route_hop_keys [OF assms(1)]
  by (auto simp: fill_eligible_def hop_fill_def split: prod.splits)

lemma event_hop_nth:
  assumes "the (event_hop hops next_hop dat) = Some (is_buy, i)" "8 \<le> length dat" "next_hop \<le> length hops"
  shows "next_hop \<le> i \<and> i < length hops"
  using assms event_hop_closed [OF assms(2,3)] event_hop_range [OF assms(2,3), of is_buy i] by simp

text \<open>How the fills of the two loops arise.\<close>

definition event_fill ::
  "externals \<Rightarrow> tx_context \<Rightarrow> pump_swap_hop list \<Rightarrow> bool \<Rightarrow> string \<Rightarrow> bytes set \<Rightarrow> nat \<Rightarrow> trade_fill \<Rightarrow> bool" where
  "event_fill X ctx hops is_cpi user dats i f \<longleftrightarrow>
     (\<exists>ccy is_buy a. \<exists>dat\<in>dats.
       eligible X ctx (hop_pool (hops ! i)) (hop_base_mint (hops ! i)) (hop_quote_mint (hops ! i)) = Some ccy \<and>
       event_amounts_fn dat (take 8 dat) is_buy ccy = Some a \<and>
       f = hop_fill X hops is_cpi user (hops ! i) ccy is_buy a ''event'')"

definition request_fill ::
  "externals \<Rightarrow> tx_context \<Rightarrow> pump_swap_hop list \<Rightarrow> bool \<Rightarrow> string \<Rightarrow> pump_swap_hop set \<Rightarrow> trade_fill \<Rightarrow> bool" where
  "request_fill X ctx hops is_cpi user hs f \<longleftrightarrow>
     (\<exists>ccy is_buy t q. \<exists>h\<in>hs.
       eligible X ctx (hop_pool h) (hop_base_mint h) (hop_quote_mint h) = Some ccy \<and>
       f = hop_fill X hops is_cpi user h ccy is_buy (t, q, None, 0, 0) ''instruction_request'')"

lemma event_fill_mono:
  "event_fill X ctx hops is_cpi user D i f \<Longrightarrow> D \<subseteq> D' \<Longrightarrow> event_fill X ctx hops is_cpi user D' i f"
  unfolding event_fill_def by blast

lemma request_fill_mono:
  "request_fill X ctx hops is_cpi user H f \<Longrightarrow> H \<subseteq> H' \<Longrightarrow> request_fill X ctx hops is_cpi user H' f"
  unfolding request_fill_def by blast

lemma Some_eq_bind_conv: "Some y = Option.bind a g \<longleftrightarrow> (\<exists>x. a = Some x \<and> g x = Some y)"
  by (cases a) auto

lemma route_fills_props:
  assumes "(i, f) \<in> set (route_fills X ctx hops is_cpi user dats next_hop)"
    "\<And>d. d \<in> set dats \<Longrightarrow> 8 \<le> length d" "next_hop \<le> length hops"
  shows "next_hop \<le> i \<and> i < length hops \<and> event_fill X ctx hops is_cpi user (set dats) i f"
  using assms
proof (induction dats arbitrary: next_hop)
  case (Cons dat dats)
  have mono: "event_fill X ctx hops is_cpi user (set dats) i f \<Longrightarrow>
      event_fill X ctx hops is_cpi user (set (dat # dats)) i f"
    by (erule event_fill_mono) auto
  show ?case
  proof (cases "the (event_hop hops next_hop dat)")
    case None
    with Cons.prems(1) have "(i, f) \<in> set (route_fills X ctx hops is_cpi user dats next_hop)" by simp
    from Cons.IH [OF this] Cons.prems mono show ?thesis by auto
  next
    case (Some bj)
    obtain is_buy j where bj: "bj = (is_buy, j)" by (cases bj)
    have j: "next_hop \<le> j" "j < length hops"
      using event_hop_nth [of hops next_hop dat is_buy j] Some Cons.prems by (auto simp: bj)
    show ?thesis
    proof (cases "(i, f) \<in> set (route_fills X ctx hops is_cpi user dats (j + 1))")
      case True
      from Cons.IH [OF this] Cons.prems j mono show ?thesis by auto
    next
      case False
      then obtain ccy a where f: "i = j"
          "eligible X ctx (hop_pool (hops ! j)) (hop_base_mint (hops ! j)) (hop_quote_mint (hops ! j)) = Some ccy"
          "event_amounts_fn dat (take 8 dat) is_buy ccy = Some a"
          "f = hop_fill X hops is_cpi user (hops ! j) ccy is_buy a ''event''"
        using Cons.prems(1) Some by (auto simp: bj Some_eq_bind_conv bind_eq_Some_conv split: option.splits)
      then have "event_fill X ctx hops is_cpi user (set (dat # dats)) i f"
        unfolding event_fill_def by (metis list.set_intros(1))
      with f(1) j show ?thesis by simp
    qed
  qed
qed simp

lemma request_loop_props:
  assumes "f \<in> set (multi_hop_request_loop X ctx hops is_cpi user amt_in min_out last_ix hss i)"
  shows "request_fill X ctx hops is_cpi user (fst ` set hss) f"
  using assms
proof (induction hss arbitrary: i)
  case (Cons hs hss)
  obtain h is_buy where hs: "hs = (h, is_buy)" by (cases hs)
  show ?case
  proof (cases "f \<in> set (multi_hop_request_loop X ctx hops is_cpi user amt_in min_out last_ix hss (i + 1))")
    case True
    from Cons.IH [OF this] show ?thesis by (rule request_fill_mono) auto
  next
    case False
    then obtain ccy t q where
        "eligible X ctx (hop_pool h) (hop_base_mint h) (hop_quote_mint h) = Some ccy"
        "f = hop_fill X hops is_cpi user h ccy is_buy (t, q, None, 0, 0) ''instruction_request''"
      using Cons.prems by (auto simp: hs Let_def split: option.splits prod.splits)
    then show ?thesis
      unfolding request_fill_def hs by (intro exI [of _ ccy] exI [of _ is_buy] exI [of _ t] exI [of _ q] bexI [of _ h]) auto
  qed
qed simp

lemma trade_amounts_sound:
  assumes "trade_amounts ctx instr meta parent start kind ccy = Some ((t, q, mc, br, qr), src)"
  shows "(src = ''event'' \<and> tc_success ctx \<and> mc = Some (get_market_cap_from_reserves br qr ccy)) \<or>
         (src = ''instruction_request'' \<and> mc = None \<and> br = 0 \<and> qr = 0)"
  using assms
  by (auto simp: trade_amounts_def panic_free dest: event_amounts_market_cap
           split: option.splits if_splits prod.splits)

lemma trade_keys_Some:
  assumes "pubkey_text_ok X" "trade_keys X instr full = Some ((mint, quote_mint, pool_address), (base, quote, pool))"
  shows "mint = x_pubkey_to_string X base \<and> quote_mint = x_pubkey_to_string X quote \<and>
         pool_address = x_pubkey_to_string X pool \<and> length base = 32 \<and> length quote = 32 \<and> length pool = 32"
  using assms(2)
  by (auto simp: trade_keys_def resolve_eqs bind_eq_Some_conv
           dest!: instruction_account_length
           simp: pubkey_text_roundtrip [OF assms(1)])

lemma single_fill_props:
  assumes "pubkey_text_ok X" "single_trade_fill X ctx instr meta full parent start kind = Some (Some f)"
  shows "fill_eligible X ctx f \<and> fill_sound ctx f"
proof -
  obtain mint quote_mint pool_address base quote pool ccy t q mc br qr src where
    k: "trade_keys X instr full = Some ((mint, quote_mint, pool_address), (base, quote, pool))" and
    e: "eligible X ctx pool base quote = Some ccy" and
    a: "trade_amounts ctx instr meta parent start kind ccy = Some ((t, q, mc, br, qr), src)" and
    f: "fl_pool_address f = pool_address" "fl_mint f = mint" "fl_quote_mint f = quote_mint"
       "fl_quote_currency f = ccy" "fl_market_cap f = mc" "fl_base_reserves f = br"
       "fl_quote_reserves f = qr" "fl_amount_source f = src"
    using assms(2)
    by (auto simp: single_trade_fill_def bind_eq_Some_conv split: option.splits prod.splits)
  from trade_keys_Some [OF assms(1) k] e f have "fill_eligible X ctx f"
    unfolding fill_eligible_def by metis
  moreover from trade_amounts_sound [OF a] f have "fill_sound ctx f"
    by (simp add: fill_sound_def)
  ultimately show ?thesis ..
qed

lemma hop_fill_fields:
  "fl_amount_source (hop_fill X hops is_cpi user h ccy is_buy (t, q, mc, br, qr) src) = src"
  "fl_market_cap (hop_fill X hops is_cpi user h ccy is_buy (t, q, mc, br, qr) src) = mc"
  "fl_base_reserves (hop_fill X hops is_cpi user h ccy is_buy (t, q, mc, br, qr) src) = br"
  "fl_quote_reserves (hop_fill X hops is_cpi user h ccy is_buy (t, q, mc, br, qr) src) = qr"
  "fl_quote_currency (hop_fill X hops is_cpi user h ccy is_buy (t, q, mc, br, qr) src) = ccy"
  by (simp_all add: hop_fill_def)

lemma route_fill_props:
  assumes "f \<in> set (route_fills_of X ctx meta full item)"
  shows "fill_eligible X ctx f \<and> fill_sound ctx f"
proof -
  obtain instr parent start where item: "item = (instr, parent, start)" by (cases item)
  let ?hops = "route_hops instr full"
  let ?user = "unwrap_or ''unknown'' (resolve_instruction_account X instr full PUMP_SWAP_MULTI_HOP_USER_IX_POS)"
  show ?thesis
  proof (cases "tc_success ctx")
    case True
    define events where
      "events = map (event_at meta parent) (own_event_positions meta parent start (ci_program_id_index instr))"
    from assms True obtain i where "(i, f) \<in> set (route_fills X ctx ?hops (0 < start) ?user events 0)"
      by (auto simp: route_fills_of_def item multi_hop_fills_success events_def)
    moreover have "8 \<le> length d" if "d \<in> set events" for d
      using that event_at_long by (auto simp: events_def)
    ultimately have i: "i < length ?hops" "event_fill X ctx ?hops (0 < start) ?user (set events) i f"
      using route_fills_props [of i f X ctx ?hops "0 < start" ?user events 0] by auto
    then obtain ccy is_buy t q mc br qr dat where
      e: "eligible X ctx (hop_pool (?hops ! i)) (hop_base_mint (?hops ! i)) (hop_quote_mint (?hops ! i)) = Some ccy"
      and a: "event_amounts_fn dat (take 8 dat) is_buy ccy = Some (t, q, mc, br, qr)"
      and f: "f = hop_fill X ?hops (0 < start) ?user (?hops ! i) ccy is_buy (t, q, mc, br, qr) ''event''"
      by (auto simp: event_fill_def)
    from hop_fill_eligible [OF nth_mem [OF i(1)] e] f have "fill_eligible X ctx f" by simp
    moreover have "fill_sound ctx f"
      using True event_amounts_market_cap [OF a] by (simp add: fill_sound_def f hop_fill_fields)
    ultimately show ?thesis ..
  next
    case False
    with assms obtain sides amt_in min_out where
      "f \<in> set (multi_hop_request_loop X ctx ?hops (0 < start) ?user amt_in min_out
                 (length ?hops - 1) (zip ?hops sides) 0)"
      by (auto simp: route_fills_of_def item multi_hop_fills_failed Let_def split: option.splits prod.splits)
    from request_loop_props [OF this]
    obtain ccy is_buy t q h where h: "h \<in> set ?hops"
      and e: "eligible X ctx (hop_pool h) (hop_base_mint h) (hop_quote_mint h) = Some ccy"
      and f: "f = hop_fill X ?hops (0 < start) ?user h ccy is_buy (t, q, None, 0, 0) ''instruction_request''"
      by (auto simp: request_fill_def dest: set_zip_leftD)
    from hop_fill_eligible [OF h e] f have "fill_eligible X ctx f" by simp
    moreover have "fill_sound ctx f" by (simp add: fill_sound_def f hop_fill_fields)
    ultimately show ?thesis ..
  qed
qed

lemma fills_of_item_props:
  assumes "pubkey_text_ok X" "f \<in> set (fills_of_item X ctx meta full item)"
  shows "fill_eligible X ctx f \<and> fill_sound ctx f"
proof -
  obtain instr parent start where item: "item = (instr, parent, start)" by (cases item)
  show ?thesis
  proof (cases "f \<in> set (route_fills_of X ctx meta full item)")
    case True
    then show ?thesis by (rule route_fill_props)
  next
    case False
    then obtain kind where "the (single_trade_fill X ctx instr meta full parent start kind) = Some f"
      using assms(2) by (auto simp: fills_of_item_def item split: if_splits option.splits)
    then have "single_trade_fill X ctx instr meta full parent start kind = Some (Some f)"
      using single_trade_fill_closed [of X ctx instr meta full parent start kind] by simp
    from single_fill_props [OF assms(1) this] show ?thesis .
  qed
qed

lemma amm_fills_props:
  assumes "pubkey_text_ok X" "f \<in> set (amm_fills X now tx slot whitelist readonly inp)"
  shows "fill_eligible X (amm_context X now tx slot whitelist readonly inp) f \<and>
         fill_sound (amm_context X now tx slot whitelist readonly inp) f"
  using assms(2) fills_of_item_props [OF assms(1)]
  by (auto simp: amm_fills_def fills_of_items_def Let_def split: prod.splits)

text \<open>C12. Every trade the handler records passed the filters: its coin is not WSOL and is whitelisted
  (unless readonly), its pool is the canonical index-0 pool of exactly the two mints written with it,
  and its quote currency is the classification of its quote mint.\<close>

theorem recorded_trades_pass_filters:
  assumes "pubkey_text_ok X"
    "f \<in> set (amm_fills X now tx slot whitelist readonly (program_id, pump_program_id, msg, meta))"
  shows "fl_mint f \<noteq> WSOL_MINT \<and> (readonly \<or> fl_mint f \<in> whitelist) \<and>
    (\<exists>base quote. length base = 32 \<and> length quote = 32 \<and>
       fl_mint f = x_pubkey_to_string X base \<and> fl_quote_mint f = x_pubkey_to_string X quote \<and>
       quote_currency_of X (fl_quote_mint f) = Some (fl_quote_currency f) \<and>
       fl_pool_address f =
         x_pubkey_to_string X (canonical_pump_swap_pool X base quote pump_program_id program_id))"
proof -
  obtain pool base quote where k: "length base = 32" "length quote = 32"
      "fl_mint f = x_pubkey_to_string X base" "fl_quote_mint f = x_pubkey_to_string X quote"
      "fl_pool_address f = x_pubkey_to_string X pool"
    and e: "eligible X (amm_context X now tx slot whitelist readonly (program_id, pump_program_id, msg, meta))
              pool base quote = Some (fl_quote_currency f)"
    using amm_fills_props [OF assms] by (auto simp: fill_eligible_def)
  show ?thesis
    using e k unfolding eligible_iff by (intro conjI exI [of _ base] exI [of _ quote]) simp_all
qed

text \<open>C14. The amounts of a record say where they come from: an \<open>event\<close> record belongs to a transaction
  that landed and its market cap is the price of the reserves it reports; a record of a failed
  transaction is always an \<open>instruction_request\<close>, and such a record has no market cap and no
  reserves.\<close>

theorem recorded_amounts_sound:
  assumes "pubkey_text_ok X" "f \<in> set (amm_fills X now tx slot whitelist readonly inp)"
  shows "(fl_amount_source f = ''event'' \<and> tx_succeeded tx \<and>
          fl_market_cap f = Some (get_market_cap_from_reserves (fl_base_reserves f) (fl_quote_reserves f)
                                    (fl_quote_currency f))) \<or>
         (fl_amount_source f = ''instruction_request'' \<and> fl_market_cap f = None \<and>
          fl_base_reserves f = 0 \<and> fl_quote_reserves f = 0)"
  using amm_fills_props [OF assms] by (simp add: fill_sound_def)

section \<open>Routes\<close>

definition hop_texts :: "externals \<Rightarrow> pump_swap_hop \<Rightarrow> string \<times> string \<times> string" where
  "hop_texts X h = (x_pubkey_to_string X (hop_pool h), x_pubkey_to_string X (hop_base_mint h),
                    x_pubkey_to_string X (hop_quote_mint h))"

definition fill_texts :: "trade_fill \<Rightarrow> string \<times> string \<times> string" where
  "fill_texts f = (fl_pool_address f, fl_mint f, fl_quote_mint f)"

lemma fill_texts_hop_fill [simp]: "fill_texts (hop_fill X hops c u h ccy b a src) = hop_texts X h"
  by (simp add: fill_texts_def hop_fill_def hop_texts_def split: prod.splits)

lemma route_fills_order:
  assumes "\<And>d. d \<in> set dats \<Longrightarrow> 8 \<le> length d" "next_hop \<le> length hops"
  shows "subseq (map (fill_texts \<circ> snd) (route_fills X ctx hops is_cpi user dats next_hop))
                (map (hop_texts X) (drop next_hop hops))"
  using assms
proof (induction dats arbitrary: next_hop)
  case (Cons dat dats)
  show ?case
  proof (cases "the (event_hop hops next_hop dat)")
    case None
    with Cons show ?thesis by simp
  next
    case (Some bi)
    obtain is_buy i where bi: "bi = (is_buy, i)" by (cases bi)
    have i: "next_hop \<le> i" "i < length hops"
      using event_hop_nth [of hops next_hop dat is_buy i] Some Cons.prems by (auto simp: bi)
    have "drop next_hop hops = take (i - next_hop) (drop next_hop hops) @ drop i hops"
      using i by (metis append_take_drop_id drop_drop le_add_diff_inverse2)
    also have "drop i hops = hops ! i # drop (i + 1) hops"
      using i by (simp add: Cons_nth_drop_Suc)
    finally have split: "drop next_hop hops =
        take (i - next_hop) (drop next_hop hops) @ hops ! i # drop (i + 1) hops" .
    have tail: "subseq (map (fill_texts \<circ> snd) (route_fills X ctx hops is_cpi user dats (i + 1)))
        (map (hop_texts X) (drop (i + 1) hops))"
      using Cons.IH [of "i + 1"] Cons.prems i by (simp add: comp_def)
    have "subseq (map (fill_texts \<circ> snd) (route_fills X ctx hops is_cpi user (dat # dats) next_hop))
        (map (hop_texts X) (hops ! i # drop (i + 1) hops))"
      using tail Some by (auto simp: bi bind_eq_Some_conv split: option.splits)
    then show ?thesis
      by (subst split) (simp only: map_append list_emb_append2)
  qed
qed simp

lemma request_loop_order:
  "subseq (map fill_texts (multi_hop_request_loop X ctx hops is_cpi user a b l hss i))
          (map (hop_texts X \<circ> fst) hss)"
  by (induction hss arbitrary: i) (auto simp: Let_def split: option.splits prod.splits)

text \<open>C34. The fills of a multi-hop swap follow the route: they are recorded in route order, each
  account group is used at most once, and the pool and both mints written are those of one group,
  whether the transaction landed or not.\<close>

theorem multi_hop_fills_in_route_order:
  "\<exists>hops fills. multi_hop_swap_hops instr full = Some hops \<and>
     multi_hop_fills X ctx instr meta full parent start = Some fills \<and>
     subseq (map fill_texts fills) (map (hop_texts X) hops)"
proof -
  let ?user = "unwrap_or ''unknown'' (resolve_instruction_account X instr full PUMP_SWAP_MULTI_HOP_USER_IX_POS)"
  have len: "8 \<le> length d" if
    "d \<in> set (map (event_at meta parent) (own_event_positions meta parent start p))" for d p
    using that event_at_long by auto
  have "subseq (map fill_texts (route_fills_of X ctx meta full (instr, parent, start)))
          (map (hop_texts X) (route_hops instr full))"
  proof (cases "tc_success ctx")
    case True
    have "subseq (map (fill_texts \<circ> snd) (route_fills X ctx (route_hops instr full) (0 < start) ?user
        (map (event_at meta parent) (own_event_positions meta parent start (ci_program_id_index instr))) 0))
        (map (hop_texts X) (drop 0 (route_hops instr full)))"
      by (rule route_fills_order [OF len]) auto
    with True show ?thesis by (simp add: route_fills_of_def multi_hop_fills_success)
  next
    case False
    have zip: "map (hop_texts X \<circ> fst) (zip hs ss) = map (hop_texts X) hs" if "length ss = length hs"
      for hs and ss :: "bool list"
      using that by (metis map_fst_zip map_map)
    show ?thesis
      using False request_loop_order [of X ctx "route_hops instr full" "0 < start" ?user]
      by (auto simp: route_fills_of_def multi_hop_fills_failed Let_def bind_eq_Some_conv
          split: option.splits prod.splits)
         (metis (no_types, lifting) zip sides_length)+
  qed
  then show ?thesis by (simp add: panic_free)
qed

text \<open>The requested amounts of hop \<open>i\<close> out of \<open>n\<close>: the input on the first hop, the minimal output on the
  last, as \<open>(token, quote)\<close>.\<close>

definition requested_on_hop :: "u64 \<Rightarrow> u64 \<Rightarrow> nat \<Rightarrow> nat \<Rightarrow> bool \<Rightarrow> u64 \<times> u64" where
  "requested_on_hop amount_in min_amount_out n i is_buy =
     (let spent = (if i = 0 then amount_in else 0);
          received = (if Suc i = n then min_amount_out else 0)
      in if is_buy then (received, spent) else (spent, received))"

definition request_fill_of ::
  "externals \<Rightarrow> tx_context \<Rightarrow> pump_swap_hop list \<Rightarrow> bool \<Rightarrow> string \<Rightarrow> u64 \<Rightarrow> u64 \<Rightarrow>
   nat \<times> pump_swap_hop \<times> bool \<Rightarrow> trade_fill option" where
  "request_fill_of X ctx hops is_cpi user amount_in min_amount_out x =
     (let (i, h, is_buy) = x;
          (token, quote) = requested_on_hop amount_in min_amount_out (length hops) i is_buy
      in map_option
           (\<lambda>ccy. hop_fill X hops is_cpi user h ccy is_buy (token, quote, None, 0, 0) ''instruction_request'')
           (eligible X ctx (hop_pool h) (hop_base_mint h) (hop_quote_mint h)))"

lemma request_loop_fills:
  assumes "length hops = Suc l"
  shows "multi_hop_request_loop X ctx hops c u a b l hss i =
         List.map_filter (request_fill_of X ctx hops c u a b) (List.enumerate i hss)"
proof (induction hss arbitrary: i)
  case (Cons hs hss)
  obtain h is_buy where hs: "hs = (h, is_buy)" by (cases hs)
  let ?rest = "multi_hop_request_loop X ctx hops c u a b l hss (Suc i)"
  have "multi_hop_request_loop X ctx hops c u a b l (hs # hss) i =
      (case request_fill_of X ctx hops c u a b (i, hs) of None \<Rightarrow> ?rest | Some f \<Rightarrow> f # ?rest)"
    unfolding hs request_fill_of_def requested_on_hop_def
    by (simp add: Let_def assms split: option.split prod.split)
  then show ?case
    by (simp only: Cons.IH enumerate_simps List.map_filter_simps)
qed (simp add: List.map_filter_simps)

text \<open>C35. A failed multi-hop swap is recorded hop by hop: when the route chains from its input mint, each
  eligible hop yields one fill on the side the chain gives it; the first hop carries \<open>amount_in\<close> on
  what it takes, the last one \<open>min_amount_out\<close> on what it gives, every other amount is 0. When it does
  not chain, nothing is recorded.\<close>

theorem failed_route_requests:
  assumes "\<not> tc_success ctx" "24 \<le> length (ci_data instr)" "route_hops instr full \<noteq> []"
  shows "multi_hop_fills X ctx instr meta full parent start =
    Some (case Option.bind (multi_hop_input_mint X instr meta (route_hops instr full))
                 (multi_hop_sides (route_hops instr full)) of
            None \<Rightarrow> []
          | Some sides \<Rightarrow>
              List.map_filter
                (request_fill_of X ctx (route_hops instr full) (0 < start)
                  (unwrap_or ''unknown'' (resolve_instruction_account X instr full PUMP_SWAP_MULTI_HOP_USER_IX_POS))
                  (field (ci_data instr) 8 8) (field (ci_data instr) 16 8))
                (List.enumerate 0 (zip (route_hops instr full) sides)))"
proof -
  obtain l where l: "length (route_hops instr full) = Suc l" using assms(3) by (cases "route_hops instr full") auto
  then show ?thesis
    using assms(1,2) by (simp add: multi_hop_fills_failed request_loop_fills [OF l] split: option.splits)
qed

section \<open>A trade with its event\<close>

definition encode_event :: "bool \<Rightarrow> pump_swap_event \<Rightarrow> bool \<Rightarrow> bytes" where
  "encode_event is_buy e with_appended_fields =
     (if is_buy then encode_buy_event e with_appended_fields else encode_sell_event e with_appended_fields)"

text \<open>The effective quote reserves the event reports.\<close>
definition event_quote_reserves :: "pump_swap_event \<Rightarrow> bool \<Rightarrow> u64" where
  "event_quote_reserves e with_appended_fields =
     effective_quote_reserves (pe_pool_quote_token_reserves e)
       (if with_appended_fields then Some (pe_virtual_quote_reserves e) else None)"

lemma event_amounts_encoded:
  assumes "event_wf e"
  shows "event_amounts_fn (encode_event is_buy e b)
           (if is_buy then PUMP_SWAP_BUY_EVENT_DISC else PUMP_SWAP_SELL_EVENT_DISC) is_buy ccy =
    Some (pe_base_amount e, if is_buy then pe_user_quote_amount e else pe_quote_amount e,
          Some (get_market_cap_from_reserves (pe_pool_base_token_reserves e) (event_quote_reserves e b) ccy),
          pe_pool_base_token_reserves e, event_quote_reserves e b)"
  using buy_event_decoded [OF assms, of b] sell_event_decoded [OF assms, of b]
  by (cases is_buy)
     (simp_all add: event_amounts_fn_def event_amounts_def encode_event_def event_quote_reserves_def Let_def)

text \<open>C5. A trade that landed is recorded from its own event: when the instruction is classified as a buy
  or sell of an eligible pool and its event, in the IDL's layout, is the one the search finds, exactly one
  fill results, and it carries the base amount, the quote amount the user paid or the pool paid out, the
  pool's base reserves, its effective quote reserves and the market cap of those reserves.\<close>

theorem executed_trade_recorded:
  assumes "tc_success ctx" "8 \<le> length (ci_data instr)"
    "take 8 (ci_data instr) \<noteq> AMM_MULTI_HOP_SWAP_DISCRIMINATOR"
    "pump_swap_trade_ix (take 8 (ci_data instr)) = Some kind"
    "ti_event_disc kind = (if ti_is_buy kind then PUMP_SWAP_BUY_EVENT_DISC else PUMP_SWAP_SELL_EVENT_DISC)"
    "trade_keys X instr full = Some ((mint, quote_mint, pool_address), (base, quote, pool))"
    "eligible X ctx pool base quote = Some ccy"
    "find_event_data meta parent start (ci_program_id_index instr) (ti_event_disc kind) =
       Some (Some (encode_event (ti_is_buy kind) e b))"
    "event_wf e"
  shows "fills_of_item X ctx meta full (instr, parent, start) =
    [\<lparr>fl_pool_address = pool_address, fl_mint = mint, fl_quote_mint = quote_mint, fl_quote_currency = ccy,
      fl_instruction_type = ti_name kind, fl_is_cpi = (0 < start),
      fl_user = unwrap_or ''unknown'' (resolve_instruction_account X instr full 1),
      fl_is_buy = ti_is_buy kind, fl_token_amount = pe_base_amount e,
      fl_quote_volume = (if ti_is_buy kind then pe_user_quote_amount e else pe_quote_amount e),
      fl_market_cap = Some (get_market_cap_from_reserves (pe_pool_base_token_reserves e)
                              (event_quote_reserves e b) ccy),
      fl_base_reserves = pe_pool_base_token_reserves e,
      fl_quote_reserves = event_quote_reserves e b, fl_amount_source = ''event''\<rparr>]"
proof -
  have "trade_amounts ctx instr meta parent start kind ccy =
      Some ((pe_base_amount e, if ti_is_buy kind then pe_user_quote_amount e else pe_quote_amount e,
        Some (get_market_cap_from_reserves (pe_pool_base_token_reserves e) (event_quote_reserves e b) ccy),
        pe_pool_base_token_reserves e, event_quote_reserves e b), ''event'')"
    using assms(1,8) event_amounts_encoded [OF assms(9), of "ti_is_buy kind" b ccy]
    by (simp add: trade_amounts_def event_amounts_closed assms(5))
  with assms(2-7) show ?thesis
    by (simp add: fills_of_item_def single_trade_fill_def)
qed

section \<open>A concrete transaction\<close>

text \<open>A buy of coin 2 against quote 1, top level. In the instance of \<open>Wire\<close> the canonical pool of a pair
  is the reversed quote key.\<close>

definition demo_program :: pubkey where
  "demo_program = take 32 (bytes_of_text PUMP_SWAP_PROGRAM_ID)"

definition demo_accounts :: "bytes list" where
  "demo_accounts = [demo_program, demo_key 2, demo_key 1, demo_key 3, demo_key 9]"

definition demo_buy :: compiled_instruction where
  "demo_buy = \<lparr>ci_program_id_index = 0, ci_accounts = [2, 4, 0, 1, 2],
     ci_data = AMM_BUY_DISCRIMINATOR @ to_le_bytes 8 (70 :: u64) @ to_le_bytes 8 (80 :: u64)\<rparr>"

definition demo_buy_msg :: message where
  "demo_buy_msg = \<lparr>msg_account_keys = demo_accounts, msg_instructions = [demo_buy]\<rparr>"

definition demo_buy_meta :: transaction_status_meta where
  "demo_buy_meta = demo_meta [\<lparr>block_index = 0, block_instructions =
     [demo_inner 0 (replicate 8 0 @ encode_buy_event demo_event True) 2]\<rparr>]"

text \<open>The same buy, failed: without an event.\<close>
definition demo_failed_meta :: transaction_status_meta where
  "demo_failed_meta = (demo_meta [])\<lparr>m_err := Some [1]\<rparr>"

definition demo_failed_tx :: tx_info where
  "demo_failed_tx = \<lparr>tx_signature_bytes = [1], tx_transaction = Some (Some demo_buy_msg),
     tx_meta = Some demo_failed_meta\<rparr>"

definition demo_input :: amm_input where
  "demo_input = (demo_program, take 32 (bytes_of_text PUMP_PROGRAM_ID), demo_buy_msg, demo_failed_meta)"

definition demo_state :: amm_state where
  "demo_state = \<lparr>as_channel = [], as_channel_closed = False, as_trade_counter = 0, as_log = []\<rparr>"

definition demo_ctx :: "bool \<Rightarrow> tx_context" where
  "demo_ctx success = \<lparr>tc_tx_signature = ''sig'', tc_slot = 5, tc_now = 0, tc_success = success,
     tc_priority_fee = None, tc_transfer_tip = None, tc_tip_provider = None,
     tc_compute_units_consumed = None, tc_lamports_per_compute_unit = None,
     tc_whitelist = {text_of_bytes (demo_key 2), text_of_bytes (demo_key 3)}, tc_readonly = False,
     tc_pump_program_id = take 32 (bytes_of_text PUMP_PROGRAM_ID), tc_pump_swap_program_id = demo_program\<rparr>"

definition demo_failed_fill :: trade_fill where
  "demo_failed_fill = \<lparr>fl_pool_address = text_of_bytes (demo_key 1), fl_mint = text_of_bytes (demo_key 2),
     fl_quote_mint = text_of_bytes (demo_key 1), fl_quote_currency = Other (demo_key 1),
     fl_instruction_type = ''buy'', fl_is_cpi = False, fl_user = text_of_bytes (demo_key 9),
     fl_is_buy = True, fl_token_amount = 70, fl_quote_volume = 80, fl_market_cap = None,
     fl_base_reserves = 0, fl_quote_reserves = 0, fl_amount_source = ''instruction_request''\<rparr>"

lemma demo_inputs: "amm_inputs demo_ext demo_failed_tx = Inr demo_input"
  by code_simp

lemma demo_failed_fills:
  "amm_fills demo_ext 0 demo_failed_tx 5 {text_of_bytes (demo_key 2)} False demo_input = [demo_failed_fill]"
  by code_simp

theorem process_pump_swap_tx_records_witness:
  "\<exists>r. process_pump_swap_tx demo_ext 0 demo_failed_tx 5 {text_of_bytes (demo_key 2)} False demo_state =
         Some (Inr (), demo_state\<lparr>as_channel := [r]\<rparr>) \<and> sint (tr_ix_index r) = 0"
proof -
  have open_st: "\<not> as_channel_closed demo_state" "as_channel demo_state = []" by (simp_all add: demo_state_def)
  from process_pump_swap_tx_records [OF demo_inputs open_st(1), of 0 5 "{text_of_bytes (demo_key 2)}"]
  show ?thesis
    by (auto simp: demo_failed_fills open_st length_Suc_conv Let_def)
qed

theorem process_pump_swap_tx_readonly_witness:
  "\<exists>st'. process_pump_swap_tx demo_ext 0 demo_failed_tx 5 {} True demo_state = Some (Inr (), st') \<and>
         as_channel st' = []"
  using process_pump_swap_tx_readonly [OF demo_inputs, of 0 5 "{}" demo_state]
  by (auto simp: demo_state_def)

theorem recorded_trades_pass_filters_witness:
  "fl_mint demo_failed_fill \<noteq> WSOL_MINT \<and> fl_mint demo_failed_fill \<in> {text_of_bytes (demo_key 2)}"
proof -
  have "demo_failed_fill \<in> set (amm_fills demo_ext 0 demo_failed_tx 5 {text_of_bytes (demo_key 2)} False
      (demo_program, take 32 (bytes_of_text PUMP_PROGRAM_ID), demo_buy_msg, demo_failed_meta))"
    using demo_failed_fills by (simp add: demo_input_def)
  from recorded_trades_pass_filters [OF demo_pubkey_text_ok this] show ?thesis by blast
qed

theorem recorded_amounts_sound_witness:
  "fl_amount_source demo_failed_fill = ''instruction_request'' \<and> fl_market_cap demo_failed_fill = None"
proof -
  have "demo_failed_fill \<in> set (amm_fills demo_ext 0 demo_failed_tx 5 {text_of_bytes (demo_key 2)} False demo_input)"
    using demo_failed_fills by simp
  moreover have "\<not> tx_succeeded demo_failed_tx" by code_simp
  ultimately show ?thesis
    using recorded_amounts_sound [OF demo_pubkey_text_ok, of demo_failed_fill] by blast
qed

text \<open>A failed route from quote 1 over coin 2 to coin 3.\<close>

definition demo_route :: compiled_instruction where
  "demo_route = \<lparr>ci_program_id_index = 0,
     ci_accounts = replicate 16 4 @ [1, 2, 2, 0, 0] @ [3, 1, 1, 0, 0],
     ci_data = AMM_MULTI_HOP_SWAP_DISCRIMINATOR @ to_le_bytes 8 (70 :: u64) @ to_le_bytes 8 (80 :: u64)\<rparr>"

theorem failed_route_requests_witness:
  "map_option (map (\<lambda>f. (fl_is_buy f, fl_token_amount f, fl_quote_volume f)))
     (multi_hop_fills demo_ext (demo_ctx False) demo_route demo_failed_meta demo_accounts 0 0) =
   Some [(True, 0, 70), (True, 80, 0)]"
proof -
  have "\<not> tc_success (demo_ctx False)" by (simp add: demo_ctx_def)
  moreover have "24 \<le> length (ci_data demo_route)" by code_simp
  moreover have "route_hops demo_route demo_accounts \<noteq> []" by code_simp
  ultimately show ?thesis
    by (subst failed_route_requests) (assumption | code_simp)+
qed

theorem executed_trade_recorded_witness:
  "\<exists>f. fills_of_item demo_ext (demo_ctx True) demo_buy_meta demo_accounts (demo_buy, 0, 0) = [f] \<and>
       fl_token_amount f = 1000000000 \<and> fl_quote_volume f = 505000000 \<and> fl_quote_reserves f = 80000000000"
proof -
  have k: "trade_keys demo_ext demo_buy demo_accounts =
      Some ((text_of_bytes (demo_key 2), text_of_bytes (demo_key 1), text_of_bytes (demo_key 1)),
            (demo_key 2, demo_key 1, demo_key 1))" by code_simp
  have e: "eligible demo_ext (demo_ctx True) (demo_key 1) (demo_key 2) (demo_key 1) = Some (Other (demo_key 1))"
    by code_simp
  have c: "pump_swap_trade_ix (take 8 (ci_data demo_buy)) =
      Some \<lparr>ti_name = ''buy'', ti_is_buy = True, ti_is_exact_in = False, ti_event_disc = PUMP_SWAP_BUY_EVENT_DISC\<rparr>"
    by code_simp
  have d: "8 \<le> length (ci_data demo_buy)" by code_simp
  have n: "take 8 (ci_data demo_buy) \<noteq> AMM_MULTI_HOP_SWAP_DISCRIMINATOR" by code_simp
  have s: "tc_success (demo_ctx True)" by (simp add: demo_ctx_def)
  have v: "find_event_data demo_buy_meta 0 0 (ci_program_id_index demo_buy) PUMP_SWAP_BUY_EVENT_DISC =
      Some (Some (encode_event True demo_event True))" by code_simp
  have q: "event_quote_reserves demo_event True = 80000000000" by code_simp
  show ?thesis
    using executed_trade_recorded [OF s d n c _ k e _ demo_event_wf, of demo_buy_meta 0 0 True] v q
    by (simp add: demo_event_def [symmetric]) (simp add: demo_event_def)
qed

end
