(* ===== verification/Decimal.thy ===== *)
theory Decimal
  imports Prelude
begin

text \<open>
  Decimal text of \<open>u64\<close>: \<open>str::parse::<u64>\<close>, used on the token amounts of the stream, and
  \<open>u64::to_string\<close>, used to bind numeric columns, with the round trip between them.
\<close>

text \<open>\<open>str::parse::<u64>\<close>: an optional plus sign, then at least one digit, without overflow.\<close>

definition char_digit :: "char \<Rightarrow> int" where
  "char_digit c = of_char c - 48"

definition is_decimal :: "char \<Rightarrow> bool" where
  "is_decimal c = (0 \<le> char_digit c \<and> char_digit c \<le> 9)"

definition parse_u64 :: "string \<Rightarrow> u64 option" where
  "parse_u64 s =
     (let ds = (case s of c # r \<Rightarrow> if c = CHR ''+'' then r else s | [] \<Rightarrow> s) in
      if ds = [] \<or> \<not> list_all is_decimal ds then None
      else let n = foldl (\<lambda>acc c. 10 * acc + char_digit c) 0 ds
           in if n < 2 ^ 64 then Some (word_of_int n) else None)"

text \<open>\<open>u64::to_string\<close>\<close>

fun nat_digits :: "nat \<Rightarrow> char list" where
  "nat_digits n = (if n < 10 then [char_of (48 + n)] else nat_digits (n div 10) @ [char_of (48 + n mod 10)])"

declare nat_digits.simps [simp del]

definition u64_to_string :: "u64 \<Rightarrow> string" where
  "u64_to_string w = nat_digits (unat w)"

lemma char_digit_char_of [simp]: "d < 10 \<Longrightarrow> char_digit (char_of (48 + d)) = int d"
proof -
  assume "d < 10"
  then have "(48 + d) mod 256 = 48 + d" by simp
  then have "(of_char (char_of (48 + d) :: char) :: nat) = 48 + d" by simp
  then have "(of_char (char_of (48 + d) :: char) :: int) = int (48 + d)"
    by (metis of_nat_of_char)
  then show ?thesis by (simp add: char_digit_def)
qed

lemma is_decimal_char_of [simp]: "d < (10::nat) \<Longrightarrow> is_decimal (char_of (48 + d))"
  by (simp add: is_decimal_def)

lemma nat_digits_decimal: "list_all is_decimal (nat_digits n)"
  by (induction n rule: nat_digits.induct) (subst nat_digits.simps, auto)

lemma nat_digits_value: "foldl (\<lambda>acc c. 10 * acc + char_digit c) 0 (nat_digits n) = int n"
proof (induction n rule: nat_digits.induct)
  case (1 n)
  show ?case
  proof (cases "n < 10")
    case True
    then show ?thesis by (subst nat_digits.simps) simp
  next
    case False
    with 1 have "foldl (\<lambda>acc c. 10 * acc + char_digit c) 0 (nat_digits (n div 10)) = int (n div 10)" by simp
    with False show ?thesis by (subst nat_digits.simps) (simp add: zdiv_int zmod_int)
  qed
qed

lemma nat_digits_nonempty: "nat_digits n \<noteq> []"
  by (subst nat_digits.simps) simp

text \<open>The decimal text of a \<open>u64\<close>, as it is bound to the numeric columns, is read back by the
  parser the collector uses on token amounts, over the whole range; the text has digits only, so no
  value is written as NULL or in another notation.\<close>

theorem parse_u64_to_string:
  "parse_u64 (u64_to_string w) = Some w \<and> list_all is_decimal (u64_to_string w) \<and> u64_to_string w \<noteq> []"
proof -
  have "int (unat w) < 2 ^ 64" using unsigned_less [of w, where ?'a = int] by simp
  moreover have "\<not> is_decimal (CHR ''+'')" by (simp add: is_decimal_def char_digit_def)
  ultimately show ?thesis
    using nat_digits_decimal [of "unat w"] nat_digits_value [of "unat w"] nat_digits_nonempty [of "unat w"]
    by (auto simp: parse_u64_def u64_to_string_def Let_def split: list.splits)
qed

end
