(* ===== verification/Cpmm.thy ===== *)
theory Cpmm
  imports Instructions Decimal
begin

text \<open>
  Raydium CPMM parsers and arithmetic (\<open>src/src/utils/cpmm.rs\<close>): the SwapEvent, the side of the tracked
  mint, the market cap, the events of a log, the reconstruction of a swap from the vault balances and
  the canonical pool. The layout of the SwapEvent is given as an encoder.
\<close>

section \<open>SwapEvent\<close>

definition CPMM_SWAP_EVENT_BODY_LEN :: nat where
  "CPMM_SWAP_EVENT_BODY_LEN = 162"

definition u64_at :: "bytes \<Rightarrow> nat \<Rightarrow> u64 option" where
  "u64_at b off = do { s \<leftarrow> slice_get b off (off + 8); arr \<leftarrow> try_array 8 s; Some (from_le_bytes arr) }"

definition pubkey_at :: "externals \<Rightarrow> bytes \<Rightarrow> nat \<Rightarrow> string option" where
  "pubkey_at X b off = do { s \<leftarrow> slice_get b off (off + 32); Some (x_bs58_encode X s) }"

record cpmm_swap_event =
  ce_pool_id :: string
  ce_input_vault_before :: u64
  ce_output_vault_before :: u64
  ce_input_amount :: u64
  ce_output_amount :: u64
  ce_input_transfer_fee :: u64
  ce_output_transfer_fee :: u64
  ce_base_input :: bool
  ce_input_mint :: string
  ce_output_mint :: string
  ce_trade_fee :: u64
  ce_creator_fee :: u64
  ce_creator_fee_on_input :: bool

text \<open>\<open>data.split_at_checked(8)\<close>\<close>
definition split_at_checked :: "nat \<Rightarrow> 'a list \<Rightarrow> ('a list \<times> 'a list) option" where
  "split_at_checked n xs = (if n \<le> length xs then Some (take n xs, drop n xs) else None)"

definition cpmm_parse :: "externals \<Rightarrow> bytes \<Rightarrow> cpmm_swap_event option" where
  "cpmm_parse X dat = do {
     (disc, b) \<leftarrow> split_at_checked 8 dat;
     if disc \<noteq> CPMM_SWAP_EVENT_DISC \<or> length b \<noteq> CPMM_SWAP_EVENT_BODY_LEN then None
     else do {
       pool_id \<leftarrow> pubkey_at X b 0;
       input_vault_before \<leftarrow> u64_at b 32;
       output_vault_before \<leftarrow> u64_at b 40;
       input_amount \<leftarrow> u64_at b 48;
       output_amount \<leftarrow> u64_at b 56;
       input_transfer_fee \<leftarrow> u64_at b 64;
       output_transfer_fee \<leftarrow> u64_at b 72;
       base_input \<leftarrow> vec_get b 80;
       input_mint \<leftarrow> pubkey_at X b 81;
       output_mint \<leftarrow> pubkey_at X b 113;
       trade_fee \<leftarrow> u64_at b 145;
       creator_fee \<leftarrow> u64_at b 153;
       creator_fee_on_input \<leftarrow> vec_get b 161;
       Some \<lparr>ce_pool_id = pool_id,
         ce_input_vault_before = input_vault_before, ce_output_vault_before = output_vault_before,
         ce_input_amount = input_amount, ce_output_amount = output_amount,
         ce_input_transfer_fee = input_transfer_fee, ce_output_transfer_fee = output_transfer_fee,
         ce_base_input = (base_input \<noteq> 0), ce_input_mint = input_mint, ce_output_mint = output_mint,
         ce_trade_fee = trade_fee, ce_creator_fee = creator_fee,
         ce_creator_fee_on_input = (creator_fee_on_input \<noteq> 0)\<rparr> } }"

section \<open>The tracked side\<close>

record cpmm_swap_side =
  cs_is_buy :: bool
  cs_base_amount :: u64
  cs_quote_amount :: u64
  cs_base_reserve_after :: u64
  cs_quote_reserve_after :: u64
  cs_base_transfer_fee :: u64

definition cpmm_resolve_side :: "cpmm_swap_event \<Rightarrow> string \<Rightarrow> cpmm_swap_side option" where
  "cpmm_resolve_side ev tracked_base_mint =
     (if ce_input_mint ev = tracked_base_mint then
        Some \<lparr>cs_is_buy = False,
          cs_base_amount = ce_input_amount ev,
          cs_quote_amount = ce_output_amount ev,
          cs_base_reserve_after = saturating_add (ce_input_vault_before ev) (ce_input_amount ev),
          cs_quote_reserve_after = saturating_sub (ce_output_vault_before ev) (ce_output_amount ev),
          cs_base_transfer_fee = ce_input_transfer_fee ev\<rparr>
      else if ce_output_mint ev = tracked_base_mint then
        Some \<lparr>cs_is_buy = True,
          cs_base_amount = ce_output_amount ev,
          cs_quote_amount = ce_input_amount ev,
          cs_base_reserve_after = saturating_sub (ce_output_vault_before ev) (ce_output_amount ev),
          cs_quote_reserve_after = saturating_add (ce_input_vault_before ev) (ce_input_amount ev),
          cs_base_transfer_fee = ce_output_transfer_fee ev\<rparr>
      else None)"

section \<open>Market cap and requested amounts\<close>

definition cpmm_market_cap :: "u64 \<Rightarrow> u64 \<Rightarrow> u64 \<Rightarrow> u64" where
  "cpmm_market_cap quote_reserve base_reserve supply =
     (if base_reserve = 0 then 0
      else
        (let numer = saturating_mul (ucast quote_reserve :: u128) (ucast supply);
             q = numer div (ucast base_reserve :: u128)
         in if q \<le> ucast (- 1 :: u64) then ucast q else - 1))"

definition cpmm_requested_amounts :: "bytes \<Rightarrow> bool \<Rightarrow> u64 \<times> u64" where
  "cpmm_requested_amounts dat base_is_input =
     (case (u64_at dat 8, u64_at dat 16) of
        (Some arg0, Some arg1) \<Rightarrow> (if base_is_input then (arg0, arg1) else (arg1, arg0))
      | _ \<Rightarrow> (0, 0))"

section \<open>Events of a log\<close>

text \<open>\<open>line.strip_prefix(p)\<close>\<close>
definition strip_prefix :: "'a list \<Rightarrow> 'a list \<Rightarrow> 'a list option" where
  "strip_prefix p xs = (if take (length p) xs = p then Some (drop (length p) xs) else None)"

definition cpmm_swap_events_from_logs :: "externals \<Rightarrow> string list \<Rightarrow> cpmm_swap_event list" where
  "cpmm_swap_events_from_logs X log_messages =
     List.map_filter (cpmm_parse X)
       (List.map_filter (x_base64_decode X)
         (List.map_filter (strip_prefix ''Program data: '') log_messages))"

section \<open>Vault balances\<close>

text \<open>The inner function \<open>amount\<close>.\<close>
definition vault_amount :: "token_balance list \<Rightarrow> nat \<Rightarrow> u64 option" where
  "vault_amount balances ix = do {
     b \<leftarrow> List.find (\<lambda>b. unat (tb_account_index b) = ix) balances;
     u \<leftarrow> tb_ui_token_amount b;
     parse_u64 (uta_amount u) }"

definition cpmm_swap_from_vault_balances ::
  "transaction_status_meta \<Rightarrow> string \<Rightarrow> nat \<Rightarrow> nat \<Rightarrow> string \<Rightarrow> string \<Rightarrow> cpmm_swap_event option" where
  "cpmm_swap_from_vault_balances meta pool_id input_vault_index output_vault_index input_mint output_mint = do {
     pre_in \<leftarrow> vault_amount (m_pre_token_balances meta) input_vault_index;
     post_in \<leftarrow> vault_amount (m_post_token_balances meta) input_vault_index;
     pre_out \<leftarrow> vault_amount (m_pre_token_balances meta) output_vault_index;
     post_out \<leftarrow> vault_amount (m_post_token_balances meta) output_vault_index;
     input_amount \<leftarrow> checked_sub post_in pre_in;
     output_amount \<leftarrow> checked_sub pre_out post_out;
     if input_amount = 0 \<or> output_amount = 0 then None
     else Some \<lparr>ce_pool_id = pool_id,
       ce_input_vault_before = pre_in, ce_output_vault_before = pre_out,
       ce_input_amount = input_amount, ce_output_amount = output_amount,
       ce_input_transfer_fee = 0, ce_output_transfer_fee = 0, ce_base_input = True,
       ce_input_mint = input_mint, ce_output_mint = output_mint,
       ce_trade_fee = 0, ce_creator_fee = 0, ce_creator_fee_on_input = False\<rparr> }"

text \<open>\<open>u8::try_from(u.decimals).ok()\<close>\<close>
definition token_decimals_from_meta :: "transaction_status_meta \<Rightarrow> string \<Rightarrow> u8 option" where
  "token_decimals_from_meta meta mint = do {
     tb \<leftarrow> List.find (\<lambda>tb. tb_mint tb = mint) (m_post_token_balances meta @ m_pre_token_balances meta);
     u \<leftarrow> tb_ui_token_amount tb;
     if uta_decimals u < 256 then Some (ucast (uta_decimals u)) else None }"

section \<open>Canonical pool\<close>

text \<open>\<open><\<close> on \<open>[u8; 32]\<close>\<close>
fun bytes_less :: "bytes \<Rightarrow> bytes \<Rightarrow> bool" where
  "bytes_less xs [] = False"
| "bytes_less [] (y # ys) = True"
| "bytes_less (x # xs) (y # ys) = (x < y \<or> x = y \<and> bytes_less xs ys)"

definition cpmm_canonical_pool :: "externals \<Rightarrow> pubkey \<Rightarrow> pubkey \<Rightarrow> pubkey \<Rightarrow> pubkey \<Rightarrow> pubkey" where
  "cpmm_canonical_pool X cpmm_program_id amm_config mint_a mint_b =
     (let (token_0, token_1) = (if bytes_less mint_a mint_b then (mint_a, mint_b) else (mint_b, mint_a))
      in x_find_program_address X [CPMM_POOL_SEED, amm_config, token_0, token_1] cpmm_program_id)"

section \<open>Layout of the SwapEvent\<close>

text \<open>The event as the IDL lays it out: the keys as bytes, the flags as one byte.\<close>

record cpmm_event_layout =
  el_pool_id :: pubkey
  el_input_vault_before :: u64
  el_output_vault_before :: u64
  el_input_amount :: u64
  el_output_amount :: u64
  el_input_transfer_fee :: u64
  el_output_transfer_fee :: u64
  el_base_input :: u8
  el_input_mint :: pubkey
  el_output_mint :: pubkey
  el_trade_fee :: u64
  el_creator_fee :: u64
  el_creator_fee_on_input :: u8

definition layout_wf :: "cpmm_event_layout \<Rightarrow> bool" where
  "layout_wf l \<longleftrightarrow> length (el_pool_id l) = 32 \<and> length (el_input_mint l) = 32 \<and> length (el_output_mint l) = 32"

definition encode_cpmm_event :: "cpmm_event_layout \<Rightarrow> bytes" where
  "encode_cpmm_event l = CPMM_SWAP_EVENT_DISC @ el_pool_id l @
     to_le_bytes 8 (el_input_vault_before l) @ to_le_bytes 8 (el_output_vault_before l) @
     to_le_bytes 8 (el_input_amount l) @ to_le_bytes 8 (el_output_amount l) @
     to_le_bytes 8 (el_input_transfer_fee l) @ to_le_bytes 8 (el_output_transfer_fee l) @
     [el_base_input l] @ el_input_mint l @ el_output_mint l @
     to_le_bytes 8 (el_trade_fee l) @ to_le_bytes 8 (el_creator_fee l) @ [el_creator_fee_on_input l]"

definition event_of_layout :: "externals \<Rightarrow> cpmm_event_layout \<Rightarrow> cpmm_swap_event" where
  "event_of_layout X l = \<lparr>ce_pool_id = x_bs58_encode X (el_pool_id l),
     ce_input_vault_before = el_input_vault_before l, ce_output_vault_before = el_output_vault_before l,
     ce_input_amount = el_input_amount l, ce_output_amount = el_output_amount l,
     ce_input_transfer_fee = el_input_transfer_fee l, ce_output_transfer_fee = el_output_transfer_fee l,
     ce_base_input = (el_base_input l \<noteq> 0), ce_input_mint = x_bs58_encode X (el_input_mint l),
     ce_output_mint = x_bs58_encode X (el_output_mint l), ce_trade_fee = el_trade_fee l,
     ce_creator_fee = el_creator_fee l, ce_creator_fee_on_input = (el_creator_fee_on_input l \<noteq> 0)\<rparr>"

lemma u64_at_layout:
  "length xs \<le> off \<Longrightarrow> u64_at (xs @ ys) off = u64_at ys (off - length xs)"
  "u64_at (to_le_bytes 8 w @ ys) 0 = Some w"
  by (simp_all add: u64_at_def layout try_array_def from_le_bytes_to_le_bytes)

lemma pubkey_at_layout:
  "length xs \<le> off \<Longrightarrow> pubkey_at X (xs @ ys) off = pubkey_at X ys (off - length xs)"
  "length k = 32 \<Longrightarrow> pubkey_at X (k @ ys) 0 = Some (x_bs58_encode X k)"
  by (simp_all add: pubkey_at_def layout)

lemma at_layout_Cons:
  "0 < off \<Longrightarrow> u64_at (x # ys) off = u64_at ys (off - 1)"
  "0 < off \<Longrightarrow> pubkey_at X (x # ys) off = pubkey_at X ys (off - 1)"
  using u64_at_layout(1) [of "[x]" off ys] pubkey_at_layout(1) [of "[x]" off X ys] by simp_all

text \<open>C24. The SwapEvent parser inverts the layout, and it accepts nothing else than 170 bytes with the
  discriminator: the 213-byte event of the CLMM, which shares the discriminator, is rejected, and so is
  every truncated line.\<close>

theorem cpmm_parse_layout:
  "(layout_wf l \<longrightarrow> cpmm_parse X (encode_cpmm_event l) = Some (event_of_layout X l)) \<and>
   (cpmm_parse X dat \<noteq> None \<longleftrightarrow> length dat = 170 \<and> take 8 dat = CPMM_SWAP_EVENT_DISC)"
proof
  show "layout_wf l \<longrightarrow> cpmm_parse X (encode_cpmm_event l) = Some (event_of_layout X l)"
    by (simp add: cpmm_parse_def encode_cpmm_event_def split_at_checked_def layout_wf_def event_of_layout_def
                  CPMM_SWAP_EVENT_BODY_LEN_def u64_at_layout pubkey_at_layout at_layout_Cons layout)
  show "cpmm_parse X dat \<noteq> None \<longleftrightarrow> length dat = 170 \<and> take 8 dat = CPMM_SWAP_EVENT_DISC"
    by (auto simp: cpmm_parse_def split_at_checked_def CPMM_SWAP_EVENT_BODY_LEN_def u64_at_def pubkey_at_def
                   rust_defs split: if_splits)
qed

definition demo_layout :: cpmm_event_layout where
  "demo_layout =
     \<lparr>el_pool_id = replicate 32 1, el_input_vault_before = 1000, el_output_vault_before = 2000,
      el_input_amount = 10, el_output_amount = 19, el_input_transfer_fee = 0, el_output_transfer_fee = 0,
      el_base_input = 1, el_input_mint = replicate 32 2, el_output_mint = replicate 32 3,
      el_trade_fee = 1, el_creator_fee = 0, el_creator_fee_on_input = 0\<rparr>"

theorem cpmm_parse_layout_witness:
  "layout_wf demo_layout \<and>
   cpmm_parse demo_ext (encode_cpmm_event demo_layout) = Some (event_of_layout demo_ext demo_layout)"
proof -
  have "layout_wf demo_layout" by (simp add: layout_wf_def demo_layout_def)
  then show ?thesis using cpmm_parse_layout [of demo_layout demo_ext "[]"] by blast
qed

section \<open>Market cap\<close>

text \<open>The CPMM market cap is the exact quotient \<open>quote * supply / base\<close>, rounded down and capped
  at \<open>2 ^ 64 - 1\<close>: the 128-bit product does not saturate for any arguments.\<close>

theorem cpmm_market_cap_exact:
  "unat (cpmm_market_cap quote_reserve base_reserve supply) =
     (if base_reserve = 0 then 0
      else min (unat quote_reserve * unat supply div unat base_reserve) (2 ^ 64 - 1))"
proof (cases "base_reserve = 0")
  case False
  have b: "unat w < 2 ^ 64" for w :: u64 using unsigned_less [of w, where ?'a = nat] by simp
  have u: "unat (ucast w :: u128) = unat w" for w :: u64
    using b [of w] by (simp add: unsigned_ucast_eq take_bit_nat_eq_self)
  have "unat quote_reserve * unat supply < 2 ^ 64 * 2 ^ 64"
    using b [of quote_reserve] b [of "supply"] by (intro mult_strict_mono) auto
  then have p: "unat (saturating_mul (ucast quote_reserve :: u128) (ucast supply)) = unat quote_reserve * unat supply"
    unfolding unat_saturating_mul u by (simp del: of_nat_unat)
  define q where "q = saturating_mul (ucast quote_reserve :: u128) (ucast supply) div (ucast base_reserve)"
  have q: "unat q = unat quote_reserve * unat supply div unat base_reserve"
    by (simp add: q_def unat_div p u)
  have max: "unat (ucast (- 1 :: u64) :: u128) = 2 ^ 64 - 1" by (simp add: u unat_minus_1)
  show ?thesis
  proof (cases "unat q \<le> 2 ^ 64 - 1")
    case True
    then have "unat (ucast q :: u64) = unat q" by (simp add: unsigned_ucast_eq take_bit_nat_eq_self)
    with True False q max show ?thesis
      by (simp add: cpmm_market_cap_def Let_def q_def [symmetric] word_le_nat_alt del: of_nat_unat)
  next
    case big: False
    with False q max show ?thesis
      by (simp add: cpmm_market_cap_def Let_def q_def [symmetric] word_le_nat_alt unat_minus_1 del: of_nat_unat)
  qed
qed (simp add: cpmm_market_cap_def)

section \<open>Reconstruction from the vaults\<close>

text \<open>A swap reconstructed from the vaults is exact on both legs: seen from the tracked mint, the
  reserves after the swap are the post balances of the two vaults, and the amounts are the positive
  differences between the pre and post balances.\<close>

theorem vault_reconstruction_exact:
  assumes "cpmm_swap_from_vault_balances meta pool_id in_vault out_vault input_mint output_mint = Some ev"
    "base \<in> {input_mint, output_mint}"
    "input_mint \<noteq> output_mint"
  shows "\<exists>side pre_in post_in pre_out post_out.
    cpmm_resolve_side ev base = Some side \<and> cs_is_buy side = (base = output_mint) \<and>
    vault_amount (m_pre_token_balances meta) in_vault = Some pre_in \<and>
    vault_amount (m_post_token_balances meta) in_vault = Some post_in \<and>
    vault_amount (m_pre_token_balances meta) out_vault = Some pre_out \<and>
    vault_amount (m_post_token_balances meta) out_vault = Some post_out \<and>
    unat post_in = unat pre_in + unat (ce_input_amount ev) \<and> ce_input_amount ev \<noteq> 0 \<and>
    unat pre_out = unat post_out + unat (ce_output_amount ev) \<and> ce_output_amount ev \<noteq> 0 \<and>
    (if cs_is_buy side
     then cs_base_reserve_after side = post_out \<and> cs_quote_reserve_after side = post_in \<and>
          cs_base_amount side = ce_output_amount ev \<and> cs_quote_amount side = ce_input_amount ev
     else cs_base_reserve_after side = post_in \<and> cs_quote_reserve_after side = post_out \<and>
          cs_base_amount side = ce_input_amount ev \<and> cs_quote_amount side = ce_output_amount ev)"
proof -
  obtain pre_in post_in pre_out post_out i u where
    v: "vault_amount (m_pre_token_balances meta) in_vault = Some pre_in"
       "vault_amount (m_post_token_balances meta) in_vault = Some post_in"
       "vault_amount (m_pre_token_balances meta) out_vault = Some pre_out"
       "vault_amount (m_post_token_balances meta) out_vault = Some post_out"
    and i: "checked_sub post_in pre_in = Some i" and u: "checked_sub pre_out post_out = Some u"
    and nz: "i \<noteq> 0" "u \<noteq> 0"
    and ev: "ce_input_vault_before ev = pre_in" "ce_output_vault_before ev = pre_out"
       "ce_input_amount ev = i" "ce_output_amount ev = u"
       "ce_input_mint ev = input_mint" "ce_output_mint ev = output_mint"
    using assms(1) by (auto simp: cpmm_swap_from_vault_balances_def bind_eq_Some_conv split: if_splits)
  have si: "unat post_in = unat pre_in + unat i" using checked_sub_unat [OF i] by simp
  have su: "unat pre_out = unat post_out + unat u" using checked_sub_unat [OF u] by simp
  have "saturating_add pre_in i = post_in"
  proof -
    have "unat post_in < 2 ^ 64" using unsigned_less [of post_in, where ?'a = nat] by simp
    then have "unat (saturating_add pre_in i) = unat post_in"
      by (simp add: unat_saturating_add si [symmetric] del: of_nat_unat)
    then show ?thesis by (simp only: word_unat_eq_iff)
  qed
  moreover have "saturating_sub pre_out u = post_out"
    using su by (simp only: word_unat_eq_iff unat_saturating_sub)
  ultimately show ?thesis
    using v nz si su assms(2,3) by (auto simp: cpmm_resolve_side_def ev)
qed

section \<open>Canonical pool\<close>

lemma bytes_less_total: "bytes_less xs ys \<or> bytes_less ys xs \<or> xs = ys"
proof (induction xs ys rule: bytes_less.induct)
  case (1 xs)
  then show ?case by (cases xs) auto
qed auto

lemma bytes_less_asym: "bytes_less xs ys \<Longrightarrow> \<not> bytes_less ys xs"
  by (induction xs ys rule: bytes_less.induct) auto

text \<open>The canonical pool of a pair does not depend on which mint is the input of the swap.\<close>

theorem cpmm_canonical_pool_symmetric:
  "cpmm_canonical_pool X program config mint_a mint_b = cpmm_canonical_pool X program config mint_b mint_a"
  using bytes_less_total [of mint_a mint_b] bytes_less_asym [of mint_a mint_b] bytes_less_asym [of mint_b mint_a]
  by (auto simp: cpmm_canonical_pool_def)

section \<open>Concrete vaults\<close>

definition demo_balance :: "u32 \<Rightarrow> string \<Rightarrow> string \<Rightarrow> token_balance" where
  "demo_balance ix mint amount = \<lparr>tb_account_index = ix, tb_mint = mint,
     tb_ui_token_amount = Some \<lparr>uta_amount = amount, uta_decimals = 6\<rparr>\<rparr>"

definition demo_vault_meta :: transaction_status_meta where
  "demo_vault_meta = (demo_meta [])
     \<lparr>m_pre_token_balances := [demo_balance 4 ''Q'' ''1000'', demo_balance 5 ''B'' ''500''],
      m_post_token_balances := [demo_balance 4 ''Q'' ''1250'', demo_balance 5 ''B'' ''400'']\<rparr>"

theorem vault_reconstruction_exact_witness:
  "\<exists>ev side. cpmm_swap_from_vault_balances demo_vault_meta ''P'' 4 5 ''Q'' ''B'' = Some ev \<and>
     cpmm_resolve_side ev ''B'' = Some side \<and> cs_is_buy side \<and>
     cs_base_reserve_after side = 400 \<and> cs_quote_reserve_after side = 1250"
proof -
  have v: "vault_amount (m_post_token_balances demo_vault_meta) 4 = Some 1250"
      "vault_amount (m_post_token_balances demo_vault_meta) 5 = Some 400" by code_simp+
  have "cpmm_swap_from_vault_balances demo_vault_meta ''P'' 4 5 ''Q'' ''B'' \<noteq> None" by code_simp
  then obtain ev where ev: "cpmm_swap_from_vault_balances demo_vault_meta ''P'' 4 5 ''Q'' ''B'' = Some ev" by auto
  from vault_reconstruction_exact [OF ev, of "''B''"] v ev show ?thesis by auto
qed

end
