(* ===== verification/CpmmHandler.thy ===== *)
theory CpmmHandler
  imports Records EventSearch Fees Cpmm
begin

text \<open>
  The Raydium CPMM handler (\<open>src/src/handler/cpmm_handler.rs\<close>): from a transaction to the records of
  its stonk.fun swaps. Instructions are sorted into execution order, because the SwapEvents come from
  the log in that order; the decoded log is consumed as swaps take their events. The tracked mints are
  a snapshot, as the whitelist is in \<open>AmmHandler\<close>.
\<close>

section \<open>Data\<close>

record alt_mint_info =
  mi_quote_mint :: string
  mi_total_supply :: u64
  mi_base_decimals :: i16
  mi_quote_decimals :: "i16 option"
  mi_cpmm_pool :: "string option"

type_synonym alt_mint_map = "string \<Rightarrow> alt_mint_info option"

datatype cpmm_error = Cpmm_Bad_Key | Cpmm_Transaction_Missing | Cpmm_Message_Missing | Cpmm_Meta_Missing

text \<open>The place of an instruction: its top-level index and the position its events start from. It is
  the key the instructions are sorted by.\<close>

datatype place = Place (pl_outer: nat) (pl_inner: nat)

instantiation place :: linorder
begin

definition less_eq_place :: "place \<Rightarrow> place \<Rightarrow> bool" where
  "less_eq_place a b \<longleftrightarrow> pl_outer a < pl_outer b \<or> pl_outer a = pl_outer b \<and> pl_inner a \<le> pl_inner b"

definition less_place :: "place \<Rightarrow> place \<Rightarrow> bool" where
  "less_place a b \<longleftrightarrow> pl_outer a < pl_outer b \<or> pl_outer a = pl_outer b \<and> pl_inner a < pl_inner b"

instance
  by standard (auto simp: less_eq_place_def less_place_def intro: place.expand)

end

type_synonym cpmm_item = "compiled_instruction \<times> nat \<times> nat"

definition item_place :: "cpmm_item \<Rightarrow> place" where
  "item_place item = (let (_, outer, inner) = item in Place outer inner)"

text \<open>\<open>all_instrs.sort_by_key(..)\<close>: stable.\<close>
definition sort_by_place :: "cpmm_item list \<Rightarrow> cpmm_item list" where
  "sort_by_place items = sort_key item_place items"

text \<open>What the call changes outside itself: the channel, the readonly log and the counter.\<close>
record alt_state =
  al_channel :: "alt_trade_record list"
  al_channel_closed :: bool
  al_trade_counter :: u64
  al_log :: "(u64 \<times> alt_trade_record) list"

section \<open>Which swaps are recorded\<close>

definition cpmm_instruction_type :: "bytes \<Rightarrow> string option" where
  "cpmm_instruction_type disc =
     (if disc = CPMM_SWAP_BASE_INPUT_DISCRIMINATOR then Some ''swap_base_input''
      else if disc = CPMM_SWAP_BASE_OUTPUT_DISCRIMINATOR then Some ''swap_base_output''
      else None)"

record cpmm_target =
  ct_input_mint :: string
  ct_output_mint :: string
  ct_mint :: string
  ct_quote_mint :: string
  ct_base_is_input :: bool
  ct_info :: alt_mint_info
  ct_pool_address :: string

text \<open>Which leg is tracked: \<open>(mint, quote_mint, base_is_input, info)\<close>.\<close>
definition tracked_leg ::
  "alt_mint_map \<Rightarrow> string \<Rightarrow> string \<Rightarrow> (string \<times> string \<times> bool \<times> alt_mint_info) option" where
  "tracked_leg alt_mints input_mint output_mint =
     (case (alt_mints input_mint, alt_mints output_mint) of
        (Some info, None) \<Rightarrow> Some (input_mint, output_mint, True, info)
      | (None, Some info) \<Rightarrow> Some (output_mint, input_mint, False, info)
      | _ \<Rightarrow> None)"

text \<open>The guards between the account checks and the pool check; \<open>None\<close> is a \<open>continue\<close>.\<close>
definition cpmm_target_of ::
  "externals \<Rightarrow> pubkey \<Rightarrow> pubkey \<Rightarrow> alt_mint_map \<Rightarrow> compiled_instruction \<Rightarrow> bytes list \<Rightarrow> cpmm_target option" where
  "cpmm_target_of X program_id stonk_config alt_mints instr full_accounts =
     (if length (ci_accounts instr) < CPMM_SWAP_MIN_ACCOUNTS then None
      else do {
        amm_config \<leftarrow> instruction_account_pubkey instr full_accounts CPMM_SWAP_AMM_CONFIG_IX_POS;
        if amm_config \<noteq> stonk_config then None
        else do {
          pool_key \<leftarrow> instruction_account_pubkey instr full_accounts CPMM_SWAP_POOL_STATE_IX_POS;
          input_key \<leftarrow> instruction_account_pubkey instr full_accounts CPMM_SWAP_INPUT_MINT_IX_POS;
          output_key \<leftarrow> instruction_account_pubkey instr full_accounts CPMM_SWAP_OUTPUT_MINT_IX_POS;
          let input_mint = x_pubkey_to_string X input_key;
          let output_mint = x_pubkey_to_string X output_key;
          (mint, quote_mint, base_is_input, info) \<leftarrow> tracked_leg alt_mints input_mint output_mint;
          if quote_mint \<noteq> mi_quote_mint info then None
          else (let pool_address = x_pubkey_to_string X pool_key;
                    expected_pool = cpmm_canonical_pool X program_id stonk_config input_key output_key;
                    recorded_pool = (mi_cpmm_pool info = Some pool_address)
                in if pool_key \<noteq> expected_pool \<and> \<not> recorded_pool then None
                   else Some \<lparr>ct_input_mint = input_mint, ct_output_mint = output_mint, ct_mint = mint,
                          ct_quote_mint = quote_mint, ct_base_is_input = base_is_input,
                          ct_info = info, ct_pool_address = pool_address\<rparr>) } })"

section \<open>The event of a swap\<close>

text \<open>\<open>events.iter().position(..)\<close> and \<open>events.remove(i)\<close>: the event and what is left.\<close>
definition take_pool_event ::
  "string \<Rightarrow> cpmm_swap_event list \<Rightarrow> (cpmm_swap_event \<times> cpmm_swap_event list) option" where
  "take_pool_event pool events =
     (case position (\<lambda>e. ce_pool_id e = pool) events of
        None \<Rightarrow> None
      | Some i \<Rightarrow> Some (events ! i, take i events @ drop (i + 1) events))"

text \<open>The closure \<open>vault_index\<close>.\<close>
definition vault_index :: "compiled_instruction \<Rightarrow> bytes list \<Rightarrow> nat \<Rightarrow> nat option" where
  "vault_index instr full_accounts pos = do {
     i \<leftarrow> vec_get (ci_accounts instr) pos;
     if unat i < length full_accounts then Some (unat i) else None }"

definition vault_fallback ::
  "transaction_status_meta \<Rightarrow> bytes list \<Rightarrow> compiled_instruction \<Rightarrow> cpmm_target \<Rightarrow> cpmm_swap_event option" where
  "vault_fallback meta full_accounts instr t =
     (case (vault_index instr full_accounts CPMM_SWAP_INPUT_VAULT_IX_POS,
            vault_index instr full_accounts CPMM_SWAP_OUTPUT_VAULT_IX_POS) of
        (Some in_vault, Some out_vault) \<Rightarrow>
          cpmm_swap_from_vault_balances meta (ct_pool_address t) in_vault out_vault
            (ct_input_mint t) (ct_output_mint t)
      | _ \<Rightarrow> None)"

text \<open>The event of a swap that landed, its source, and the log events left for later swaps.\<close>
definition swap_event ::
  "externals \<Rightarrow> transaction_status_meta \<Rightarrow> bytes list \<Rightarrow> cpmm_item \<Rightarrow> cpmm_target \<Rightarrow>
   cpmm_swap_event list \<Rightarrow> ((cpmm_swap_event \<times> string) option \<times> cpmm_swap_event list) may_panic" where
  "swap_event X meta full_accounts item t events =
     (let (instr, parent_outer_idx, start_inner_pos) = item in
      case take_pool_event (ct_pool_address t) events of
        Some (e, rest) \<Rightarrow> Some (Some (e, ''event''), rest)
      | None \<Rightarrow> do {
          found \<leftarrow> find_event_data meta parent_outer_idx start_inner_pos
                    (ci_program_id_index instr) CPMM_SWAP_EVENT_DISC;
          (case Option.bind found (cpmm_parse X) of
             Some e \<Rightarrow> Some (Some (e, ''event''), events)
           | None \<Rightarrow> Some (map_option (\<lambda>e. (e, ''vault_balances'')) (vault_fallback meta full_accounts instr t),
                           events)) })"

section \<open>One swap\<close>

record cpmm_amounts =
  ca_is_buy :: bool
  ca_token_amount :: u64
  ca_quote_amount :: u64
  ca_market_cap :: "u64 option"
  ca_base_reserves :: "u64 option"
  ca_quote_reserves :: "u64 option"
  ca_base_transfer_fee :: "u64 option"
  ca_trade_fee :: "u64 option"
  ca_creator_fee :: "u64 option"
  ca_amount_source :: string

definition requested_cpmm_amounts :: "bytes \<Rightarrow> bool \<Rightarrow> cpmm_amounts" where
  "requested_cpmm_amounts dat base_is_input =
     (let (token_amount, quote_amount) = cpmm_requested_amounts dat base_is_input in
      \<lparr>ca_is_buy = (\<not> base_is_input), ca_token_amount = token_amount, ca_quote_amount = quote_amount,
       ca_market_cap = None, ca_base_reserves = None, ca_quote_reserves = None,
       ca_base_transfer_fee = None, ca_trade_fee = None, ca_creator_fee = None,
       ca_amount_source = ''instruction_request''\<rparr>)"

definition cpmm_amounts_of ::
  "(cpmm_swap_event \<times> string) option \<Rightarrow> cpmm_target \<Rightarrow> bytes \<Rightarrow> cpmm_amounts" where
  "cpmm_amounts_of event t dat =
     (let side = do { (e, source) \<leftarrow> event; s \<leftarrow> cpmm_resolve_side e (ct_mint t); Some (s, e) }
      in case (side, event) of
           (Some (s, e), Some (_, source)) \<Rightarrow>
             \<lparr>ca_is_buy = cs_is_buy s, ca_token_amount = cs_base_amount s,
              ca_quote_amount = cs_quote_amount s,
              ca_market_cap = Some (cpmm_market_cap (cs_quote_reserve_after s) (cs_base_reserve_after s)
                                      (mi_total_supply (ct_info t))),
              ca_base_reserves = Some (cs_base_reserve_after s),
              ca_quote_reserves = Some (cs_quote_reserve_after s),
              ca_base_transfer_fee = Some (cs_base_transfer_fee s),
              ca_trade_fee = Some (ce_trade_fee e), ca_creator_fee = Some (ce_creator_fee e),
              ca_amount_source = source\<rparr>
         | _ \<Rightarrow> requested_cpmm_amounts dat (ct_base_is_input t))"

text \<open>What all records of a transaction share.\<close>
record cpmm_context =
  cc_tx_signature :: string
  cc_slot :: u64
  cc_now :: timestamp
  cc_success :: bool
  cc_priority_fee :: "u64 option"
  cc_transfer_tip :: "u64 option"
  cc_tip_provider :: "string option"
  cc_compute_units_consumed :: "i64 option"
  cc_lamports_per_compute_unit :: "f64 option"

definition alt_record_of ::
  "externals \<Rightarrow> cpmm_context \<Rightarrow> transaction_status_meta \<Rightarrow> bytes list \<Rightarrow> cpmm_item \<Rightarrow> string \<Rightarrow>
   cpmm_target \<Rightarrow> cpmm_amounts \<Rightarrow> i32 \<Rightarrow> alt_trade_record" where
  "alt_record_of X ctx meta full_accounts item instruction_type t a trade_index =
     (let (instr, parent_outer_idx, start_inner_pos) = item;
          user = unwrap_or ''unknown'' (resolve_instruction_account X instr full_accounts CPMM_SWAP_PAYER_IX_POS);
          quote_decimals =
            (case mi_quote_decimals (ct_info t) of
               Some d \<Rightarrow> Some d
             | None \<Rightarrow> map_option ucast (token_decimals_from_meta meta (ct_quote_mint t)))
      in \<lparr>ar_tx_signature = cc_tx_signature ctx,
          ar_ix_index = trade_index,
          ar_platform = STONK_PLATFORM_NAME,
          ar_venue = RAYDIUM_CPMM_VENUE_NAME,
          ar_pool_address = ct_pool_address t,
          ar_mint_address = ct_mint t,
          ar_quote_mint_address = ct_quote_mint t,
          ar_instruction_type = instruction_type,
          ar_amount_source = ca_amount_source a,
          ar_is_cpi = (0 < start_inner_pos),
          ar_user_pubkey = user,
          ar_is_buy = ca_is_buy a,
          ar_token_amount = ca_token_amount a,
          ar_quote_amount = ca_quote_amount a,
          ar_market_cap = ca_market_cap a,
          ar_base_reserves = ca_base_reserves a,
          ar_quote_reserves = ca_quote_reserves a,
          ar_base_transfer_fee = ca_base_transfer_fee a,
          ar_trade_fee = ca_trade_fee a,
          ar_creator_fee = ca_creator_fee a,
          ar_base_decimals = mi_base_decimals (ct_info t),
          ar_quote_decimals = quote_decimals,
          ar_is_sol = (ct_quote_mint t = WSOL_MINT),
          ar_is_usdc = (ct_quote_mint t = USDC_MINT),
          ar_success = cc_success ctx,
          ar_slot = cc_slot ctx,
          ar_created_at = cc_now ctx,
          ar_priority_fee = cc_priority_fee ctx,
          ar_transfer_tip = cc_transfer_tip ctx,
          ar_tip_provider = cc_tip_provider ctx,
          ar_compute_units_consumed = cc_compute_units_consumed ctx,
          ar_lamports_per_compute_unit = cc_lamports_per_compute_unit ctx\<rparr>)"

definition send_alt :: "bool \<Rightarrow> alt_trade_record \<Rightarrow> alt_state \<Rightarrow> alt_state" where
  "send_alt readonly record st =
     (if readonly then
        (let n = al_trade_counter st + 1
         in st\<lparr>al_trade_counter := n, al_log := al_log st @ [(n, record)]\<rparr>)
      else if al_channel_closed st then st
      else st\<lparr>al_channel := al_channel st @ [record]\<rparr>)"

section \<open>One transaction\<close>

record cpmm_loop_state =
  lo_trade_index :: i32
  lo_log_events :: "cpmm_swap_event list option"  \<comment> \<open>decoded on first use\<close>
  lo_out :: alt_state

text \<open>The body of the loop.\<close>
definition cpmm_step ::
  "externals \<Rightarrow> cpmm_context \<Rightarrow> bool \<Rightarrow> pubkey \<Rightarrow> pubkey \<Rightarrow> alt_mint_map \<Rightarrow> transaction_status_meta \<Rightarrow>
   bytes list \<Rightarrow> cpmm_item \<Rightarrow> cpmm_loop_state \<Rightarrow> cpmm_loop_state may_panic" where
  "cpmm_step X ctx readonly program_id stonk_config alt_mints meta full_accounts item s =
     (let (instr, parent_outer_idx, start_inner_pos) = item in
      if length (ci_data instr) < 8 then Some s
      else do {
        disc \<leftarrow> slice_index (ci_data instr) 0 8;
        (case do {
           instruction_type \<leftarrow> cpmm_instruction_type disc;
           t \<leftarrow> cpmm_target_of X program_id stonk_config alt_mints instr full_accounts;
           Some (instruction_type, t) } of
           None \<Rightarrow> Some s
         | Some (instruction_type, t) \<Rightarrow> do {
             (event, log_events) \<leftarrow>
               (if cc_success ctx then do {
                  let events = (case lo_log_events s of
                      Some evs \<Rightarrow> evs | None \<Rightarrow> cpmm_swap_events_from_logs X (m_log_messages meta));
                  (event, rest) \<leftarrow> swap_event X meta full_accounts item t events;
                  Some (event, Some rest) }
                else Some (None, lo_log_events s));
             let a = cpmm_amounts_of event t (ci_data instr);
             let record = alt_record_of X ctx meta full_accounts item instruction_type t a (lo_trade_index s);
             Some \<lparr>lo_trade_index = lo_trade_index s + 1, lo_log_events = log_events,
                   lo_out = send_alt readonly record (lo_out s)\<rparr> }) })"

primrec cpmm_loop ::
  "externals \<Rightarrow> cpmm_context \<Rightarrow> bool \<Rightarrow> pubkey \<Rightarrow> pubkey \<Rightarrow> alt_mint_map \<Rightarrow> transaction_status_meta \<Rightarrow>
   bytes list \<Rightarrow> cpmm_item list \<Rightarrow> cpmm_loop_state \<Rightarrow> cpmm_loop_state may_panic" where
  "cpmm_loop X ctx readonly program_id stonk_config alt_mints meta full_accounts [] s = Some s"
| "cpmm_loop X ctx readonly program_id stonk_config alt_mints meta full_accounts (item # items) s = do {
     s \<leftarrow> cpmm_step X ctx readonly program_id stonk_config alt_mints meta full_accounts item s;
     cpmm_loop X ctx readonly program_id stonk_config alt_mints meta full_accounts items s }"

definition cpmm_inputs ::
  "externals \<Rightarrow> tx_info \<Rightarrow> cpmm_error + (pubkey \<times> pubkey \<times> message \<times> transaction_status_meta)" where
  "cpmm_inputs X tx =
     (case (x_pubkey_from_str X RAYDIUM_CPMM_PROGRAM_ID, x_pubkey_from_str X STONK_CPMM_AMM_CONFIG) of
        (Some program_id, Some stonk_config) \<Rightarrow>
          (case tx_transaction tx of
             None \<Rightarrow> Inl Cpmm_Transaction_Missing
           | Some None \<Rightarrow> Inl Cpmm_Message_Missing
           | Some (Some msg) \<Rightarrow>
               (case tx_meta tx of
                  None \<Rightarrow> Inl Cpmm_Meta_Missing
                | Some meta \<Rightarrow> Inr (program_id, stonk_config, msg, meta)))
      | _ \<Rightarrow> Inl Cpmm_Bad_Key)"

definition process_cpmm_tx ::
  "externals \<Rightarrow> timestamp \<Rightarrow> tx_info \<Rightarrow> u64 \<Rightarrow> alt_mint_map \<Rightarrow> bool \<Rightarrow> alt_state \<Rightarrow>
   ((cpmm_error + unit) \<times> alt_state) may_panic" where
  "process_cpmm_tx X now tx slot alt_mints readonly st =
     (case cpmm_inputs X tx of
        Inl e \<Rightarrow> Some (Inl e, st)
      | Inr (program_id, stonk_config, msg, meta) \<Rightarrow>
          (let full_accounts = msg_account_keys msg @ m_loaded_writable_addresses meta @
                 m_loaded_readonly_addresses meta;
               all_instrs = get_program_instructions msg meta full_accounts program_id
           in if all_instrs = [] then Some (Inr (), st)
              else do {
                let all_instrs = sort_by_place all_instrs;
                (priority_fee, transfer_tip, tip_provider) \<leftarrow> extract_transaction_fees X msg meta full_accounts;
                let ctx = \<lparr>cc_tx_signature = x_bs58_encode X (tx_signature_bytes tx), cc_slot = slot,
                   cc_now = now, cc_success = tx_succeeded tx,
                   cc_priority_fee = priority_fee, cc_transfer_tip = transfer_tip,
                   cc_tip_provider = tip_provider,
                   cc_compute_units_consumed = m_compute_units_consumed meta,
                   cc_lamports_per_compute_unit = lamports_per_cu priority_fee\<rparr>;
                s \<leftarrow> cpmm_loop X ctx readonly program_id stonk_config alt_mints meta full_accounts all_instrs
                      \<lparr>lo_trade_index = 0, lo_log_events = None, lo_out = st\<rparr>;
                Some (Inr (), lo_out s) }))"

end
