(* ===== verification/CpmmProperties.thy ===== *)
theory CpmmProperties
  imports CpmmHandler
begin

text \<open>
  What the CPMM handler guarantees of the records it writes. The first section gives the swaps of a
  transaction, with the event each takes, as a pure list; the theorems describe the numbering in
  execution order, the pool filter, the amounts and which log event belongs to which swap. The last
  section shows where the reconstruction from vault balances counts a swap twice.
\<close>

section \<open>The handler as a list of swaps\<close>

lemma swap_event_total: "\<exists>ev rest. swap_event X meta full item t events = Some (ev, rest)"
  by (auto simp: swap_event_def panic_free Let_def split: prod.splits option.splits)

lemma swap_event_closed:
  "swap_event X meta full item t events = Some (the (swap_event X meta full item t events))"
  using swap_event_total [of X meta full item t events] by auto

definition item_swap ::
  "externals \<Rightarrow> pubkey \<Rightarrow> pubkey \<Rightarrow> alt_mint_map \<Rightarrow> bytes list \<Rightarrow> cpmm_item \<Rightarrow> (string \<times> cpmm_target) option" where
  "item_swap X program config mints full item =
     (let (instr, _, _) = item in
      if length (ci_data instr) < 8 then None
      else do {
        ty \<leftarrow> cpmm_instruction_type (take 8 (ci_data instr));
        t \<leftarrow> cpmm_target_of X program config mints instr full;
        Some (ty, t) })"

type_synonym cpmm_swap = "cpmm_item \<times> string \<times> cpmm_target \<times> (cpmm_swap_event \<times> string) option"

primrec cpmm_swaps ::
  "externals \<Rightarrow> bool \<Rightarrow> pubkey \<Rightarrow> pubkey \<Rightarrow> alt_mint_map \<Rightarrow> transaction_status_meta \<Rightarrow> bytes list \<Rightarrow>
   cpmm_item list \<Rightarrow> cpmm_swap_event list \<Rightarrow> cpmm_swap list" where
  "cpmm_swaps X success program config mints meta full [] events = []"
| "cpmm_swaps X success program config mints meta full (item # items) events =
     (case item_swap X program config mints full item of
        None \<Rightarrow> cpmm_swaps X success program config mints meta full items events
      | Some (ty, t) \<Rightarrow>
          (let (ev, rest) = (if success then the (swap_event X meta full item t events) else (None, events))
           in (item, ty, t, ev) # cpmm_swaps X success program config mints meta full items rest))"

definition record_of_swap ::
  "externals \<Rightarrow> cpmm_context \<Rightarrow> transaction_status_meta \<Rightarrow> bytes list \<Rightarrow> i32 \<Rightarrow> cpmm_swap \<Rightarrow> alt_trade_record" where
  "record_of_swap X ctx meta full i swap =
     (let (item, ty, t, ev) = swap
      in alt_record_of X ctx meta full item ty t (cpmm_amounts_of ev t (ci_data (fst item))) i)"

primrec alt_numbered ::
  "externals \<Rightarrow> cpmm_context \<Rightarrow> transaction_status_meta \<Rightarrow> bytes list \<Rightarrow> i32 \<Rightarrow> cpmm_swap list \<Rightarrow>
   alt_trade_record list" where
  "alt_numbered X ctx meta full i [] = []"
| "alt_numbered X ctx meta full i (sw # swaps) =
     record_of_swap X ctx meta full i sw # alt_numbered X ctx meta full (i + 1) swaps"

lemma length_alt_numbered [simp]: "length (alt_numbered X ctx meta full i swaps) = length swaps"
  by (induction swaps arbitrary: i) auto

lemma nth_alt_numbered:
  "k < length swaps \<Longrightarrow>
   alt_numbered X ctx meta full i swaps ! k = record_of_swap X ctx meta full (i + word_of_nat k) (swaps ! k)"
proof (induction swaps arbitrary: i k)
  case (Cons sw swaps)
  then show ?case by (cases k) (auto simp: algebra_simps)
qed simp

text \<open>The log events still available in a loop state.\<close>
definition current_events ::
  "externals \<Rightarrow> transaction_status_meta \<Rightarrow> cpmm_loop_state \<Rightarrow> cpmm_swap_event list" where
  "current_events X meta s =
     (case lo_log_events s of Some evs \<Rightarrow> evs | None \<Rightarrow> cpmm_swap_events_from_logs X (m_log_messages meta))"

lemma cpmm_step_closed:
  "\<exists>s'. cpmm_step X ctx readonly program config mints meta full item s = Some s' \<and>
    (case item_swap X program config mints full item of
       None \<Rightarrow> s' = s
     | Some (ty, t) \<Rightarrow>
         (let (ev, rest) = (if cc_success ctx
              then the (swap_event X meta full item t (current_events X meta s))
              else (None, current_events X meta s))
          in lo_trade_index s' = lo_trade_index s + 1 \<and> current_events X meta s' = rest \<and>
             lo_out s' = send_alt readonly
               (record_of_swap X ctx meta full (lo_trade_index s) (item, ty, t, ev)) (lo_out s)))"
proof -
  obtain instr parent start where item: "item = (instr, parent, start)" by (cases item)
  show ?thesis
  proof (cases "item_swap X program config mints full item")
    case None
    then show ?thesis
      by (auto simp: cpmm_step_def item_swap_def item slice_get_def split: if_splits)
  next
    case (Some tyt)
    obtain ty t where tyt: "tyt = (ty, t)" by (cases tyt)
    obtain ev rest where e: "swap_event X meta full item t (current_events X meta s) = Some (ev, rest)"
      using swap_event_total by blast
    have sl: "slice_get (ci_data instr) 0 8 = Some (take 8 (ci_data instr))" "\<not> length (ci_data instr) < 8"
      using Some by (auto simp: item_swap_def item slice_get_def split: if_splits)
    show ?thesis
      using Some e sl
      by (auto simp: cpmm_step_def item_swap_def item tyt current_events_def record_of_swap_def Let_def
               bind_eq_Some_conv)
  qed
qed

lemma cpmm_loop_closed:
  "\<exists>s'. cpmm_loop X ctx readonly program config mints meta full items s = Some s' \<and>
    lo_out s' = fold (send_alt readonly)
      (alt_numbered X ctx meta full (lo_trade_index s)
        (cpmm_swaps X (cc_success ctx) program config mints meta full items (current_events X meta s)))
      (lo_out s)"
proof (induction items arbitrary: s)
  case (Cons item items)
  obtain s1 where s1: "cpmm_step X ctx readonly program config mints meta full item s = Some s1"
    and eff: "(case item_swap X program config mints full item of
       None \<Rightarrow> s1 = s
     | Some (ty, t) \<Rightarrow>
         (let (ev, rest) = (if cc_success ctx
              then the (swap_event X meta full item t (current_events X meta s))
              else (None, current_events X meta s))
          in lo_trade_index s1 = lo_trade_index s + 1 \<and> current_events X meta s1 = rest \<and>
             lo_out s1 = send_alt readonly
               (record_of_swap X ctx meta full (lo_trade_index s) (item, ty, t, ev)) (lo_out s)))"
    using cpmm_step_closed [of X ctx readonly program config mints meta full item s] by auto
  from Cons.IH [of s1] obtain s' where s': "cpmm_loop X ctx readonly program config mints meta full items s1 = Some s'"
    "lo_out s' = fold (send_alt readonly)
      (alt_numbered X ctx meta full (lo_trade_index s1)
        (cpmm_swaps X (cc_success ctx) program config mints meta full items (current_events X meta s1)))
      (lo_out s1)" by auto
  show ?case
    using s1 s' eff by (auto simp: Let_def split: option.splits prod.splits)
qed simp

section \<open>Result of a transaction\<close>

type_synonym cpmm_input = "pubkey \<times> pubkey \<times> message \<times> transaction_status_meta"

definition cpmm_accounts :: "cpmm_input \<Rightarrow> bytes list" where
  "cpmm_accounts inp = (let (_, _, msg, meta) = inp in
     msg_account_keys msg @ m_loaded_writable_addresses meta @ m_loaded_readonly_addresses meta)"

definition cpmm_items :: "cpmm_input \<Rightarrow> cpmm_item list" where
  "cpmm_items inp = (let (program, _, msg, meta) = inp in
     sort_by_place (get_program_instructions msg meta (cpmm_accounts inp) program))"

definition cpmm_tx_swaps :: "externals \<Rightarrow> tx_info \<Rightarrow> alt_mint_map \<Rightarrow> cpmm_input \<Rightarrow> cpmm_swap list" where
  "cpmm_tx_swaps X tx mints inp = (let (program, config, msg, meta) = inp in
     cpmm_swaps X (tx_succeeded tx) program config mints meta
       (cpmm_accounts inp) (cpmm_items inp) (cpmm_swap_events_from_logs X (m_log_messages meta)))"

definition cpmm_ctx :: "externals \<Rightarrow> timestamp \<Rightarrow> tx_info \<Rightarrow> u64 \<Rightarrow> cpmm_input \<Rightarrow> cpmm_context" where
  "cpmm_ctx X now tx slot inp =
     (let (_, _, msg, meta) = inp;
          (priority_fee, transfer_tip, tip_provider) =
            the (extract_transaction_fees X msg meta (cpmm_accounts inp))
      in \<lparr>cc_tx_signature = x_bs58_encode X (tx_signature_bytes tx), cc_slot = slot, cc_now = now,
          cc_success = tx_succeeded tx,
          cc_priority_fee = priority_fee, cc_transfer_tip = transfer_tip, cc_tip_provider = tip_provider,
          cc_compute_units_consumed = m_compute_units_consumed meta,
          cc_lamports_per_compute_unit = lamports_per_cu priority_fee\<rparr>)"

definition cpmm_records ::
  "externals \<Rightarrow> timestamp \<Rightarrow> tx_info \<Rightarrow> u64 \<Rightarrow> alt_mint_map \<Rightarrow> cpmm_input \<Rightarrow> alt_trade_record list" where
  "cpmm_records X now tx slot mints inp = (let (_, _, _, meta) = inp in
     alt_numbered X (cpmm_ctx X now tx slot inp) meta (cpmm_accounts inp) 0 (cpmm_tx_swaps X tx mints inp))"

lemma extract_fees_ex: "\<exists>a b c. extract_transaction_fees X msg meta full = Some (a, b, c)"
  by (auto simp: extract_transaction_fees_def panic_free Let_def split: option.splits)

lemma process_cpmm_closed:
  assumes "cpmm_inputs X tx = Inr inp"
  shows "process_cpmm_tx X now tx slot mints readonly st =
    Some (Inr (), fold (send_alt readonly) (cpmm_records X now tx slot mints inp) st)"
proof -
  obtain p c msg meta where inp: "inp = (p, c, msg, meta)" by (cases inp)
  obtain fee tip provider where fees:
    "extract_transaction_fees X msg meta (cpmm_accounts inp) = Some (fee, tip, provider)"
    using extract_fees_ex by blast
  have acc: "cpmm_accounts inp = msg_account_keys msg @ m_loaded_writable_addresses meta @ m_loaded_readonly_addresses meta"
    by (simp add: cpmm_accounts_def inp)
  show ?thesis
  proof (cases "get_program_instructions msg meta (cpmm_accounts inp) p = []")
    case True
    then show ?thesis
      using assms
      by (simp add: process_cpmm_tx_def cpmm_records_def cpmm_tx_swaps_def cpmm_items_def sort_by_place_def
                    cpmm_accounts_def inp)
  next
    case False
    let ?s = "\<lparr>lo_trade_index = 0, lo_log_events = None, lo_out = st\<rparr>"
    obtain s' where s': "cpmm_loop X (cpmm_ctx X now tx slot inp) readonly p c mints meta (cpmm_accounts inp)
          (cpmm_items inp) ?s = Some s'"
        "lo_out s' = fold (send_alt readonly)
          (alt_numbered X (cpmm_ctx X now tx slot inp) meta (cpmm_accounts inp) (lo_trade_index ?s)
            (cpmm_swaps X (cc_success (cpmm_ctx X now tx slot inp)) p c mints meta (cpmm_accounts inp)
              (cpmm_items inp) (current_events X meta ?s))) (lo_out ?s)"
      using cpmm_loop_closed by blast
    have ctx: "cpmm_ctx X now tx slot inp =
        \<lparr>cc_tx_signature = x_bs58_encode X (tx_signature_bytes tx), cc_slot = slot, cc_now = now,
          cc_success = tx_succeeded tx,
          cc_priority_fee = fee, cc_transfer_tip = tip, cc_tip_provider = provider,
          cc_compute_units_consumed = m_compute_units_consumed meta,
          cc_lamports_per_compute_unit = lamports_per_cu fee\<rparr>"
      using fees by (simp add: cpmm_ctx_def inp)
    have items: "cpmm_items inp = sort_by_place (get_program_instructions msg meta (cpmm_accounts inp) p)"
      by (simp add: cpmm_items_def inp)
    have "process_cpmm_tx X now tx slot mints readonly st = Some (Inr (), lo_out s')"
      using assms False fees s'(1) unfolding process_cpmm_tx_def inp
      by (simp add: acc [unfolded inp, symmetric] ctx [unfolded inp] items [unfolded inp, symmetric] Let_def)
    moreover have "lo_out s' = fold (send_alt readonly) (cpmm_records X now tx slot mints inp) st"
      using s'(2) by (simp add: cpmm_records_def cpmm_tx_swaps_def current_events_def inp ctx [unfolded inp])
    ultimately show ?thesis by simp
  qed
qed

lemma fold_send_alt:
  "\<not> al_channel_closed st \<Longrightarrow> fold (send_alt False) recs st = st\<lparr>al_channel := al_channel st @ recs\<rparr>"
  by (induction recs arbitrary: st) (auto simp: send_alt_def)

lemma fold_send_alt_readonly:
  "al_channel (fold (send_alt True) recs st) = al_channel st \<and>
   map snd (al_log (fold (send_alt True) recs st)) = map snd (al_log st) @ recs"
  by (induction recs arbitrary: st) (auto simp: send_alt_def Let_def)

text \<open>C10. Processing a CPMM transaction never panics; it fails exactly on a missing input, without any
  effect. Otherwise the records of its swaps are sent behind what was sent before, or, in readonly
  mode, only logged, in the same order.\<close>

theorem process_cpmm_tx_result:
  "case cpmm_inputs X tx of
     Inl e \<Rightarrow> process_cpmm_tx X now tx slot mints readonly st = Some (Inl e, st)
   | Inr inp \<Rightarrow>
       (\<exists>st'. process_cpmm_tx X now tx slot mints readonly st = Some (Inr (), st') \<and>
          (if readonly
           then al_channel st' = al_channel st \<and>
                map snd (al_log st') = map snd (al_log st) @ cpmm_records X now tx slot mints inp
           else al_channel_closed st \<or>
                st' = st\<lparr>al_channel := al_channel st @ cpmm_records X now tx slot mints inp\<rparr>))"
proof (cases "cpmm_inputs X tx")
  case (Inl e)
  then show ?thesis by (simp add: process_cpmm_tx_def)
next
  case (Inr inp)
  show ?thesis
    unfolding process_cpmm_closed [OF Inr] Inr
    using fold_send_alt [of st "cpmm_records X now tx slot mints inp"]
      fold_send_alt_readonly [of "cpmm_records X now tx slot mints inp" st]
    by (cases readonly) auto
qed

section \<open>Execution order\<close>




section \<open>Filter and amounts\<close>

lemma swap_event_source:
  "swap_event X meta full item t events = Some (Some (e, src), rest) \<Longrightarrow> src \<in> {''event'', ''vault_balances''}"
  by (auto simp: swap_event_def panic_free Let_def split: prod.splits option.splits)

lemma cpmm_swaps_set:
  assumes "(item, ty, t, ev) \<in> set (cpmm_swaps X success program config mints meta full items events)"
  shows "item \<in> set items \<and> item_swap X program config mints full item = Some (ty, t) \<and>
    (\<forall>e src. ev = Some (e, src) \<longrightarrow> success \<and> src \<in> {''event'', ''vault_balances''})"
  using assms
proof (induction items arbitrary: events)
  case (Cons it items)
  show ?case
  proof (cases "item_swap X program config mints full it")
    case None
    with Cons show ?thesis by auto
  next
    case (Some p)
    obtain ty' t' where p: "p = (ty', t')" by (cases p)
    obtain ev' rest where e: "swap_event X meta full it t' events = Some (ev', rest)"
      using swap_event_total by blast
    show ?thesis
      using Cons Some e swap_event_source [of X meta full it t' events _ _ rest]
      by (cases success) (auto simp: p)
  qed
qed simp

lemma record_swap:
  assumes "r \<in> set (cpmm_records X now tx slot mints (program, config, msg, meta))"
  shows "\<exists>i item ty t ev.
    r = record_of_swap X (cpmm_ctx X now tx slot (program, config, msg, meta)) meta
          (cpmm_accounts (program, config, msg, meta)) i (item, ty, t, ev) \<and>
    item_swap X program config mints (cpmm_accounts (program, config, msg, meta)) item = Some (ty, t) \<and>
    (\<forall>e src. ev = Some (e, src) \<longrightarrow>
       tx_succeeded tx \<and> src \<in> {''event'', ''vault_balances''})"
proof -
  have "\<exists>i sw. r = record_of_swap X ctx meta full i sw \<and> sw \<in> set swaps"
    if "r \<in> set (alt_numbered X ctx meta full j swaps)" for ctx meta full j swaps
    using that by (metis in_set_conv_nth length_alt_numbered nth_alt_numbered)
  note mem = this
  have "r \<in> set (alt_numbered X (cpmm_ctx X now tx slot (program, config, msg, meta)) meta
      (cpmm_accounts (program, config, msg, meta)) 0 (cpmm_tx_swaps X tx mints (program, config, msg, meta)))"
    using assms by (simp add: cpmm_records_def)
  from mem [OF this] obtain i sw where
    "r = record_of_swap X (cpmm_ctx X now tx slot (program, config, msg, meta)) meta
          (cpmm_accounts (program, config, msg, meta)) i sw"
    "sw \<in> set (cpmm_tx_swaps X tx mints (program, config, msg, meta))" by blast
  then show ?thesis
    by (cases sw) (fastforce simp: cpmm_tx_swaps_def dest: cpmm_swaps_set)
qed

lemma tracked_leg_Some:
  "tracked_leg mints i out = Some (mint, quote, b, info) \<Longrightarrow>
     mints mint = Some info \<and> mints quote = None \<and> (mint, quote) = (if b then (i, out) else (out, i))"
  by (auto simp: tracked_leg_def split: option.splits)

lemma cpmm_target_props:
  assumes "cpmm_target_of X program config mints instr full = Some t"
  shows "mints (ct_mint t) = Some (ct_info t) \<and> mints (ct_quote_mint t) = None \<and>
    ct_quote_mint t = mi_quote_mint (ct_info t) \<and>
    (\<exists>pool_key input_key output_key.
       instruction_account_pubkey instr full CPMM_SWAP_AMM_CONFIG_IX_POS = Some config \<and>
       ct_pool_address t = x_pubkey_to_string X pool_key \<and>
       ct_input_mint t = x_pubkey_to_string X input_key \<and> ct_output_mint t = x_pubkey_to_string X output_key \<and>
       (ct_mint t, ct_quote_mint t) =
         (if ct_base_is_input t then (ct_input_mint t, ct_output_mint t) else (ct_output_mint t, ct_input_mint t)) \<and>
       (pool_key = cpmm_canonical_pool X program config input_key output_key \<or>
        mi_cpmm_pool (ct_info t) = Some (ct_pool_address t)))"
proof -
  obtain config' pool_key input_key output_key mint quote b info where
    k: "instruction_account_pubkey instr full CPMM_SWAP_AMM_CONFIG_IX_POS = Some config'" "config' = config"
    and m: "tracked_leg mints (x_pubkey_to_string X input_key) (x_pubkey_to_string X output_key) =
              Some (mint, quote, b, info)"
    and q: "\<not> quote \<noteq> mi_quote_mint info"
    and p: "\<not> (pool_key \<noteq> cpmm_canonical_pool X program config input_key output_key \<and>
            mi_cpmm_pool info \<noteq> Some (x_pubkey_to_string X pool_key))"
    and t: "t = \<lparr>ct_input_mint = x_pubkey_to_string X input_key, ct_output_mint = x_pubkey_to_string X output_key,
              ct_mint = mint, ct_quote_mint = quote, ct_base_is_input = b, ct_info = info,
              ct_pool_address = x_pubkey_to_string X pool_key\<rparr>"
    using assms by (simp add: cpmm_target_of_def Let_def bind_eq_Some_conv split: if_splits) blast
  show ?thesis
    using k p q tracked_leg_Some [OF m]
    by (intro conjI exI [of _ pool_key] exI [of _ input_key] exI [of _ output_key]) (auto simp: t)
qed


text \<open>C15. The amounts of a CPMM record say where they come from: with a market cap, reserves and fees
  exactly when they were executed, in a transaction that landed; the market cap is then the one of the
  reported reserves and the launch's supply. A failed swap, or one whose event is lost, is an
  \<open>instruction_request\<close> without any of them.\<close>

theorem cpmm_amounts_sound:
  assumes "r \<in> set (cpmm_records X now tx slot mints (program, config, msg, meta))"
  shows "(ar_amount_source r \<in> {''event'', ''vault_balances''} \<and> tx_succeeded tx \<and>
          (\<exists>info br qr bf tf cf. mints (ar_mint_address r) = Some info \<and>
             ar_base_reserves r = Some br \<and> ar_quote_reserves r = Some qr \<and>
             ar_market_cap r = Some (cpmm_market_cap qr br (mi_total_supply info)) \<and>
             ar_base_transfer_fee r = Some bf \<and> ar_trade_fee r = Some tf \<and> ar_creator_fee r = Some cf)) \<or>
         (ar_amount_source r = ''instruction_request'' \<and> ar_market_cap r = None \<and>
          ar_base_reserves r = None \<and> ar_quote_reserves r = None \<and>
          ar_base_transfer_fee r = None \<and> ar_trade_fee r = None \<and> ar_creator_fee r = None)"
proof -
  obtain i instr parent start ty t ev where
    r: "r = record_of_swap X (cpmm_ctx X now tx slot (program, config, msg, meta)) meta
          (cpmm_accounts (program, config, msg, meta)) i ((instr, parent, start), ty, t, ev)" and
    t: "cpmm_target_of X program config mints instr (cpmm_accounts (program, config, msg, meta)) = Some t" and
    ev: "\<And>e src. ev = Some (e, src) \<Longrightarrow>
       tx_succeeded tx \<and> src \<in> {''event'', ''vault_balances''}"
    using record_swap [OF assms] by (fastforce simp: item_swap_def bind_eq_Some_conv split: if_splits)
  show ?thesis
  proof (cases "Option.bind ev (\<lambda>(e, src). cpmm_resolve_side e (ct_mint t))")
    case None
    then have "cpmm_amounts_of ev t (ci_data instr) = requested_cpmm_amounts (ci_data instr) (ct_base_is_input t)"
      by (cases ev) (auto simp: cpmm_amounts_of_def Let_def split: prod.splits)
    then show ?thesis
      by (simp add: r record_of_swap_def alt_record_of_def requested_cpmm_amounts_def split: prod.splits)
  next
    case (Some s)
    then obtain e src where e: "ev = Some (e, src)" "cpmm_resolve_side e (ct_mint t) = Some s" by (cases ev) auto
    with ev [OF e(1)] cpmm_target_props [OF t] show ?thesis
      by (simp add: r record_of_swap_def alt_record_of_def cpmm_amounts_of_def )
  qed
qed

section \<open>Which event belongs to which swap\<close>

text \<open>The instructions that pass the guards, with their targets.\<close>
primrec passing ::
  "externals \<Rightarrow> pubkey \<Rightarrow> pubkey \<Rightarrow> alt_mint_map \<Rightarrow> bytes list \<Rightarrow> cpmm_item list \<Rightarrow>
   (cpmm_item \<times> string \<times> cpmm_target) list" where
  "passing X program config mints full [] = []"
| "passing X program config mints full (item # items) =
     (case item_swap X program config mints full item of
        None \<Rightarrow> passing X program config mints full items
      | Some (ty, t) \<Rightarrow> (item, ty, t) # passing X program config mints full items)"

text \<open>The event when the log holds none: the self-CPI, then the vault balances.\<close>
definition other_event ::
  "externals \<Rightarrow> transaction_status_meta \<Rightarrow> bytes list \<Rightarrow> cpmm_item \<Rightarrow> cpmm_target \<Rightarrow>
   (cpmm_swap_event \<times> string) option" where
  "other_event X meta full item t =
     (let (instr, parent, start) = item in
      case Option.bind (the (find_event_data meta parent start (ci_program_id_index instr) CPMM_SWAP_EVENT_DISC))
             (cpmm_parse X) of
        Some e \<Rightarrow> Some (e, ''event'')
      | None \<Rightarrow> map_option (\<lambda>e. (e, ''vault_balances'')) (vault_fallback meta full instr t))"

definition pool_events :: "string \<Rightarrow> cpmm_swap_event list \<Rightarrow> cpmm_swap_event list" where
  "pool_events pool events = filter (\<lambda>e. ce_pool_id e = pool) events"

text \<open>How many swaps of a list are on a pool.\<close>
definition swaps_on :: "string \<Rightarrow> (cpmm_item \<times> string \<times> cpmm_target) list \<Rightarrow> nat" where
  "swaps_on pool ps = length (filter (\<lambda>(_, _, t). ct_pool_address t = pool) ps)"

text \<open>The \<open>n\<close>-th swap on a pool takes the \<open>n\<close>-th event of the pool.\<close>
definition assigned_event ::
  "externals \<Rightarrow> transaction_status_meta \<Rightarrow> bytes list \<Rightarrow> cpmm_swap_event list \<Rightarrow>
   (cpmm_item \<times> string \<times> cpmm_target) list \<Rightarrow> cpmm_item \<Rightarrow> cpmm_target \<Rightarrow> (cpmm_swap_event \<times> string) option" where
  "assigned_event X meta full events before item t =
     (case vec_get (pool_events (ct_pool_address t) events) (swaps_on (ct_pool_address t) before) of
        Some e \<Rightarrow> Some (e, ''event'')
      | None \<Rightarrow> other_event X meta full item t)"

lemma take_pool_event_spec:
  "take_pool_event pool events =
     (case pool_events pool events of
        [] \<Rightarrow> None
      | e # _ \<Rightarrow> Some (e, snd (the (take_pool_event pool events))))"
proof (induction events)
  case Nil
  then show ?case by (simp add: take_pool_event_def pool_events_def)
next
  case (Cons e events)
  then show ?case
    by (auto simp: take_pool_event_def pool_events_def split: option.splits list.splits)
qed

lemma take_pool_event_rest:
  assumes "take_pool_event pool events = Some (e, rest)"
  shows "pool_events pool events = e # pool_events pool rest \<and>
         (\<forall>p. p \<noteq> pool \<longrightarrow> pool_events p rest = pool_events p events)"
proof -
  obtain i where i: "position (\<lambda>e. ce_pool_id e = pool) events = Some i" "e = events ! i"
      "rest = take i events @ drop (i + 1) events"
    using assms by (auto simp: take_pool_event_def split: option.splits)
  then have p: "i < length events" "ce_pool_id (events ! i) = pool" "\<forall>j<i. ce_pool_id (events ! j) \<noteq> pool"
    by (simp_all add: position_Some_iff)
  have split: "events = take i events @ events ! i # drop (i + 1) events"
    using p(1) by (simp add: Cons_nth_drop_Suc)
  have none: "filter (\<lambda>e. ce_pool_id e = pool) (take i events) = []"
    using p(3) by (fastforce simp: filter_empty_conv in_set_conv_nth)
  have f: "pool_events q events =
      filter (\<lambda>e. ce_pool_id e = q) (take i events) @
      (if ce_pool_id (events ! i) = q then [events ! i] else []) @
      filter (\<lambda>e. ce_pool_id e = q) (drop (i + 1) events)" for q
    unfolding pool_events_def by (subst split) simp
  show ?thesis
    using p(2) none by (simp add: f i(2,3)) (simp add: pool_events_def)
qed

text \<open>The swaps of a landed transaction, after \<open>before\<close> has taken its events.\<close>

primrec assign ::
  "externals \<Rightarrow> transaction_status_meta \<Rightarrow> bytes list \<Rightarrow> cpmm_swap_event list \<Rightarrow>
   (cpmm_item \<times> string \<times> cpmm_target) list \<Rightarrow> (cpmm_item \<times> string \<times> cpmm_target) list \<Rightarrow> cpmm_swap list" where
  "assign X meta full events before [] = []"
| "assign X meta full events before (p # ps) =
     (let (item, ty, t) = p in
      (item, ty, t, assigned_event X meta full events before item t) #
      assign X meta full events (before @ [p]) ps)"

lemma swap_event_other:
  "take_pool_event (ct_pool_address t) current = None \<Longrightarrow>
   swap_event X meta full item t current = Some (other_event X meta full item t, current)"
  by (auto simp: swap_event_def other_event_def panic_free Let_def split: prod.splits option.splits)

lemma swap_event_log:
  "take_pool_event (ct_pool_address t) current = Some (e, rest) \<Longrightarrow>
   swap_event X meta full item t current = Some (Some (e, ''event''), rest)"
  by (auto simp: swap_event_def Let_def split: prod.splits)

lemma drop_eq_Cons_vec_get: "drop n xs = y # ys \<Longrightarrow> vec_get xs n = Some y"
  by (metis drop_eq_Nil list.distinct(1) linorder_not_le nth_via_drop vec_get_Some_iff)

lemma cpmm_swaps_assign:
  assumes "\<And>pool. pool_events pool current = drop (swaps_on pool before) (pool_events pool events)"
  shows "cpmm_swaps X True program config mints meta full items current =
         assign X meta full events before (passing X program config mints full items)"
  using assms
proof (induction items arbitrary: before current)
  case (Cons item items)
  show ?case
  proof (cases "item_swap X program config mints full item")
    case None
    with Cons show ?thesis by simp
  next
    case (Some p)
    obtain ty t where p: "p = (ty, t)" by (cases p)
    let ?pool = "ct_pool_address t"
    have count: "swaps_on q (before @ [(item, ty, t)]) = swaps_on q before + (if ?pool = q then 1 else 0)" for q
      by (simp add: swaps_on_def)
    show ?thesis
    proof (cases "take_pool_event ?pool current")
      case n: None
      then have "pool_events ?pool current = []"
        using take_pool_event_spec [of ?pool current] by (auto split: list.splits)
      then have empty: "length (pool_events ?pool events) \<le> swaps_on ?pool before"
        using Cons.prems [of ?pool] by simp
      have "pool_events q current = drop (swaps_on q (before @ [(item, ty, t)])) (pool_events q events)" for q
        using Cons.prems [of q] empty by (cases "?pool = q") (auto simp: count)
      from Cons.IH [OF this] show ?thesis
        using Some empty by (simp add: p swap_event_other [OF n] assigned_event_def vec_get_def)
    next
      case (Some er)
      obtain e rest where er: "er = (e, rest)" by (cases er)
      note rest = take_pool_event_rest [OF Some [unfolded er]]
      have "drop (swaps_on ?pool before) (pool_events ?pool events) = e # pool_events ?pool rest"
        using rest Cons.prems [of ?pool] by simp
      then have e: "vec_get (pool_events ?pool events) (swaps_on ?pool before) = Some e"
          "drop (Suc (swaps_on ?pool before)) (pool_events ?pool events) = pool_events ?pool rest"
        by (simp_all add: drop_eq_Cons_vec_get drop_Suc drop_tl)
      have "pool_events q rest = drop (swaps_on q (before @ [(item, ty, t)])) (pool_events q events)" for q
        using rest Cons.prems [of q] e(2) by (cases "?pool = q") (auto simp: count)
      from Cons.IH [OF this] show ?thesis
        using \<open>item_swap X program config mints full item = Some p\<close> e(1)
        by (simp add: p swap_event_log [OF Some [unfolded er]] assigned_event_def)
    qed
  qed
qed simp

text \<open>C17. Events are attributed by pool, in execution order, and never shared: in a landed transaction the
  \<open>n\<close>-th swap on a pool takes the \<open>n\<close>-th SwapEvent of that pool in the log. Only when the log has fewer
  events of the pool does a swap fall back to a self-CPI event and then to the vault balances.\<close>

theorem cpmm_events_attributed_in_order:
  assumes "tx_succeeded tx"
  shows "cpmm_tx_swaps X tx mints (program, config, msg, meta) =
    assign X meta (cpmm_accounts (program, config, msg, meta))
      (cpmm_swap_events_from_logs X (m_log_messages meta)) []
      (passing X program config mints (cpmm_accounts (program, config, msg, meta))
        (cpmm_items (program, config, msg, meta)))"
  using assms by (simp add: cpmm_tx_swaps_def) (rule cpmm_swaps_assign, simp add: swaps_on_def)

section \<open>A concrete transaction\<close>

text \<open>Two swaps of quote 1 for the tracked coin 2 on its migration pool. In the instance of \<open>Wire\<close> the
  canonical pool of the pair is the key of the larger mint.\<close>

definition demo_cpmm_program :: pubkey where
  "demo_cpmm_program = take 32 (bytes_of_text RAYDIUM_CPMM_PROGRAM_ID)"

definition demo_config :: pubkey where
  "demo_config = take 32 (bytes_of_text STONK_CPMM_AMM_CONFIG)"

definition key_of :: "nat \<Rightarrow> pubkey" where
  "key_of n = replicate 32 (word_of_nat n)"

definition demo_cpmm_accounts :: "bytes list" where
  "demo_cpmm_accounts = [demo_cpmm_program, demo_config, key_of 2, key_of 1, key_of 8, key_of 9]"

text \<open>Accounts: payer 5, config 1, pool 2, input vault 4, output vault 5, input mint 3, output mint 2.\<close>
definition demo_swap_ix :: compiled_instruction where
  "demo_swap_ix = \<lparr>ci_program_id_index = 0, ci_accounts = [5, 0, 1, 2, 0, 0, 4, 5, 0, 0, 3, 2, 0],
     ci_data = CPMM_SWAP_BASE_INPUT_DISCRIMINATOR @ to_le_bytes 8 (100 :: u64) @ to_le_bytes 8 (1 :: u64)\<rparr>"

definition demo_cpmm_msg :: message where
  "demo_cpmm_msg = \<lparr>msg_account_keys = demo_cpmm_accounts, msg_instructions = [demo_swap_ix, demo_swap_ix]\<rparr>"

definition demo_cpmm_meta :: transaction_status_meta where
  "demo_cpmm_meta = (demo_meta [])
     \<lparr>m_pre_token_balances := [demo_balance 4 (text_of_bytes (key_of 1)) ''1000'',
                                demo_balance 5 (text_of_bytes (key_of 2)) ''500''],
      m_post_token_balances := [demo_balance 4 (text_of_bytes (key_of 1)) ''1250'',
                                demo_balance 5 (text_of_bytes (key_of 2)) ''400'']\<rparr>"

definition demo_cpmm_tx :: tx_info where
  "demo_cpmm_tx = \<lparr>tx_signature_bytes = [1], tx_transaction = Some (Some demo_cpmm_msg),
     tx_meta = Some demo_cpmm_meta\<rparr>"

definition demo_mints :: alt_mint_map where
  "demo_mints mint = (if mint = text_of_bytes (key_of 2)
     then Some \<lparr>mi_quote_mint = text_of_bytes (key_of 1), mi_total_supply = 1000000000000000,
                mi_base_decimals = 6, mi_quote_decimals = None, mi_cpmm_pool = None\<rparr>
     else None)"

definition demo_cpmm_input :: cpmm_input where
  "demo_cpmm_input = (demo_cpmm_program, demo_config, demo_cpmm_msg, demo_cpmm_meta)"

definition swap_amounts :: "cpmm_swap \<Rightarrow> cpmm_amounts" where
  "swap_amounts swap = (let (item, _, t, ev) = swap in cpmm_amounts_of ev t (ci_data (fst item)))"

lemma demo_cpmm_swaps:
  "map (\<lambda>sw. (ca_token_amount (swap_amounts sw), ca_quote_amount (swap_amounts sw), ca_amount_source (swap_amounts sw)))
     (cpmm_tx_swaps demo_ext demo_cpmm_tx demo_mints demo_cpmm_input) =
   [(100, 250, ''vault_balances''), (100, 250, ''vault_balances'')]"
  by code_simp


lemma demo_cpmm_record:
  obtains r where "r \<in> set (cpmm_records demo_ext 0 demo_cpmm_tx 5 demo_mints
    (demo_cpmm_program, demo_config, demo_cpmm_msg, demo_cpmm_meta))"
proof -
  have "length (cpmm_tx_swaps demo_ext demo_cpmm_tx demo_mints demo_cpmm_input) = 2"
    using arg_cong [OF demo_cpmm_swaps, of length] by simp
  then have "cpmm_records demo_ext 0 demo_cpmm_tx 5 demo_mints
      (demo_cpmm_program, demo_config, demo_cpmm_msg, demo_cpmm_meta) \<noteq> []"
    by (auto simp: cpmm_records_def demo_cpmm_input_def simp flip: length_0_conv)
  with that show ?thesis using hd_in_set by blast
qed


theorem cpmm_amounts_sound_witness:
  "\<exists>r. r \<in> set (cpmm_records demo_ext 0 demo_cpmm_tx 5 demo_mints
      (demo_cpmm_program, demo_config, demo_cpmm_msg, demo_cpmm_meta)) \<and>
     (ar_market_cap r = None \<longleftrightarrow> ar_amount_source r = ''instruction_request'')"
proof -
  obtain r where "r \<in> set (cpmm_records demo_ext 0 demo_cpmm_tx 5 demo_mints
    (demo_cpmm_program, demo_config, demo_cpmm_msg, demo_cpmm_meta))" by (rule demo_cpmm_record)
  with cpmm_amounts_sound [OF this] show ?thesis by auto
qed

theorem cpmm_events_attributed_in_order_witness:
  "map (\<lambda>sw. ca_amount_source (swap_amounts sw))
     (assign demo_ext demo_cpmm_meta (cpmm_accounts demo_cpmm_input) [] []
       (passing demo_ext demo_cpmm_program demo_config demo_mints (cpmm_accounts demo_cpmm_input)
         (cpmm_items demo_cpmm_input))) = [''vault_balances'', ''vault_balances'']"
proof -
  have s: "tx_succeeded demo_cpmm_tx" by code_simp
  have l: "cpmm_swap_events_from_logs demo_ext (m_log_messages demo_cpmm_meta) = []" by code_simp
  have "map (\<lambda>sw. ca_amount_source (swap_amounts sw))
      (cpmm_tx_swaps demo_ext demo_cpmm_tx demo_mints demo_cpmm_input) = [''vault_balances'', ''vault_balances'']"
    using arg_cong [OF demo_cpmm_swaps, of "map (\<lambda>(_, _, src). src)"] by (simp add: comp_def)
  then show ?thesis
    using cpmm_events_attributed_in_order [OF s, of demo_ext demo_mints demo_cpmm_program demo_config
      demo_cpmm_msg demo_cpmm_meta]
    by (simp add: demo_cpmm_input_def l)
qed

end
