(* ===== verification/Sql.thy ===== *)
theory Sql
  imports Decimal Float64
begin

text \<open>
  The tables behind the collector and the statement both writers build: one \<open>INSERT\<close> of many rows with
  \<open>ON CONFLICT (key) DO UPDATE SET\<close>. A statement is kept as the source assembles it (columns, numbered
  placeholders, bound parameters, \<open>SET\<close> list); its meaning is that of SQL. The locale \<open>keyed_upsert\<close> holds
  what follows from the shape of the \<open>SET\<close> list alone; the two tables interpret it.
\<close>

section \<open>Values, rows and tables\<close>

datatype sql_value =
    Sql_Null
  | Sql_Text string
  | Sql_Int int
  | Sql_Bool bool
  | Sql_Double f64
  | Sql_Time int
  | Sql_Numeric int

type_synonym sql_row = "string \<Rightarrow> sql_value option"
type_synonym sql_key = "sql_value option list"
type_synonym sql_table = "sql_key \<Rightarrow> sql_row option"

definition row_of :: "string list \<Rightarrow> sql_value list \<Rightarrow> sql_row" where
  "row_of columns vs = map_of (zip columns vs)"

lemma row_of_update_other:
  "c \<noteq> columns ! i \<Longrightarrow> i < length columns \<Longrightarrow> row_of columns (vs[i := v]) c = row_of columns vs c"
proof (induction columns arbitrary: vs i)
  case (Cons k columns)
  then show ?case by (cases vs; cases i) (auto simp: row_of_def)
qed simp

definition row_key :: "string list \<Rightarrow> sql_row \<Rightarrow> sql_key" where
  "row_key key_columns row = map row key_columns"

section \<open>The upsert statement\<close>

text \<open>\<open>$n\<close> and \<open>$n::text::numeric\<close>\<close>
datatype placeholder = Bind nat | Bind_Numeric nat

text \<open>\<open>c = EXCLUDED.c\<close> and \<open>c = COALESCE(EXCLUDED.c, table.c)\<close>\<close>
datatype set_expr = Excluded | Coalesce_Excluded

record upsert_stmt =
  us_columns :: "string list"
  us_values :: "placeholder list list"
  us_params :: "sql_value list"
  us_key :: "string list"
  us_set :: "(string \<times> set_expr) list"

definition text_to_numeric :: "string \<Rightarrow> int option" where
  "text_to_numeric s =
     (if s \<noteq> [] \<and> list_all is_decimal s
      then Some (foldl (\<lambda>acc c. 10 * acc + char_digit c) 0 s) else None)"

definition cast_numeric :: "sql_value \<Rightarrow> sql_value option" where
  "cast_numeric v =
     (case v of
        Sql_Null \<Rightarrow> Some Sql_Null
      | Sql_Text s \<Rightarrow> map_option Sql_Numeric (text_to_numeric s)
      | _ \<Rightarrow> None)"

text \<open>Parameters are numbered from 1; \<open>None\<close> is an error of the statement.\<close>
fun eval_placeholder :: "sql_value list \<Rightarrow> placeholder \<Rightarrow> sql_value option" where
  "eval_placeholder params (Bind n) = (if n = 0 then None else vec_get params (n - 1))"
| "eval_placeholder params (Bind_Numeric n) =
     (if n = 0 then None else Option.bind (vec_get params (n - 1)) cast_numeric)"

text \<open>The placeholders of row \<open>i\<close>, as both writers number them: column \<open>col\<close> is parameter
  \<open>i * cols + col\<close>.\<close>
definition value_row :: "nat \<Rightarrow> (nat \<Rightarrow> bool) \<Rightarrow> nat \<Rightarrow> placeholder list" where
  "value_row cols numeric i =
     map (\<lambda>col. if numeric col then Bind_Numeric (i * cols + col) else Bind (i * cols + col)) [1..<cols + 1]"

definition merge_row :: "(string \<times> set_expr) list \<Rightarrow> sql_row \<Rightarrow> sql_row \<Rightarrow> sql_row" where
  "merge_row set_list old new = (\<lambda>c.
     case map_of set_list c of
       Some Excluded \<Rightarrow> new c
     | Some Coalesce_Excluded \<Rightarrow> (if new c = Some Sql_Null then old c else new c)
     | None \<Rightarrow> old c)"

definition upsert_row :: "string list \<Rightarrow> (string \<times> set_expr) list \<Rightarrow> sql_table \<Rightarrow> sql_row \<Rightarrow> sql_table" where
  "upsert_row key_columns set_list t r =
     t(row_key key_columns r :=
         Some (case t (row_key key_columns r) of None \<Rightarrow> r | Some old \<Rightarrow> merge_row set_list old r))"

text \<open>The protocol counts parameters in 16 bits.\<close>
definition MAX_BIND_PARAMETERS :: nat where
  "MAX_BIND_PARAMETERS = 65535"

text \<open>The rows of a statement, once its placeholders are bound.\<close>
definition stmt_rows :: "upsert_stmt \<Rightarrow> sql_row list option" where
  "stmt_rows stmt =
     map_option (map (row_of (us_columns stmt)))
       (map_may_panic (map_may_panic (eval_placeholder (us_params stmt))) (us_values stmt))"

text \<open>A statement that names a key twice is an error: it cannot update a row a second time.\<close>
definition exec_upsert :: "upsert_stmt \<Rightarrow> sql_table \<Rightarrow> sql_table option" where
  "exec_upsert stmt t =
     (if MAX_BIND_PARAMETERS < length (us_params stmt) then None
      else do {
        rows \<leftarrow> stmt_rows stmt;
        if distinct (map (row_key (us_key stmt)) rows)
        then Some (foldl (upsert_row (us_key stmt) (us_set stmt)) t rows) else None })"

text \<open>Binding: row \<open>i\<close> of the statement gets the parameters that were pushed for it, in column order.\<close>

definition bound_row :: "nat \<Rightarrow> (nat \<Rightarrow> bool) \<Rightarrow> sql_value list \<Rightarrow> sql_value list option" where
  "bound_row cols numeric vs =
     map_may_panic (\<lambda>col. if numeric col then cast_numeric (vs ! (col - 1)) else Some (vs ! (col - 1))) [1..<cols + 1]"

lemma map_may_panic_cong:
  "(\<And>x. x \<in> set xs \<Longrightarrow> f x = g x) \<Longrightarrow> map_may_panic f xs = map_may_panic g xs"
  by (induction xs) auto

lemma concat_nth:
  assumes "\<And>r. r \<in> set rows \<Longrightarrow> length (f r) = cols" "i < length rows" "j < cols"
  shows "vec_get (concat (map f rows)) (i * cols + j) = Some (f (rows ! i) ! j)"
  using assms
proof (induction rows arbitrary: i)
  case (Cons r rows)
  show ?case
  proof (cases i)
    case 0
    with Cons.prems show ?thesis by (auto simp: vec_get_def nth_append)
  next
    case (Suc k)
    then have k: "vec_get (concat (map f rows)) (k * cols + j) = Some (f (rows ! k) ! j)"
      using Cons by simp
    have "i * cols + j = cols + (k * cols + j)" by (simp add: Suc)
    with k Suc Cons.prems(1) [of r] show ?thesis by (simp add: vec_get_append2)
  qed
qed simp

lemma length_concat_rows:
  "(\<And>r. r \<in> set rows \<Longrightarrow> length (f r) = cols) \<Longrightarrow> length (concat (map f rows)) = length rows * cols"
  by (induction rows) auto

lemma bind_rows:
  assumes "\<And>r. r \<in> set rows \<Longrightarrow> length (f r) = cols"
  shows "map_may_panic (map_may_panic (eval_placeholder (concat (map f rows))))
           (map (value_row cols numeric) [0..<length rows]) =
         map_may_panic (\<lambda>r. bound_row cols numeric (f r)) rows"
proof -
  have "map_may_panic (eval_placeholder (concat (map f rows))) (value_row cols numeric i) =
      bound_row cols numeric (f (rows ! i))" if "i < length rows" for i
    unfolding value_row_def bound_row_def map_may_panic_map
  proof (rule map_may_panic_cong)
    fix col assume "col \<in> set [1..<cols + 1]"
    then have col: "1 \<le> col" "col - 1 < cols" by auto
    then have n: "i * cols + col - 1 = i * cols + (col - 1)" by simp
    show "eval_placeholder (concat (map f rows))
        (if numeric col then Bind_Numeric (i * cols + col) else Bind (i * cols + col)) =
      (if numeric col then cast_numeric (f (rows ! i) ! (col - 1)) else Some (f (rows ! i) ! (col - 1)))"
      using col concat_nth [OF assms that col(2)] by (simp add: n)
  qed
  then have "map_may_panic (map_may_panic (eval_placeholder (concat (map f rows))))
      (map (value_row cols numeric) [0..<length rows]) =
    map_may_panic (\<lambda>i. bound_row cols numeric (f (rows ! i))) [0..<length rows]"
    unfolding map_may_panic_map by (intro map_may_panic_cong) simp
  also have "\<dots> = map_may_panic (\<lambda>r. bound_row cols numeric (f r)) (map ((!) rows) [0..<length rows])"
    by (simp only: map_may_panic_map)
  finally show ?thesis by (simp add: map_nth)
qed

lemma text_to_numeric_u64: "text_to_numeric (u64_to_string w) = Some (uint w)"
  using nat_digits_decimal [of "unat w"] nat_digits_value [of "unat w"] nat_digits_nonempty [of "unat w"]
  by (simp add: text_to_numeric_def u64_to_string_def)

lemma cast_numeric_simps [simp]:
  "cast_numeric Sql_Null = Some Sql_Null"
  "cast_numeric (Sql_Text (u64_to_string w)) = Some (Sql_Numeric (uint w))"
  by (simp_all add: cast_numeric_def text_to_numeric_u64)

section \<open>Coalescing duplicate keys\<close>

text \<open>\<open>xs[i] = v\<close>\<close>
definition set_index :: "'a list \<Rightarrow> nat \<Rightarrow> 'a \<Rightarrow> 'a list may_panic" where
  "set_index xs i v = (if i < length xs then Some (xs[i := v]) else None)"

primrec coalesce_loop ::
  "('r \<Rightarrow> 'k) \<Rightarrow> 'r list \<Rightarrow> ('k \<Rightarrow> nat option) \<times> 'r list \<Rightarrow> 'r list may_panic" where
  "coalesce_loop key [] s = Some (snd s)"
| "coalesce_loop key (row # rows) s =
     (let (positions, unique) = s; k = key row in
      case positions k of
        Some pos \<Rightarrow> do {
          unique \<leftarrow> set_index unique pos row;
          coalesce_loop key rows (positions, unique) }
      | None \<Rightarrow> coalesce_loop key rows (positions(k \<mapsto> length unique), unique @ [row]))"

definition coalesce_duplicate_rows :: "('r \<Rightarrow> 'k) \<Rightarrow> 'r list \<Rightarrow> 'r list may_panic" where
  "coalesce_duplicate_rows key rows = coalesce_loop key rows (Map.empty, [])"

text \<open>What it computes: for each key, in the order of first appearance, the last row with that key.\<close>

definition first_keys :: "('r \<Rightarrow> 'k) \<Rightarrow> 'r list \<Rightarrow> 'k list" where
  "first_keys key rows = rev (remdups (rev (map key rows)))"

definition latest :: "('r \<Rightarrow> 'k) \<Rightarrow> 'r list \<Rightarrow> 'k \<Rightarrow> 'r" where
  "latest key rows k = last (filter (\<lambda>r. key r = k) rows)"

definition latest_rows :: "('r \<Rightarrow> 'k) \<Rightarrow> 'r list \<Rightarrow> 'r list" where
  "latest_rows key rows = map (latest key rows) (first_keys key rows)"

lemma set_first_keys [simp]: "set (first_keys key rows) = key ` set rows"
  by (simp add: first_keys_def)

lemma distinct_first_keys [simp]: "distinct (first_keys key rows)"
  by (simp add: first_keys_def)

lemma first_keys_snoc:
  "first_keys key (rows @ [r]) =
     (if key r \<in> key ` set rows then first_keys key rows else first_keys key rows @ [key r])"
  by (auto simp: first_keys_def)

lemma latest_snoc: "latest key (rows @ [r]) k = (if key r = k then r else latest key rows k)"
  by (simp add: latest_def)

lemma length_latest_rows [simp]: "length (latest_rows key rows) = length (first_keys key rows)"
  by (simp add: latest_rows_def)

lemma latest_rows_snoc_old:
  assumes "key r \<in> key ` set rows" "i < length (first_keys key rows)" "first_keys key rows ! i = key r"
  shows "latest_rows key (rows @ [r]) = (latest_rows key rows)[i := r]"
proof (rule nth_equalityI)
  fix j assume "j < length (latest_rows key (rows @ [r]))"
  then have j: "j < length (first_keys key rows)" using assms(1) by (simp add: latest_rows_def first_keys_snoc)
  then have "first_keys key rows ! j = key r \<longleftrightarrow> j = i"
    using assms(2,3) by (metis distinct_first_keys nth_eq_iff_index_eq)
  with j assms show "latest_rows key (rows @ [r]) ! j = (latest_rows key rows)[i := r] ! j"
    by (auto simp: latest_rows_def first_keys_snoc latest_snoc nth_list_update)
qed (use assms in \<open>simp add: latest_rows_def first_keys_snoc\<close>)

lemma latest_rows_snoc_new:
  assumes "key r \<notin> key ` set rows"
  shows "latest_rows key (rows @ [r]) = latest_rows key rows @ [r]"
  using assms by (auto simp: latest_rows_def first_keys_snoc latest_snoc)

lemma position_snoc:
  "position p (xs @ [x]) =
     (case position p xs of Some i \<Rightarrow> Some i | None \<Rightarrow> if p x then Some (length xs) else None)"
  by (induction xs) (auto split: option.splits)

lemma coalesce_loop_spec:
  assumes "\<And>k. positions k = position (\<lambda>k'. k' = k) (first_keys key done_rows)"
  shows "coalesce_loop key rows (positions, latest_rows key done_rows) = Some (latest_rows key (done_rows @ rows))"
  using assms
proof (induction rows arbitrary: positions done_rows)
  case (Cons r rows)
  show ?case
  proof (cases "positions (key r)")
    case None
    then have new: "key r \<notin> key ` set done_rows"
      using Cons.prems [of "key r"] by (auto simp: position_None_iff)
    have "(positions(key r \<mapsto> length (latest_rows key done_rows))) k =
        position (\<lambda>k'. k' = k) (first_keys key (done_rows @ [r]))" for k
      using None new Cons.prems [of k] Cons.prems [of "key r"]
      by (auto simp: first_keys_snoc position_snoc latest_rows_def split: option.splits)
    then have "coalesce_loop key rows (positions(key r \<mapsto> length (latest_rows key done_rows)),
        latest_rows key (done_rows @ [r])) = Some (latest_rows key ((done_rows @ [r]) @ rows))"
      by (rule Cons.IH)
    then show ?thesis
      using None by (simp add: latest_rows_snoc_new [OF new])
  next
    case (Some i)
    then have p: "position (\<lambda>k'. k' = key r) (first_keys key done_rows) = Some i"
      using Cons.prems by simp
    then have i: "i < length (first_keys key done_rows)" "first_keys key done_rows ! i = key r"
      by (auto simp: position_Some_iff)
    then have old: "key r \<in> key ` set done_rows" by (metis nth_mem set_first_keys)
    have "positions k = position (\<lambda>k'. k' = k) (first_keys key (done_rows @ [r]))" for k
      using old Cons.prems [of k] by (simp add: first_keys_snoc)
    from Cons.IH [OF this] show ?thesis
      using Some i by (simp add: set_index_def latest_rows_snoc_old [OF old i])
  qed
qed simp

lemma coalesce_closed [panic_free]: "coalesce_duplicate_rows key rows = Some (latest_rows key rows)"
  using coalesce_loop_spec [of Map.empty key "[]" rows]
  by (simp add: coalesce_duplicate_rows_def latest_rows_def first_keys_def)

lemma latest_rows_key: "k \<in> key ` set rows \<Longrightarrow> key (latest key rows k) = k \<and> latest key rows k \<in> set rows"
proof -
  assume "k \<in> key ` set rows"
  then have "filter (\<lambda>r. key r = k) rows \<noteq> []" by (auto simp: filter_empty_conv)
  then have "latest key rows k \<in> set (filter (\<lambda>r. key r = k) rows)" unfolding latest_def by (rule last_in_set)
  then show ?thesis by simp
qed

lemma map_key_latest_rows [simp]: "map key (latest_rows key rows) = first_keys key rows"
proof -
  have "key (latest key rows k) = k" if "k \<in> set (first_keys key rows)" for k
    using that latest_rows_key [of k key rows] by auto
  then show ?thesis unfolding latest_rows_def map_map by (intro map_idI) simp
qed

text \<open>Coalescing never panics and returns, for every key that occurs, exactly one row, the last one
  delivered, in the order in which the keys first appeared: the rows it returns have pairwise different
  keys, so a single \<open>INSERT\<close> can upsert them.\<close>

theorem coalesce_duplicate_rows_spec:
  "\<exists>unique. coalesce_duplicate_rows key rows = Some unique \<and>
     map key unique = rev (remdups (rev (map key rows))) \<and> distinct (map key unique) \<and>
     list_all (\<lambda>r. r = last (filter (\<lambda>r'. key r' = key r) rows)) unique"
proof -
  have "r = last (filter (\<lambda>r'. key r' = key r) rows)" if "r \<in> set (latest_rows key rows)" for r
  proof -
    from that obtain k where k: "k \<in> key ` set rows" "r = latest key rows k" by (auto simp: latest_rows_def)
    then have "key r = k" using latest_rows_key [of k key rows] by auto
    with k(2) show ?thesis by (simp add: latest_def)
  qed
  then show ?thesis
    by (simp add: panic_free list_all_iff) (simp add: first_keys_def)
qed

section \<open>Tables updated by key\<close>

text \<open>
  What the writers rely on: an upsert replaces the row of its key by the old row merged with the new
  one, and merging is associative and idempotent. \<open>same a b\<close>: the row \<open>b\<close> is another delivery of \<open>a\<close>,
  which differs only in columns that an update does not take.
\<close>

locale keyed_upsert =
  fixes key :: "'row \<Rightarrow> 'key" and merge :: "'row \<Rightarrow> 'row \<Rightarrow> 'row" and same :: "'row \<Rightarrow> 'row \<Rightarrow> bool"
  assumes merge_key: "key old = key new \<Longrightarrow> key (merge old new) = key new"
    and merge_assoc: "merge (merge a b) c = merge a (merge b c)"
    and merge_idem: "merge a a = a"
    and same_key: "same a b \<Longrightarrow> key a = key b"
    and same_merge: "same a b \<Longrightarrow> merge old a = merge old b"
begin

definition put :: "('key \<Rightarrow> 'row option) \<Rightarrow> 'row \<Rightarrow> 'key \<Rightarrow> 'row option" where
  "put t r = t(key r := Some (case t (key r) of None \<Rightarrow> r | Some old \<Rightarrow> merge old r))"

definition put_all :: "('key \<Rightarrow> 'row option) \<Rightarrow> 'row list \<Rightarrow> 'key \<Rightarrow> 'row option" where
  "put_all t rs = foldl put t rs"

text \<open>The value of one key: its old row merged with its deliveries in order.\<close>
definition value_after :: "'row option \<Rightarrow> 'row list \<Rightarrow> 'row option" where
  "value_after o' rs = foldl (\<lambda>x r. Some (case x of None \<Rightarrow> r | Some old \<Rightarrow> merge old r)) o' rs"

lemma put_all_simps [simp]:
  "put_all t [] = t" "put_all t (r # rs) = put_all (put t r) rs" "put_all t (rs @ rs') = put_all (put_all t rs) rs'"
  by (simp_all add: put_all_def)

lemma value_after_simps [simp]:
  "value_after x [] = x"
  "value_after x (r # rs) = value_after (Some (case x of None \<Rightarrow> r | Some old \<Rightarrow> merge old r)) rs"
  by (simp_all add: value_after_def)

lemma put_all_value: "put_all t rs k = value_after (t k) (filter (\<lambda>r. key r = k) rs)"
  by (induction rs arbitrary: t) (auto simp: put_def)

lemma value_after_Some: "value_after (Some a) rs = Some (foldl merge a rs)"
  by (induction rs arbitrary: a) auto

lemma foldl_merge_assoc: "foldl merge (merge a b) rs = merge a (foldl merge b rs)"
  by (induction rs arbitrary: b) (auto simp: merge_assoc)

lemma foldl_merge_twice: "foldl merge (foldl merge a rs) rs = foldl merge a rs"
proof (cases rs)
  case (Cons r rs')
  have "foldl merge a rs = merge a (foldl merge r rs')"
    by (simp add: Cons foldl_merge_assoc)
  then have "foldl merge (foldl merge a rs) rs = merge (merge a (foldl merge r rs')) (foldl merge r rs')"
    by (simp add: Cons foldl_merge_assoc)
  also have "\<dots> = merge a (foldl merge r rs')" by (simp add: merge_assoc merge_idem)
  finally show ?thesis by (simp add: Cons foldl_merge_assoc)
qed simp

lemma foldl_merge_head: "foldl merge (foldl merge r rs) (r # rs) = foldl merge r rs"
  using foldl_merge_twice [of r "r # rs"] by (simp add: merge_idem)

lemma foldl_same:
  "list_all2 same rs rs' \<Longrightarrow> foldl merge a rs' = foldl merge a rs"
proof (induction rs arbitrary: a rs')
  case (Cons r rs)
  then obtain r' rs'' where "rs' = r' # rs''" "same r r'" "list_all2 same rs rs''"
    by (auto simp: list_all2_Cons1)
  with Cons.IH [of rs'' "merge a r'"] show ?case using same_merge [of r r' a] by simp
qed simp

lemma filter_same:
  "list_all2 same rs rs' \<Longrightarrow>
   list_all2 same (filter (\<lambda>r. key r = k) rs) (filter (\<lambda>r. key r = k) rs')"
proof (induction rs arbitrary: rs')
  case (Cons r rs)
  then obtain r' rs'' where "rs' = r' # rs''" "same r r'" "list_all2 same rs rs''"
    by (auto simp: list_all2_Cons1)
  with Cons.IH [of rs''] show ?case using same_key [of r r'] by simp
qed simp

text \<open>Delivering the same rows again, with the columns an update does not take changed, leaves the table
  as it is.\<close>

lemma redelivery:
  assumes "list_all2 same rs rs'"
  shows "put_all (put_all t rs) rs' = put_all t rs"
proof
  fix k
  let ?f = "filter (\<lambda>r. key r = k)"
  have s: "list_all2 same (?f rs) (?f rs')" using assms by (rule filter_same)
  show "put_all (put_all t rs) rs' k = put_all t rs k"
  proof (cases "?f rs")
    case Nil
    with s show ?thesis by (simp add: put_all_value)
  next
    case (Cons r rest)
    show ?thesis
    proof (cases "t k")
      case None
      then show ?thesis
        using foldl_same [OF s] foldl_merge_head [of r rest]
        by (simp add: put_all_value Cons value_after_Some)
    next
      case (Some old)
      then show ?thesis
        using foldl_same [OF s] foldl_merge_twice [of old "r # rest"]
        by (simp add: put_all_value Cons value_after_Some)
    qed
  qed
qed

text \<open>Rows are stored under their own key.\<close>

lemma put_all_keys:
  assumes "\<And>k r. t k = Some r \<Longrightarrow> key r = k" "put_all t rs k = Some r"
  shows "key r = k"
proof -
  have "\<And>t. (\<And>k r. t k = Some r \<Longrightarrow> key r = k) \<Longrightarrow> put_all t rs k = Some r \<Longrightarrow> key r = k"
  proof (induction rs)
    case (Cons x rs)
    have "key r = k" if "put t x k = Some r" for k r
      using that Cons.prems(1) [of k] Cons.prems(1) [of "key x"]
      by (auto simp: put_def split: if_splits option.splits intro!: merge_key)
    with Cons.IH [of "put t x"] Cons.prems(2) show ?case by simp
  qed auto
  with assms show ?thesis by blast
qed

text \<open>Committed keys stay.\<close>

lemma put_all_dom: "dom (put_all t rs) = dom t \<union> key ` set rs"
proof (induction rs arbitrary: t)
  case (Cons r rs)
  have "dom (put t r) = insert (key r) (dom t)" by (auto simp: put_def split: if_splits)
  then show ?case by (auto simp: Cons.IH)
qed simp

end

text \<open>Every \<open>SET\<close> list that leaves the key columns alone gives such a table.\<close>

lemma merge_row_assoc: "merge_row S (merge_row S a b) c = merge_row S a (merge_row S b c)"
  by (rule ext) (auto simp: merge_row_def split: option.splits set_expr.splits)

lemma merge_row_idem: "merge_row S a a = a"
  by (rule ext) (auto simp: merge_row_def split: option.splits set_expr.splits)

lemma merge_row_key:
  assumes "set key_columns \<inter> fst ` set S = {}" "row_key key_columns old = row_key key_columns new"
  shows "row_key key_columns (merge_row S old new) = row_key key_columns new"
proof -
  have "map_of S c = None" if "c \<in> set key_columns" for c
    using that assms(1) by (auto simp: map_of_eq_None_iff)
  with assms(2) show ?thesis by (auto simp: row_key_def merge_row_def)
qed

text \<open>Two deliveries of a row: equal in the key and in every column an update takes.\<close>
definition same_delivery :: "string list \<Rightarrow> (string \<times> set_expr) list \<Rightarrow> sql_row \<Rightarrow> sql_row \<Rightarrow> bool" where
  "same_delivery key_columns S a b \<longleftrightarrow> list_all (\<lambda>c. a c = b c) (key_columns @ map fst S)"

lemma same_delivery_key: "same_delivery key_columns S a b \<Longrightarrow> row_key key_columns a = row_key key_columns b"
  by (auto simp: same_delivery_def row_key_def list_all_iff)

lemma same_delivery_merge:
  assumes "same_delivery key_columns S a b"
  shows "merge_row S old a = merge_row S old b"
proof
  fix c
  have "a c = b c" if "map_of S c = Some e" for e
    using assms map_of_SomeD [OF that] by (force simp: same_delivery_def list_all_iff)
  then show "merge_row S old a c = merge_row S old b c"
    by (auto simp: merge_row_def split: option.splits set_expr.splits)
qed

end
