(* ===== verification/Writer.thy ===== *)
theory Writer
  imports Sql
begin

text \<open>
  What the writers of both tables share (\<open>batch_insert_trades\<close> and \<open>batch_insert_alt_trades\<close>): a statement
  of one row of placeholders per record, over the coalesced batch. The locale \<open>batch_writer\<close> takes the
  columns, the parameters and the \<open>SET\<close> list of a table and proves what its upsert does; \<open>Trades\<close> and
  \<open>AltTrades\<close> interpret it.
\<close>

definition batch_stmt ::
  "nat \<Rightarrow> (nat \<Rightarrow> bool) \<Rightarrow> string list \<Rightarrow> string list \<Rightarrow> (string \<times> set_expr) list \<Rightarrow> ('r \<Rightarrow> sql_value list) \<Rightarrow>
   'r list \<Rightarrow> upsert_stmt" where
  "batch_stmt cols numeric columns key_columns set_list params rows =
     \<lparr>us_columns = columns,
      us_values = map (value_row cols numeric) [0..<length rows],
      us_params = concat (map params rows),
      us_key = key_columns,
      us_set = set_list\<rparr>"

text \<open>A parameter of type \<open>Option<T>\<close>\<close>
definition opt_value :: "('a \<Rightarrow> sql_value) \<Rightarrow> 'a option \<Rightarrow> sql_value" where
  "opt_value f x = (case x of None \<Rightarrow> Sql_Null | Some v \<Rightarrow> f v)"

section \<open>The latest delivery of each key\<close>

lemma list_all2_filter_cong:
  "list_all2 P xs ys \<Longrightarrow> (\<And>x y. P x y \<Longrightarrow> f x = f y) \<Longrightarrow>
   list_all2 P (filter (\<lambda>r. f r = k) xs) (filter (\<lambda>r. f r = k) ys)"
proof (induction xs arbitrary: ys)
  case (Cons x xs)
  then obtain y ys' where "ys = y # ys'" "P x y" "list_all2 P xs ys'" by (auto simp: list_all2_Cons1)
  with Cons.IH [of ys'] Cons.prems(2) show ?case by fastforce
qed simp

lemma list_all2_last: "list_all2 P xs ys \<Longrightarrow> xs \<noteq> [] \<Longrightarrow> P (last xs) (last ys)"
  by (induction rule: list_all2_induct) auto

lemma list_all2_latest_rows:
  assumes "list_all2 P xs ys" "\<And>x y. P x y \<Longrightarrow> key x = key y"
  shows "list_all2 P (latest_rows key xs) (latest_rows key ys)"
proof -
  have "map key xs = map key ys"
    using assms by (induction rule: list_all2_induct) auto
  then have k: "first_keys key xs = first_keys key ys" by (simp add: first_keys_def)
  have "P (latest key xs k) (latest key ys k)" if "k \<in> key ` set xs" for k
  proof -
    have l: "list_all2 P (filter (\<lambda>r. key r = k) xs) (filter (\<lambda>r. key r = k) ys)"
      using list_all2_filter_cong [OF assms(1), of key k] assms(2) by blast
    moreover from that have "filter (\<lambda>r. key r = k) xs \<noteq> []" by (auto simp: filter_empty_conv)
    ultimately show ?thesis
      unfolding latest_def by (rule list_all2_last)
  qed
  then show ?thesis
    unfolding latest_rows_def k by (simp add: list_all2_map1 list_all2_map2 list_all2_same k [symmetric])
qed

lemma filter_latest_rows:
  "filter (\<lambda>r. key r = k) (latest_rows key rows) = (if k \<in> key ` set rows then [latest key rows k] else [])"
proof -
  have f: "filter (\<lambda>r. key r = k) (map (latest key rows) ks) = map (latest key rows) (filter (\<lambda>k'. k' = k) ks)"
    if "set ks \<subseteq> key ` set rows" for ks
    using that latest_rows_key [of _ key rows] by (induction ks) auto
  have e: "filter (\<lambda>k'. k' = k) ks = (if k \<in> set ks then [k] else [])" if "distinct ks" for ks
    using that by (induction ks) auto
  show ?thesis
    unfolding latest_rows_def by (subst f) (auto simp: e)
qed

lemma set_latest_rows: "set (latest_rows key rows) \<subseteq> set rows"
  using latest_rows_key [of _ key rows] by (auto simp: latest_rows_def)

lemma length_first_keys: "length (first_keys key rows) \<le> length rows"
proof -
  have "length (first_keys key rows) = length (remdups (rev (map key rows)))" by (simp add: first_keys_def)
  also have "\<dots> \<le> length rows" using length_remdups_leq [of "rev (map key rows)"] by simp
  finally show ?thesis .
qed

lemma distinct_latest_rows: "distinct (latest_rows key rows)" "inj_on key (set (latest_rows key rows))"
proof -
  have "distinct (map key (latest_rows key rows))"
    by (simp only: map_key_latest_rows distinct_first_keys)
  then show "distinct (latest_rows key rows)" "inj_on key (set (latest_rows key rows))"
    by (simp_all only: distinct_map)
qed

lemma last_merge_column:
  "map_of S c = Some Excluded \<Longrightarrow> rs \<noteq> [] \<Longrightarrow> foldl (merge_row S) a rs c = last rs c"
  by (induction rs arbitrary: a) (auto simp: merge_row_def)

lemma merge_other_column: "map_of S c = None \<Longrightarrow> foldl (merge_row S) a rs c = a c"
  by (induction rs arbitrary: a) (auto simp: merge_row_def)

text \<open>What an update overwrites of a row.\<close>
definition updated_columns :: "(string \<times> set_expr) list \<Rightarrow> sql_row \<Rightarrow> sql_row" where
  "updated_columns S r = (\<lambda>c. if map_of S c = Some Excluded then r c else None)"

lemma updated_foldl:
  "updated_columns S (foldl (merge_row S) a rs) = updated_columns S (if rs = [] then a else last rs)"
  by (rule ext) (simp add: updated_columns_def last_merge_column)

lemma updated_merge: "updated_columns S (merge_row S a r) = updated_columns S r"
  using updated_foldl [of S a "[r]"] by simp

text \<open>The column \<open>c\<close> of the row stored under \<open>k\<close>.\<close>
definition column_at :: "sql_table \<Rightarrow> sql_key \<Rightarrow> string \<Rightarrow> sql_value option option" where
  "column_at tbl k c = map_option (\<lambda>r. r c) (tbl k)"

section \<open>The writer of one table\<close>

locale batch_writer =
  fixes cols :: nat and numeric :: "nat \<Rightarrow> bool" and columns :: "string list" and key_columns :: "string list"
    and set_list :: "(string \<times> set_expr) list" and params :: "'r \<Rightarrow> sql_value list"
    and bound :: "'r \<Rightarrow> sql_value list" and key :: "'r \<Rightarrow> 'k" and chunk :: nat
  assumes params_length: "length (params r) = cols"
    and params_bound: "bound_row cols numeric (params r) = Some (bound r)"
    and key_inject: "row_key key_columns (row_of columns (bound r)) = row_key key_columns (row_of columns (bound r')) \<longleftrightarrow>
                     key r = key r'"
    and key_not_set: "set key_columns \<inter> fst ` set set_list = {}"
    and chunk_params: "chunk * cols \<le> MAX_BIND_PARAMETERS"

sublocale batch_writer \<subseteq> table:
  keyed_upsert "row_key key_columns" "merge_row set_list" "same_delivery key_columns set_list"
proof unfold_locales
  show "row_key key_columns (merge_row set_list old new) = row_key key_columns new"
    if "row_key key_columns old = row_key key_columns new" for old new
    using key_not_set that by (rule merge_row_key)
qed (auto simp: merge_row_assoc merge_row_idem same_delivery_key same_delivery_merge)

context batch_writer
begin

definition row :: "'r \<Rightarrow> sql_row" where
  "row r = row_of columns (bound r)"

lemma put_upsert: "table.put = upsert_row key_columns set_list"
  by (simp add: fun_eq_iff table.put_def upsert_row_def)

lemma put_all_upsert: "table.put_all tbl rows = foldl (upsert_row key_columns set_list) tbl rows"
  by (simp add: table.put_all_def put_upsert)

lemma rows_of_stmt: "stmt_rows (batch_stmt cols numeric columns key_columns set_list params rows) = Some (map row rows)"
proof -
  have "map_may_panic (map_may_panic (eval_placeholder (concat (map params rows))))
      (map (value_row cols numeric) [0..<length rows]) = Some (map bound rows)"
    by (subst bind_rows) (simp_all add: params_length params_bound map_may_panic_Some)
  then show ?thesis
    by (simp add: stmt_rows_def batch_stmt_def row_def comp_def)
qed

text \<open>The statement of a batch of at most \<open>chunk\<close> records is valid, and upserts its latest rows.\<close>

lemma exec_batch:
  assumes "length rows \<le> chunk"
  shows "exec_upsert (batch_stmt cols numeric columns key_columns set_list params (latest_rows key rows)) tbl =
    Some (table.put_all tbl (map row (latest_rows key rows)))"
proof -
  let ?rows = "latest_rows key rows"
  have "length (concat (map params ?rows)) = length ?rows * cols"
    by (rule length_concat_rows) (rule params_length)
  also have "\<dots> \<le> chunk * cols"
    using assms length_first_keys [of key rows] by (intro mult_right_mono) simp_all
  finally have "length (concat (map params ?rows)) \<le> MAX_BIND_PARAMETERS"
    using chunk_params by simp
  moreover have "distinct (map (row_key key_columns) (map row ?rows))"
    using distinct_latest_rows [of key rows] by (auto simp: distinct_map inj_on_def row_def key_inject)
  ultimately show ?thesis
    using rows_of_stmt [of ?rows] by (simp add: exec_upsert_def put_all_upsert batch_stmt_def)
qed

text \<open>Delivering the batch again does nothing.\<close>

lemma batch_redelivery:
  assumes "list_all2 same rows rows'" "\<And>a b. same a b \<Longrightarrow> key a = key b"
    "\<And>a b. same a b \<Longrightarrow> same_delivery key_columns set_list (row a) (row b)"
  shows "table.put_all (table.put_all tbl (map row (latest_rows key rows))) (map row (latest_rows key rows')) =
    table.put_all tbl (map row (latest_rows key rows))"
proof -
  have "list_all2 same (latest_rows key rows) (latest_rows key rows')"
    using assms(1,2) by (rule list_all2_latest_rows)
  then have "list_all2 (same_delivery key_columns set_list)
      (map row (latest_rows key rows)) (map row (latest_rows key rows'))"
    unfolding list_all2_map1 list_all2_map2 by (rule list_all2_mono) (rule assms(3))
  then show ?thesis by (rule table.redelivery)
qed

text \<open>What a batch delivers for one key: its last record with that key.\<close>

definition sql_key_of :: "'r \<Rightarrow> sql_key" where
  "sql_key_of r = row_key key_columns (row r)"

lemma filter_batch:
  "filter (\<lambda>r. row_key key_columns r = k) (map row (latest_rows key rows)) =
     (if k \<in> sql_key_of ` set rows then [row (last (filter (\<lambda>t. sql_key_of t = k) rows))] else [])"
proof (cases "k \<in> sql_key_of ` set rows")
  case True
  then obtain t0 where t0: "t0 \<in> set rows" "sql_key_of t0 = k" by auto
  have same: "row_key key_columns (row t) = k \<longleftrightarrow> key t = key t0" for t
    using t0(2) key_inject [of t t0] by (auto simp: row_def sql_key_of_def)
  have "filter (\<lambda>r. row_key key_columns r = k) (map row (latest_rows key rows)) =
      map row (filter (\<lambda>t. key t = key t0) (latest_rows key rows))"
    by (simp add: filter_map comp_def same)
  also have "\<dots> = [row (last (filter (\<lambda>t. sql_key_of t = k) rows))]"
    using t0(1) by (simp add: filter_latest_rows latest_def same sql_key_of_def)
  finally show ?thesis using True by simp
next
  case False
  with set_latest_rows [of key rows] show ?thesis by (auto simp: filter_empty_conv sql_key_of_def)
qed

lemma filter_sequence:
  "filter (\<lambda>r. row_key key_columns r = k) (map row rows) = map row (filter (\<lambda>t. sql_key_of t = k) rows)"
  by (simp add: filter_map comp_def sql_key_of_def)

text \<open>
  A batch and its records upserted one by one agree in every column that an update overwrites, and in the
  key. What they may disagree in is a column an update keeps (it then comes from the first record that was
  written) or coalesces.
\<close>

lemma batch_column:
  assumes "map_of set_list c = Some Excluded \<or> c \<in> set key_columns"
  shows "column_at (table.put_all tbl (map row (latest_rows key rows))) k c =
    column_at (table.put_all tbl (map row rows)) k c"
proof -
  let ?mine = "filter (\<lambda>t. sql_key_of t = k) rows"
  show ?thesis
  proof (cases "?mine = []")
    case True
    then have "k \<notin> sql_key_of ` set rows" by (auto simp: filter_empty_conv)
    with True show ?thesis
      unfolding column_at_def table.put_all_value filter_batch by (simp add: filter_sequence del: filter_map)
  next
    case False
    then have "k \<in> sql_key_of ` set rows" by (auto simp: filter_empty_conv)
    then have batch: "filter (\<lambda>r. row_key key_columns r = k) (map row (latest_rows key rows)) = [row (last ?mine)]"
      by (simp add: filter_batch del: filter_map)
    obtain m ms where m: "?mine = m # ms" using False by (cases ?mine) auto
    have keys: "sql_key_of m = k" "sql_key_of (last ?mine) = k"
      using m last_in_set [OF False] by (auto dest: filter_eq_ConsD)
    have kept: "map_of set_list c = None" "row m c = row (last ?mine) c" if "c \<in> set key_columns"
    proof -
      from that show "map_of set_list c = None" using key_not_set by (auto simp: map_of_eq_None_iff)
      from keys have "sql_key_of m = sql_key_of (last ?mine)" by simp
      with that show "row m c = row (last ?mine) c" by (simp add: row_key_def sql_key_of_def)
    qed
    show ?thesis
    proof (cases "tbl k")
      case None
      then show ?thesis
        unfolding column_at_def table.put_all_value batch unfolding filter_sequence
        using assms kept by (cases "ms = []")
          (auto simp: m table.value_after_Some last_merge_column merge_other_column last_map)
    next
      case (Some old)
      then show ?thesis
        unfolding column_at_def table.put_all_value batch unfolding filter_sequence
        using assms kept last_merge_column [of set_list c "map row ?mine" old]
          last_merge_column [of set_list c "[row (last ?mine)]" old]
          merge_other_column [of set_list c old "map row ?mine"]
          merge_other_column [of set_list c old "[row (last ?mine)]"]
        by (auto simp: m table.value_after_Some last_map)
    qed
  qed
qed

text \<open>The columns an update overwrites, seen as the content of a row.\<close>

definition content_of :: "'r \<Rightarrow> sql_row" where
  "content_of r = updated_columns set_list (row r)"

lemma shown_put_all:
  "map_option (updated_columns set_list) (table.put_all tbl rows k) =
     (case filter (\<lambda>r. row_key key_columns r = k) rows of
        [] \<Rightarrow> map_option (updated_columns set_list) (tbl k)
      | rs \<Rightarrow> Some (updated_columns set_list (last rs)))"
proof (cases "filter (\<lambda>r. row_key key_columns r = k) rows")
  case (Cons r rs)
  then show ?thesis
    by (cases "tbl k") (simp_all add: table.put_all_value table.value_after_Some updated_foldl updated_merge)
qed (simp add: table.put_all_value)

lemma shown_batch:
  "map_option (updated_columns set_list) (table.put_all tbl (map row (latest_rows key rows)) k) =
     (if k \<in> sql_key_of ` set rows then Some (content_of (last (filter (\<lambda>r. sql_key_of r = k) rows)))
      else map_option (updated_columns set_list) (tbl k))"
  by (simp add: shown_put_all filter_batch content_of_def del: filter_map)

lemma shown_sequence:
  "map_option (updated_columns set_list) (table.put_all tbl (map row rows) k) =
     (if k \<in> sql_key_of ` set rows then Some (content_of (last (filter (\<lambda>r. sql_key_of r = k) rows)))
      else map_option (updated_columns set_list) (tbl k))"
proof (cases "k \<in> sql_key_of ` set rows")
  case True
  then have "filter (\<lambda>t. sql_key_of t = k) rows \<noteq> []" by (auto simp: filter_empty_conv)
  then show ?thesis
    using True by (auto simp: shown_put_all filter_sequence content_of_def last_map neq_Nil_conv simp del: filter_map)
next
  case False
  then have "filter (\<lambda>t. sql_key_of t = k) rows = []" by (auto simp: filter_empty_conv)
  with False show ?thesis by (simp add: shown_put_all filter_sequence del: filter_map)
qed

end

end
