(* ===== verification/Trades.thy ===== *)
theory Trades
  imports Records Writer
begin

text \<open>
  The writer of \<open>amm_trades\<close> (\<open>src/src/database/trades.rs\<close>): the upsert statement of a batch.
  The table interprets \<open>batch_writer\<close>; the theorems are that a batch has the effect of its latest rows, that
  a redelivery changes nothing, and that a batch agrees with upserting its rows one by one.
\<close>

section \<open>The statement\<close>

definition TRADE_COLS :: nat where
  "TRADE_COLS = 22"

definition trade_columns :: "string list" where
  "trade_columns =
     [''tx_signature'', ''ix_index'', ''pool_address'', ''mint_address'', ''quote_mint_address'',
      ''instruction_type'', ''amount_source'', ''is_cpi'', ''user_pubkey'', ''is_buy'', ''token_amount'',
      ''sol_amount'', ''market_cap'', ''is_usdc'', ''success'', ''slot'', ''created_at'', ''priority_fee'',
      ''transfer_tip'', ''tip_provider'', ''compute_units_consumed'', ''lamports_per_compute_unit'']"

definition trade_key_columns :: "string list" where
  "trade_key_columns = [''tx_signature'', ''ix_index'']"

definition trade_set :: "(string \<times> set_expr) list" where
  "trade_set = map (\<lambda>c. (c, Excluded))
     [''pool_address'', ''mint_address'', ''quote_mint_address'', ''instruction_type'', ''amount_source'',
      ''is_cpi'', ''user_pubkey'', ''is_buy'', ''token_amount'', ''sol_amount'', ''market_cap'', ''is_usdc'',
      ''success'', ''slot'', ''priority_fee'', ''transfer_tip'', ''tip_provider'',
      ''compute_units_consumed'', ''lamports_per_compute_unit'']"

text \<open>The parameters pushed for one row; the amounts are bound as decimal text.\<close>
definition trade_params :: "trade_record \<Rightarrow> sql_value list" where
  "trade_params r =
     [Sql_Text (tr_tx_signature r), Sql_Int (sint (tr_ix_index r)), Sql_Text (tr_pool_address r),
      Sql_Text (tr_mint_address r), Sql_Text (tr_quote_mint_address r), Sql_Text (tr_instruction_type r),
      Sql_Text (tr_amount_source r), Sql_Bool (tr_is_cpi r), Sql_Text (tr_user_pubkey r),
      Sql_Bool (tr_is_buy r), Sql_Text (u64_to_string (tr_token_amount r)),
      Sql_Text (u64_to_string (tr_sol_amount r)),
      opt_value (\<lambda>v. Sql_Text (u64_to_string v)) (tr_market_cap r), Sql_Bool (tr_is_usdc r),
      Sql_Bool (tr_success r), Sql_Int (sint (tr_slot r)), Sql_Time (tr_created_at r),
      opt_value (\<lambda>v. Sql_Int (sint v)) (tr_priority_fee r),
      opt_value (\<lambda>v. Sql_Int (sint v)) (tr_transfer_tip r),
      opt_value Sql_Text (tr_tip_provider r),
      opt_value (\<lambda>v. Sql_Int (sint v)) (tr_compute_units_consumed r),
      opt_value Sql_Double (tr_lamports_per_compute_unit r)]"

text \<open>The columns bound with \<open>::text::numeric\<close>.\<close>
definition trade_numeric :: "nat \<Rightarrow> bool" where
  "trade_numeric col = (col \<in> {11, 12, 13})"

definition trade_stmt :: "trade_record list \<Rightarrow> upsert_stmt" where
  "trade_stmt trades =
     \<lparr>us_columns = trade_columns,
      us_values = map (value_row TRADE_COLS trade_numeric) [0..<length trades],
      us_params = concat (map trade_params trades),
      us_key = trade_key_columns,
      us_set = trade_set\<rparr>"

definition trade_key :: "trade_record \<Rightarrow> string \<times> i32" where
  "trade_key t = (tr_tx_signature t, tr_ix_index t)"

text \<open>The effect on the table; an inner \<open>None\<close> is an error of the statement.\<close>
definition batch_insert_trades :: "trade_record list \<Rightarrow> sql_table \<Rightarrow> sql_table option may_panic" where
  "batch_insert_trades trades tbl =
     (if trades = [] then Some (Some tbl)
      else do {
        unique \<leftarrow> coalesce_duplicate_rows trade_key trades;
        Some (exec_upsert (trade_stmt unique) tbl) })"

text \<open>\<open>BatchInsert::CHUNK\<close>\<close>
definition TRADE_CHUNK :: nat where
  "TRADE_CHUNK = 500"

section \<open>The rows\<close>

text \<open>What a record looks like in the table.\<close>
definition trade_values :: "trade_record \<Rightarrow> sql_value list" where
  "trade_values r = (trade_params r)
     [10 := Sql_Numeric (uint (tr_token_amount r)),
      11 := Sql_Numeric (uint (tr_sol_amount r)),
      12 := opt_value (\<lambda>v. Sql_Numeric (uint v)) (tr_market_cap r)]"

definition trade_row :: "trade_record \<Rightarrow> sql_row" where
  "trade_row r = row_of trade_columns (trade_values r)"

lemma length_trade_params [simp]: "length (trade_params r) = TRADE_COLS"
  by (simp add: trade_params_def TRADE_COLS_def)

lemma bound_trade_row:
  "bound_row TRADE_COLS trade_numeric (trade_params r) = Some (trade_values r)"
  by (cases "tr_market_cap r")
     (simp_all add: bound_row_def TRADE_COLS_def trade_params_def trade_values_def opt_value_def upt_rec
                    trade_numeric_def del: upt_Suc)

lemma trade_row_key:
  "row_key trade_key_columns (trade_row r) =
     [Some (Sql_Text (tr_tx_signature r)), Some (Sql_Int (sint (tr_ix_index r)))]"
  by (simp add: row_key_def trade_key_columns_def trade_row_def row_of_def trade_columns_def
                trade_values_def trade_params_def)

lemma trade_row_key_inject:
  "row_key trade_key_columns (trade_row r) = row_key trade_key_columns (trade_row r') \<longleftrightarrow>
     trade_key r = trade_key r'"
  by (auto simp: trade_row_key trade_key_def signed_word_eqI)

section \<open>The table\<close>

interpretation amm_writer:
  batch_writer TRADE_COLS trade_numeric trade_columns trade_key_columns trade_set trade_params trade_values
    trade_key TRADE_CHUNK
proof unfold_locales
  show "row_key trade_key_columns (row_of trade_columns (trade_values r)) =
      row_key trade_key_columns (row_of trade_columns (trade_values r')) \<longleftrightarrow> trade_key r = trade_key r'" for r r'
    using trade_row_key_inject [of r r'] by (simp add: trade_row_def)
qed (rule length_trade_params, rule bound_trade_row, simp_all add: trade_key_columns_def trade_set_def TRADE_CHUNK_def TRADE_COLS_def
                   MAX_BIND_PARAMETERS_def)

lemma amm_row [simp]: "amm_writer.row = trade_row"
  by (simp add: fun_eq_iff amm_writer.row_def trade_row_def)

lemma trade_stmt_batch:
  "trade_stmt = batch_stmt TRADE_COLS trade_numeric trade_columns trade_key_columns trade_set trade_params"
  by (simp add: fun_eq_iff trade_stmt_def batch_stmt_def)

section \<open>A batch\<close>

text \<open>A trade, and its delivery after a reconnect.\<close>
definition demo_trade :: trade_record where
  "demo_trade =
     \<lparr>tr_tx_signature = ''sig'', tr_ix_index = 0, tr_pool_address = ''pool'', tr_mint_address = ''mint'',
      tr_quote_mint_address = ''quote'', tr_instruction_type = ''buy'', tr_amount_source = ''event'',
      tr_is_cpi = False, tr_user_pubkey = ''user'', tr_is_buy = True, tr_token_amount = 1000,
      tr_sol_amount = 20, tr_market_cap = Some 300, tr_is_usdc = False, tr_success = True,
      tr_slot = 7, tr_created_at = 100, tr_priority_fee = None, tr_transfer_tip = None,
      tr_tip_provider = None, tr_compute_units_consumed = None, tr_lamports_per_compute_unit = None\<rparr>"

definition demo_trade_again :: trade_record where
  "demo_trade_again = demo_trade\<lparr>tr_created_at := 200\<rparr>"

lemma demo_latest: "latest_rows trade_key [demo_trade, demo_trade_again] = [demo_trade_again]"
  by (simp add: latest_rows_def first_keys_def latest_def trade_key_def demo_trade_again_def)

lemma trade_batch_closed:
  assumes "length trades \<le> TRADE_CHUNK"
  shows "batch_insert_trades trades tbl =
    Some (Some (amm_writer.table.put_all tbl (map trade_row (latest_rows trade_key trades))))"
proof (cases "trades = []")
  case True
  then show ?thesis by (simp add: batch_insert_trades_def latest_rows_def first_keys_def)
next
  case False
  then show ?thesis
    using amm_writer.exec_batch [OF assms, of tbl]
    by (simp add: batch_insert_trades_def panic_free trade_stmt_batch)
qed

text \<open>C19. A batch of up to 500 records always makes a valid statement: it stays under the parameter limit,
  names no key twice, and every placeholder is bound to the value of its own column. Its effect is to
  upsert, for each key, the last record delivered with it.\<close>

theorem batch_insert_trades_upserts:
  assumes "length trades \<le> TRADE_CHUNK"
  shows "batch_insert_trades trades tbl =
    Some (Some (foldl (upsert_row trade_key_columns trade_set) tbl (map trade_row (latest_rows trade_key trades))))"
  using trade_batch_closed [OF assms] by (simp add: amm_writer.put_all_upsert)

theorem batch_insert_trades_upserts_witness:
  "batch_insert_trades [demo_trade, demo_trade_again] Map.empty =
     Some (Some (foldl (upsert_row trade_key_columns trade_set) Map.empty [trade_row demo_trade_again]))"
  using batch_insert_trades_upserts [of "[demo_trade, demo_trade_again]" Map.empty]
  by (simp add: demo_latest TRADE_CHUNK_def)

text \<open>Another delivery of the same trade: only the time of processing differs.\<close>
definition redelivered :: "trade_record \<Rightarrow> trade_record \<Rightarrow> bool" where
  "redelivered a b \<longleftrightarrow> b = a\<lparr>tr_created_at := tr_created_at b\<rparr>"

lemma redelivered_key: "redelivered a b \<Longrightarrow> trade_key b = trade_key a"
proof -
  assume "redelivered a b"
  then obtain t where "b = a\<lparr>tr_created_at := t\<rparr>" by (auto simp: redelivered_def)
  then show ?thesis by (simp add: trade_key_def)
qed

lemma redelivered_row:
  assumes "redelivered a b"
  shows "same_delivery trade_key_columns trade_set (trade_row a) (trade_row b)"
proof -
  obtain t where b: "b = a\<lparr>tr_created_at := t\<rparr>" using assms by (auto simp: redelivered_def)
  have "trade_row b c = trade_row a c" if "c \<noteq> ''created_at''" for c
  proof -
    have "trade_values b = (trade_values a)[16 := Sql_Time t]" by (simp add: b trade_values_def trade_params_def)
    moreover have "trade_columns ! 16 = ''created_at''" "16 < length trade_columns" by (simp_all add: trade_columns_def)
    ultimately show ?thesis using that unfolding trade_row_def by (metis row_of_update_other)
  qed
  moreover have "''created_at'' \<notin> set (trade_key_columns @ map fst trade_set)" by (simp add: trade_key_columns_def trade_set_def)
  ultimately show ?thesis unfolding same_delivery_def list_all_iff by metis
qed

text \<open>C20. Replaying a batch is harmless: when the same records are delivered and inserted again, processed
  at other times, the table stays exactly as the first insertion left it, the original \<open>created_at\<close>
  included.\<close>

theorem trade_replay_harmless:
  assumes "length trades \<le> TRADE_CHUNK" "list_all2 redelivered trades trades'"
    "batch_insert_trades trades tbl = Some (Some tbl')"
  shows "batch_insert_trades trades' tbl' = Some (Some tbl')"
proof -
  have len: "length trades' \<le> TRADE_CHUNK" using assms(1,2) by (simp add: list_all2_lengthD)
  have "amm_writer.table.put_all (amm_writer.table.put_all tbl (map trade_row (latest_rows trade_key trades)))
      (map trade_row (latest_rows trade_key trades')) =
      amm_writer.table.put_all tbl (map trade_row (latest_rows trade_key trades))"
    using amm_writer.batch_redelivery [OF assms(2), of tbl] by (simp add: redelivered_key redelivered_row)
  then show ?thesis
    using assms(3) trade_batch_closed [OF assms(1), of tbl] by (simp add: trade_batch_closed [OF len])
qed

theorem trade_replay_harmless_witness:
  "\<exists>tbl'. batch_insert_trades [demo_trade] Map.empty = Some (Some tbl') \<and>
     batch_insert_trades [demo_trade_again] tbl' = Some (Some tbl')"
proof -
  obtain tbl' where "batch_insert_trades [demo_trade] Map.empty = Some (Some tbl')"
    using trade_batch_closed [of "[demo_trade]" Map.empty] by (simp add: TRADE_CHUNK_def)
  moreover have "list_all2 redelivered [demo_trade] [demo_trade_again]"
    by (simp add: redelivered_def demo_trade_again_def)
  ultimately show ?thesis
    using trade_replay_harmless [of "[demo_trade]" "[demo_trade_again]" Map.empty tbl'] by (simp add: TRADE_CHUNK_def)
qed

section \<open>A batch and its rows one by one\<close>

lemma trade_column_kinds:
  assumes "c \<in> set trade_columns" "c \<noteq> ''created_at''"
  shows "map_of trade_set c = Some Excluded \<or> c \<in> set trade_key_columns"
proof -
  have "c \<in> fst ` set trade_set \<Longrightarrow> map_of trade_set c = Some Excluded"
    by (auto simp: trade_set_def map_of_map_restrict)
  with assms show ?thesis by (auto simp: trade_columns_def trade_key_columns_def trade_set_def)
qed

text \<open>C27. Up to \<open>created_at\<close>, a batch leaves the table that upserting its records one by one, in the order
  of delivery, would leave: coalescing loses no delivery that a later one would not have overwritten.\<close>

theorem trade_batch_equals_sequential:
  assumes "length trades \<le> TRADE_CHUNK" "c \<in> set trade_columns" "c \<noteq> ''created_at''"
    "batch_insert_trades trades tbl = Some (Some tbl')"
  shows "column_at tbl' k c = column_at (foldl (upsert_row trade_key_columns trade_set) tbl (map trade_row trades)) k c"
  using amm_writer.batch_column [OF trade_column_kinds [OF assms(2,3)], of tbl trades k]
    trade_batch_closed [OF assms(1), of tbl] assms(4)
  by (simp add: amm_writer.put_all_upsert)

theorem trade_batch_equals_sequential_witness:
  "\<exists>tbl'. batch_insert_trades [demo_trade, demo_trade_again] Map.empty = Some (Some tbl') \<and>
     column_at tbl' (row_key trade_key_columns (trade_row demo_trade)) ''slot'' =
     column_at (foldl (upsert_row trade_key_columns trade_set) Map.empty
       (map trade_row [demo_trade, demo_trade_again])) (row_key trade_key_columns (trade_row demo_trade)) ''slot''"
proof -
  obtain tbl' where tbl': "batch_insert_trades [demo_trade, demo_trade_again] Map.empty = Some (Some tbl')"
    using trade_batch_closed [of "[demo_trade, demo_trade_again]" Map.empty] by (simp add: TRADE_CHUNK_def)
  have "length [demo_trade, demo_trade_again] \<le> TRADE_CHUNK" by (simp add: TRADE_CHUNK_def)
  moreover have "''slot'' \<in> set trade_columns" "''slot'' \<noteq> ''created_at''" by (simp_all add: trade_columns_def)
  ultimately show ?thesis
    using tbl' trade_batch_equals_sequential
      [of "[demo_trade, demo_trade_again]" "''slot''" Map.empty tbl'
          "row_key trade_key_columns (trade_row demo_trade)"]
    by (intro exI [of _ tbl'] conjI) simp_all
qed

end
