(* ===== verification/AltTrades.thy ===== *)
theory AltTrades
  imports Records Writer
begin

text \<open>
  The writer of \<open>alt_trades\<close> (\<open>src/src/database/alt_trades.rs\<close>): 32 columns, eight of them numeric, and a
  \<open>SET\<close> list that keeps a known \<open>quote_decimals\<close> when a later delivery does not know it. It interprets the
  same \<open>batch_writer\<close> as \<open>Trades\<close>; what differs is the column \<open>quote_decimals\<close>.
\<close>

section \<open>The statement\<close>

definition ALT_COLS :: nat where
  "ALT_COLS = 32"

definition alt_columns :: "string list" where
  "alt_columns =
     [''tx_signature'', ''ix_index'', ''platform'', ''venue'', ''pool_address'', ''mint_address'',
      ''quote_mint_address'', ''instruction_type'', ''amount_source'', ''is_cpi'', ''user_pubkey'', ''is_buy'',
      ''token_amount'', ''quote_amount'', ''market_cap'', ''base_reserves'', ''quote_reserves'', ''base_transfer_fee'',
      ''trade_fee'', ''creator_fee'', ''base_decimals'', ''quote_decimals'', ''is_sol'', ''is_usdc'', ''success'', ''slot'',
      ''created_at'', ''priority_fee'', ''transfer_tip'', ''tip_provider'', ''compute_units_consumed'',
      ''lamports_per_compute_unit'']"

definition alt_key_columns :: "string list" where
  "alt_key_columns = [''tx_signature'', ''ix_index'']"

definition alt_set :: "(string \<times> set_expr) list" where
  "alt_set =
     [(''platform'', Excluded), (''venue'', Excluded), (''pool_address'', Excluded), (''mint_address'', Excluded),
      (''quote_mint_address'', Excluded), (''instruction_type'', Excluded), (''amount_source'', Excluded),
      (''is_cpi'', Excluded), (''user_pubkey'', Excluded), (''is_buy'', Excluded), (''token_amount'', Excluded),
      (''quote_amount'', Excluded), (''market_cap'', Excluded), (''base_reserves'', Excluded),
      (''quote_reserves'', Excluded), (''base_transfer_fee'', Excluded), (''trade_fee'', Excluded),
      (''creator_fee'', Excluded), (''base_decimals'', Excluded), (''quote_decimals'', Coalesce_Excluded),
      (''is_sol'', Excluded), (''is_usdc'', Excluded), (''success'', Excluded), (''slot'', Excluded),
      (''priority_fee'', Excluded), (''transfer_tip'', Excluded), (''tip_provider'', Excluded),
      (''compute_units_consumed'', Excluded), (''lamports_per_compute_unit'', Excluded)]"

text \<open>The closures \<open>to_s\<close> and \<open>opt_s\<close>.\<close>

definition alt_to_s :: "u64 \<Rightarrow> sql_value" where
  "alt_to_s v = Sql_Text (u64_to_string v)"

definition alt_opt_s :: "u64 option \<Rightarrow> sql_value" where
  "alt_opt_s v = opt_value alt_to_s v"

definition alt_params :: "alt_trade_record \<Rightarrow> sql_value list" where
  "alt_params t =
     [Sql_Text (ar_tx_signature t), Sql_Int (sint (ar_ix_index t)), Sql_Text (ar_platform t), Sql_Text (ar_venue t),
      Sql_Text (ar_pool_address t), Sql_Text (ar_mint_address t), Sql_Text (ar_quote_mint_address t),
      Sql_Text (ar_instruction_type t), Sql_Text (ar_amount_source t), Sql_Bool (ar_is_cpi t),
      Sql_Text (ar_user_pubkey t), Sql_Bool (ar_is_buy t),
      alt_to_s (ar_token_amount t), alt_to_s (ar_quote_amount t), alt_opt_s (ar_market_cap t),
      alt_opt_s (ar_base_reserves t), alt_opt_s (ar_quote_reserves t), alt_opt_s (ar_base_transfer_fee t),
      alt_opt_s (ar_trade_fee t), alt_opt_s (ar_creator_fee t),
      Sql_Int (sint (ar_base_decimals t)), opt_value (\<lambda>v. Sql_Int (sint v)) (ar_quote_decimals t),
      Sql_Bool (ar_is_sol t), Sql_Bool (ar_is_usdc t), Sql_Bool (ar_success t), Sql_Int (sint (ar_slot t)),
      Sql_Time (ar_created_at t),
      opt_value (\<lambda>v. Sql_Int (sint v)) (ar_priority_fee t), opt_value (\<lambda>v. Sql_Int (sint v)) (ar_transfer_tip t),
      opt_value Sql_Text (ar_tip_provider t), opt_value (\<lambda>v. Sql_Int (sint v)) (ar_compute_units_consumed t),
      opt_value Sql_Double (ar_lamports_per_compute_unit t)]"

definition alt_numeric :: "nat \<Rightarrow> bool" where
  "alt_numeric col = (13 \<le> col \<and> col \<le> 20)"

definition alt_stmt :: "alt_trade_record list \<Rightarrow> upsert_stmt" where
  "alt_stmt trades =
     \<lparr>us_columns = alt_columns,
      us_values = map (value_row ALT_COLS alt_numeric) [0..<length trades],
      us_params = concat (map alt_params trades),
      us_key = alt_key_columns,
      us_set = alt_set\<rparr>"

definition alt_key :: "alt_trade_record \<Rightarrow> string \<times> i32" where
  "alt_key t = (ar_tx_signature t, ar_ix_index t)"

definition batch_insert_alt_trades :: "alt_trade_record list \<Rightarrow> sql_table \<Rightarrow> sql_table option may_panic" where
  "batch_insert_alt_trades trades tbl =
     (if trades = [] then Some (Some tbl)
      else do {
        unique \<leftarrow> coalesce_duplicate_rows alt_key trades;
        Some (exec_upsert (alt_stmt unique) tbl) })"

definition ALT_CHUNK :: nat where
  "ALT_CHUNK = 500"

section \<open>The rows\<close>

definition alt_opt_n :: "u64 option \<Rightarrow> sql_value" where
  "alt_opt_n v = opt_value (\<lambda>v. Sql_Numeric (uint v)) v"

lemma cast_alt [simp]:
  "cast_numeric (alt_to_s v) = Some (Sql_Numeric (uint v))" "cast_numeric (alt_opt_s x) = Some (alt_opt_n x)"
  by (simp_all add: alt_to_s_def alt_opt_s_def alt_opt_n_def opt_value_def split: option.splits)

definition alt_values :: "alt_trade_record \<Rightarrow> sql_value list" where
  "alt_values t = (alt_params t)
     [12 := Sql_Numeric (uint (ar_token_amount t)), 13 := Sql_Numeric (uint (ar_quote_amount t)),
      14 := alt_opt_n (ar_market_cap t), 15 := alt_opt_n (ar_base_reserves t), 16 := alt_opt_n (ar_quote_reserves t),
      17 := alt_opt_n (ar_base_transfer_fee t), 18 := alt_opt_n (ar_trade_fee t), 19 := alt_opt_n (ar_creator_fee t)]"

definition alt_row :: "alt_trade_record \<Rightarrow> sql_row" where
  "alt_row t = row_of alt_columns (alt_values t)"

lemma length_alt_params [simp]: "length (alt_params t) = ALT_COLS"
  by (simp add: alt_params_def ALT_COLS_def)

lemma bound_alt_row: "bound_row ALT_COLS alt_numeric (alt_params t) = Some (alt_values t)"
  by (simp add: bound_row_def ALT_COLS_def alt_params_def alt_values_def upt_rec alt_numeric_def del: upt_Suc)

lemma alt_row_key:
  "row_key alt_key_columns (alt_row t) = [Some (Sql_Text (ar_tx_signature t)), Some (Sql_Int (sint (ar_ix_index t)))]"
  by (simp add: row_key_def alt_key_columns_def alt_row_def row_of_def alt_columns_def alt_values_def alt_params_def)

lemma alt_row_key_inject:
  "row_key alt_key_columns (alt_row t) = row_key alt_key_columns (alt_row t') \<longleftrightarrow> alt_key t = alt_key t'"
  by (auto simp: alt_row_key alt_key_def signed_word_eqI)

interpretation alt_writer:
  batch_writer ALT_COLS alt_numeric alt_columns alt_key_columns alt_set alt_params alt_values alt_key ALT_CHUNK
proof unfold_locales
  show "row_key alt_key_columns (row_of alt_columns (alt_values t)) =
      row_key alt_key_columns (row_of alt_columns (alt_values t')) \<longleftrightarrow> alt_key t = alt_key t'" for t t'
    using alt_row_key_inject [of t t'] by (simp add: alt_row_def)
qed (rule length_alt_params, rule bound_alt_row, simp_all add: alt_key_columns_def
     alt_set_def ALT_CHUNK_def ALT_COLS_def MAX_BIND_PARAMETERS_def)

lemma alt_writer_row [simp]: "alt_writer.row = alt_row"
  by (simp add: fun_eq_iff alt_writer.row_def alt_row_def)

lemma alt_stmt_batch:
  "alt_stmt = batch_stmt ALT_COLS alt_numeric alt_columns alt_key_columns alt_set alt_params"
  by (simp add: fun_eq_iff alt_stmt_def batch_stmt_def)

section \<open>A batch\<close>

lemma alt_batch_closed:
  assumes "length trades \<le> ALT_CHUNK"
  shows "batch_insert_alt_trades trades tbl =
    Some (Some (alt_writer.table.put_all tbl (map alt_row (latest_rows alt_key trades))))"
proof (cases "trades = []")
  case True
  then show ?thesis by (simp add: batch_insert_alt_trades_def latest_rows_def first_keys_def)
next
  case False
  then show ?thesis
    using alt_writer.exec_batch [OF assms, of tbl]
    by (simp add: batch_insert_alt_trades_def panic_free alt_stmt_batch)
qed

text \<open>Another delivery of the same swap: only the time of processing differs.\<close>
definition alt_redelivered :: "alt_trade_record \<Rightarrow> alt_trade_record \<Rightarrow> bool" where
  "alt_redelivered a b \<longleftrightarrow> b = a\<lparr>ar_created_at := ar_created_at b\<rparr>"

lemma alt_redelivered_key_row:
  assumes "alt_redelivered a b"
  shows "alt_key a = alt_key b" "same_delivery alt_key_columns alt_set (alt_row a) (alt_row b)"
proof -
  obtain t where b: "b = a\<lparr>ar_created_at := t\<rparr>" using assms by (auto simp: alt_redelivered_def)
  then show "alt_key a = alt_key b" by (simp add: alt_key_def)
  have "alt_row b c = alt_row a c" if "c \<noteq> ''created_at''" for c
  proof -
    have "alt_values b = (alt_values a)[26 := Sql_Time t]" by (simp add: b alt_values_def alt_params_def)
    moreover have "alt_columns ! 26 = ''created_at''" "26 < length alt_columns" by (simp_all add: alt_columns_def)
    ultimately show ?thesis using that unfolding alt_row_def by (metis row_of_update_other)
  qed
  moreover have "''created_at'' \<notin> set (alt_key_columns @ map fst alt_set)" by (simp add: alt_key_columns_def alt_set_def)
  ultimately show "same_delivery alt_key_columns alt_set (alt_row a) (alt_row b)"
    unfolding same_delivery_def list_all_iff by metis
qed

definition demo_swap :: alt_trade_record where
  "demo_swap =
     \<lparr>ar_tx_signature = ''sig'', ar_ix_index = 0, ar_platform = ''stonk_fun'', ar_venue = ''raydium_cpmm'',
      ar_pool_address = ''pool'', ar_mint_address = ''mint'', ar_quote_mint_address = ''quote'',
      ar_instruction_type = ''swap_base_input'', ar_amount_source = ''event'', ar_is_cpi = False,
      ar_user_pubkey = ''user'', ar_is_buy = True, ar_token_amount = 1000, ar_quote_amount = 20,
      ar_market_cap = Some 300, ar_base_reserves = Some 5000, ar_quote_reserves = Some 100,
      ar_base_transfer_fee = Some 0, ar_trade_fee = Some 1, ar_creator_fee = Some 0,
      ar_base_decimals = 6, ar_quote_decimals = Some 9, ar_is_sol = True, ar_is_usdc = False, ar_success = True,
      ar_slot = 7, ar_created_at = 100, ar_priority_fee = None, ar_transfer_tip = None,
      ar_tip_provider = None, ar_compute_units_consumed = None, ar_lamports_per_compute_unit = None\<rparr>"

definition demo_swap_again :: alt_trade_record where
  "demo_swap_again = demo_swap\<lparr>ar_created_at := 200\<rparr>"

definition demo_swap_unknown :: alt_trade_record where
  "demo_swap_unknown = demo_swap\<lparr>ar_quote_decimals := None\<rparr>"

lemma demo_swap_key: "row_key alt_key_columns (alt_row demo_swap) = [Some (Sql_Text ''sig''), Some (Sql_Int 0)]"
  by (simp add: alt_row_key demo_swap_def)

text \<open>Replaying a batch of swaps is harmless: when the same records are delivered and inserted again,
  processed at other times, \<open>alt_trades\<close> stays exactly as the first insertion left it.\<close>

theorem alt_replay_harmless:
  assumes "length trades \<le> ALT_CHUNK" "list_all2 alt_redelivered trades trades'"
    "batch_insert_alt_trades trades tbl = Some (Some tbl')"
  shows "batch_insert_alt_trades trades' tbl' = Some (Some tbl')"
proof -
  have len: "length trades' \<le> ALT_CHUNK" using assms(1,2) by (simp add: list_all2_lengthD)
  have "alt_writer.table.put_all (alt_writer.table.put_all tbl (map alt_row (latest_rows alt_key trades)))
      (map alt_row (latest_rows alt_key trades')) =
      alt_writer.table.put_all tbl (map alt_row (latest_rows alt_key trades))"
    using alt_writer.batch_redelivery [OF assms(2), of tbl] by (simp add: alt_redelivered_key_row)
  then show ?thesis
    using assms(3) alt_batch_closed [OF assms(1), of tbl] by (simp add: alt_batch_closed [OF len])
qed

theorem alt_replay_harmless_witness:
  "\<exists>tbl'. batch_insert_alt_trades [demo_swap] Map.empty = Some (Some tbl') \<and>
     batch_insert_alt_trades [demo_swap_again] tbl' = Some (Some tbl')"
proof -
  obtain tbl' where "batch_insert_alt_trades [demo_swap] Map.empty = Some (Some tbl')"
    using alt_batch_closed [of "[demo_swap]" Map.empty] by (simp add: ALT_CHUNK_def)
  moreover have "list_all2 alt_redelivered [demo_swap] [demo_swap_again]"
    by (simp add: alt_redelivered_def demo_swap_again_def)
  ultimately show ?thesis
    using alt_replay_harmless [of "[demo_swap]" "[demo_swap_again]" Map.empty tbl'] by (simp add: ALT_CHUNK_def)
qed

section \<open>The decimals of the quote\<close>

lemma alt_set_decimals: "map_of alt_set ''quote_decimals'' = Some Coalesce_Excluded"
  by (simp add: alt_set_def)

lemma alt_row_decimals:
  "alt_row t ''quote_decimals'' = Some (opt_value (\<lambda>v. Sql_Int (sint v)) (ar_quote_decimals t))"
  by (simp add: alt_row_def row_of_def alt_columns_def alt_values_def alt_params_def)

lemma merge_decimals:
  "foldl (merge_row alt_set) old (map alt_row ts) ''quote_decimals'' =
     (if list_all (\<lambda>t. ar_quote_decimals t = None) ts then old ''quote_decimals''
      else alt_row (last (filter (\<lambda>t. ar_quote_decimals t \<noteq> None) ts)) ''quote_decimals'')"
proof (induction ts rule: rev_induct)
  case (snoc t ts)
  then show ?case
    by (cases "ar_quote_decimals t")
       (simp_all add: merge_row_def [of alt_set _ "alt_row t"] alt_set_decimals alt_row_decimals opt_value_def)
qed simp

text \<open>The decimals of a quote that are known are never forgotten: when the row stored under a key has
  \<open>quote_decimals\<close>, it has them after every batch, and they change only to decimals that the batch
  delivered for that key.\<close>

theorem alt_quote_decimals_kept:
  assumes "length trades \<le> ALT_CHUNK" "batch_insert_alt_trades trades tbl = Some (Some tbl')"
    "column_at tbl k ''quote_decimals'' = Some (Some (Sql_Int d))"
  shows "\<exists>d'. column_at tbl' k ''quote_decimals'' = Some (Some (Sql_Int d')) \<and>
    (d' = d \<or> (\<exists>t. t \<in> set trades \<and> row_key alt_key_columns (alt_row t) = k \<and>
       map_option sint (ar_quote_decimals t) = Some d'))"
proof -
  let ?mine = "filter (\<lambda>t. row_key alt_key_columns (alt_row t) = k) (latest_rows alt_key trades)"
  let ?known = "filter (\<lambda>t. ar_quote_decimals t \<noteq> None) ?mine"
  from assms(3) obtain old where old: "tbl k = Some old" "old ''quote_decimals'' = Some (Sql_Int d)"
    by (auto simp: column_at_def)
  have "filter (\<lambda>r. row_key alt_key_columns r = k) (map alt_row (latest_rows alt_key trades)) = map alt_row ?mine"
    by (simp add: filter_map comp_def)
  moreover have "tbl' = alt_writer.table.put_all tbl (map alt_row (latest_rows alt_key trades))"
    using assms(2) alt_batch_closed [OF assms(1), of tbl] by simp
  ultimately have new: "column_at tbl' k ''quote_decimals'' =
      Some (foldl (merge_row alt_set) old (map alt_row ?mine) ''quote_decimals'')"
    using old(1)
    by (simp add: column_at_def alt_writer.table.put_all_value alt_writer.table.value_after_Some del: filter_map)
  show ?thesis
  proof (cases ?known rule: rev_cases)
    case Nil
    then have "list_all (\<lambda>t. ar_quote_decimals t = None) ?mine" by (simp add: filter_empty_conv list_all_iff)
    then show ?thesis using new old(2) by (simp add: merge_decimals)
  next
    case (snoc ts t)
    then have t: "t \<in> set ?known" by simp
    then obtain v where v: "ar_quote_decimals t = Some v" by auto
    from t v have "\<not> list_all (\<lambda>t. ar_quote_decimals t = None) ?mine" by (force simp: list_all_iff)
    with new have "column_at tbl' k ''quote_decimals'' = Some (Some (Sql_Int (sint v)))"
      by (simp add: merge_decimals snoc alt_row_decimals opt_value_def v del: filter_filter not_None_eq)
    moreover have "t \<in> set trades" "row_key alt_key_columns (alt_row t) = k"
      using t set_latest_rows [of alt_key trades] by auto
    ultimately show ?thesis using v by (intro exI [of _ "sint v"] conjI disjI2 exI [of _ t]) simp_all
  qed
qed

theorem alt_quote_decimals_kept_witness:
  "\<exists>tbl' d'. batch_insert_alt_trades [demo_swap_unknown] [row_key alt_key_columns (alt_row demo_swap) \<mapsto> alt_row demo_swap] =
       Some (Some tbl') \<and>
     column_at tbl' (row_key alt_key_columns (alt_row demo_swap)) ''quote_decimals'' = Some (Some (Sql_Int d'))"
proof -
  let ?k = "row_key alt_key_columns (alt_row demo_swap)"
  let ?tbl = "[?k \<mapsto> alt_row demo_swap]"
  have len: "length [demo_swap_unknown] \<le> ALT_CHUNK" by (simp add: ALT_CHUNK_def)
  obtain tbl' where tbl': "batch_insert_alt_trades [demo_swap_unknown] ?tbl = Some (Some tbl')"
    using alt_batch_closed [OF len, of ?tbl] by blast
  have "column_at ?tbl ?k ''quote_decimals'' = Some (Some (Sql_Int 9))"
    by (simp add: column_at_def alt_row_decimals demo_swap_def opt_value_def)
  from alt_quote_decimals_kept [OF len tbl' this] tbl' show ?thesis by blast
qed

text \<open>
  Inside one batch the rule does not apply: the later delivery replaces the earlier one before the
  statement is built, so decimals that only the earlier one knew never reach the table.
\<close>

lemma coalescing_drops_decimals:
  "batch_insert_alt_trades [demo_swap, demo_swap_unknown] Map.empty =
     Some (Some [row_key alt_key_columns (alt_row demo_swap_unknown) \<mapsto> alt_row demo_swap_unknown])"
proof -
  have "latest_rows alt_key [demo_swap, demo_swap_unknown] = [demo_swap_unknown]"
    by (simp add: latest_rows_def first_keys_def latest_def alt_key_def demo_swap_unknown_def)
  then show ?thesis
    using alt_batch_closed [of "[demo_swap, demo_swap_unknown]" Map.empty]
    by (simp add: ALT_CHUNK_def alt_writer.table.put_def)
qed

section \<open>A batch and its rows one by one\<close>

lemma alt_column_kinds:
  assumes "c \<in> set alt_columns" "c \<notin> {''created_at'', ''quote_decimals''}"
  shows "map_of alt_set c = Some Excluded \<or> c \<in> set alt_key_columns"
proof -
  have "list_all (\<lambda>(c, e). c = ''quote_decimals'' \<or> e = Excluded) alt_set" by (simp add: alt_set_def)
  then have e: "e = Excluded" if "(c, e) \<in> set alt_set" "c \<noteq> ''quote_decimals''" for c e
    using that by (auto simp: list_all_iff)
  have "set alt_columns \<subseteq> fst ` set alt_set \<union> {''created_at''} \<union> set alt_key_columns"
    by (simp add: alt_columns_def alt_set_def alt_key_columns_def)
  with assms have "c \<in> fst ` set alt_set \<or> c \<in> set alt_key_columns" by auto
  moreover have "map_of alt_set c = Some Excluded" if "c \<in> fst ` set alt_set"
  proof -
    from that obtain e where "map_of alt_set c = Some e"
      by (cases "map_of alt_set c") (simp_all add: map_of_eq_None_iff)
    with e [of c e] assms(2) show ?thesis by (auto dest: map_of_SomeD)
  qed
  ultimately show ?thesis by blast
qed

text \<open>Up to \<open>created_at\<close> and \<open>quote_decimals\<close>, a batch of swaps leaves the table that upserting its
  records one by one, in the order of delivery, would leave.\<close>

theorem alt_batch_equals_sequential:
  assumes "length trades \<le> ALT_CHUNK" "c \<in> set alt_columns" "c \<notin> {''created_at'', ''quote_decimals''}"
    "batch_insert_alt_trades trades tbl = Some (Some tbl')"
  shows "column_at tbl' k c = column_at (foldl (upsert_row alt_key_columns alt_set) tbl (map alt_row trades)) k c"
  using alt_writer.batch_column [OF alt_column_kinds [OF assms(2,3)], of tbl trades k]
    alt_batch_closed [OF assms(1), of tbl] assms(4)
  by (simp add: alt_writer.put_all_upsert)

theorem alt_batch_equals_sequential_witness:
  "\<exists>tbl'. batch_insert_alt_trades [demo_swap, demo_swap_again] Map.empty = Some (Some tbl') \<and>
     column_at tbl' (row_key alt_key_columns (alt_row demo_swap)) ''slot'' =
     column_at (foldl (upsert_row alt_key_columns alt_set) Map.empty (map alt_row [demo_swap, demo_swap_again]))
       (row_key alt_key_columns (alt_row demo_swap)) ''slot''"
proof -
  have len: "length [demo_swap, demo_swap_again] \<le> ALT_CHUNK" by (simp add: ALT_CHUNK_def)
  then obtain tbl' where tbl': "batch_insert_alt_trades [demo_swap, demo_swap_again] Map.empty = Some (Some tbl')"
    using alt_batch_closed [of "[demo_swap, demo_swap_again]" Map.empty] by blast
  have "''slot'' \<in> set alt_columns" "''slot'' \<notin> {''created_at'', ''quote_decimals''}"
    by (simp_all add: alt_columns_def)
  from alt_batch_equals_sequential [OF len this tbl'] tbl' show ?thesis by blast
qed

end
