(* ===== verification/Inserter.thy ===== *)
theory Inserter
  imports Prelude
begin

text \<open>
  The batch inserter (\<open>flush_buffer\<close>, \<open>spawn_batch_inserter\<close> and the trait \<open>BatchInsert\<close> of
  \<open>src/src/database/trades.rs\<close>): one task that buffers the rows of a channel and writes them in chunks.
  The writer of the table is a parameter (\<open>T::insert_batch\<close>); the database answers each statement with an
  outcome of its own choice. The task is a step relation, because \<open>tokio::select!\<close> picks any branch that
  is ready and the senders act in between. What the task needs from a table is the locale \<open>keyed_store\<close>;
  \<open>Delivery\<close> interprets it for both tables.
\<close>

section \<open>Flushing the buffer\<close>

text \<open>How the database answers: the statement is applied and acknowledged, it fails, or it is applied
  and the acknowledgement is lost.\<close>
datatype db_outcome = Db_Done | Db_Failed | Db_Unacknowledged

type_synonym ('r, 'db) insert_batch = "'r list \<Rightarrow> 'db \<Rightarrow> 'db option may_panic"

text \<open>\<open>T::insert_batch(pool, chunk).await\<close>: whether it returned \<open>Ok\<close>, and the database after it.\<close>
definition attempt_insert ::
  "('r, 'db) insert_batch \<Rightarrow> db_outcome \<Rightarrow> 'r list \<Rightarrow> 'db \<Rightarrow> (bool \<times> 'db) may_panic" where
  "attempt_insert insert_batch outcome chunk db = do {
     result \<leftarrow> insert_batch chunk db;
     Some (case result of
             None \<Rightarrow> (False, db)
           | Some db' \<Rightarrow>
               (case outcome of
                  Db_Done \<Rightarrow> (True, db')
                | Db_Failed \<Rightarrow> (False, db)
                | Db_Unacknowledged \<Rightarrow> (False, db'))) }"

text \<open>The loop over the chunks; \<open>outcome i\<close> is the answer to the \<open>i\<close>-th of them.\<close>
primrec flush_chunks ::
  "('r, 'db) insert_batch \<Rightarrow> (nat \<Rightarrow> db_outcome) \<Rightarrow> nat \<Rightarrow> 'r list list \<Rightarrow> 'r list \<Rightarrow> 'db \<Rightarrow>
   ('r list \<times> 'db) may_panic" where
  "flush_chunks insert_batch outcome i [] retry db = Some (retry, db)"
| "flush_chunks insert_batch outcome i (chunk # rest) retry db = do {
     (ok, db) \<leftarrow> attempt_insert insert_batch (outcome i) chunk db;
     flush_chunks insert_batch outcome (Suc i) rest (if ok then retry else retry @ chunk) db }"

text \<open>\<open>flush_buffer\<close>: the buffer and the database after it. The log line subtracts the lengths.\<close>
definition flush_buffer ::
  "('r, 'db) insert_batch \<Rightarrow> nat \<Rightarrow> (nat \<Rightarrow> db_outcome) \<Rightarrow> 'r list \<Rightarrow> 'db \<Rightarrow> ('r list \<times> 'db) may_panic" where
  "flush_buffer insert_batch chunk_len outcome buffer db =
     (let pending = buffer; buffer = []; count = length pending in do {
        (retry, db) \<leftarrow> flush_chunks insert_batch outcome 0 (chunks chunk_len pending) [] db;
        _ \<leftarrow> (if 0 < count \<and> count < length retry then None else Some ());
        Some (buffer @ retry, db) })"

section \<open>The task\<close>

text \<open>\<open>Flushing\<close>: the channel was found empty, the last flush is under way and the receiver still exists.\<close>
datatype phase = Selecting | Draining | Flushing | Finished

record ('r, 'db) inserter =
  in_buffer :: "'r list"
  in_channel :: "'r list"
  in_senders :: bool
  in_running :: bool
  in_db :: 'db
  in_phase :: phase
  in_sent :: "'r list"  \<comment> \<open>history: every record the channel accepted\<close>

definition CHANNEL_CAPACITY :: nat where
  "CHANNEL_CAPACITY = 10000"

definition FLUSH_ROWS :: nat where
  "FLUSH_ROWS = 500"

definition inserter_init :: "'db \<Rightarrow> ('r, 'db) inserter" where
  "inserter_init db =
     \<lparr>in_buffer = [], in_channel = [], in_senders = True, in_running = True, in_db = db,
      in_phase = Selecting, in_sent = []\<rparr>"

text \<open>\<open>flush_buffer(&pool, &mut buffer).await\<close> and the same under \<open>if !buffer.is_empty()\<close>\<close>

definition flush ::
  "('r, 'db) insert_batch \<Rightarrow> nat \<Rightarrow> (nat \<Rightarrow> db_outcome) \<Rightarrow> ('r, 'db) inserter \<Rightarrow> ('r, 'db) inserter may_panic" where
  "flush insert_batch chunk_len outcome s = do {
     (buffer, db) \<leftarrow> flush_buffer insert_batch chunk_len outcome (in_buffer s) (in_db s);
     Some (s\<lparr>in_buffer := buffer, in_db := db\<rparr>) }"

definition flush_nonempty ::
  "('r, 'db) insert_batch \<Rightarrow> nat \<Rightarrow> (nat \<Rightarrow> db_outcome) \<Rightarrow> ('r, 'db) inserter \<Rightarrow> ('r, 'db) inserter may_panic" where
  "flush_nonempty insert_batch chunk_len outcome s =
     (if in_buffer s = [] then Some s else flush insert_batch chunk_len outcome s)"

text \<open>The three branches of the \<open>select!\<close>.\<close>

definition on_tick ::
  "('r, 'db) insert_batch \<Rightarrow> nat \<Rightarrow> (nat \<Rightarrow> db_outcome) \<Rightarrow> ('r, 'db) inserter \<Rightarrow> ('r, 'db) inserter may_panic" where
  "on_tick insert_batch chunk_len outcome s = do {
     s \<leftarrow> flush_nonempty insert_batch chunk_len outcome s;
     Some (if in_running s then s else s\<lparr>in_phase := Draining\<rparr>) }"

definition on_record ::
  "('r, 'db) insert_batch \<Rightarrow> nat \<Rightarrow> (nat \<Rightarrow> db_outcome) \<Rightarrow> 'r \<Rightarrow> ('r, 'db) inserter \<Rightarrow> ('r, 'db) inserter may_panic" where
  "on_record insert_batch chunk_len outcome record s =
     (let s = s\<lparr>in_buffer := in_buffer s @ [record]\<rparr>
      in if length (in_buffer s) = FLUSH_ROWS then flush insert_batch chunk_len outcome s else Some s)"

definition on_closed ::
  "('r, 'db) insert_batch \<Rightarrow> nat \<Rightarrow> (nat \<Rightarrow> db_outcome) \<Rightarrow> ('r, 'db) inserter \<Rightarrow> ('r, 'db) inserter may_panic" where
  "on_closed insert_batch chunk_len outcome s = do {
     s \<leftarrow> flush_nonempty insert_batch chunk_len outcome s;
     Some (s\<lparr>in_phase := Draining\<rparr>) }"

text \<open>The steps of the task.\<close>

inductive task_step ::
  "('r, 'db) insert_batch \<Rightarrow> nat \<Rightarrow> (nat \<Rightarrow> db_outcome) \<Rightarrow> ('r, 'db) inserter \<Rightarrow> ('r, 'db) inserter \<Rightarrow> bool"
  for insert_batch chunk_len outcome where
  tick: "in_phase s = Selecting \<Longrightarrow> on_tick insert_batch chunk_len outcome s = Some t \<Longrightarrow>
    task_step insert_batch chunk_len outcome s t"
| recv: "in_phase s = Selecting \<Longrightarrow> in_channel s = r # rest \<Longrightarrow>
    on_record insert_batch chunk_len outcome r (s\<lparr>in_channel := rest\<rparr>) = Some t \<Longrightarrow>
    task_step insert_batch chunk_len outcome s t"
| closed: "in_phase s = Selecting \<Longrightarrow> in_channel s = [] \<Longrightarrow> \<not> in_senders s \<Longrightarrow>
    on_closed insert_batch chunk_len outcome s = Some t \<Longrightarrow>
    task_step insert_batch chunk_len outcome s t"
| drain: "in_phase s = Draining \<Longrightarrow> in_channel s = r # rest \<Longrightarrow>
    task_step insert_batch chunk_len outcome s (s\<lparr>in_channel := rest, in_buffer := in_buffer s @ [r]\<rparr>)"
| drained: "in_phase s = Draining \<Longrightarrow> in_channel s = [] \<Longrightarrow>
    task_step insert_batch chunk_len outcome s (s\<lparr>in_phase := Flushing\<rparr>)"
| finish: "in_phase s = Flushing \<Longrightarrow> flush_nonempty insert_batch chunk_len outcome s = Some t \<Longrightarrow>
    task_step insert_batch chunk_len outcome s (t\<lparr>in_phase := Finished\<rparr>)"

text \<open>What the rest of the program does to it: the handlers send, the senders are dropped, the flag falls.\<close>

inductive world_step :: "('r, 'db) inserter \<Rightarrow> ('r, 'db) inserter \<Rightarrow> bool" where
  send: "in_senders s \<Longrightarrow> in_phase s \<noteq> Finished \<Longrightarrow> length (in_channel s) < CHANNEL_CAPACITY \<Longrightarrow>
    world_step s (s\<lparr>in_channel := in_channel s @ [r], in_sent := in_sent s @ [r]\<rparr>)"
| drop_senders: "in_senders s \<Longrightarrow> world_step s (s\<lparr>in_senders := False\<rparr>)"
| stop: "in_running s \<Longrightarrow> world_step s (s\<lparr>in_running := False\<rparr>)"

inductive inserter_reachable ::
  "('r, 'db) insert_batch \<Rightarrow> nat \<Rightarrow> 'db \<Rightarrow> ('r, 'db) inserter \<Rightarrow> bool"
  for insert_batch chunk_len db0 where
  init: "inserter_reachable insert_batch chunk_len db0 (inserter_init db0)"
| task: "inserter_reachable insert_batch chunk_len db0 s \<Longrightarrow> task_step insert_batch chunk_len outcome s t \<Longrightarrow>
    inserter_reachable insert_batch chunk_len db0 t"
| world: "inserter_reachable insert_batch chunk_len db0 s \<Longrightarrow> world_step s t \<Longrightarrow>
    inserter_reachable insert_batch chunk_len db0 t"

inductive_cases finished_stuck: "task_step insert_batch chunk_len outcome s t"

text \<open>A run of the task alone, with its length.\<close>

inductive task_run ::
  "('r, 'db) insert_batch \<Rightarrow> nat \<Rightarrow> nat \<Rightarrow> ('r, 'db) inserter \<Rightarrow> ('r, 'db) inserter \<Rightarrow> bool"
  for insert_batch chunk_len where
  run_refl: "task_run insert_batch chunk_len 0 s s"
| run_step: "task_step insert_batch chunk_len outcome s t \<Longrightarrow> task_run insert_batch chunk_len n t u \<Longrightarrow>
    task_run insert_batch chunk_len (Suc n) s u"

section \<open>What a step changes\<close>

lemma flush_effect:
  assumes "flush insert_batch chunk_len outcome s = Some t"
  shows "flush_buffer insert_batch chunk_len outcome (in_buffer s) (in_db s) = Some (in_buffer t, in_db t) \<and>
    t = s\<lparr>in_buffer := in_buffer t, in_db := in_db t\<rparr>"
  using assms by (auto simp: flush_def bind_eq_Some_conv)

definition written ::
  "('r, 'db) insert_batch \<Rightarrow> nat \<Rightarrow> (nat \<Rightarrow> db_outcome) \<Rightarrow> 'r list \<times> 'db \<Rightarrow> 'r list \<times> 'db \<Rightarrow> bool" where
  "written insert_batch chunk_len outcome before after \<longleftrightarrow>
     after = before \<or> flush_buffer insert_batch chunk_len outcome (fst before) (snd before) = Some after"

lemma flush_nonempty_effect:
  assumes "flush_nonempty insert_batch chunk_len outcome s = Some t"
  shows "written insert_batch chunk_len outcome (in_buffer s, in_db s) (in_buffer t, in_db t)"
    "t = s\<lparr>in_buffer := in_buffer t, in_db := in_db t\<rparr>"
  using assms flush_effect [of insert_batch chunk_len outcome s t]
  by (auto simp: flush_nonempty_def written_def split: if_splits)

text \<open>A step of the task takes at most one record from the channel, appends it to the buffer, and may
  then flush the buffer.\<close>

lemma task_step_effect:
  assumes "task_step insert_batch chunk_len outcome s t"
  shows "in_sent t = in_sent s \<and> in_senders t = in_senders s \<and> in_running t = in_running s"
    "\<exists>taken. in_channel s = taken @ in_channel t \<and> length taken \<le> 1 \<and>
       written insert_batch chunk_len outcome (in_buffer s @ taken, in_db s) (in_buffer t, in_db t)"
  using assms
proof (atomize (full), induction rule: task_step.induct)
  case (tick s t)
  then obtain u where u: "flush_nonempty insert_batch chunk_len outcome s = Some u"
    "t = (if in_running u then u else u\<lparr>in_phase := Draining\<rparr>)"
    by (auto simp: on_tick_def bind_eq_Some_conv)
  from flush_nonempty_effect [OF u(1)] show ?case
    by (cases u, cases s) (auto simp: u(2) intro!: exI [of _ "[]"])
next
  case (recv s r rest t)
  show ?case
  proof (cases "length (in_buffer s @ [r]) = FLUSH_ROWS")
    case True
    with recv have f: "flush insert_batch chunk_len outcome (s\<lparr>in_channel := rest, in_buffer := in_buffer s @ [r]\<rparr>) = Some t"
      by (simp add: on_record_def Let_def)
    from flush_effect [OF f] recv(2) show ?thesis
      by (cases t, cases s) (auto simp: written_def intro!: exI [of _ "[r]"])
  next
    case False
    with recv have "t = s\<lparr>in_channel := rest, in_buffer := in_buffer s @ [r]\<rparr>"
      by (simp add: on_record_def Let_def)
    with recv(2) show ?thesis by (auto simp: written_def intro!: exI [of _ "[r]"])
  qed
next
  case (closed s t)
  then obtain u where u: "flush_nonempty insert_batch chunk_len outcome s = Some u" "t = u\<lparr>in_phase := Draining\<rparr>"
    by (auto simp: on_closed_def bind_eq_Some_conv)
  from flush_nonempty_effect [OF u(1)] show ?case
    by (cases u, cases s) (auto simp: u(2) intro!: exI [of _ "[]"])
next
  case (drain s r rest)
  then show ?case by (auto simp: written_def intro!: exI [of _ "[r]"])
next
  case (drained s)
  then show ?case by (auto simp: written_def)
next
  case (finish s t)
  from flush_nonempty_effect [OF finish(2)] show ?case
    by (cases t, cases s) (auto intro!: exI [of _ "[]"])
qed

text \<open>Once the running flag is down, every step of the task brings it closer to its end.\<close>

primrec phase_rank :: "phase \<Rightarrow> nat" where
  "phase_rank Selecting = 3"
| "phase_rank Draining = 2"
| "phase_rank Flushing = 1"
| "phase_rank Finished = 0"

definition remaining :: "('r, 'db) inserter \<Rightarrow> nat" where
  "remaining s = length (in_channel s) + phase_rank (in_phase s)"

lemma flush_nonempty_frame:
  assumes "flush_nonempty insert_batch chunk_len outcome s = Some t"
  shows "in_channel t = in_channel s" "in_phase t = in_phase s" "in_running t = in_running s"
  using flush_nonempty_effect(2) [OF assms] by (cases t, cases s, simp)+

lemma flush_frame:
  assumes "flush insert_batch chunk_len outcome s = Some t"
  shows "in_channel t = in_channel s" "in_phase t = in_phase s"
  using flush_effect [OF assms] by (cases t, cases s, simp)+

lemma task_step_remaining:
  assumes "task_step insert_batch chunk_len outcome s t" "\<not> in_running s"
  shows "remaining t < remaining s"
  using assms
proof (induction rule: task_step.induct)
  case (recv s r rest t)
  then show ?case
    using flush_frame [of insert_batch chunk_len outcome "s\<lparr>in_channel := rest, in_buffer := in_buffer s @ [r]\<rparr>" t]
    by (auto simp: on_record_def Let_def remaining_def split: if_splits)
next
  case (tick s t)
  then obtain u where u: "flush_nonempty insert_batch chunk_len outcome s = Some u"
    "t = (if in_running u then u else u\<lparr>in_phase := Draining\<rparr>)"
    by (auto simp: on_tick_def bind_eq_Some_conv)
  with flush_nonempty_frame [OF u(1)] tick(1,3) show ?case by (simp add: remaining_def)
next
  case (closed s t)
  then obtain u where u: "flush_nonempty insert_batch chunk_len outcome s = Some u" "t = u\<lparr>in_phase := Draining\<rparr>"
    by (auto simp: on_closed_def bind_eq_Some_conv)
  with flush_nonempty_frame [OF u(1)] closed(1) show ?case by (simp add: remaining_def)
next
  case (finish s t)
  with flush_nonempty_frame [OF finish(2)] show ?case by (simp add: remaining_def)
qed (simp_all add: remaining_def)

lemma task_run_remaining:
  "task_run insert_batch chunk_len n s t \<Longrightarrow> \<not> in_running s \<Longrightarrow> n + remaining t \<le> remaining s \<and> \<not> in_running t"
proof (induction rule: task_run.induct)
  case (run_step outcome s t n u)
  then show ?case
    using task_step_remaining [OF run_step(1)] task_step_effect(1) [OF run_step(1)] by auto
qed simp

section \<open>What the task needs from a table\<close>

text \<open>
  \<open>view db k\<close> is what can be observed of the row stored under \<open>k\<close>. The law: a batch that fits a statement
  is always accepted, and afterwards each of its keys shows the content of the last row delivered with
  it, while every other key shows what it showed before.
\<close>

locale keyed_store =
  fixes insert_batch :: "('r, 'db) insert_batch" and chunk_len :: nat
    and key :: "'r \<Rightarrow> 'k" and view :: "'db \<Rightarrow> 'k \<Rightarrow> 'v option" and content :: "'r \<Rightarrow> 'v"
  assumes chunk_pos: "0 < chunk_len"
    and insert_view: "length rows \<le> chunk_len \<Longrightarrow>
      \<exists>db'. insert_batch rows db = Some (Some db') \<and>
        (\<forall>k. view db' k = (if k \<in> key ` set rows then Some (content (last (filter (\<lambda>r. key r = k) rows)))
                           else view db k))"
begin

text \<open>
  Deliveries agree when all records with the same key have the same content, as those of a replay have;
  \<open>F\<close> is that content. Then a table is determined by the set \<open>K\<close> of keys it has committed.
\<close>

definition agreed :: "('k \<Rightarrow> 'v) \<Rightarrow> 'r list \<Rightarrow> bool" where
  "agreed F rows \<longleftrightarrow> (\<forall>r\<in>set rows. content r = F (key r))"

definition committed :: "'db \<Rightarrow> ('k \<Rightarrow> 'v) \<Rightarrow> 'k set \<Rightarrow> 'db \<Rightarrow> bool" where
  "committed db0 F K db \<longleftrightarrow> (\<forall>k. view db k = (if k \<in> K then Some (F k) else view db0 k))"

lemma agreed_append [simp]: "agreed F (xs @ ys) \<longleftrightarrow> agreed F xs \<and> agreed F ys"
  by (auto simp: agreed_def)

lemma agreed_last:
  assumes "agreed F rows" "k \<in> key ` set rows"
  shows "content (last (filter (\<lambda>r. key r = k) rows)) = F k"
proof -
  from assms(2) have "filter (\<lambda>r. key r = k) rows \<noteq> []" by (auto simp: filter_empty_conv)
  then have "last (filter (\<lambda>r. key r = k) rows) \<in> set (filter (\<lambda>r. key r = k) rows)" by (rule last_in_set)
  with assms(1) show ?thesis by (auto simp: agreed_def)
qed

lemma agreed_subset: "agreed F rows \<Longrightarrow> set rows' \<subseteq> set rows \<Longrightarrow> agreed F rows'"
  by (auto simp: agreed_def)

lemma insert_committed:
  assumes "agreed F rows" "length rows \<le> chunk_len" "committed db0 F K db"
  obtains db' where "insert_batch rows db = Some (Some db')" "committed db0 F (K \<union> key ` set rows) db'"
proof -
  obtain db' where db': "insert_batch rows db = Some (Some db')"
    and view: "\<And>k. view db' k = (if k \<in> key ` set rows then Some (content (last (filter (\<lambda>r. key r = k) rows)))
                           else view db k)"
    using insert_view [OF assms(2)] by blast
  have "content (last (filter (\<lambda>r. key r = k) rows)) = F k" if "k \<in> key ` set rows" for k
  proof -
    from that have "filter (\<lambda>r. key r = k) rows \<noteq> []" by (auto simp: filter_empty_conv)
    then have "last (filter (\<lambda>r. key r = k) rows) \<in> set (filter (\<lambda>r. key r = k) rows)" by (rule last_in_set)
    with assms(1) show ?thesis by (auto simp: agreed_def)
  qed
  with view assms(3) have "committed db0 F (K \<union> key ` set rows) db'" by (auto simp: committed_def)
  with db' show thesis by (rule that)
qed

text \<open>A flush never panics, and keeps nothing when every statement succeeds.\<close>

lemma attempt_total:
  assumes "length rows \<le> chunk_len"
  shows "\<exists>ok db'. attempt_insert insert_batch outcome rows db = Some (ok, db') \<and> (outcome = Db_Done \<longrightarrow> ok)"
  using insert_view [OF assms, of db] by (cases outcome) (auto simp: attempt_insert_def)

lemma flush_chunks_total:
  assumes "\<forall>c\<in>set cs. length c \<le> chunk_len"
  shows "\<exists>retry' db'. flush_chunks insert_batch outcome i cs retry db = Some (retry @ retry', db') \<and>
    length retry' \<le> length (concat cs) \<and> ((\<forall>j. outcome j = Db_Done) \<longrightarrow> retry' = [])"
  using assms
proof (induction cs arbitrary: i retry db)
  case (Cons c cs)
  then obtain ok db1 where 1: "attempt_insert insert_batch (outcome i) c db = Some (ok, db1)"
    "outcome i = Db_Done \<longrightarrow> ok"
    using attempt_total [of c "outcome i" db] by auto
  obtain retry' db' where "flush_chunks insert_batch outcome (Suc i) cs (if ok then retry else retry @ c) db1 =
      Some ((if ok then retry else retry @ c) @ retry', db')"
    "length retry' \<le> length (concat cs)" "(\<forall>j. outcome j = Db_Done) \<longrightarrow> retry' = []"
    using Cons.IH [of "Suc i" "if ok then retry else retry @ c" db1] Cons.prems by auto
  with 1 show ?case by (intro exI [of _ "if ok then retry' else c @ retry'"] exI [of _ db']) auto
qed auto

lemma flush_buffer_total:
  "\<exists>buffer' db'. flush_buffer insert_batch chunk_len outcome buffer db = Some (buffer', db') \<and>
    length buffer' \<le> length buffer \<and> ((\<forall>j. outcome j = Db_Done) \<longrightarrow> buffer' = [])"
proof -
  have "\<forall>c\<in>set (chunks chunk_len buffer). length c \<le> chunk_len"
    using chunks_length_le [of _ chunk_len buffer] by blast
  from flush_chunks_total [OF this, of outcome 0 "[]" db] concat_chunks [OF chunk_pos, of buffer]
  show ?thesis by (auto simp: flush_buffer_def Let_def)
qed

text \<open>It commits some of the buffered keys and keeps every record whose key it did not commit.\<close>

lemma attempt_committed:
  assumes "agreed F rows" "length rows \<le> chunk_len" "committed db0 F K db"
    "attempt_insert insert_batch outcome rows db = Some (ok, db')"
  obtains K' where "committed db0 F K' db'" "K \<subseteq> K'" "K' \<subseteq> K \<union> key ` set rows" "ok \<Longrightarrow> key ` set rows \<subseteq> K'"
proof -
  obtain db1 where db1: "insert_batch rows db = Some (Some db1)" "committed db0 F (K \<union> key ` set rows) db1"
    using assms(1-3) by (rule insert_committed)
  with assms(3,4) show thesis
    using that [of K] that [of "K \<union> key ` set rows"]
    by (auto simp: attempt_insert_def split: db_outcome.splits)
qed

lemma flush_chunks_committed:
  assumes "agreed F (concat cs)" "\<forall>c\<in>set cs. length c \<le> chunk_len" "committed db0 F K db"
    "flush_chunks insert_batch outcome i cs retry db = Some (retry1, db1)"
  shows "\<exists>retry' K'. retry1 = retry @ retry' \<and> committed db0 F K' db1 \<and> K \<subseteq> K' \<and>
    K' \<subseteq> K \<union> key ` set (concat cs) \<and> key ` set (concat cs) \<subseteq> K' \<union> key ` set retry' \<and>
    set retry' \<subseteq> set (concat cs)"
  using assms
proof (induction cs arbitrary: i retry db K)
  case (Cons c cs)
  from Cons.prems have c: "agreed F c" "length c \<le> chunk_len"
    and cs: "agreed F (concat cs)" "\<forall>c\<in>set cs. length c \<le> chunk_len" by simp_all
  from Cons.prems(4) obtain ok db2 where 1: "attempt_insert insert_batch (outcome i) c db = Some (ok, db2)"
    and 2: "flush_chunks insert_batch outcome (Suc i) cs (if ok then retry else retry @ c) db2 = Some (retry1, db1)"
    by (auto simp: bind_eq_Some_conv)
  obtain K2 where K2: "committed db0 F K2 db2" "K \<subseteq> K2" "K2 \<subseteq> K \<union> key ` set c" "ok \<Longrightarrow> key ` set c \<subseteq> K2"
    using attempt_committed [OF c Cons.prems(3) 1] by blast
  obtain retry' K' where r: "retry1 = (if ok then retry else retry @ c) @ retry'"
    and K': "committed db0 F K' db1" "K2 \<subseteq> K'" "K' \<subseteq> K2 \<union> key ` set (concat cs)"
    "key ` set (concat cs) \<subseteq> K' \<union> key ` set retry'" "set retry' \<subseteq> set (concat cs)"
    using Cons.IH [OF cs K2(1) 2] by blast
  show ?case
  proof (intro exI [of _ "if ok then retry' else c @ retry'"] exI [of _ K'] conjI)
    show "key ` set (concat (c # cs)) \<subseteq> K' \<union> key ` set (if ok then retry' else c @ retry')"
    proof (cases ok)
      case True
      with K2(4) K'(2,4) show ?thesis unfolding concat.simps set_append image_Un by (simp only: if_True) blast
    next
      case False
      with K'(4) show ?thesis
        unfolding concat.simps set_append image_Un by (simp only: if_False set_append image_Un) blast
    qed
    show "K' \<subseteq> K \<union> key ` set (concat (c # cs))" using K2(3) K'(3) by auto
    show "set (if ok then retry' else c @ retry') \<subseteq> set (concat (c # cs))" using K'(5) by auto
    show "retry1 = retry @ (if ok then retry' else c @ retry')" using r by simp
    show "committed db0 F K' db1" by (rule K'(1))
    show "K \<subseteq> K'" using K2(2) K'(2) by blast
  qed
next
  case Nil
  then show ?case by (intro exI [of _ "[]"] exI [of _ K]) simp
qed

section \<open>What the task keeps\<close>

text \<open>
  Of the records received so far, the table has committed a set of keys, all of them received, and
  every other received key still has a record in the buffer.
\<close>

definition settled :: "('k \<Rightarrow> 'v) \<Rightarrow> 'db \<Rightarrow> 'r list \<Rightarrow> 'r list \<Rightarrow> 'db \<Rightarrow> bool" where
  "settled F db0 received buffer db \<longleftrightarrow> set buffer \<subseteq> set received \<and>
     (\<exists>K. committed db0 F K db \<and> K \<subseteq> key ` set received \<and> key ` set received \<subseteq> K \<union> key ` set buffer)"

lemma settled_init: "settled F db [] [] db"
  by (auto simp: settled_def committed_def)

lemma settled_push: "settled F db0 received buffer db \<Longrightarrow> settled F db0 (received @ [r]) (buffer @ [r]) db"
  unfolding settled_def
proof (elim conjE exE, intro conjI)
  fix K assume K: "committed db0 F K db" "K \<subseteq> key ` set received" "key ` set received \<subseteq> K \<union> key ` set buffer"
  from K(2,3) have "K \<subseteq> key ` set (received @ [r])" "key ` set (received @ [r]) \<subseteq> K \<union> key ` set (buffer @ [r])"
    by auto
  with K(1) show "\<exists>K. committed db0 F K db \<and> K \<subseteq> key ` set (received @ [r]) \<and>
      key ` set (received @ [r]) \<subseteq> K \<union> key ` set (buffer @ [r])"
    by (intro exI [of _ K] conjI) assumption+
qed auto

lemma settled_flush:
  assumes "agreed F received" "settled F db0 received buffer db"
    "flush_buffer insert_batch chunk_len outcome buffer db = Some (buffer', db')"
  shows "settled F db0 received buffer' db'"
proof -
  let ?cs = "chunks chunk_len buffer"
  have cc: "concat ?cs = buffer" using chunk_pos by (rule concat_chunks)
  have len: "\<forall>c\<in>set ?cs. length c \<le> chunk_len" using chunks_length_le [of _ chunk_len buffer] by blast
  obtain K where K: "committed db0 F K db" "K \<subseteq> key ` set received" "key ` set received \<subseteq> K \<union> key ` set buffer"
    and sub: "set buffer \<subseteq> set received"
    using assms(2) by (auto simp: settled_def)
  have "agreed F (concat ?cs)" using agreed_subset [OF assms(1) sub] by (simp add: cc)
  moreover have "flush_chunks insert_batch outcome 0 ?cs [] db = Some (buffer', db')"
    using assms(3) by (auto simp: flush_buffer_def Let_def bind_eq_Some_conv split: if_splits)
  ultimately obtain K' where K': "committed db0 F K' db'" "K \<subseteq> K'" "K' \<subseteq> K \<union> key ` set buffer"
    "key ` set buffer \<subseteq> K' \<union> key ` set buffer'" "set buffer' \<subseteq> set buffer"
    using flush_chunks_committed [of F ?cs db0 K db outcome 0 "[]" buffer' db'] len K(1) by (auto simp: cc)
  from sub have "key ` set buffer \<subseteq> key ` set received" by (rule image_mono)
  then have 1: "K' \<subseteq> key ` set received" by (rule order_trans [OF K'(3) Un_least [OF K(2)]])
  have "K \<subseteq> K' \<union> key ` set buffer'" using K'(2) by (rule le_supI1)
  then have 2: "key ` set received \<subseteq> K' \<union> key ` set buffer'" by (rule order_trans [OF K(3) Un_least [OF _ K'(4)]])
  show ?thesis
    unfolding settled_def using K'(1) 1 2 order_trans [OF K'(5) sub] by (intro conjI exI [of _ K']) assumption+
qed

text \<open>The invariant of the whole task, over the records sent.\<close>

definition delivery_inv :: "('k \<Rightarrow> 'v) \<Rightarrow> 'db \<Rightarrow> ('r, 'db) inserter \<Rightarrow> bool" where
  "delivery_inv F db0 s \<longleftrightarrow>
     (\<exists>received. in_sent s = received @ in_channel s \<and> settled F db0 received (in_buffer s) (in_db s))"

lemma settled_push_all:
  "settled F db0 received buffer db \<Longrightarrow> settled F db0 (received @ rs) (buffer @ rs) db"
proof (induction rs rule: rev_induct)
  case (snoc r rs)
  then show ?case using settled_push [of F db0 "received @ rs" "buffer @ rs" db r] by simp
qed simp

lemma task_step_delivery:
  assumes "task_step insert_batch chunk_len outcome s t" "agreed F (in_sent t)" "delivery_inv F db0 s"
  shows "delivery_inv F db0 t"
proof -
  obtain received where received: "in_sent s = received @ in_channel s"
    "settled F db0 received (in_buffer s) (in_db s)"
    using assms(3) by (auto simp: delivery_inv_def)
  obtain taken where taken: "in_channel s = taken @ in_channel t"
    "written insert_batch chunk_len outcome (in_buffer s @ taken, in_db s) (in_buffer t, in_db t)"
    using task_step_effect(2) [OF assms(1)] by blast
  have sent: "in_sent t = (received @ taken) @ in_channel t"
    using task_step_effect(1) [OF assms(1)] received(1) taken(1) by simp
  with assms(2) have "agreed F (received @ taken)" by simp
  moreover have "settled F db0 (received @ taken) (in_buffer s @ taken) (in_db s)"
    using received(2) by (rule settled_push_all)
  ultimately have "settled F db0 (received @ taken) (in_buffer t) (in_db t)"
    using taken(2) settled_flush by (auto simp: written_def)
  with sent show ?thesis unfolding delivery_inv_def by blast
qed

lemma world_step_delivery:
  assumes "world_step s t" "delivery_inv F db0 s"
  shows "delivery_inv F db0 t" "agreed F (in_sent t) \<Longrightarrow> agreed F (in_sent s)"
  using assms by (induction rule: world_step.induct) (auto simp: delivery_inv_def)

lemma reachable_delivery:
  "inserter_reachable insert_batch chunk_len db0 s \<Longrightarrow> agreed F (in_sent s) \<Longrightarrow> delivery_inv F db0 s"
proof (induction rule: inserter_reachable.induct)
  case init
  then show ?case by (simp add: delivery_inv_def inserter_init_def settled_init)
next
  case (task s outcome t)
  then have "delivery_inv F db0 s" using task_step_effect(1) [OF task(2)] by simp
  with task show ?case using task_step_delivery by blast
next
  case (world s t)
  have "agreed F (in_sent s)"
    using world(2,4) by (induction rule: world_step.induct) simp_all
  with world show ?case using world_step_delivery(1) by blast
qed

text \<open>Nothing is lost while the task runs: a record that was sent is still in the channel, still in the
  buffer (or another delivery of it is), or its content is in the table.\<close>

lemma no_record_lost:
  assumes "inserter_reachable insert_batch chunk_len db0 s" "agreed F (in_sent s)" "r \<in> set (in_sent s)"
  shows "r \<in> set (in_channel s) \<or> key r \<in> key ` set (in_buffer s) \<or>
    view (in_db s) (key r) = Some (content r)"
proof -
  obtain received K where r: "in_sent s = received @ in_channel s" "committed db0 F K (in_db s)"
    "key ` set received \<subseteq> K \<union> key ` set (in_buffer s)"
    using reachable_delivery [OF assms(1,2)] by (auto simp: delivery_inv_def settled_def)
  have c: "content r = F (key r)" using assms(2,3) by (auto simp: agreed_def)
  show ?thesis
  proof (cases "r \<in> set received")
    case True
    then have "key r \<in> K \<union> key ` set (in_buffer s)" using r(3) by (rule imageI [THEN rev_subsetD])
    then show ?thesis using r(2) c by (auto simp: committed_def)
  next
    case False
    with assms(3) r(1) show ?thesis by simp
  qed
qed

text \<open>And nothing is invented: a key that shows something else than at the start was received.\<close>

lemma no_record_invented:
  assumes "inserter_reachable insert_batch chunk_len db0 s" "agreed F (in_sent s)"
    "view (in_db s) k \<noteq> view db0 k"
  shows "\<exists>r. r \<in> set (in_sent s) \<and> key r = k \<and> view (in_db s) k = Some (content r)"
proof -
  obtain received K where r: "in_sent s = received @ in_channel s" "committed db0 F K (in_db s)"
    "K \<subseteq> key ` set received"
    using reachable_delivery [OF assms(1,2)] by (auto simp: delivery_inv_def settled_def)
  from assms(3) r(2) have k: "k \<in> K" "view (in_db s) k = Some (F k)" by (auto simp: committed_def split: if_splits)
  with r(3) obtain x where "x \<in> set received" "key x = k" by auto
  with k(2) r(1) assms(2) show ?thesis by (intro exI [of _ x]) (auto simp: agreed_def)
qed

text \<open>When nothing waits, the table shows every record that was sent, and nothing else is new.\<close>

lemma all_delivered:
  assumes "inserter_reachable insert_batch chunk_len db0 s" "agreed F (in_sent s)"
    "in_channel s = []" "in_buffer s = []"
  shows "view (in_db s) k = (if k \<in> key ` set (in_sent s) then Some (F k) else view db0 k)"
proof -
  obtain received K where r: "in_sent s = received @ in_channel s" "committed db0 F K (in_db s)"
    "K \<subseteq> key ` set received" "key ` set received \<subseteq> K \<union> key ` set (in_buffer s)"
    using reachable_delivery [OF assms(1,2)] by (auto simp: delivery_inv_def settled_def)
  with assms(3,4) have "K = key ` set (in_sent s)" by auto
  with r(2) show ?thesis by (simp add: committed_def)
qed

text \<open>The task never gets stuck before its end.\<close>

lemma flush_nonempty_total: "\<exists>t. flush_nonempty insert_batch chunk_len outcome s = Some t"
  using flush_buffer_total [of outcome "in_buffer s" "in_db s"]
  by (auto simp: flush_nonempty_def flush_def)

lemma task_progress:
  assumes "in_phase s \<noteq> Finished"
  shows "\<exists>t. task_step insert_batch chunk_len outcome s t"
proof (cases "in_phase s")
  case Selecting
  obtain u where "flush_nonempty insert_batch chunk_len outcome s = Some u" using flush_nonempty_total by blast
  then have "on_tick insert_batch chunk_len outcome s = Some (if in_running u then u else u\<lparr>in_phase := Draining\<rparr>)"
    by (simp add: on_tick_def)
  with Selecting show ?thesis by (blast intro: task_step.tick)
next
  case Draining
  then show ?thesis by (cases "in_channel s") (blast intro: task_step.drain task_step.drained)+
next
  case Flushing
  obtain u where "flush_nonempty insert_batch chunk_len outcome s = Some u" using flush_nonempty_total by blast
  with Flushing show ?thesis by (blast intro: task_step.finish)
qed (use assms in simp)

text \<open>While the statements succeed, the buffer stays below the threshold.\<close>

lemma healthy_buffer:
  assumes "task_step insert_batch chunk_len (\<lambda>_. Db_Done) s t" "length (in_buffer s) < FLUSH_ROWS"
    "in_phase t = Selecting"
  shows "length (in_buffer t) < FLUSH_ROWS"
proof -
  have emptied: "b = []" if "flush_buffer insert_batch chunk_len (\<lambda>_. Db_Done) buffer db = Some (b, d)" for b d buffer db
    using flush_buffer_total [of "\<lambda>_. Db_Done" buffer db] that by auto
  show ?thesis
    using assms
  proof (induction rule: task_step.induct)
    case (recv s r rest t)
    show ?case
    proof (cases "length (in_buffer s @ [r]) = FLUSH_ROWS")
      case True
      with recv have f: "flush insert_batch chunk_len (\<lambda>_. Db_Done)
          (s\<lparr>in_channel := rest, in_buffer := in_buffer s @ [r]\<rparr>) = Some t"
        by (simp add: on_record_def Let_def)
      have "in_buffer t = []" using flush_effect [OF f] emptied by blast
      then show ?thesis by (simp add: FLUSH_ROWS_def)
    next
      case False
      with recv have "t = s\<lparr>in_channel := rest, in_buffer := in_buffer s @ [r]\<rparr>"
        by (simp add: on_record_def Let_def)
      with False recv(4) show ?thesis by simp
    qed
  next
    case (tick s t)
    then obtain u where u: "flush_nonempty insert_batch chunk_len (\<lambda>_. Db_Done) s = Some u"
      "in_buffer t = in_buffer u"
      by (auto simp: on_tick_def bind_eq_Some_conv)
    from flush_nonempty_effect(1) [OF u(1)] show ?case
      using u(2) tick(3) emptied [of "in_buffer s" "in_db s"] by (auto simp: written_def FLUSH_ROWS_def)
  qed (auto simp: on_closed_def bind_eq_Some_conv)
qed

end

end
