(* ===== verification/Delivery.thy ===== *)
theory Delivery
  imports Trades AltTrades Inserter
begin

text \<open>
  The two tables as stores of the batch inserter: \<open>amm_trades\<close> and \<open>alt_trades\<close> interpret \<open>keyed_store\<close>,
  and what the task guarantees is read off over the statements they build. \<open>shown\<close> is what an update
  overwrites of the row stored under a key: every column except the key itself, \<open>created_at\<close> and, in
  \<open>alt_trades\<close>, \<open>quote_decimals\<close>.
\<close>

definition shown :: "(string \<times> set_expr) list \<Rightarrow> sql_table \<Rightarrow> sql_key \<Rightarrow> sql_row option" where
  "shown S tbl k = map_option (updated_columns S) (tbl k)"

text \<open>Deliveries of the same key agree: a replay delivers the same content again.\<close>
definition deliveries_agree :: "('r \<Rightarrow> 'k) \<Rightarrow> ('r \<Rightarrow> 'v) \<Rightarrow> 'r list \<Rightarrow> bool" where
  "deliveries_agree key content rows =
     list_all (\<lambda>a. list_all (\<lambda>b. key a \<noteq> key b \<or> content a = content b) rows) rows"

context keyed_store
begin

lemma agreed_exists:
  assumes "deliveries_agree key content rows"
  shows "\<exists>F. agreed F rows"
proof (intro exI [of _ "\<lambda>k. content (SOME r. r \<in> set rows \<and> key r = k)"])
  show "agreed (\<lambda>k. content (SOME r. r \<in> set rows \<and> key r = k)) rows"
    unfolding agreed_def
  proof
    fix r assume r: "r \<in> set rows"
    then have "(SOME x. x \<in> set rows \<and> key x = key r) \<in> set rows \<and>
        key (SOME x. x \<in> set rows \<and> key x = key r) = key r"
      by (intro someI [where P = "\<lambda>x. x \<in> set rows \<and> key x = key r"]) simp
    moreover have "content r = content b" if "b \<in> set rows" "key b = key r" for b
      using r assms that unfolding deliveries_agree_def list_all_iff by metis
    ultimately show "content r = content (SOME x. x \<in> set rows \<and> key x = key r)" by blast
  qed
qed

lemma delivered_last:
  assumes "inserter_reachable insert_batch chunk_len db0 s" "deliveries_agree key content (in_sent s)"
    "in_channel s = []" "in_buffer s = []"
  shows "view (in_db s) k =
    (if k \<in> key ` set (in_sent s) then Some (content (last (filter (\<lambda>r. key r = k) (in_sent s)))) else view db0 k)"
proof -
  obtain F where F: "agreed F (in_sent s)" using agreed_exists [OF assms(2)] by blast
  with all_delivered [OF assms(1) F assms(3,4)] show ?thesis by (simp add: agreed_last [OF F])
qed

end

section \<open>The table of PumpSwap trades\<close>

definition trade_sql_key :: "trade_record \<Rightarrow> sql_key" where
  "trade_sql_key r = row_key trade_key_columns (trade_row r)"

definition trade_content :: "trade_record \<Rightarrow> sql_row" where
  "trade_content r = updated_columns trade_set (trade_row r)"

lemma amm_keys [simp]: "amm_writer.sql_key_of = trade_sql_key" "amm_writer.content_of = trade_content"
  by (simp_all add: fun_eq_iff amm_writer.sql_key_of_def amm_writer.content_of_def trade_sql_key_def trade_content_def)

interpretation amm_store:
  keyed_store batch_insert_trades TRADE_CHUNK trade_sql_key "shown trade_set" trade_content
proof unfold_locales
  fix rows :: "trade_record list" and tbl :: sql_table assume "length rows \<le> TRADE_CHUNK"
  from trade_batch_closed [OF this, of tbl] amm_writer.shown_batch [of tbl rows]
  show "\<exists>tbl'. batch_insert_trades rows tbl = Some (Some tbl') \<and>
    (\<forall>k. shown trade_set tbl' k = (if k \<in> trade_sql_key ` set rows
       then Some (trade_content (last (filter (\<lambda>r. trade_sql_key r = k) rows))) else shown trade_set tbl k))"
    by (simp add: shown_def)
qed (simp add: TRADE_CHUNK_def)

section \<open>The table of CPMM swaps\<close>

definition alt_sql_key :: "alt_trade_record \<Rightarrow> sql_key" where
  "alt_sql_key r = row_key alt_key_columns (alt_row r)"

definition alt_content :: "alt_trade_record \<Rightarrow> sql_row" where
  "alt_content r = updated_columns alt_set (alt_row r)"

lemma alt_keys [simp]: "alt_writer.sql_key_of = alt_sql_key" "alt_writer.content_of = alt_content"
  by (simp_all add: fun_eq_iff alt_writer.sql_key_of_def alt_writer.content_of_def alt_sql_key_def alt_content_def)

interpretation alt_store:
  keyed_store batch_insert_alt_trades ALT_CHUNK alt_sql_key "shown alt_set" alt_content
proof unfold_locales
  fix rows :: "alt_trade_record list" and tbl :: sql_table assume "length rows \<le> ALT_CHUNK"
  from alt_batch_closed [OF this, of tbl] alt_writer.shown_batch [of tbl rows]
  show "\<exists>tbl'. batch_insert_alt_trades rows tbl = Some (Some tbl') \<and>
    (\<forall>k. shown alt_set tbl' k = (if k \<in> alt_sql_key ` set rows
       then Some (alt_content (last (filter (\<lambda>r. alt_sql_key r = k) rows))) else shown alt_set tbl k))"
    by (simp add: shown_def)
qed (simp add: ALT_CHUNK_def)

section \<open>What the task guarantees\<close>

text \<open>A run that delivers one trade: it is sent, received, and written by a tick.\<close>

definition demo_delivered :: "sql_table \<Rightarrow> (trade_record, sql_table) inserter" where
  "demo_delivered tbl = (inserter_init Map.empty)\<lparr>in_sent := [demo_trade], in_db := tbl\<rparr>"

lemma one_trade_delivered:
  assumes "batch_insert_trades [r] db0 = Some (Some tbl)"
  shows "inserter_reachable batch_insert_trades TRADE_CHUNK db0 ((inserter_init db0)\<lparr>in_sent := [r], in_db := tbl\<rparr>)"
proof -
  let ?s0 = "inserter_init db0 :: (trade_record, sql_table) inserter"
  let ?s1 = "?s0\<lparr>in_channel := in_channel ?s0 @ [r], in_sent := in_sent ?s0 @ [r]\<rparr>"
  let ?s2 = "?s1\<lparr>in_channel := [], in_buffer := [r]\<rparr>"
  let ?s3 = "?s0\<lparr>in_sent := [r], in_db := tbl\<rparr>"
  have "world_step ?s0 ?s1"
    by (rule world_step.send) (simp_all add: inserter_init_def CHANNEL_CAPACITY_def)
  with inserter_reachable.init have 1: "inserter_reachable batch_insert_trades TRADE_CHUNK db0 ?s1"
    by (rule inserter_reachable.world)
  have "task_step batch_insert_trades TRADE_CHUNK (\<lambda>_. Db_Done) ?s1 ?s2"
    by (rule task_step.recv [of _ r "[]"])
       (simp_all add: inserter_init_def on_record_def FLUSH_ROWS_def Let_def)
  with 1 have 2: "inserter_reachable batch_insert_trades TRADE_CHUNK db0 ?s2"
    by (rule inserter_reachable.task)
  have "chunks TRADE_CHUNK [r] = [[r]]"
    by (simp add: TRADE_CHUNK_def chunks.simps [of 500 "[r]"] chunks.simps [of 500 "[]"])
  then have "on_tick batch_insert_trades TRADE_CHUNK (\<lambda>_. Db_Done) ?s2 = Some ?s3"
    using assms by (simp add: on_tick_def flush_nonempty_def flush_def flush_buffer_def attempt_insert_def
                              inserter_init_def Let_def)
  then have "task_step batch_insert_trades TRADE_CHUNK (\<lambda>_. Db_Done) ?s2 ?s3"
    by (intro task_step.tick) (simp_all add: inserter_init_def)
  with 2 show ?thesis by (rule inserter_reachable.task)
qed

lemma demo_run:
  assumes "batch_insert_trades [demo_trade] Map.empty = Some (Some tbl)"
  shows "inserter_reachable batch_insert_trades TRADE_CHUNK Map.empty (demo_delivered tbl)"
  unfolding demo_delivered_def using assms by (rule one_trade_delivered)

lemma demo_insert: obtains tbl where "batch_insert_trades [demo_trade] Map.empty = Some (Some tbl)"
  using trade_batch_closed [of "[demo_trade]" Map.empty] by (auto simp: TRADE_CHUNK_def)

text \<open>No trade is lost while the inserter runs, whatever statements fail, are retried, or are applied
  without being acknowledged: a record that the channel accepted is still in the channel, or a record with
  its key is still in the buffer, or the row under its key shows exactly its values.\<close>

theorem amm_no_record_lost:
  assumes "inserter_reachable batch_insert_trades TRADE_CHUNK tbl0 s"
    "deliveries_agree trade_sql_key trade_content (in_sent s)" "r \<in> set (in_sent s)"
  shows "r \<in> set (in_channel s) \<or> trade_sql_key r \<in> trade_sql_key ` set (in_buffer s) \<or>
    shown trade_set (in_db s) (trade_sql_key r) = Some (trade_content r)"
  using amm_store.agreed_exists [OF assms(2)] amm_store.no_record_lost [OF assms(1) _ assms(3)] by blast

theorem amm_no_record_lost_witness:
  "\<exists>tbl. demo_trade \<in> set (in_sent (demo_delivered tbl)) \<and>
     shown trade_set (in_db (demo_delivered tbl)) (trade_sql_key demo_trade) = Some (trade_content demo_trade)"
proof -
  obtain tbl where tbl: "batch_insert_trades [demo_trade] Map.empty = Some (Some tbl)" by (rule demo_insert)
  have "deliveries_agree trade_sql_key trade_content (in_sent (demo_delivered tbl))"
    by (simp add: deliveries_agree_def demo_delivered_def)
  from amm_no_record_lost [OF demo_run [OF tbl] this, of demo_trade]
  have "shown trade_set (in_db (demo_delivered tbl)) (trade_sql_key demo_trade) = Some (trade_content demo_trade)"
    by (simp add: demo_delivered_def inserter_init_def)
  then show ?thesis by (intro exI [of _ tbl]) (simp add: demo_delivered_def)
qed

text \<open>The inserter refines a table that takes every record as it is sent: whenever nothing waits in the
  channel or the buffer, the table shows what upserting all records sent, one by one and in order, would
  have left. Buffering, chunking, retries and repeated deliveries do not show.\<close>

theorem amm_inserter_refines:
  assumes "inserter_reachable batch_insert_trades TRADE_CHUNK tbl0 s"
    "deliveries_agree trade_sql_key trade_content (in_sent s)" "in_channel s = []" "in_buffer s = []"
  shows "shown trade_set (in_db s) =
    shown trade_set (foldl (upsert_row trade_key_columns trade_set) tbl0 (map trade_row (in_sent s)))"
  using amm_store.delivered_last [OF assms] amm_writer.shown_sequence [of tbl0 "in_sent s"]
  by (simp add: fun_eq_iff shown_def amm_writer.put_all_upsert)

theorem amm_inserter_refines_witness:
  "\<exists>tbl. in_sent (demo_delivered tbl) = [demo_trade] \<and>
     shown trade_set (in_db (demo_delivered tbl)) =
     shown trade_set (foldl (upsert_row trade_key_columns trade_set) Map.empty (map trade_row (in_sent (demo_delivered tbl))))"
proof -
  obtain tbl where tbl: "batch_insert_trades [demo_trade] Map.empty = Some (Some tbl)" by (rule demo_insert)
  have "deliveries_agree trade_sql_key trade_content (in_sent (demo_delivered tbl))"
    "in_channel (demo_delivered tbl) = []" "in_buffer (demo_delivered tbl) = []"
    by (simp_all add: deliveries_agree_def demo_delivered_def inserter_init_def)
  from amm_inserter_refines [OF demo_run [OF tbl] this] show ?thesis
    by (intro exI [of _ tbl] conjI) (simp_all add: demo_delivered_def)
qed

text \<open>The same for the swaps.\<close>

lemma alt_no_record_lost:
  assumes "inserter_reachable batch_insert_alt_trades ALT_CHUNK tbl0 s"
    "deliveries_agree alt_sql_key alt_content (in_sent s)" "r \<in> set (in_sent s)"
  shows "r \<in> set (in_channel s) \<or> alt_sql_key r \<in> alt_sql_key ` set (in_buffer s) \<or>
    shown alt_set (in_db s) (alt_sql_key r) = Some (alt_content r)"
  using alt_store.agreed_exists [OF assms(2)] alt_store.no_record_lost [OF assms(1) _ assms(3)] by blast

lemma alt_inserter_refines:
  assumes "inserter_reachable batch_insert_alt_trades ALT_CHUNK tbl0 s"
    "deliveries_agree alt_sql_key alt_content (in_sent s)" "in_channel s = []" "in_buffer s = []"
  shows "shown alt_set (in_db s) =
    shown alt_set (foldl (upsert_row alt_key_columns alt_set) tbl0 (map alt_row (in_sent s)))"
  using alt_store.delivered_last [OF assms] alt_writer.shown_sequence [of tbl0 "in_sent s"]
  by (simp add: fun_eq_iff shown_def alt_writer.put_all_upsert)

text \<open>The table never shows anything that was not sent: a row that differs from what it showed when the
  task started shows the values of a record of the channel.\<close>

theorem amm_no_record_invented:
  assumes "inserter_reachable batch_insert_trades TRADE_CHUNK tbl0 s"
    "deliveries_agree trade_sql_key trade_content (in_sent s)"
    "shown trade_set (in_db s) k \<noteq> shown trade_set tbl0 k"
  shows "\<exists>r. r \<in> set (in_sent s) \<and> trade_sql_key r = k \<and>
    shown trade_set (in_db s) k = Some (trade_content r)"
  using amm_store.agreed_exists [OF assms(2)] amm_store.no_record_invented [OF assms(1) _ assms(3)] by blast

theorem amm_no_record_invented_witness:
  "\<exists>tbl r. shown trade_set (in_db (demo_delivered tbl)) (trade_sql_key demo_trade) \<noteq> None \<and>
     r \<in> set (in_sent (demo_delivered tbl)) \<and> trade_sql_key r = trade_sql_key demo_trade \<and>
     shown trade_set (in_db (demo_delivered tbl)) (trade_sql_key demo_trade) = Some (trade_content r)"
proof -
  obtain tbl where tbl: "batch_insert_trades [demo_trade] Map.empty = Some (Some tbl)" by (rule demo_insert)
  have agree: "deliveries_agree trade_sql_key trade_content (in_sent (demo_delivered tbl))"
    by (simp add: deliveries_agree_def demo_delivered_def)
  have empty: "shown trade_set Map.empty (trade_sql_key demo_trade) = None" by (simp add: shown_def)
  have "shown trade_set tbl (trade_sql_key demo_trade) = Some (trade_content demo_trade)"
    using amm_store.insert_view [of "[demo_trade]" Map.empty] tbl by (simp add: TRADE_CHUNK_def)
  then have new: "shown trade_set (in_db (demo_delivered tbl)) (trade_sql_key demo_trade) \<noteq>
      shown trade_set Map.empty (trade_sql_key demo_trade)"
    by (simp add: empty demo_delivered_def)
  from amm_no_record_invented [OF demo_run [OF tbl] agree new] new show ?thesis
    unfolding empty by blast
qed

section \<open>Shutdown\<close>

lemma remaining_Finished: "remaining s = 0 \<Longrightarrow> in_phase s = Finished"
  by (cases "in_phase s") (simp_all add: remaining_def)

text \<open>Once the running flag is down and nobody sends any more, the inserter finishes: its runs are no longer
  than the records left in the channel plus three steps, and no run ends before the task is finished,
  whatever the database answers.\<close>

theorem inserter_shutdown_completes:
  assumes "\<not> in_running s" "task_run batch_insert_trades TRADE_CHUNK n s t"
  shows "n \<le> length (in_channel s) + 3 \<and>
    (in_phase t = Finished \<or> (\<exists>u. task_step batch_insert_trades TRADE_CHUNK outcome t u))"
proof -
  have "n + remaining t \<le> remaining s" using task_run_remaining [OF assms(2,1)] by simp
  moreover have "remaining s \<le> length (in_channel s) + 3" by (cases "in_phase s") (simp_all add: remaining_def)
  ultimately show ?thesis using amm_store.task_progress [of t outcome] by auto
qed

theorem inserter_shutdown_completes_witness:
  "0 \<le> length (in_channel ((inserter_init Map.empty :: (trade_record, sql_table) inserter)\<lparr>in_running := False\<rparr>)) + 3 \<and>
   (\<exists>u. task_step batch_insert_trades TRADE_CHUNK (\<lambda>_. Db_Failed)
      ((inserter_init Map.empty)\<lparr>in_running := False\<rparr>) u)"
  using inserter_shutdown_completes [of "(inserter_init Map.empty)\<lparr>in_running := False\<rparr>" 0
      "(inserter_init Map.empty)\<lparr>in_running := False\<rparr>" "\<lambda>_. Db_Failed", OF _ task_run.run_refl]
  by (auto simp: inserter_init_def)

text \<open>When the senders are dropped before the task stops selecting, its last look at the channel finds it
  empty for good.\<close>

lemma task_run_channel:
  "task_run insert_batch chunk_len n s t \<Longrightarrow> \<not> in_senders s \<Longrightarrow>
   in_phase s \<in> {Selecting, Draining} \<or> in_channel s = [] \<Longrightarrow>
   in_phase t \<in> {Selecting, Draining} \<or> in_channel t = []"
proof (induction rule: task_run.induct)
  case (run_step outcome s t n u)
  have "\<not> in_senders t" using task_step_effect(1) [OF run_step(1)] run_step(4) by simp
  moreover from run_step(1,5) have "in_phase t \<in> {Selecting, Draining} \<or> in_channel t = []"
  proof (induction rule: task_step.induct)
    case (tick s t)
    then obtain u where u: "flush_nonempty insert_batch chunk_len outcome s = Some u"
      "t = (if in_running u then u else u\<lparr>in_phase := Draining\<rparr>)"
      by (auto simp: on_tick_def bind_eq_Some_conv)
    with flush_nonempty_frame [OF u(1)] tick(1) show ?case by simp
  next
    case (recv s r rest t)
    then show ?case
      using flush_frame [of insert_batch chunk_len outcome "s\<lparr>in_channel := rest, in_buffer := in_buffer s @ [r]\<rparr>" t]
      by (auto simp: on_record_def Let_def split: if_splits)
  next
    case (closed s t)
    then show ?case by (auto simp: on_closed_def bind_eq_Some_conv)
  next
    case (finish s t)
    then show ?case using flush_nonempty_frame [OF finish(2)] by auto
  qed auto
  ultimately show ?case using run_step.IH by blast
qed simp

text \<open>Nothing is left behind by an orderly shutdown: when the senders are dropped while the inserter still
  selects, a run to its end leaves the channel empty, so every record it accepted is in the table except
  those of the last flush that the database refused.\<close>

theorem orderly_shutdown_delivers:
  assumes "inserter_reachable batch_insert_trades TRADE_CHUNK tbl0 s" "\<not> in_senders s" "in_phase s = Selecting"
    "deliveries_agree trade_sql_key trade_content (in_sent s)"
    "task_run batch_insert_trades TRADE_CHUNK n s t" "in_phase t = Finished" "r \<in> set (in_sent s)"
  shows "trade_sql_key r \<in> trade_sql_key ` set (in_buffer t) \<or>
    shown trade_set (in_db t) (trade_sql_key r) = Some (trade_content r)"
proof -
  have run: "task_run batch_insert_trades TRADE_CHUNK n s t \<Longrightarrow>
      inserter_reachable batch_insert_trades TRADE_CHUNK tbl0 s \<Longrightarrow>
      inserter_reachable batch_insert_trades TRADE_CHUNK tbl0 t \<and> in_sent t = in_sent s" for n s t
  proof (induction rule: task_run.induct)
    case (run_step outcome s t n u)
    then show ?case
      using task_step_effect(1) [OF run_step(1)] inserter_reachable.task [OF run_step(4,1)] by simp
  qed simp
  have t: "inserter_reachable batch_insert_trades TRADE_CHUNK tbl0 t" "in_sent t = in_sent s"
    using run [OF assms(5,1)] by simp_all
  have "in_channel t = []" using task_run_channel [OF assms(5,2)] assms(3,6) by simp
  then show ?thesis
    using amm_store.agreed_exists [OF assms(4)] amm_store.no_record_lost [OF t(1), of _ r] assms(7) t(2)
    by fastforce
qed

theorem orderly_shutdown_delivers_witness:
  "\<exists>t :: (trade_record, sql_table) inserter. in_phase t = Finished \<and>
     (trade_sql_key demo_trade \<in> trade_sql_key ` set (in_buffer t) \<or>
      shown trade_set (in_db t) (trade_sql_key demo_trade) = Some (trade_content demo_trade))"
proof -
  obtain tbl where tbl: "batch_insert_trades [demo_trade] Map.empty = Some (Some tbl)" by (rule demo_insert)
  let ?s = "(demo_delivered tbl)\<lparr>in_senders := False\<rparr>"
  have step: "world_step (demo_delivered tbl) ?s"
    by (rule world_step.drop_senders) (simp add: demo_delivered_def inserter_init_def)
  have reach: "inserter_reachable batch_insert_trades TRADE_CHUNK Map.empty ?s"
    using demo_run [OF tbl] step by (rule inserter_reachable.world)
  let ?d = "?s\<lparr>in_phase := Draining\<rparr>" and ?f = "?s\<lparr>in_phase := Flushing\<rparr>" and ?e = "?s\<lparr>in_phase := Finished\<rparr>"
  have 1: "task_step batch_insert_trades TRADE_CHUNK (\<lambda>_. Db_Done) ?s ?d"
    by (rule task_step.closed) (simp_all add: demo_delivered_def inserter_init_def on_closed_def flush_nonempty_def)
  have "task_step batch_insert_trades TRADE_CHUNK (\<lambda>_. Db_Done) ?d (?d\<lparr>in_phase := Flushing\<rparr>)"
    by (rule task_step.drained) (simp_all add: demo_delivered_def inserter_init_def)
  then have 2: "task_step batch_insert_trades TRADE_CHUNK (\<lambda>_. Db_Done) ?d ?f" by simp
  have "task_step batch_insert_trades TRADE_CHUNK (\<lambda>_. Db_Done) ?f (?f\<lparr>in_phase := Finished\<rparr>)"
    by (rule task_step.finish) (simp_all add: demo_delivered_def inserter_init_def flush_nonempty_def)
  then have 3: "task_step batch_insert_trades TRADE_CHUNK (\<lambda>_. Db_Done) ?f ?e" by simp
  have run: "task_run batch_insert_trades TRADE_CHUNK 3 ?s ?e"
    unfolding numeral_3_eq_3 by (intro task_run.run_step [OF 1] task_run.run_step [OF 2] task_run.run_step [OF 3]
      task_run.run_refl)
  have "\<not> in_senders ?s" "in_phase ?s = Selecting" "in_phase ?e = Finished"
    "deliveries_agree trade_sql_key trade_content (in_sent ?s)" "demo_trade \<in> set (in_sent ?s)"
    by (simp_all add: demo_delivered_def inserter_init_def deliveries_agree_def)
  with orderly_shutdown_delivers [OF reach _ _ _ run, of demo_trade] show ?thesis by blast
qed

section \<open>Retries\<close>

text \<open>A retry can overtake: when the first of two chunks fails, the second is written first, and the first
  overwrites it at the next flush. For one key the older delivery then wins, which is harmless only
  because deliveries of a key agree.\<close>

theorem retry_writes_older_chunk_last:
  assumes "length c1 = TRADE_CHUNK" "c2 \<noteq> []" "length c2 \<le> TRADE_CHUNK"
  shows "\<exists>tbl1 tbl2. batch_insert_trades c2 tbl = Some (Some tbl1) \<and> batch_insert_trades c1 tbl1 = Some (Some tbl2) \<and>
    flush_buffer batch_insert_trades TRADE_CHUNK (\<lambda>i. if i = 0 then Db_Failed else Db_Done) (c1 @ c2) tbl = Some (c1, tbl1) \<and>
    flush_buffer batch_insert_trades TRADE_CHUNK (\<lambda>_. Db_Done) c1 tbl1 = Some ([], tbl2)"
proof -
  have pos: "0 < TRADE_CHUNK" by (simp add: TRADE_CHUNK_def)
  have one: "chunks TRADE_CHUNK c = [c]" if "c \<noteq> []" "length c \<le> TRADE_CHUNK" for c :: "trade_record list"
    using that pos by (simp add: chunks.simps [of TRADE_CHUNK c] chunks.simps [of TRADE_CHUNK "[]"])
  have two: "chunks TRADE_CHUNK (c1 @ c2) = [c1, c2]"
    using assms pos one [of c2] by (subst chunks.simps) auto
  obtain tbl1 where 1: "batch_insert_trades c2 tbl = Some (Some tbl1)"
    using amm_store.insert_view [OF assms(3), of tbl] by blast
  obtain tbl2 where 2: "batch_insert_trades c1 tbl1 = Some (Some tbl2)"
    using amm_store.insert_view [of c1 tbl1] assms(1) by auto
  obtain tbl' where 3: "batch_insert_trades c1 tbl = Some (Some tbl')"
    using amm_store.insert_view [of c1 tbl] assms(1) by auto
  have "c1 \<noteq> []" using assms(1) pos by auto
  with one [of c1] assms(1) have "chunks TRADE_CHUNK c1 = [c1]" by simp
  with 1 2 3 two assms(1) show ?thesis
    by (intro exI [of _ tbl1] exI [of _ tbl2] conjI) (simp_all add: flush_buffer_def attempt_insert_def Let_def)
qed

theorem retry_writes_older_chunk_last_witness:
  "\<exists>tbl1. flush_buffer batch_insert_trades TRADE_CHUNK (\<lambda>i. if i = 0 then Db_Failed else Db_Done)
     (replicate 500 demo_trade @ [demo_trade_again]) Map.empty = Some (replicate 500 demo_trade, tbl1)"
  using retry_writes_older_chunk_last [of "replicate 500 demo_trade" "[demo_trade_again]" Map.empty]
  by (auto simp: TRADE_CHUNK_def)

end
