(* ===== verification/Mints.thy ===== *)
theory Mints
  imports CpmmHandler
begin

text \<open>
  The mints the handlers look up (\<open>src/src/database/whitelist.rs\<close> and \<open>src/src/database/alt_mints.rs\<close>):
  how they are loaded, and how a background task refreshes the shared set and the shared map while
  handlers read them. A refresh is the sequence of the operations it performs on the concurrent map; a
  handler may read the map after any prefix of it. The tables are the parameter: a nullable column is an
  \<open>option\<close>, and \<open>Row::get\<close> at a type without NULL panics on one.
\<close>

section \<open>A concurrent map\<close>

datatype ('k, 'v) map_op = Clear | Put 'k 'v | Remove 'k

fun apply_op :: "('k \<Rightarrow> 'v option) \<Rightarrow> ('k, 'v) map_op \<Rightarrow> 'k \<Rightarrow> 'v option" where
  "apply_op m Clear = Map.empty"
| "apply_op m (Put k v) = m(k \<mapsto> v)"
| "apply_op m (Remove k) = m(k := None)"

definition apply_ops :: "('k \<Rightarrow> 'v option) \<Rightarrow> ('k, 'v) map_op list \<Rightarrow> 'k \<Rightarrow> 'v option" where
  "apply_ops m ops = foldl apply_op m ops"

text \<open>The map after the first \<open>n\<close> operations: what a concurrent reader may see.\<close>
definition seen_after :: "nat \<Rightarrow> ('k \<Rightarrow> 'v option) \<Rightarrow> ('k, 'v) map_op list \<Rightarrow> 'k \<Rightarrow> 'v option" where
  "seen_after n m ops = apply_ops m (take n ops)"

section \<open>The whitelist\<close>

record all_mints_row =
  wm_token_address :: "string option"
  wm_whitelisted :: "bool option"

definition whitelist_query :: "all_mints_row list \<Rightarrow> string option list" where
  "whitelist_query rows = map wm_token_address (filter (\<lambda>r. wm_whitelisted r = Some True) rows)"

text \<open>\<open>load_whitelist\<close>: the rows of the query; the empty set is filled before it is shared.\<close>
definition load_whitelist :: "all_mints_row list \<Rightarrow> string set may_panic" where
  "load_whitelist rows = do {
     tokens \<leftarrow> map_may_panic (\<lambda>token. token) (whitelist_query rows);
     Some (foldl (\<lambda>s t. insert t s) {} tokens) }"

text \<open>\<open>refresh_whitelist\<close> after the query returned: the operations on the shared set, up to a NULL, which
  ends the task.\<close>
definition whitelist_ops :: "all_mints_row list \<Rightarrow> (string, unit) map_op list" where
  "whitelist_ops rows =
     Clear # List.map_filter (map_option (\<lambda>t. Put t ())) (takeWhile (\<lambda>t. t \<noteq> None) (whitelist_query rows))"

text \<open>One refresh: \<open>None\<close> is a query that failed, which leaves the set alone.\<close>
definition refresh_whitelist ::
  "all_mints_row list option \<Rightarrow> (string \<Rightarrow> unit option) \<Rightarrow> (string \<Rightarrow> unit option)" where
  "refresh_whitelist query whitelist =
     (case query of None \<Rightarrow> whitelist | Some rows \<Rightarrow> apply_ops whitelist (whitelist_ops rows))"

text \<open>A NULL address, which ends the task.\<close>
definition refresh_panics :: "all_mints_row list option \<Rightarrow> bool" where
  "refresh_panics query = (case query of None \<Rightarrow> False | Some rows \<Rightarrow> None \<in> set (whitelist_query rows))"

text \<open>The loop of \<open>spawn_whitelist_refresh\<close>: the flag is read before the wait for the tick, so each pass that
  saw it up refreshes once, even when it falls during the wait.\<close>
primrec whitelist_refresh_loop ::
  "(bool \<times> all_mints_row list option) list \<Rightarrow> (string \<Rightarrow> unit option) \<Rightarrow> (string \<Rightarrow> unit option)" where
  "whitelist_refresh_loop [] whitelist = whitelist"
| "whitelist_refresh_loop (pass # passes) whitelist =
     (let (running, query) = pass in
      if running then
        (let whitelist = refresh_whitelist query whitelist
         in if refresh_panics query then whitelist else whitelist_refresh_loop passes whitelist)
      else whitelist)"

section \<open>The tracked launches\<close>

record alt_mints_row =
  am_token_address :: "string option"
  am_quote_mint :: "string option"
  am_total_supply :: "i64 option"
  am_base_decimals :: "i16 option"
  am_quote_decimals :: "i16 option"
  am_cpmm_pool :: "string option"
  am_whitelisted :: "bool option"
  am_blacklisted :: "bool option"
  am_migrated :: "bool option"

datatype alt_mint_scope = Whitelisted | Migrated

text \<open>The \<open>WHERE\<close> clause: a comparison with NULL is not true.\<close>
definition scope_predicate :: "alt_mint_scope \<Rightarrow> alt_mints_row \<Rightarrow> bool" where
  "scope_predicate scope r =
     (case scope of
        Whitelisted \<Rightarrow> am_whitelisted r = Some True \<and> am_blacklisted r = Some False
      | Migrated \<Rightarrow> am_migrated r = Some True)"

text \<open>\<open>u64::try_from(total_supply).unwrap_or(0)\<close>\<close>
definition supply_of_i64 :: "i64 \<Rightarrow> u64" where
  "supply_of_i64 v = (if 0 \<le> sint v then v else 0)"

definition alt_mint_of_row :: "alt_mints_row \<Rightarrow> (string \<times> alt_mint_info) may_panic" where
  "alt_mint_of_row r = do {
     total_supply \<leftarrow> am_total_supply r;
     token_address \<leftarrow> am_token_address r;
     quote_mint \<leftarrow> am_quote_mint r;
     base_decimals \<leftarrow> am_base_decimals r;
     Some (token_address,
       \<lparr>mi_quote_mint = quote_mint, mi_total_supply = supply_of_i64 total_supply,
        mi_base_decimals = base_decimals, mi_quote_decimals = am_quote_decimals r,
        mi_cpmm_pool = am_cpmm_pool r\<rparr>) }"

text \<open>\<open>fetch\<close>\<close>
definition fetch_alt_mints :: "alt_mint_scope \<Rightarrow> alt_mints_row list \<Rightarrow> (string \<times> alt_mint_info) list may_panic" where
  "fetch_alt_mints scope rows = map_may_panic alt_mint_of_row (filter (scope_predicate scope) rows)"

definition load_alt_mints :: "alt_mint_scope \<Rightarrow> alt_mints_row list \<Rightarrow> alt_mint_map may_panic" where
  "load_alt_mints scope rows = do {
     fresh \<leftarrow> fetch_alt_mints scope rows;
     Some (foldl (\<lambda>m (mint, info). m(mint \<mapsto> info)) Map.empty fresh) }"

text \<open>\<open>refresh_alt_mints\<close> after the query returned: \<open>retain\<close> removes the keys that left the scope, in the
  order in which it meets the keys of the map, then the rows are inserted.\<close>
definition alt_mints_ops ::
  "(string \<times> alt_mint_info) list \<Rightarrow> string list \<Rightarrow> (string, alt_mint_info) map_op list" where
  "alt_mints_ops fresh map_keys =
     map Remove (filter (\<lambda>mint. mint \<notin> set (map fst fresh)) map_keys) @
     map (\<lambda>(mint, info). Put mint info) fresh"

definition refresh_alt_mints ::
  "alt_mint_scope \<Rightarrow> alt_mints_row list option \<Rightarrow> string list \<Rightarrow> alt_mint_map \<Rightarrow> alt_mint_map may_panic" where
  "refresh_alt_mints scope query map_keys m =
     (case query of
        None \<Rightarrow> Some m
      | Some rows \<Rightarrow> do {
          fresh \<leftarrow> fetch_alt_mints scope rows;
          Some (apply_ops m (alt_mints_ops fresh map_keys)) })"

text \<open>The loop of \<open>spawn_alt_mints_refresh\<close>.\<close>
primrec alt_mints_refresh_loop ::
  "alt_mint_scope \<Rightarrow> (bool \<times> alt_mints_row list option \<times> string list) list \<Rightarrow> alt_mint_map \<Rightarrow> alt_mint_map may_panic" where
  "alt_mints_refresh_loop scope [] m = Some m"
| "alt_mints_refresh_loop scope (pass # passes) m =
     (let (running, query, map_keys) = pass in
      if running then do {
        m \<leftarrow> refresh_alt_mints scope query map_keys m;
        alt_mints_refresh_loop scope passes m }
      else Some m)"

section \<open>Operations\<close>

lemma apply_ops_simps [simp]:
  "apply_ops m [] = m" "apply_ops m (x # xs) = apply_ops (apply_op m x) xs"
  "apply_ops m (xs @ ys) = apply_ops (apply_ops m xs) ys"
  by (simp_all add: apply_ops_def)

text \<open>A refresh without a clear: each key keeps its old value, or takes a value that the refresh puts.\<close>

lemma apply_puts:
  "apply_ops m (map (\<lambda>(k, v). Put k v) kvs) k = (case map_of (rev kvs) k of None \<Rightarrow> m k | Some v \<Rightarrow> Some v)"
  by (induction kvs rule: rev_induct) (auto simp: fun_upd_def)

lemma apply_removes: "apply_ops m (map Remove ks) k = (if k \<in> set ks then None else m k)"
  by (induction ks arbitrary: m) auto

lemma map_of_rev_in: "map_of (rev kvs) k = Some v \<Longrightarrow> (k, v) \<in> set kvs"
  by (drule map_of_SomeD) simp

section \<open>Properties\<close>

lemma whitelist_after:
  "apply_ops m (map (\<lambda>t. Put t ()) ts) k = (if k \<in> set ts then Some () else m k)"
  by (induction ts arbitrary: m) auto

lemma whitelist_ops_total:
  assumes "list_all (\<lambda>r. wm_token_address r \<noteq> None) rows"
  shows "whitelist_ops rows = Clear # map (\<lambda>t. Put t ()) (map the (whitelist_query rows))"
proof -
  have all: "\<forall>t\<in>set (whitelist_query rows). t \<noteq> None"
    using assms by (auto simp: whitelist_query_def list_all_iff)
  then have tw: "takeWhile (\<lambda>t. t \<noteq> None) (whitelist_query rows) = whitelist_query rows"
    by (simp only: takeWhile_eq_all_conv)
  have mf: "List.map_filter (map_option (\<lambda>t. Put t ())) ts = map (\<lambda>t. Put t ()) (map the ts)"
    if "\<forall>t\<in>set ts. t \<noteq> None" for ts :: "string option list"
    using that by (induction ts) (auto simp: List.map_filter_simps)
  show ?thesis unfolding whitelist_ops_def tw mf [OF all] by simp
qed

text \<open>A refresh ends with exactly the whitelisted mints of the table, whatever the set held before; a
  failed query leaves the set as it was.\<close>

theorem refresh_whitelist_result:
  assumes "list_all (\<lambda>r. wm_token_address r \<noteq> None) rows"
  shows "(refresh_whitelist (Some rows) whitelist mint \<noteq> None \<longleftrightarrow>
      list_ex (\<lambda>r. wm_token_address r = Some mint \<and> wm_whitelisted r = Some True) rows) \<and>
    refresh_whitelist None whitelist = whitelist"
proof -
  have "mint \<in> set (map the (whitelist_query rows)) \<longleftrightarrow>
      list_ex (\<lambda>r. wm_token_address r = Some mint \<and> wm_whitelisted r = Some True) rows"
    using assms by (force simp: whitelist_query_def list_ex_iff list_all_iff)
  then show ?thesis
    by (simp add: refresh_whitelist_def whitelist_ops_total [OF assms] whitelist_after del: map_map)
qed

definition demo_mint_row :: all_mints_row where
  "demo_mint_row = \<lparr>wm_token_address = Some ''mint'', wm_whitelisted = Some True\<rparr>"

theorem refresh_whitelist_result_witness:
  "refresh_whitelist (Some [demo_mint_row]) Map.empty ''mint'' \<noteq> None"
  using refresh_whitelist_result [of "[demo_mint_row]" Map.empty "''mint''"] by (simp add: demo_mint_row_def)

text \<open>The set is empty in the middle of every refresh: after the first operation a reader sees no mint.\<close>

lemma whitelist_refresh_gap: "seen_after 1 whitelist (whitelist_ops rows) = Map.empty"
  by (simp add: seen_after_def whitelist_ops_def)

lemma fetch_keys_values:
  "fetch_alt_mints scope rows = Some fresh \<Longrightarrow> (mint, info) \<in> set fresh \<Longrightarrow>
   \<exists>r\<in>set rows. scope_predicate scope r \<and> alt_mint_of_row r = Some (mint, info)"
proof -
  have "map_may_panic alt_mint_of_row rs = Some fresh \<Longrightarrow> (mint, info) \<in> set fresh \<Longrightarrow>
      \<exists>r\<in>set rs. alt_mint_of_row r = Some (mint, info)" for rs
    by (induction rs arbitrary: fresh) (auto simp: bind_eq_Some_conv)
  then show "fetch_alt_mints scope rows = Some fresh \<Longrightarrow> (mint, info) \<in> set fresh \<Longrightarrow> ?thesis"
    by (fastforce simp: fetch_alt_mints_def)
qed

text \<open>C26. A launch that is tracked before and after a refresh is tracked at every moment of it: a reader sees
  either its old data or data of a fetched row, never its absence. A launch that is in neither is never
  seen.\<close>

theorem alt_mints_refresh_no_gap:
  assumes "set map_keys = dom m"
  shows "(m mint \<noteq> None \<and> mint \<in> fst ` set fresh \<longrightarrow>
      (\<exists>info. seen_after n m (alt_mints_ops fresh map_keys) mint = Some info \<and>
        (m mint = Some info \<or> (mint, info) \<in> set fresh))) \<and>
    (m mint = None \<and> mint \<notin> fst ` set fresh \<longrightarrow> seen_after n m (alt_mints_ops fresh map_keys) mint = None)"
proof -
  let ?gone = "filter (\<lambda>mint. mint \<notin> set (map fst fresh)) map_keys"
  let ?j = "n - length ?gone"
  have "seen_after n m (alt_mints_ops fresh map_keys) mint =
      apply_ops (apply_ops m (map Remove (take n ?gone))) (map (\<lambda>(mint, info). Put mint info) (take ?j fresh)) mint"
    by (simp add: seen_after_def alt_mints_ops_def take_map)
  also have "\<dots> = (case map_of (rev (take ?j fresh)) mint of
      None \<Rightarrow> if mint \<in> set (take n ?gone) then None else m mint | Some info \<Rightarrow> Some info)"
    by (simp only: apply_puts apply_removes)
  finally have seen: "seen_after n m (alt_mints_ops fresh map_keys) mint = \<dots>" .
  show ?thesis
  proof (cases "map_of (rev (take ?j fresh)) mint")
    case None
    moreover have "mint \<notin> set (take n ?gone)" if "mint \<in> fst ` set fresh"
    proof -
      from that have "mint \<notin> set ?gone" by simp
      then show ?thesis by (blast dest: in_set_takeD)
    qed
    ultimately show ?thesis using seen by auto
  next
    case (Some info)
    then have "(mint, info) \<in> set fresh" using map_of_rev_in in_set_takeD by metis
    with Some seen show ?thesis by force
  qed
qed

definition demo_mint_info :: alt_mint_info where
  "demo_mint_info = \<lparr>mi_quote_mint = ''quote'', mi_total_supply = 1000, mi_base_decimals = 6,
     mi_quote_decimals = None, mi_cpmm_pool = None\<rparr>"

theorem alt_mints_refresh_no_gap_witness:
  "\<exists>info. seen_after 1 [''a'' \<mapsto> demo_mint_info, ''b'' \<mapsto> demo_mint_info]
     (alt_mints_ops [(''a'', demo_mint_info\<lparr>mi_cpmm_pool := Some ''pool''\<rparr>)] [''a'', ''b'']) ''a'' = Some info"
proof -
  have d: "set [''a'', ''b''] = dom [''a'' \<mapsto> demo_mint_info, ''b'' \<mapsto> demo_mint_info]" by auto
  have "''a'' \<in> fst ` set [(''a'', demo_mint_info\<lparr>mi_cpmm_pool := Some ''pool''\<rparr>)]" by simp
  moreover have "[''a'' \<mapsto> demo_mint_info, ''b'' \<mapsto> demo_mint_info] ''a'' \<noteq> None" by simp
  ultimately show ?thesis
    using alt_mints_refresh_no_gap [OF d, of "''a''" "[(''a'', demo_mint_info\<lparr>mi_cpmm_pool := Some ''pool''\<rparr>)]" 1]
    by blast
qed

text \<open>The map after a whole refresh, and after a load: the rows of the scope, the last one for each mint.\<close>

lemma fold_put: "foldl (\<lambda>m (mint, info). m(mint \<mapsto> info)) m kvs mint =
    (case map_of (rev kvs) mint of None \<Rightarrow> m mint | Some info \<Rightarrow> Some info)"
  by (induction kvs rule: rev_induct) (auto simp: fun_upd_def)

lemma refresh_result:
  assumes "set map_keys = dom m"
  shows "apply_ops m (alt_mints_ops fresh map_keys) = map_of (rev fresh)"
proof
  fix mint
  have "apply_ops m (alt_mints_ops fresh map_keys) mint = (case map_of (rev fresh) mint of
      None \<Rightarrow> if mint \<in> set (filter (\<lambda>mint. mint \<notin> set (map fst fresh)) map_keys) then None else m mint
    | Some info \<Rightarrow> Some info)"
    unfolding alt_mints_ops_def apply_ops_simps by (simp only: apply_puts apply_removes)
  moreover have "map_of (rev fresh) mint = None \<longleftrightarrow> mint \<notin> fst ` set fresh"
    by (simp add: map_of_eq_None_iff)
  moreover have "m mint = None" if "mint \<notin> set map_keys" using that assms by auto
  ultimately show "apply_ops m (alt_mints_ops fresh map_keys) mint = map_of (rev fresh) mint"
    by (auto split: option.split)
qed

text \<open>A refresh of the tracked launches ends where loading them afresh would: the same rows, the same panic
  on a NULL that the code cannot read, and nothing left of the map it started from. A failed query leaves
  the map alone.\<close>

theorem refresh_alt_mints_is_load:
  assumes "set map_keys = dom m"
  shows "refresh_alt_mints scope (Some rows) map_keys m = load_alt_mints scope rows \<and>
    refresh_alt_mints scope None map_keys m = Some m"
proof -
  have "foldl (\<lambda>m (mint, info). m(mint \<mapsto> info)) Map.empty fresh = map_of (rev fresh)" for fresh :: "(string \<times> alt_mint_info) list"
    by (rule ext) (simp add: fold_put split: option.split)
  then show ?thesis
    by (simp add: refresh_alt_mints_def load_alt_mints_def refresh_result [OF assms])
qed

theorem refresh_alt_mints_is_load_witness:
  "refresh_alt_mints Whitelisted (Some []) [''a''] [''a'' \<mapsto> demo_mint_info] = load_alt_mints Whitelisted []"
  using refresh_alt_mints_is_load [of "[''a'']" "[''a'' \<mapsto> demo_mint_info]" Whitelisted "[]"] by simp

end
