(* ===== verification/Grpc.thy ===== *)
theory Grpc
  imports Wire Decimal
begin

text \<open>
  The stream (\<open>src/src/grpc/connection.rs\<close>): the subscription, one connection from the channel to the end
  of its stream, and the loop that reconnects. The provider and the transport are parameters: whether a
  connection comes up, and the items its stream yields before it closes. The handler is a parameter too;
  \<open>Supervisor\<close> puts the two handlers of the program in its place.
\<close>

section \<open>The subscription\<close>

record tx_filter =
  sf_vote :: "bool option"
  sf_failed :: "bool option"
  sf_signature :: "string option"
  sf_account_include :: "string list"
  sf_account_exclude :: "string list"
  sf_account_required :: "string list"

datatype commitment_level = Processed | Confirmed | Finalized

record subscribe_request =
  sr_transactions :: "string \<Rightarrow> tx_filter option"
  sr_commitment :: "commitment_level option"
  sr_from_slot :: "u64 option"

text \<open>The request that \<open>init_grpc_connection\<close> builds.\<close>
definition init_request :: "u64 option \<Rightarrow> subscribe_request" where
  "init_request from_slot =
     (let filters = [''amm_filter'' \<mapsto>
            \<lparr>sf_vote = Some False, sf_failed = None, sf_signature = None,
             sf_account_include = [PUMP_SWAP_PROGRAM_ID, RAYDIUM_CPMM_PROGRAM_ID],
             sf_account_exclude = [], sf_account_required = []\<rparr>]
      in \<lparr>sr_transactions = filters, sr_commitment = Some Finalized, sr_from_slot = from_slot\<rparr>)"

section \<open>Authentication\<close>

datatype grpc_interceptor = Noop | Token string

text \<open>\<open>GRPC_TOKEN\<close> and the parser of metadata values are parameters.\<close>
definition interceptor_from_env :: "(string \<Rightarrow> string option) \<Rightarrow> string option \<Rightarrow> grpc_interceptor" where
  "interceptor_from_env parse_metadata token_var =
     (case token_var of
        Some token \<Rightarrow>
          (case parse_metadata token of
             Some v \<Rightarrow> Token v
           | None \<Rightarrow> Noop)
      | None \<Rightarrow> Noop)"

definition interceptor_call :: "grpc_interceptor \<Rightarrow> (string \<Rightarrow> string option) \<Rightarrow> (string \<Rightarrow> string option)" where
  "interceptor_call i metadata = (case i of Token token \<Rightarrow> metadata(''x-token'' \<mapsto> token) | Noop \<Rightarrow> metadata)"

section \<open>One stream\<close>

text \<open>The status codes of gRPC.\<close>
datatype grpc_code =
    Code_Ok | Cancelled | Unknown | InvalidArgument | DeadlineExceeded | NotFound | AlreadyExists
  | PermissionDenied | ResourceExhausted | FailedPrecondition | Aborted | OutOfRange | Unimplemented
  | Internal | Unavailable | DataLoss | Unauthenticated

text \<open>\<open>UpdateOneof\<close>: a transaction update with its slot, or one of the other updates.\<close>
datatype update_oneof = Transaction "tx_info option" u64 | Other_Update

type_synonym stream_item = "grpc_code + update_oneof option"

text \<open>A handler: its result and its effect on the state of the program.\<close>
type_synonym ('e, 's) tx_handler = "tx_info \<Rightarrow> u64 \<Rightarrow> 's \<Rightarrow> (('e + unit) \<times> 's) may_panic"

record stream_end =
  se_last_processed_slot :: "u64 option"
  se_replay_unavailable :: bool

text \<open>The body of the loop for a message.\<close>
definition process_message ::
  "('e, 's) tx_handler \<Rightarrow> update_oneof option \<Rightarrow> u64 option \<Rightarrow> 's \<Rightarrow> (u64 option \<times> 's) may_panic" where
  "process_message handler msg last_processed_slot s =
     (case msg of
        Some (Transaction (Some transaction_info) slot) \<Rightarrow> do {
          (result, s) \<leftarrow> handler transaction_info slot s;
          Some (case result of
                  Inr _ \<Rightarrow> (Some (case last_processed_slot of None \<Rightarrow> slot | Some previous \<Rightarrow> max previous slot), s)
                | Inl err \<Rightarrow> (last_processed_slot, s)) }
      | _ \<Rightarrow> Some (last_processed_slot, s))"

primrec stream_loop ::
  "('e, 's) tx_handler \<Rightarrow> stream_item list \<Rightarrow> u64 option \<Rightarrow> 's \<Rightarrow> (stream_end \<times> 's) may_panic" where
  "stream_loop handler [] last_processed_slot s =
     Some (\<lparr>se_last_processed_slot = last_processed_slot, se_replay_unavailable = False\<rparr>, s)"
| "stream_loop handler (message # stream) last_processed_slot s =
     (case message of
        Inr msg \<Rightarrow> do {
          (last_processed_slot, s) \<leftarrow> process_message handler msg last_processed_slot s;
          stream_loop handler stream last_processed_slot s }
      | Inl code \<Rightarrow>
          Some (\<lparr>se_last_processed_slot = last_processed_slot, se_replay_unavailable = (code = OutOfRange)\<rparr>, s))"

definition process_stream :: "('e, 's) tx_handler \<Rightarrow> stream_item list \<Rightarrow> 's \<Rightarrow> (stream_end \<times> 's) may_panic" where
  "process_stream handler stream s = stream_loop handler stream None s"

section \<open>One connection\<close>

datatype connect_error = Bad_Endpoint | Bad_Tls | No_Connection | Subscribe_Failed grpc_code

text \<open>What the outside does for one attempt; \<open>at_subscribe\<close> depends on the slot the request asks for.\<close>
record attempt =
  at_endpoint_ok :: bool
  at_tls_ok :: bool
  at_connected :: bool
  at_subscribe :: "subscribe_request \<Rightarrow> grpc_code + stream_item list"

definition starts_with :: "string \<Rightarrow> string \<Rightarrow> bool" where
  "starts_with s prefix = (take (length prefix) s = prefix)"

definition setup_and_process_stream ::
  "attempt \<Rightarrow> string \<Rightarrow> subscribe_request \<Rightarrow> ('e, 's) tx_handler \<Rightarrow> 's \<Rightarrow>
   ((connect_error + stream_end) \<times> 's) may_panic" where
  "setup_and_process_stream w endpoint request handler s =
     (if \<not> at_endpoint_ok w then Some (Inl Bad_Endpoint, s)
      else if starts_with endpoint ''https://'' \<and> \<not> at_tls_ok w then Some (Inl Bad_Tls, s)
      else if \<not> at_connected w then Some (Inl No_Connection, s)
      else (case at_subscribe w request of
              Inl code \<Rightarrow> Some (Inl (Subscribe_Failed code), s)
            | Inr stream \<Rightarrow> do {
                (ended, s) \<leftarrow> process_stream handler stream s;
                Some (Inr ended, s) }))"

section \<open>Reconnecting\<close>

definition MAX_RECONNECT_ATTEMPTS :: u32 where
  "MAX_RECONNECT_ATTEMPTS = 10"

definition INITIAL_BACKOFF_SECS :: u64 where
  "INITIAL_BACKOFF_SECS = 1"

definition MAX_BACKOFF_SECS :: u64 where
  "MAX_BACKOFF_SECS = 60"

record connection =
  co_request :: subscribe_request
  co_attempt_count :: u32
  co_backoff_secs :: u64

definition connection_init :: "subscribe_request \<Rightarrow> connection" where
  "connection_init request =
     \<lparr>co_request = request, co_attempt_count = 0, co_backoff_secs = INITIAL_BACKOFF_SECS\<rparr>"

text \<open>The two arms of the \<open>match\<close> on the result of a connection.\<close>

definition on_stream_end :: "stream_end \<Rightarrow> connection \<Rightarrow> connection" where
  "on_stream_end ended c =
     (let request = (if se_replay_unavailable ended then (co_request c)\<lparr>sr_from_slot := None\<rparr>
                     else (case se_last_processed_slot ended of
                             Some slot \<Rightarrow> (co_request c)\<lparr>sr_from_slot := Some slot\<rparr>
                           | None \<Rightarrow> co_request c))
      in c\<lparr>co_request := request, co_attempt_count := 0, co_backoff_secs := INITIAL_BACKOFF_SECS\<rparr>)"

definition on_connect_error :: "connection \<Rightarrow> connection" where
  "on_connect_error c =
     (let attempt_count = co_attempt_count c + 1
      in if MAX_RECONNECT_ATTEMPTS \<le> attempt_count
         then c\<lparr>co_attempt_count := 0, co_backoff_secs := MAX_BACKOFF_SECS\<rparr>
         else c\<lparr>co_attempt_count := attempt_count\<rparr>)"

definition after_connection :: "connect_error + stream_end \<Rightarrow> connection \<Rightarrow> connection" where
  "after_connection result c = (case result of Inr ended \<Rightarrow> on_stream_end ended c | Inl _ \<Rightarrow> on_connect_error c)"

text \<open>The sleep of one pass, in seconds, and the doubling after it.\<close>
definition back_off :: "connection \<Rightarrow> u64 \<times> connection" where
  "back_off c = (co_backoff_secs c, c\<lparr>co_backoff_secs := min (co_backoff_secs c * 2) MAX_BACKOFF_SECS\<rparr>)"

text \<open>The loop never returns; it is followed over as many attempts as are given. The sleeps it takes are
  collected.\<close>
primrec manage_connection ::
  "string \<Rightarrow> ('e, 's) tx_handler \<Rightarrow> attempt list \<Rightarrow> connection \<Rightarrow> 's \<Rightarrow> (u64 list \<times> connection \<times> 's) may_panic" where
  "manage_connection endpoint handler [] c s = Some ([], c, s)"
| "manage_connection endpoint handler (w # ws) c s = do {
     (result, s) \<leftarrow> setup_and_process_stream w endpoint (co_request c) handler s;
     let (sleep, c) = back_off (after_connection result c);
     (sleeps, c, s) \<leftarrow> manage_connection endpoint handler ws c s;
     Some (sleep # sleeps, c, s) }"

definition manage_connection_with_retry ::
  "string \<Rightarrow> subscribe_request \<Rightarrow> ('e, 's) tx_handler \<Rightarrow> attempt list \<Rightarrow> 's \<Rightarrow> (u64 list \<times> connection \<times> 's) may_panic" where
  "manage_connection_with_retry endpoint request handler ws s =
     manage_connection endpoint handler ws (connection_init request) s"

text \<open>\<open>init_grpc_connection\<close>; without \<open>GRPC_ENDPOINT\<close> it panics.\<close>
definition init_grpc_connection ::
  "string option \<Rightarrow> ('e, 's) tx_handler \<Rightarrow> u64 option \<Rightarrow> attempt list \<Rightarrow> 's \<Rightarrow> (u64 list \<times> connection \<times> 's) may_panic" where
  "init_grpc_connection endpoint_var handler from_slot ws s = do {
     endpoint \<leftarrow> endpoint_var;
     manage_connection_with_retry endpoint (init_request from_slot) handler ws s }"

section \<open>Sleeps\<close>

definition connection_ok :: "connection \<Rightarrow> bool" where
  "connection_ok c \<longleftrightarrow> unat (co_attempt_count c) < 10 \<and> 1 \<le> unat (co_backoff_secs c) \<and> unat (co_backoff_secs c) \<le> 60"

lemma connection_ok_init: "connection_ok (connection_init request)"
  by (simp add: connection_ok_def connection_init_def INITIAL_BACKOFF_SECS_def)

lemma on_stream_end_fields [simp]:
  "co_attempt_count (on_stream_end ended c) = 0" "co_backoff_secs (on_stream_end ended c) = 1"
  by (simp_all add: on_stream_end_def INITIAL_BACKOFF_SECS_def)

lemma unat_attempt_Suc: "unat (co_attempt_count c) < 10 \<Longrightarrow> unat (co_attempt_count c + 1) = Suc (unat (co_attempt_count c))"
  by (simp add: unat_word_ariths)

lemma on_connect_error_fields:
  assumes "unat (co_attempt_count c) < 10"
  shows "unat (co_attempt_count (on_connect_error c)) =
      (if unat (co_attempt_count c) = 9 then 0 else Suc (unat (co_attempt_count c)))"
    "co_backoff_secs (on_connect_error c) = (if unat (co_attempt_count c) = 9 then 60 else co_backoff_secs c)"
    "co_request (on_connect_error c) = co_request c"
  using assms
  by (auto simp: on_connect_error_def Let_def MAX_RECONNECT_ATTEMPTS_def MAX_BACKOFF_SECS_def word_le_nat_alt
                 unat_attempt_Suc)

lemma unat_doubled:
  assumes "unat (b :: u64) \<le> 60"
  shows "unat (min (b * 2) MAX_BACKOFF_SECS) = min (2 * unat b) 60"
proof -
  have "unat (b * 2) = unat b * unat (2 :: u64)"
    using assms by (subst unat_mult_lem [THEN iffD1]) auto
  then have "unat (b * 2) = 2 * unat b" by simp
  then show ?thesis by (auto simp: min_def word_le_nat_alt MAX_BACKOFF_SECS_def)
qed

lemma after_connection_ok: "connection_ok c \<Longrightarrow> connection_ok (after_connection result c)"
  using on_connect_error_fields [of c]
  by (cases result) (auto simp: after_connection_def connection_ok_def)

lemma back_off_ok:
  assumes "connection_ok c" "back_off c = (sleep, c')"
  shows "connection_ok c'" "1 \<le> unat sleep \<and> unat sleep \<le> 60"
  using assms unat_doubled [of "co_backoff_secs c"] by (auto simp: back_off_def connection_ok_def)

lemma manage_connection_ok:
  "manage_connection endpoint handler ws c s = Some (sleeps, c', s') \<Longrightarrow> connection_ok c \<Longrightarrow>
   connection_ok c' \<and> length sleeps = length ws \<and> list_all (\<lambda>w. 1 \<le> unat w \<and> unat w \<le> 60) sleeps"
proof (induction ws arbitrary: c s sleeps)
  case (Cons w ws)
  obtain result s1 where 1: "setup_and_process_stream w endpoint (co_request c) handler s = Some (result, s1)"
    using Cons.prems(1) by (auto simp: bind_eq_Some_conv)
  obtain sleep c1 where b: "back_off (after_connection result c) = (sleep, c1)" by fastforce
  from Cons.prems(1) 1 b obtain sleeps1 where
    2: "manage_connection endpoint handler ws c1 s1 = Some (sleeps1, c', s')" "sleeps = sleep # sleeps1"
    by (auto simp: bind_eq_Some_conv)
  have "connection_ok (after_connection result c)" using Cons.prems(2) by (rule after_connection_ok)
  from back_off_ok [OF this b] Cons.IH [OF 2(1)] 2(2) show ?case by simp
qed simp

text \<open>The collector never stops reconnecting and never busy-loops: each attempt is followed by a sleep of
  at least one and at most sixty seconds, whatever the attempts before it did.\<close>

theorem reconnect_sleeps_bounded:
  assumes "manage_connection_with_retry endpoint request handler ws s = Some (sleeps, c, s')"
  shows "length sleeps = length ws \<and> list_all (\<lambda>w. 1 \<le> unat w \<and> unat w \<le> 60) sleeps"
  using manage_connection_ok [of endpoint handler ws "connection_init request" s sleeps c s'] connection_ok_init assms
  by (simp add: manage_connection_with_retry_def)

definition demo_down :: attempt where
  "demo_down = \<lparr>at_endpoint_ok = True, at_tls_ok = True, at_connected = False, at_subscribe = (\<lambda>_. Inr [])\<rparr>"

definition demo_handler :: "(unit, nat) tx_handler" where
  "demo_handler info slot s = Some (Inr (), Suc s)"

theorem reconnect_sleeps_bounded_witness:
  "\<exists>sleeps. length sleeps = length [demo_down, demo_down] \<and> list_all (\<lambda>w. 1 \<le> unat w \<and> unat (w :: u64) \<le> 60) sleeps"
proof -
  obtain sleeps c where "manage_connection_with_retry ''https://host'' (init_request None) demo_handler
      [demo_down, demo_down] 0 = Some (sleeps, c, 0)"
    by (simp add: manage_connection_with_retry_def setup_and_process_stream_def demo_down_def
                  back_off_def after_connection_def Let_def)
  from reconnect_sleeps_bounded [OF this] show ?thesis by blast
qed






section \<open>The slot to resume from\<close>

text \<open>The slots of the transactions of a stream.\<close>
fun message_slot :: "update_oneof option \<Rightarrow> u64 option" where
  "message_slot (Some (Transaction (Some _) slot)) = Some slot"
| "message_slot _ = None"

lemma process_message_slot:
  assumes "process_message handler msg prev s = Some (prev1, s')"
  shows "prev1 = prev \<or> (\<exists>slot. message_slot msg = Some slot \<and>
    prev1 = Some (case prev of None \<Rightarrow> slot | Some previous \<Rightarrow> max previous slot))"
proof (cases "message_slot msg")
  case None
  with assms show ?thesis by (cases msg rule: message_slot.cases) (auto simp: process_message_def)
next
  case (Some slot)
  then obtain info where msg: "msg = Some (Transaction (Some info) slot)"
    by (cases msg rule: message_slot.cases) auto
  with assms obtain result s1 where "handler info slot s = Some (result, s1)"
    by (auto simp: process_message_def bind_eq_Some_conv)
  with assms msg show ?thesis by (cases result) (auto simp: process_message_def)
qed

lemma stream_loop_slot:
  "stream_loop handler stream prev s = Some (ended, s') \<Longrightarrow>
   se_last_processed_slot ended = prev \<or>
   (\<exists>slot. se_last_processed_slot ended = Some slot \<and>
      (Some slot = prev \<or> slot \<in> set (List.map_filter message_slot (List.map_filter (case_sum (\<lambda>_. None) Some) stream))))"
proof (induction stream arbitrary: prev s)
  case (Cons m stream)
  show ?case
  proof (cases m)
    case (Inl code)
    with Cons.prems show ?thesis by auto
  next
    case (Inr msg)
    with Cons.prems obtain last1 s1 where 1: "process_message handler msg prev s = Some (last1, s1)"
      "stream_loop handler stream last1 s1 = Some (ended, s')"
      by (auto simp: bind_eq_Some_conv)
    from Cons.IH [OF 1(2)] process_message_slot [OF 1(1)] Inr show ?thesis
      by (auto simp: List.map_filter_simps max_def split: option.splits if_splits)
  qed
qed auto

text \<open>C40. Reconnecting leaves no gap in an ordered stream: when the transactions come in the order of their
  slots and the stream breaks somewhere, the next connection asks for a slot that no missing transaction
  is below, unless nothing was processed (then it asks for the same slot as before) or the provider
  cannot replay (then it resumes live).\<close>

theorem resume_covers_missing:
  assumes "sorted (List.map_filter message_slot (seen @ missing))"
    "process_stream handler (map Inr seen @ rest) s = Some (ended, s')"
    "rest = [] \<or> (\<exists>code. rest = [Inl code] \<and> code \<noteq> OutOfRange)"
    "sr_from_slot (co_request (on_stream_end ended c)) = Some from_slot"
  shows "sr_from_slot (co_request c) = Some from_slot \<or>
    list_all (\<lambda>slot. from_slot \<le> slot) (List.map_filter message_slot missing)"
proof -
  have unavailable: "stream_loop handler (map Inr seen @ rest) prev s = Some (ended, s') \<Longrightarrow>
      \<not> se_replay_unavailable ended" for prev s
    using assms(3)
  proof (induction seen arbitrary: prev s)
    case (Cons m seen)
    then show ?case by (auto simp: bind_eq_Some_conv)
  qed auto
  have filtered: "List.map_filter (case_sum (\<lambda>_. None) Some) (map Inr seen @ rest) = seen"
    using assms(3) by (induction seen) (auto simp: List.map_filter_simps)
  have "se_last_processed_slot ended = None \<or>
      (\<exists>slot. se_last_processed_slot ended = Some slot \<and> slot \<in> set (List.map_filter message_slot seen))"
    using stream_loop_slot [of handler "map Inr seen @ rest" None s ended s'] assms(2)
    unfolding filtered process_stream_def by auto
  then show ?thesis
  proof (elim disjE exE conjE)
    fix slot assume slot: "se_last_processed_slot ended = Some slot" "slot \<in> set (List.map_filter message_slot seen)"
    have "from_slot = slot"
      using assms(2,4) slot(1) unavailable by (auto simp: on_stream_end_def process_stream_def)
    moreover have "sorted (List.map_filter message_slot seen @ List.map_filter message_slot missing)"
      using assms(1) by (simp add: List.map_filter_def)
    ultimately show ?thesis using slot(2) by (auto simp: sorted_append list_all_iff)
  next
    assume "se_last_processed_slot ended = None"
    then show ?thesis
      using assms(2,4) unavailable by (auto simp: on_stream_end_def process_stream_def)
  qed
qed

definition demo_update :: "u64 \<Rightarrow> update_oneof option" where
  "demo_update slot = Some (Transaction (Some \<lparr>tx_signature_bytes = [], tx_transaction = None, tx_meta = None\<rparr>) slot)"

theorem resume_covers_missing_witness:
  "\<exists>ended s'. process_stream demo_handler (map Inr [demo_update 7] @ [Inl Unavailable]) 0 = Some (ended, s') \<and>
     list_all (\<lambda>slot. 7 \<le> slot) (List.map_filter message_slot [demo_update 8])"
proof -
  let ?c = "connection_init (init_request None)"
  have sorted: "sorted (List.map_filter message_slot ([demo_update 7] @ [demo_update 8]))"
    by (simp add: demo_update_def List.map_filter_simps)
  obtain ended s' where run: "process_stream demo_handler (map Inr [demo_update 7] @ [Inl Unavailable]) 0 = Some (ended, s')"
    and slot: "sr_from_slot (co_request (on_stream_end ended ?c)) = Some 7"
    by (simp add: process_stream_def process_message_def demo_update_def demo_handler_def on_stream_end_def)
  have "sr_from_slot (co_request ?c) \<noteq> Some 7" by (simp add: connection_init_def init_request_def)
  with resume_covers_missing [OF sorted run _ slot] run show ?thesis by auto
qed

section \<open>Any stream\<close>

text \<open>What the connection task needs of a handler: it returns, whatever the transaction, and what it does to the
  state is a step of \<open>step_ok\<close>. Then the task survives every stream, and the state goes by such steps only.\<close>

locale stream_handler =
  fixes handler :: "('e, 's) tx_handler" and step_ok :: "'s \<Rightarrow> 's \<Rightarrow> bool"
  assumes handles: "\<exists>result t. handler tx slot s = Some (result, t) \<and> step_ok s t"
    and step_refl: "step_ok s s"
    and step_trans: "step_ok s t \<Longrightarrow> step_ok t u \<Longrightarrow> step_ok s u"
begin

lemma message_total: "\<exists>slot' t. process_message handler msg last_slot s = Some (slot', t) \<and> step_ok s t"
proof (cases msg rule: message_slot.cases)
  case (1 info slot)
  obtain result t where "handler info slot s = Some (result, t)" "step_ok s t" using handles by blast
  with 1 show ?thesis by (cases result) (auto simp: process_message_def)
qed (auto simp: process_message_def step_refl)

lemma stream_total: "\<exists>ended t. stream_loop handler stream last_slot s = Some (ended, t) \<and> step_ok s t"
proof (induction stream arbitrary: last_slot s)
  case (Cons m stream)
  show ?case
  proof (cases m)
    case (Inr msg)
    obtain slot' t where 1: "process_message handler msg last_slot s = Some (slot', t)" "step_ok s t"
      using message_total by blast
    obtain ended u where "stream_loop handler stream slot' t = Some (ended, u)" "step_ok t u" using Cons.IH by blast
    with 1 Inr step_trans show ?thesis by auto
  qed (simp add: step_refl)
qed (simp add: step_refl)

lemma attempt_total:
  "\<exists>result t. setup_and_process_stream w endpoint request handler s = Some (result, t) \<and> step_ok s t"
proof (cases "at_subscribe w request")
  case (Inr stream)
  then show ?thesis
    using stream_total [of stream None s]
    by (auto simp: setup_and_process_stream_def process_stream_def step_refl)
qed (simp add: setup_and_process_stream_def step_refl)

lemma connection_total:
  "\<exists>sleeps c' t. manage_connection endpoint handler ws c s = Some (sleeps, c', t) \<and> length sleeps = length ws \<and> step_ok s t"
proof (induction ws arbitrary: c s)
  case (Cons w ws)
  obtain result s1 where 1: "setup_and_process_stream w endpoint (co_request c) handler s = Some (result, s1)"
    "step_ok s s1" using attempt_total by blast
  obtain sleep c1 where 2: "back_off (after_connection result c) = (sleep, c1)" by fastforce
  obtain sleeps c' t where 3: "manage_connection endpoint handler ws c1 s1 = Some (sleeps, c', t)"
    "length sleeps = length ws" "step_ok s1 t" using Cons.IH by blast
  have "step_ok s t" using 1(2) 3(3) by (rule step_trans)
  then show ?case by (simp add: 1(1) 2 3)
qed (simp add: step_refl)

lemma retry_total:
  "\<exists>sleeps c' t. manage_connection_with_retry endpoint request handler ws s = Some (sleeps, c', t) \<and>
     length sleeps = length ws \<and> step_ok s t"
  unfolding manage_connection_with_retry_def by (rule connection_total)

end

end
