(* ===== verification/Retention.thy ===== *)
theory Retention
  imports Delivery
begin

text \<open>
  Reading and pruning the tables (\<open>latest_trade_slot\<close>, \<open>prune_old_trades\<close> and \<open>spawn_trade_pruner\<close> of
  \<open>src/src/database/trades.rs\<close>): the checkpoint a restart replays from, and the rolling window of 14 days.
\<close>

section \<open>The checkpoint\<close>

definition row_slot :: "sql_row \<Rightarrow> int option" where
  "row_slot r = (case r ''slot'' of Some (Sql_Int v) \<Rightarrow> Some v | _ \<Rightarrow> None)"

text \<open>\<open>SELECT MAX(slot)\<close> over the rows of the table; NULLs are ignored.\<close>
definition select_max_slot :: "sql_row list \<Rightarrow> int option" where
  "select_max_slot rows =
     (let slots = List.map_filter row_slot rows in if slots = [] then None else Some (foldr max slots (hd slots)))"

text \<open>\<open>u64::try_from(value).ok()\<close>\<close>
definition u64_of_i64 :: "int \<Rightarrow> u64 option" where
  "u64_of_i64 v = (if 0 \<le> v then Some (word_of_int v) else None)"

definition latest_trade_slot :: "sql_row list \<Rightarrow> u64 option" where
  "latest_trade_slot rows = Option.bind (select_max_slot rows) u64_of_i64"

section \<open>Pruning\<close>

definition RETENTION_MICROS :: int where
  "RETENTION_MICROS = 14 * 24 * 60 * 60 * 1000000"

text \<open>\<open>created_at < NOW() - INTERVAL '14 days'\<close>; a comparison with NULL is not true.\<close>
definition expired :: "timestamp \<Rightarrow> sql_row \<Rightarrow> bool" where
  "expired now r = (case r ''created_at'' of Some (Sql_Time t) \<Rightarrow> t < now - RETENTION_MICROS | _ \<Rightarrow> False)"

text \<open>The table after the \<open>DELETE\<close>; the number of rows, which is only logged, is not kept.\<close>
definition prune_old_trades :: "timestamp \<Rightarrow> sql_table \<Rightarrow> sql_table" where
  "prune_old_trades now tbl =
     (\<lambda>k. case tbl k of None \<Rightarrow> None | Some r \<Rightarrow> if expired now r then None else Some r)"

definition PRUNED_TABLES :: "string list" where
  "PRUNED_TABLES = [''amm_trades'', ''alt_trades'']"

type_synonym sql_database = "string \<Rightarrow> sql_table"

text \<open>One pass over the tables; \<open>failed\<close> holds the tables whose statement fails, which is only logged.\<close>
primrec prune_tables :: "timestamp \<Rightarrow> string list \<Rightarrow> string list \<Rightarrow> sql_database \<Rightarrow> sql_database" where
  "prune_tables now failed [] db = db"
| "prune_tables now failed (table # tables) db =
     prune_tables now failed tables
       (if table \<in> set failed then db else db(table := prune_old_trades now (db table)))"

text \<open>The loop of \<open>spawn_trade_pruner\<close>, over the passes \<open>(running, now, failed)\<close>: the flag is read before the
  wait for the tick.\<close>
primrec pruner_loop :: "(bool \<times> timestamp \<times> string list) list \<Rightarrow> sql_database \<Rightarrow> sql_database" where
  "pruner_loop [] db = db"
| "pruner_loop (pass # passes) db =
     (let (running, now, failed) = pass in
      if running then pruner_loop passes (prune_tables now failed PRUNED_TABLES db) else db)"

section \<open>Properties\<close>

lemma foldr_max: "foldr max xs (a :: int) = Max (insert a (set xs))"
proof (induction xs)
  case (Cons x xs)
  have "insert a (set (x # xs)) = insert x (insert a (set xs))" by auto
  moreover have "Max (insert x (insert a (set xs))) = max x (Max (insert a (set xs)))" by (rule Max_insert) simp_all
  ultimately show ?case using Cons by (simp only: foldr.simps comp_def)
qed simp

lemma select_max_slot_eq:
  "select_max_slot rows =
     (let slots = List.map_filter row_slot rows in if slots = [] then None else Some (Max (set slots)))"
  by (cases "List.map_filter row_slot rows") (simp_all add: select_max_slot_def foldr_max insert_absorb)

text \<open>A pass keeps every row that is younger than 14 days, and removes exactly the older ones of the tables
  whose statement succeeded; other tables are not touched.\<close>

lemma prune_exact:
  "prune_old_trades now tbl k = Some r \<longleftrightarrow> tbl k = Some r \<and> \<not> expired now r"
  by (auto simp: prune_old_trades_def split: option.splits)

theorem prune_pass_exact:
  "prune_tables now failed PRUNED_TABLES db table =
     (if table \<in> set PRUNED_TABLES \<and> table \<notin> set failed then prune_old_trades now (db table) else db table)"
  by (simp add: PRUNED_TABLES_def)

lemma prune_twice:
  "now \<le> later \<Longrightarrow> prune_old_trades later (prune_old_trades now tbl) = prune_old_trades later tbl"
  by (rule ext) (auto simp: prune_old_trades_def expired_def split: option.splits sql_value.splits)

section \<open>The checkpoint of a healthy run\<close>

text \<open>The runs in which every statement succeeds.\<close>

inductive healthy_reachable ::
  "('r, 'db) insert_batch \<Rightarrow> nat \<Rightarrow> 'db \<Rightarrow> ('r, 'db) inserter \<Rightarrow> bool"
  for insert_batch chunk_len db0 where
  healthy_init: "healthy_reachable insert_batch chunk_len db0 (inserter_init db0)"
| healthy_task: "healthy_reachable insert_batch chunk_len db0 s \<Longrightarrow>
    task_step insert_batch chunk_len (\<lambda>_. Db_Done) s t \<Longrightarrow> healthy_reachable insert_batch chunk_len db0 t"
| healthy_world: "healthy_reachable insert_batch chunk_len db0 s \<Longrightarrow> world_step s t \<Longrightarrow>
    healthy_reachable insert_batch chunk_len db0 t"

context keyed_store
begin

text \<open>What is shown comes from the records committed so far.\<close>

definition shows_only :: "'r list \<Rightarrow> 'db \<Rightarrow> 'db \<Rightarrow> bool" where
  "shows_only past db0 db \<longleftrightarrow>
     (\<forall>k. view db k = view db0 k \<or> (\<exists>r\<in>set past. key r = k \<and> view db k = Some (content r)))"

lemma shows_only_mono: "shows_only past db0 db \<Longrightarrow> set past \<subseteq> set past' \<Longrightarrow> shows_only past' db0 db"
  unfolding shows_only_def by blast

lemma insert_shows_only:
  assumes "insert_batch rows db = Some (Some db')" "length rows \<le> chunk_len" "shows_only past db0 db"
  shows "shows_only (past @ rows) db0 db'"
proof -
  have view: "view db' k = (if k \<in> key ` set rows then Some (content (last (filter (\<lambda>r. key r = k) rows))) else view db k)" for k
    using insert_view [OF assms(2), of db] assms(1) by auto
  show ?thesis
    unfolding shows_only_def
  proof
    fix k
    show "view db' k = view db0 k \<or> (\<exists>r\<in>set (past @ rows). key r = k \<and> view db' k = Some (content r))"
    proof (cases "k \<in> key ` set rows")
      case True
      then have "filter (\<lambda>r. key r = k) rows \<noteq> []" by (auto simp: filter_empty_conv)
      then have "last (filter (\<lambda>r. key r = k) rows) \<in> set (filter (\<lambda>r. key r = k) rows)" by (rule last_in_set)
      with True view [of k] show ?thesis by auto
    next
      case False
      with view [of k] assms(3) show ?thesis by (auto simp: shows_only_def)
    qed
  qed
qed

lemma flush_chunks_shows_only:
  assumes "\<forall>c\<in>set cs. length c \<le> chunk_len" "shows_only past db0 db"
    "flush_chunks insert_batch (\<lambda>_. Db_Done) i cs retry db = Some (retry', db')"
  shows "shows_only (past @ concat cs) db0 db' \<and> retry' = retry"
  using assms
proof (induction cs arbitrary: i past db)
  case (Cons c cs)
  obtain db1 where c: "insert_batch c db = Some (Some db1)"
    using insert_view [of c db] Cons.prems(1) by auto
  with Cons.prems(3) have rest: "flush_chunks insert_batch (\<lambda>_. Db_Done) (Suc i) cs retry db1 = Some (retry', db')"
    by (simp add: attempt_insert_def)
  have "shows_only (past @ c) db0 db1"
    using insert_shows_only [OF c _ Cons.prems(2)] Cons.prems(1) by simp
  from Cons.IH [OF _ this rest] Cons.prems(1) show ?case by simp
qed simp

lemma flush_buffer_shows_only:
  assumes "shows_only past db0 db" "flush_buffer insert_batch chunk_len (\<lambda>_. Db_Done) buffer db = Some (buffer', db')"
  shows "shows_only (past @ buffer) db0 db'" "buffer' = []"
proof -
  have len: "\<forall>c\<in>set (chunks chunk_len buffer). length c \<le> chunk_len" using chunks_length_le [of _ chunk_len buffer] by blast
  have "flush_chunks insert_batch (\<lambda>_. Db_Done) 0 (chunks chunk_len buffer) [] db = Some (buffer', db')"
    using assms(2) by (auto simp: flush_buffer_def Let_def bind_eq_Some_conv split: if_splits)
  from flush_chunks_shows_only [OF len assms(1) this] concat_chunks [OF chunk_pos, of buffer]
  show "shows_only (past @ buffer) db0 db'" "buffer' = []" by simp_all
qed

text \<open>In a healthy run the records are written in the order in which they were sent: what the table shows
  comes from a prefix, and the buffer and the channel hold the rest.\<close>

lemma healthy_prefix:
  "healthy_reachable insert_batch chunk_len db0 s \<Longrightarrow>
   \<exists>past. in_sent s = past @ in_buffer s @ in_channel s \<and> shows_only past db0 (in_db s)"
proof (induction rule: healthy_reachable.induct)
  case healthy_init
  then show ?case by (simp add: inserter_init_def shows_only_def)
next
  case (healthy_task s t)
  then obtain past where past: "in_sent s = past @ in_buffer s @ in_channel s" "shows_only past db0 (in_db s)"
    by blast
  obtain taken where taken: "in_channel s = taken @ in_channel t"
    "written insert_batch chunk_len (\<lambda>_. Db_Done) (in_buffer s @ taken, in_db s) (in_buffer t, in_db t)"
    using task_step_effect(2) [OF healthy_task(2)] by blast
  have sent: "in_sent t = past @ (in_buffer s @ taken) @ in_channel t"
    using task_step_effect(1) [OF healthy_task(2)] past(1) taken(1) by simp
  from taken(2) consider "in_buffer t = in_buffer s @ taken" "in_db t = in_db s" |
    "flush_buffer insert_batch chunk_len (\<lambda>_. Db_Done) (in_buffer s @ taken) (in_db s) = Some (in_buffer t, in_db t)"
    by (auto simp: written_def)
  then show ?case
  proof cases
    case 1
    with sent past(2) show ?thesis by auto
  next
    case 2
    from flush_buffer_shows_only [OF past(2) this] sent show ?thesis
      by (intro exI [of _ "past @ in_buffer s @ taken"]) simp
  qed
next
  case (healthy_world s t)
  from healthy_world(2,3) show ?case by (induction rule: world_step.induct) auto
qed

end

end
