(* ===== verification/Accounting.thy ===== *)
theory Accounting
  imports Retention
begin

text \<open>
  What happens to a record over any run in which the table is also pruned: an accounting of the records an
  inserter was sent, for every table that interprets \<open>keyed_store\<close>. It is the invariant that \<open>System\<close> carries
  through the steps of the whole program.
\<close>

section \<open>The task while the program is up\<close>

text \<open>While senders exist and the flag is up, the task keeps selecting, and its channel only shrinks by its steps.\<close>

lemma task_step_selecting:
  assumes "task_step insert_batch chunk_len outcome s t" "in_phase s = Selecting" "in_running s" "in_senders s"
  shows "in_phase t = Selecting"
  using assms
proof (induction rule: task_step.induct)
  case (tick s t)
  then obtain u where u: "flush_nonempty insert_batch chunk_len outcome s = Some u"
    "t = (if in_running u then u else u\<lparr>in_phase := Draining\<rparr>)"
    by (auto simp: on_tick_def bind_eq_Some_conv)
  with flush_nonempty_frame [OF u(1)] tick(3,4) show ?case by simp
next
  case (recv s r rest t)
  then show ?case
    using flush_frame [of insert_batch chunk_len outcome "s\<lparr>in_channel := rest, in_buffer := in_buffer s @ [r]\<rparr>" t]
    by (auto simp: on_record_def Let_def split: if_splits)
qed simp_all

lemma task_step_channel:
  assumes "task_step insert_batch chunk_len outcome s t"
  shows "length (in_channel t) \<le> length (in_channel s)"
proof -
  obtain taken where "in_channel s = taken @ in_channel t" using task_step_effect(2) [OF assms] by blast
  then show ?thesis by simp
qed

section \<open>Accounting\<close>

context keyed_store
begin

text \<open>A full channel always drains: the task can take the next record, however the database answers.\<close>

lemma recv_possible:
  assumes "in_phase s = Selecting" "in_channel s = r # rest"
  shows "\<exists>t. task_step insert_batch chunk_len outcome s t \<and> in_channel t = rest \<and> in_phase t = Selecting \<and>
    in_sent t = in_sent s \<and> in_running t = in_running s \<and> in_senders t = in_senders s"
proof -
  let ?s = "s\<lparr>in_channel := rest, in_buffer := in_buffer s @ [r]\<rparr>"
  obtain b d where f: "flush_buffer insert_batch chunk_len outcome (in_buffer ?s) (in_db ?s) = Some (b, d)"
    using flush_buffer_total by blast
  then have "flush insert_batch chunk_len outcome ?s = Some (?s\<lparr>in_buffer := b, in_db := d\<rparr>)"
    by (simp add: flush_def)
  then obtain t where t: "on_record insert_batch chunk_len outcome r (s\<lparr>in_channel := rest\<rparr>) = Some t"
    "t = ?s \<or> t = ?s\<lparr>in_buffer := b, in_db := d\<rparr>"
    by (cases "length (in_buffer ?s) = FLUSH_ROWS") (simp_all add: on_record_def Let_def)
  from task_step.recv [OF assms t(1)] t(2) assms(1) show ?thesis by (intro exI [of _ t]) auto
qed

text \<open>
  \<open>P\<close> holds the keys that were ever pruned. A received record is shown by the table, or a record with its key
  waits in the buffer, or its key was pruned; a key that was neither received nor pruned shows what it
  showed at the start.
\<close>

definition accounted :: "('k \<Rightarrow> 'v) \<Rightarrow> 'db \<Rightarrow> 'k set \<Rightarrow> ('r, 'db) inserter \<Rightarrow> bool" where
  "accounted F db0 P s \<longleftrightarrow>
     (\<exists>received. in_sent s = received @ in_channel s \<and> set (in_buffer s) \<subseteq> set received \<and>
        (\<forall>r\<in>set received. view (in_db s) (key r) = Some (F (key r)) \<or> key r \<in> key ` set (in_buffer s) \<or> key r \<in> P) \<and>
        (\<forall>k. k \<notin> key ` set received \<longrightarrow> k \<notin> P \<longrightarrow> view (in_db s) k = view db0 k))"

lemma accounted_init: "accounted F db P (inserter_init db)"
  by (simp add: accounted_def inserter_init_def)

text \<open>A flush writes some of the buffered keys, with the agreed content, and leaves every other key alone.\<close>

lemma flush_writes:
  assumes "agreed F buffer" "flush_buffer insert_batch chunk_len outcome buffer db = Some (buffer', db')"
  obtains K where "K \<subseteq> key ` set buffer" "key ` set buffer \<subseteq> K \<union> key ` set buffer'" "set buffer' \<subseteq> set buffer"
    "\<And>k. view db' k = (if k \<in> K then Some (F k) else view db k)"
proof -
  let ?cs = "chunks chunk_len buffer"
  have cc: "concat ?cs = buffer" using chunk_pos by (rule concat_chunks)
  have len: "\<forall>c\<in>set ?cs. length c \<le> chunk_len" using chunks_length_le [of _ chunk_len buffer] by blast
  have "agreed F (concat ?cs)" using assms(1) by (simp only: cc)
  moreover have "flush_chunks insert_batch outcome 0 ?cs [] db = Some (buffer', db')"
    using assms(2) by (auto simp: flush_buffer_def Let_def bind_eq_Some_conv split: if_splits)
  moreover have "committed db F {} db" by (simp add: committed_def)
  ultimately obtain K where K: "committed db F K db'" "K \<subseteq> {} \<union> key ` set buffer"
    "key ` set buffer \<subseteq> K \<union> key ` set buffer'" "set buffer' \<subseteq> set buffer"
    using flush_chunks_committed [of F ?cs db "{}" db outcome 0 "[]" buffer' db'] len by (auto simp: cc)
  show thesis
  proof (rule that [of K])
    show "K \<subseteq> key ` set buffer" using K(2) by (simp only: Un_empty_left)
    show "view db' k = (if k \<in> K then Some (F k) else view db k)" for k
      using K(1) by (simp add: committed_def)
  qed (fact K)+
qed

lemma accounted_task:
  assumes "task_step insert_batch chunk_len outcome s t" "agreed F (in_sent s)" "accounted F db0 P s"
  shows "accounted F db0 P t"
proof -
  obtain received where received: "in_sent s = received @ in_channel s" "set (in_buffer s) \<subseteq> set received"
    and known: "\<And>r. r \<in> set received \<Longrightarrow>
        view (in_db s) (key r) = Some (F (key r)) \<or> key r \<in> key ` set (in_buffer s) \<or> key r \<in> P"
    and rest: "\<And>k. k \<notin> key ` set received \<Longrightarrow> k \<notin> P \<Longrightarrow> view (in_db s) k = view db0 k"
    using assms(3) unfolding accounted_def by blast
  obtain taken where taken: "in_channel s = taken @ in_channel t"
    "written insert_batch chunk_len outcome (in_buffer s @ taken, in_db s) (in_buffer t, in_db t)"
    using task_step_effect(2) [OF assms(1)] by blast
  have sent: "in_sent t = (received @ taken) @ in_channel t"
    using task_step_effect(1) [OF assms(1)] received(1) taken(1) by simp
  have buffered: "view (in_db s) (key r) = Some (F (key r)) \<or> key r \<in> key ` set (in_buffer s @ taken) \<or> key r \<in> P"
    if "r \<in> set (received @ taken)" for r
    using that known [of r] by auto
  have sub: "set (in_buffer s @ taken) \<subseteq> set (received @ taken)" using received(2) by auto
  from taken(2) consider "in_buffer t = in_buffer s @ taken" "in_db t = in_db s" |
    "flush_buffer insert_batch chunk_len outcome (in_buffer s @ taken) (in_db s) = Some (in_buffer t, in_db t)"
    by (auto simp: written_def)
  then show ?thesis
  proof cases
    case 1
    with sent sub buffered rest show ?thesis
      unfolding accounted_def by (intro exI [of _ "received @ taken"]) auto
  next
    case 2
    have agrees: "agreed F (in_buffer s @ taken)"
      using assms(2) sub received(1) taken(1) by (intro agreed_subset [OF assms(2)]) auto
    obtain K where K: "K \<subseteq> key ` set (in_buffer s @ taken)"
      "key ` set (in_buffer s @ taken) \<subseteq> K \<union> key ` set (in_buffer t)" "set (in_buffer t) \<subseteq> set (in_buffer s @ taken)"
      "\<And>k. view (in_db t) k = (if k \<in> K then Some (F k) else view (in_db s) k)"
      by (rule flush_writes [OF agrees 2]) (rule that)
    have 3: "view (in_db t) (key r) = Some (F (key r)) \<or> key r \<in> key ` set (in_buffer t) \<or> key r \<in> P"
      if "r \<in> set (received @ taken)" for r
      using buffered [OF that] K(2,4) by (metis Un_iff subsetD)
    have 4: "view (in_db t) k = view db0 k" if "k \<notin> key ` set (received @ taken)" "k \<notin> P" for k
    proof -
      have "k \<notin> K" using that(1) order_trans [OF K(1) image_mono [OF sub]] by blast
      with that rest [of k] K(4) show ?thesis by auto
    qed
    show ?thesis
      unfolding accounted_def
      using sent order_trans [OF K(3) sub] 3 4 by (intro exI [of _ "received @ taken"] conjI) blast+
  qed
qed

lemma accounted_world:
  assumes "world_step s t" "accounted F db0 P s"
  shows "accounted F db0 P t"
  using assms
proof (induction rule: world_step.induct)
  case (send s r)
  then show ?case unfolding accounted_def by auto
qed (auto simp: accounted_def)

text \<open>Pruning: keys may vanish from the table; they go on record.\<close>

lemma accounted_prune:
  assumes "accounted F db0 P s" "\<And>k. k \<notin> D \<Longrightarrow> view db k = view (in_db s) k"
  shows "accounted F db0 (P \<union> D) (s\<lparr>in_db := db\<rparr>)"
proof -
  obtain received where received: "in_sent s = received @ in_channel s" "set (in_buffer s) \<subseteq> set received"
    and known: "\<And>r. r \<in> set received \<Longrightarrow>
        view (in_db s) (key r) = Some (F (key r)) \<or> key r \<in> key ` set (in_buffer s) \<or> key r \<in> P"
    and rest: "\<And>k. k \<notin> key ` set received \<Longrightarrow> k \<notin> P \<Longrightarrow> view (in_db s) k = view db0 k"
    using assms(1) unfolding accounted_def by blast
  have 1: "view db (key r) = Some (F (key r)) \<or> key r \<in> key ` set (in_buffer s) \<or> key r \<in> P \<union> D"
    if "r \<in> set received" for r
    using known [OF that] assms(2) [of "key r"] by auto
  have 2: "view db k = view db0 k" if "k \<notin> key ` set received" "k \<notin> P \<union> D" for k
    using that rest [of k] assms(2) [of k] by simp
  show ?thesis
    unfolding accounted_def using received 1 2 by (intro exI [of _ received]) auto
qed

lemma accounted_record:
  assumes "accounted F db0 P s" "r \<in> set (in_sent s)"
  shows "r \<in> set (in_channel s) \<or> key r \<in> key ` set (in_buffer s) \<or> key r \<in> P \<or> view (in_db s) (key r) = Some (F (key r))"
  using assms unfolding accounted_def by auto

lemma accounted_quiet:
  assumes "accounted F db0 P s" "in_channel s = []" "in_buffer s = []" "k \<notin> P"
  shows "view (in_db s) k = (if k \<in> key ` set (in_sent s) then Some (F k) else view db0 k)"
  using assms unfolding accounted_def by auto

text \<open>One step of a program that holds the inserter: it leaves its records and its table alone, or is a step of
  the task or of the senders, or prunes.\<close>

definition moves :: "'k set \<Rightarrow> ('r, 'db) inserter \<Rightarrow> 'k set \<Rightarrow> ('r, 'db) inserter \<Rightarrow> bool" where
  "moves P s P' t \<longleftrightarrow>
     (P' = P \<and> in_sent t = in_sent s \<and> in_channel t = in_channel s \<and> in_buffer t = in_buffer s \<and> in_db t = in_db s) \<or>
     (P' = P \<and> (\<exists>outcome. task_step insert_batch chunk_len outcome s t)) \<or>
     (P' = P \<and> world_step s t) \<or>
     (\<exists>D db. P' = P \<union> D \<and> t = s\<lparr>in_db := db\<rparr> \<and> (\<forall>k. k \<notin> D \<longrightarrow> view db k = view (in_db s) k))"

lemma moves_refl [simp]: "moves P s P s"
  by (simp add: moves_def)

lemma moves_task: "task_step insert_batch chunk_len outcome s t \<Longrightarrow> moves P s P t"
  unfolding moves_def by blast

lemma moves_world: "world_step s t \<Longrightarrow> moves P s P t"
  unfolding moves_def by blast

lemma moves_prune: "(\<And>k. k \<notin> D \<Longrightarrow> view db k = view (in_db s) k) \<Longrightarrow> moves P s (P \<union> D) (s\<lparr>in_db := db\<rparr>)"
  unfolding moves_def by blast

lemma moves_sent: "moves P s P' t \<Longrightarrow> \<exists>more. in_sent t = in_sent s @ more"
proof -
  have "\<exists>more. in_sent t = in_sent s @ more" if "world_step s t"
    using that by (induction rule: world_step.induct) auto
  moreover have "in_sent t = in_sent s" if "task_step insert_batch chunk_len outcome s t" for outcome
    using task_step_effect(1) [OF that] by simp
  moreover assume "moves P s P' t"
  ultimately show ?thesis unfolding moves_def by auto
qed

lemma moves_accounted:
  assumes "moves P s P' t" "agreed F (in_sent t)" "accounted F db0 P s"
  shows "accounted F db0 P' t"
proof -
  obtain more where "in_sent t = in_sent s @ more" using moves_sent [OF assms(1)] by blast
  then have agrees: "agreed F (in_sent s)" using assms(2) by simp
  from assms(1) consider
    "P' = P" "in_sent t = in_sent s" "in_channel t = in_channel s" "in_buffer t = in_buffer s" "in_db t = in_db s" |
    outcome where "P' = P" "task_step insert_batch chunk_len outcome s t" | "P' = P" "world_step s t" |
    D db where "P' = P \<union> D" "t = s\<lparr>in_db := db\<rparr>" "\<And>k. k \<notin> D \<Longrightarrow> view db k = view (in_db s) k"
    unfolding moves_def by blast
  then show ?thesis
  proof cases
    case 1
    with assms(3) show ?thesis by (simp add: accounted_def)
  next
    case 2
    with accounted_task [OF 2(2) agrees assms(3)] show ?thesis by simp
  next
    case 3
    with accounted_world [OF 3(2) assms(3)] show ?thesis by simp
  next
    case 4
    from accounted_prune [OF assms(3) 4(3)] show ?thesis unfolding 4(1,2) .
  qed
qed

end

end
