(* ===== verification/Supervisor.thy ===== *)
theory Supervisor
  imports AmmProperties CpmmProperties Retention Mints Grpc
begin

text \<open>
  The program as \<open>src/src/main.rs\<close> puts it together: the two handlers behind one stream, what is started in
  which mode, the slot a start replays from, and the shutdown. A call of a handler reads the clock and the
  shared mints; \<open>readings\<close> holds what the \<open>n\<close>-th call reads.
\<close>

section \<open>The handlers\<close>

record readings =
  rd_amm_now :: timestamp
  rd_alt_now :: timestamp
  rd_whitelist :: "string set"
  rd_alt_mints :: alt_mint_map

record collector =
  cl_amm :: amm_state
  cl_alt :: alt_state
  cl_calls :: nat

datatype collector_error = Amm_Error amm_error | Cpmm_Error cpmm_error

definition create_amm_handler ::
  "externals \<Rightarrow> bool \<Rightarrow> readings \<Rightarrow> tx_info \<Rightarrow> u64 \<Rightarrow> amm_state \<Rightarrow> ((amm_error + unit) \<times> amm_state) may_panic" where
  "create_amm_handler X readonly =
     (\<lambda>r tx_data slot st. process_pump_swap_tx X (rd_amm_now r) tx_data slot (rd_whitelist r) readonly st)"

definition create_cpmm_handler ::
  "externals \<Rightarrow> bool \<Rightarrow> readings \<Rightarrow> tx_info \<Rightarrow> u64 \<Rightarrow> alt_state \<Rightarrow> ((cpmm_error + unit) \<times> alt_state) may_panic" where
  "create_cpmm_handler X readonly =
     (\<lambda>r tx_data slot st. process_cpmm_tx X (rd_alt_now r) tx_data slot (rd_alt_mints r) readonly st)"

text \<open>\<open>a.and(c)\<close>\<close>
definition result_and :: "amm_error + unit \<Rightarrow> cpmm_error + unit \<Rightarrow> collector_error + unit" where
  "result_and a c =
     (case a of Inl e \<Rightarrow> Inl (Amm_Error e) | Inr _ \<Rightarrow> (case c of Inl e \<Rightarrow> Inl (Cpmm_Error e) | Inr u \<Rightarrow> Inr u))"

text \<open>The closure \<open>tx_handler\<close>. Both handlers always run; they share no state, so their interleaving under
  \<open>join!\<close> does not matter.\<close>
definition collector_handler ::
  "externals \<Rightarrow> bool \<Rightarrow> (nat \<Rightarrow> readings) \<Rightarrow> (collector_error, collector) tx_handler" where
  "collector_handler X readonly env tx slot s = do {
     let r = env (cl_calls s);
     (a, amm) \<leftarrow> create_amm_handler X readonly r tx slot (cl_amm s);
     (c, alt) \<leftarrow> create_cpmm_handler X readonly r tx slot (cl_alt s);
     Some (result_and a c, s\<lparr>cl_amm := amm, cl_alt := alt, cl_calls := cl_calls s + 1\<rparr>) }"

section \<open>Start\<close>

text \<open>\<open>READONLY\<close> of the environment.\<close>

definition to_ascii_lowercase :: "char \<Rightarrow> char" where
  "to_ascii_lowercase c = (let n = of_char c :: nat in if 65 \<le> n \<and> n \<le> 90 then char_of (n + 32) else c)"

definition eq_ignore_ascii_case :: "string \<Rightarrow> string \<Rightarrow> bool" where
  "eq_ignore_ascii_case a b = (map to_ascii_lowercase a = map to_ascii_lowercase b)"

definition readonly_flag :: "string option \<Rightarrow> bool" where
  "readonly_flag var = (case var of Some v \<Rightarrow> eq_ignore_ascii_case v ''true'' \<or> v = ''1'' | None \<Rightarrow> False)"

definition alt_scope_of :: "bool \<Rightarrow> alt_mint_scope" where
  "alt_scope_of readonly = (if readonly then Migrated else Whitelisted)"

datatype background_task = Whitelist_Refresh | Alt_Mints_Refresh | Amm_Inserter | Alt_Inserter | Trade_Pruner

definition background_tasks :: "bool \<Rightarrow> background_task list" where
  "background_tasks readonly =
     (if readonly then [] else [Whitelist_Refresh, Alt_Mints_Refresh, Amm_Inserter, Alt_Inserter, Trade_Pruner])"

datatype startup_error = Database_Error | Bad_From_Slot

text \<open>\<open>GRPC_FROM_SLOT\<close> overrides the checkpoint; \<open>checkpoint\<close> is the answer of \<open>latest_trade_slot\<close>, \<open>None\<close> a query
  that failed.\<close>
definition replay_from_slot :: "string option \<Rightarrow> u64 option option \<Rightarrow> startup_error + u64 option" where
  "replay_from_slot var checkpoint =
     (case var of
        Some v \<Rightarrow> (case parse_u64 v of Some slot \<Rightarrow> Inr (Some slot) | None \<Rightarrow> Inl Bad_From_Slot)
      | None \<Rightarrow> (case checkpoint of
                  None \<Rightarrow> Inl Database_Error
                | Some slot \<Rightarrow> Inr (map_option (\<lambda>slot. saturating_sub slot 32) slot)))"

text \<open>What the database answers while the program starts; \<open>None\<close> is an error.\<close>
record startup_answers =
  an_pool :: "unit option"
  an_ensure_table :: "unit option"
  an_ensure_alt_table :: "unit option"
  an_whitelist :: "all_mints_row list option"
  an_alt_mints :: "alt_mints_row list option"
  an_latest :: "u64 option option"

record started =
  st_readonly :: bool
  st_whitelist :: "string set"
  st_alt_mints :: alt_mint_map
  st_tasks :: "background_task list"
  st_from_slot :: "u64 option"

definition startup ::
  "string option \<Rightarrow> string option \<Rightarrow> startup_answers \<Rightarrow> (startup_error + started) may_panic" where
  "startup readonly_var from_slot_var w =
     (let readonly = readonly_flag readonly_var in do {
        _ \<leftarrow> an_pool w;
        if \<not> readonly \<and> (an_ensure_table w = None \<or> an_ensure_alt_table w = None) then Some (Inl Database_Error)
        else if \<not> readonly \<and> an_whitelist w = None then Some (Inl Database_Error)
        else do {
          whitelist \<leftarrow> (if readonly then Some {} else load_whitelist (the (an_whitelist w)));
          (case an_alt_mints w of
             None \<Rightarrow> Some (Inl Database_Error)
           | Some rows \<Rightarrow> do {
               alt_mints \<leftarrow> load_alt_mints (alt_scope_of readonly) rows;
               Some (case replay_from_slot from_slot_var (an_latest w) of
                       Inl e \<Rightarrow> Inl e
                     | Inr from_slot \<Rightarrow>
                         Inr \<lparr>st_readonly = readonly, st_whitelist = whitelist, st_alt_mints = alt_mints,
                              st_tasks = background_tasks readonly, st_from_slot = from_slot\<rparr>) }) } })"

section \<open>Shutdown\<close>

text \<open>What the shutdown does to an inserter before it waits for it: the flag falls, the stream is aborted
  with the senders its handlers hold, and the last sender is dropped.\<close>
definition shutdown_inserter :: "('r, 'db) inserter \<Rightarrow> ('r, 'db) inserter" where
  "shutdown_inserter s = s\<lparr>in_running := False, in_senders := False\<rparr>"

section \<open>The stream never stops the program\<close>

definition extends :: "collector \<Rightarrow> collector \<Rightarrow> bool" where
  "extends s s' \<longleftrightarrow> (\<exists>xs ys. as_channel (cl_amm s') = as_channel (cl_amm s) @ xs \<and>
     al_channel (cl_alt s') = al_channel (cl_alt s) @ ys)"

lemma emit_fills_extends: "\<exists>xs. as_channel (snd (emit_fills ctx fs (i, st))) = as_channel st @ xs"
proof (induction fs arbitrary: i st)
  case (Cons f fs)
  have "\<exists>xs. as_channel (emit ctx f i st) = as_channel st @ xs" by (simp add: emit_def Let_def)
  with Cons.IH [of "i + 1" "emit ctx f i st"] show ?case by auto
qed simp

lemma send_alt_extends: "\<exists>xs. al_channel (fold (send_alt readonly) recs st) = al_channel st @ xs"
proof (induction recs arbitrary: st)
  case (Cons r recs)
  have "\<exists>xs. al_channel (send_alt readonly r st) = al_channel st @ xs" by (simp add: send_alt_def Let_def)
  with Cons.IH [of "send_alt readonly r st"] show ?case by auto
qed simp

lemma collector_handler_closed:
  "\<exists>s'. collector_handler X readonly env tx slot s =
      Some (case amm_inputs X tx of
              Inl e \<Rightarrow> Inl (Amm_Error e)
            | Inr _ \<Rightarrow> (case cpmm_inputs X tx of Inl e \<Rightarrow> Inl (Cpmm_Error e) | Inr _ \<Rightarrow> Inr ()), s') \<and>
    extends s s'"
proof -
  let ?r = "env (cl_calls s)"
  obtain amm where amm: "create_amm_handler X readonly ?r tx slot (cl_amm s) =
      Some (case amm_inputs X tx of Inl e \<Rightarrow> Inl e | Inr _ \<Rightarrow> Inr (), amm)"
    "\<exists>xs. as_channel amm = as_channel (cl_amm s) @ xs"
  proof (cases "amm_inputs X tx")
    case (Inl e)
    then show thesis using that [of "cl_amm s"] by (simp add: create_amm_handler_def process_pump_swap_tx_def)
  next
    case (Inr inp)
    from process_closed [OF Inr] emit_fills_extends show thesis
      by (intro that) (auto simp: create_amm_handler_def Inr)
  qed
  obtain alt where alt: "create_cpmm_handler X readonly ?r tx slot (cl_alt s) =
      Some (case cpmm_inputs X tx of Inl e \<Rightarrow> Inl e | Inr _ \<Rightarrow> Inr (), alt)"
    "\<exists>xs. al_channel alt = al_channel (cl_alt s) @ xs"
  proof (cases "cpmm_inputs X tx")
    case (Inl e)
    then show thesis using that [of "cl_alt s"] by (simp add: create_cpmm_handler_def process_cpmm_tx_def)
  next
    case (Inr inp)
    from process_cpmm_closed [OF Inr] send_alt_extends show thesis
      by (intro that) (auto simp: create_cpmm_handler_def Inr)
  qed
  show ?thesis
    using amm alt
    by (auto simp: collector_handler_def Let_def result_and_def extends_def split: sum.split)
qed

interpretation collector: stream_handler "collector_handler X readonly env" extends for X readonly env
proof unfold_locales
  show "\<exists>result t. collector_handler X readonly env tx slot s = Some (result, t) \<and> extends s t" for tx slot s
    using collector_handler_closed [of X readonly env tx slot s] by blast
qed (auto simp: extends_def)

text \<open>C8. Nothing the provider sends can stop the collector: over any sequence of connections and streams, with
  any contents of the mints and the clock, no handler panics, the connection task survives every attempt,
  and the records sent before stay where they are in both channels.\<close>

theorem stream_never_stops_collector:
  "\<exists>sleeps c s'. manage_connection_with_retry endpoint request (collector_handler X readonly env) ws s =
      Some (sleeps, c, s') \<and> length sleeps = length ws \<and>
    (\<exists>xs ys. as_channel (cl_amm s') = as_channel (cl_amm s) @ xs \<and> al_channel (cl_alt s') = al_channel (cl_alt s) @ ys)"
  using collector.retry_total [of endpoint request X readonly env ws s] by (simp add: extends_def)

section \<open>Readonly mode\<close>

text \<open>Only the logs and the counters have changed.\<close>
definition only_logged :: "collector \<Rightarrow> collector \<Rightarrow> bool" where
  "only_logged s s' \<longleftrightarrow> as_channel (cl_amm s') = as_channel (cl_amm s) \<and> al_channel (cl_alt s') = al_channel (cl_alt s)"

lemma emit_fills_only_logged:
  "tc_readonly ctx \<Longrightarrow> as_channel (snd (emit_fills ctx fs (i, st))) = as_channel st"
proof (induction fs arbitrary: i st)
  case (Cons f fs)
  from Cons.IH [OF Cons.prems, of "i + 1" "emit ctx f i st"] Cons.prems show ?case by (simp add: emit_def Let_def)
qed simp

lemma send_alt_only_logged: "al_channel (fold (send_alt True) recs st) = al_channel st"
  by (induction recs arbitrary: st) (simp_all add: send_alt_def Let_def)

lemma amm_only_logged:
  "process_pump_swap_tx X now tx slot whitelist True st = Some (result, st') \<Longrightarrow> as_channel st' = as_channel st"
proof (cases "amm_inputs X tx")
  case (Inr inp)
  assume "process_pump_swap_tx X now tx slot whitelist True st = Some (result, st')"
  then show ?thesis
    unfolding process_closed [OF Inr] by (auto simp: emit_fills_only_logged)
qed (simp add: process_pump_swap_tx_def)

lemma cpmm_only_logged:
  "process_cpmm_tx X now tx slot mints True st = Some (result, st') \<Longrightarrow> al_channel st' = al_channel st"
proof (cases "cpmm_inputs X tx")
  case (Inr inp)
  assume "process_cpmm_tx X now tx slot mints True st = Some (result, st')"
  then show ?thesis
    unfolding process_cpmm_closed [OF Inr] by (auto simp: send_alt_only_logged)
qed (simp add: process_cpmm_tx_def)

lemma collector_only_logged:
  assumes "collector_handler X True env tx slot s = Some (result, s')"
  shows "only_logged s s'"
  using assms amm_only_logged cpmm_only_logged
  by (auto simp: collector_handler_def create_amm_handler_def create_cpmm_handler_def only_logged_def Let_def
           bind_eq_Some_conv split: prod.splits)

interpretation readonly: stream_handler "collector_handler X True env" only_logged for X env
proof unfold_locales
  show "\<exists>result t. collector_handler X True env tx slot s = Some (result, t) \<and> only_logged s t" for tx slot s
    using collector_handler_closed [of X True env tx slot s] collector_only_logged by blast
qed (auto simp: only_logged_def)

text \<open>C9. Readonly mode writes nothing: when \<open>READONLY\<close> is \<open>1\<close> or \<open>true\<close> in any case, a start that succeeds runs
  no background task and shares an empty whitelist, and whatever the provider then streams, no record
  enters the channel of either table.\<close>

theorem readonly_writes_nothing:
  assumes "startup (Some v) from_slot_var answers = Some (Inr st)" "eq_ignore_ascii_case v ''true'' \<or> v = ''1''"
  shows "st_tasks st = [] \<and> st_whitelist st = {} \<and>
    (\<exists>sleeps c s'. init_grpc_connection (Some endpoint) (collector_handler X (st_readonly st) env) (st_from_slot st) ws s =
       Some (sleeps, c, s') \<and>
       as_channel (cl_amm s') = as_channel (cl_amm s) \<and> al_channel (cl_alt s') = al_channel (cl_alt s))"
proof -
  have flag: "readonly_flag (Some v)" using assms(2) by (simp add: readonly_flag_def)
  have st: "st_readonly st" "st_tasks st = []" "st_whitelist st = {}"
    using assms(1) flag
    by (cases "replay_from_slot from_slot_var (an_latest answers)";
        auto simp: startup_def background_tasks_def bind_eq_Some_conv Let_def split: option.splits)+
  with readonly.retry_total [of endpoint "init_request (st_from_slot st)" X env ws s] show ?thesis
    by (auto simp: init_grpc_connection_def only_logged_def)
qed

definition demo_answers :: startup_answers where
  "demo_answers =
     \<lparr>an_pool = Some (), an_ensure_table = None, an_ensure_alt_table = None, an_whitelist = None,
      an_alt_mints = Some [], an_latest = Some None\<rparr>"

theorem readonly_writes_nothing_witness:
  "\<exists>st. startup (Some ''True'') None demo_answers = Some (Inr st) \<and> st_tasks st = []"
proof -
  have eq: "eq_ignore_ascii_case ''True'' ''true''"
    by code_simp
  have "\<exists>st. startup (Some ''True'') None demo_answers = Some (Inr st)"
    by (simp add: startup_def demo_answers_def readonly_flag_def eq load_alt_mints_def fetch_alt_mints_def
                  replay_from_slot_def)
  with readonly_writes_nothing [of "''True''" None demo_answers] eq show ?thesis by blast
qed

end
