(* ===== verification/Recovery.thy ===== *)
theory Recovery
  imports Supervisor
begin

text \<open>
  What survives a crash. A restart replays from 32 slots below the highest slot in \<open>amm_trades\<close>
  (\<open>replay_from_slot\<close> of \<open>src/src/main.rs\<close>); what was received but not committed must not lie below that.
  For the trades it does not, as long as no statement fails; for the swaps, which have an inserter of
  their own, it can.
\<close>

section \<open>Slots of the rows\<close>

lemma trade_set_slot: "map_of trade_set ''slot'' = Some Excluded"
  by (simp add: trade_set_def)

lemma trade_row_slot: "row_slot (trade_row r) = Some (sint (tr_slot r))"
  by (simp add: row_slot_def trade_row_def row_of_def trade_columns_def trade_values_def trade_params_def)

lemma row_slot_updated: "row_slot (updated_columns trade_set r) = row_slot r"
  by (simp add: row_slot_def updated_columns_def trade_set_slot)

lemma shown_row_slot:
  "tbl k = Some r \<Longrightarrow> shown trade_set tbl k = Some c \<Longrightarrow> row_slot r = row_slot c"
  using row_slot_updated by (auto simp: shown_def)

text \<open>Every slot in the table is one it held before, or one of a committed record.\<close>

lemma table_slots:
  assumes "amm_store.shows_only past tbl0 tbl" "r \<in> ran tbl" "row_slot r = Some v"
  shows "(\<exists>r0\<in>ran tbl0. row_slot r0 = Some v) \<or> (\<exists>x\<in>set past. v = sint (tr_slot x))"
proof -
  from assms(2) obtain k where k: "tbl k = Some r" by (auto simp: ran_def)
  from assms(1) consider "shown trade_set tbl k = shown trade_set tbl0 k" |
    x where "x \<in> set past" "shown trade_set tbl k = Some (trade_content x)"
    unfolding amm_store.shows_only_def by blast
  then show ?thesis
  proof cases
    case 1
    with k obtain r0 where r0: "tbl0 k = Some r0" "updated_columns trade_set r = updated_columns trade_set r0"
      by (cases "tbl0 k") (auto simp: shown_def)
    then have "row_slot r0 = Some v" using assms(3) row_slot_updated by metis
    with r0(1) show ?thesis by (auto simp: ran_def)
  next
    case 2
    then have "row_slot r = Some (sint (tr_slot x))"
      using k shown_row_slot row_slot_updated trade_row_slot by (simp add: trade_content_def)
    with 2(1) assms(3) show ?thesis by auto
  qed
qed

lemma select_max_slot_Some:
  assumes "select_max_slot rows = Some v"
  shows "\<exists>r\<in>set rows. row_slot r = Some v" "r \<in> set rows \<Longrightarrow> row_slot r = Some w \<Longrightarrow> w \<le> v"
proof -
  let ?slots = "List.map_filter row_slot rows"
  have s: "set ?slots = {w. \<exists>r\<in>set rows. row_slot r = Some w}"
    by (induction rows) (auto simp: List.map_filter_simps split: option.splits)
  from assms have v: "?slots \<noteq> []" "v = Max (set ?slots)"
    by (auto simp: select_max_slot_eq Let_def split: if_splits)
  then have "v \<in> set ?slots" by (metis Max_in finite_set set_empty)
  with s show "\<exists>r\<in>set rows. row_slot r = Some v" by auto
  show "w \<le> v" if "r \<in> set rows" "row_slot r = Some w"
  proof -
    from that s have "w \<in> set ?slots" by auto
    with v(2) show ?thesis by simp
  qed
qed

section \<open>The replay slot\<close>

text \<open>The slot of the replay as a number; \<open>None\<close> is no checkpoint.\<close>
definition replay_floor :: "sql_row list \<Rightarrow> int option" where
  "replay_floor rows =
     (case replay_from_slot None (Some (latest_trade_slot rows)) of
        Inr (Some slot) \<Rightarrow> Some (uint slot)
      | _ \<Rightarrow> None)"

lemma uint_saturating_32: "uint (saturating_sub (w :: u64) 32) = max 0 (uint w - 32)"
proof -
  have u: "uint x = int (unat x)" for x :: u64 by simp
  have n: "int (n - 32) = max 0 (int n - 32)" for n :: nat by arith
  have "uint (saturating_sub w 32) = int (unat w - 32)" by (simp only: u unat_saturating_sub) simp
  then show ?thesis by (simp only: n u)
qed

lemma replay_floor_eq:
  assumes "v < 2 ^ 64" "select_max_slot rows = Some v" "0 \<le> v"
  shows "replay_floor rows = Some (max 0 (v - 32))"
proof -
  have "uint (word_of_int v :: u64) = v" using assms(1,3) by (simp add: uint_word_of_int_eq take_bit_int_eq_self)
  with assms(2,3) show ?thesis
    by (simp add: replay_floor_def replay_from_slot_def latest_trade_slot_def u64_of_i64_def uint_saturating_32)
qed

section \<open>Trades\<close>

lemma signed_slot_bound: "sint (w :: i64) < 2 ^ 64"
  using sint_lt [of w] by simp

lemma checkpoint_covers:
  assumes "healthy_reachable batch_insert_trades TRADE_CHUNK tbl0 s" "set rows0 = ran tbl0" "set rows = ran (in_db s)"
    "sorted (map (\<lambda>r. sint (tr_slot r)) (in_sent s))"
    "list_all (\<lambda>r. 0 \<le> sint (tr_slot r) \<and> unwrap_or 0 (replay_floor rows0) \<le> sint (tr_slot r)) (in_sent s)"
    "list_all (\<lambda>r0. \<forall>v. row_slot r0 = Some v \<longrightarrow> 0 \<le> v \<and> v < 2 ^ 63) rows0"
    "replay_floor rows = Some from_slot" "r \<in> set (in_buffer s @ in_channel s)"
  shows "from_slot \<le> sint (tr_slot r)"
proof -
  obtain past where sent: "in_sent s = past @ in_buffer s @ in_channel s"
    and past: "amm_store.shows_only past tbl0 (in_db s)"
    using amm_store.healthy_prefix [OF assms(1)] by blast
  have r: "0 \<le> sint (tr_slot r)" "unwrap_or 0 (replay_floor rows0) \<le> sint (tr_slot r)"
    using assms(5,8) sent by (auto simp: list_all_iff)
  obtain v where v: "select_max_slot rows = Some v"
    using assms(7)
    by (cases "select_max_slot rows") (auto simp: replay_floor_def replay_from_slot_def latest_trade_slot_def)
  obtain row where row: "row \<in> set rows" "row_slot row = Some v" using select_max_slot_Some(1) [OF v] by blast
  have "row \<in> ran (in_db s)" using row(1) assms(3) by simp
  from table_slots [OF past this row(2)] consider
    r0 where "r0 \<in> set rows0" "row_slot r0 = Some v" | x where "x \<in> set past" "v = sint (tr_slot x)"
    using assms(2) by auto
  then show ?thesis
  proof cases
    case 1
    then have range: "0 \<le> v" "v < 2 ^ 63" using assms(6) by (auto simp: list_all_iff)
    then have from_slot: "from_slot = max 0 (v - 32)" using replay_floor_eq [OF _ v] assms(7) by simp
    obtain v0 where v0: "select_max_slot rows0 = Some v0" "v \<le> v0"
    proof (cases "select_max_slot rows0")
      case None
      have "row_slot r0 = None" using None 1(1)
        by (induction rows0) (auto simp: select_max_slot_eq Let_def List.map_filter_simps split: option.splits if_splits)
      with 1(2) show thesis by simp
    next
      case (Some v0)
      from select_max_slot_Some(2) [OF this 1] that Some show thesis by blast
    qed
    obtain r1 where "r1 \<in> set rows0" "row_slot r1 = Some v0" using select_max_slot_Some(1) [OF v0(1)] by blast
    then have "v0 < 2 ^ 63" using assms(6) by (auto simp: list_all_iff)
    then have "replay_floor rows0 = Some (max 0 (v0 - 32))"
      using replay_floor_eq [OF _ v0(1)] range(1) v0(2) by simp
    with r v0(2) from_slot show ?thesis by (simp add: unwrap_or_def)
  next
    case 2
    then have "v \<le> sint (tr_slot r)"
      using assms(4,8) sent by (auto simp: sorted_append)
    moreover have "0 \<le> v" using 2 assms(5) sent by (auto simp: list_all_iff)
    ultimately show ?thesis
      using replay_floor_eq [OF _ v] assms(7) signed_slot_bound 2(2) r(1) by simp
  qed
qed

text \<open>A crash loses no trade while the statements succeed: when the records come in the order of their
  slots, and none below the slot this process asked for, the replay after a restart starts at or below the
  slot of every record that is still in the buffer or the channel.\<close>

theorem checkpoint_covers_trades:
  assumes "healthy_reachable batch_insert_trades TRADE_CHUNK tbl0 s" "set rows0 = ran tbl0" "set rows = ran (in_db s)"
    "sorted (map (\<lambda>r. sint (tr_slot r)) (in_sent s))"
    "list_all (\<lambda>r. 0 \<le> sint (tr_slot r) \<and> unwrap_or 0 (replay_floor rows0) \<le> sint (tr_slot r)) (in_sent s)"
    "list_all (\<lambda>r0. \<forall>v. row_slot r0 = Some v \<longrightarrow> 0 \<le> v \<and> v < 2 ^ 63) rows0"
    "replay_floor rows = Some from_slot" "r \<in> set (in_buffer s @ in_channel s)"
  shows "from_slot \<le> sint (tr_slot r)"
  using assms by (rule checkpoint_covers)

theorem checkpoint_covers_trades_witness:
  "\<exists>s :: (trade_record, sql_table) inserter. in_channel s = [demo_trade] \<and> 0 \<le> sint (tr_slot demo_trade)"
proof -
  let ?tbl = "[trade_sql_key demo_trade \<mapsto> trade_row demo_trade]"
  let ?s = "(inserter_init ?tbl)\<lparr>in_channel := [demo_trade], in_sent := [demo_trade]\<rparr>"
  have "world_step (inserter_init ?tbl) ?s"
    using world_step.send [of "inserter_init ?tbl" demo_trade] by (simp add: inserter_init_def CHANNEL_CAPACITY_def)
  with healthy_reachable.healthy_init have 1: "healthy_reachable batch_insert_trades TRADE_CHUNK ?tbl ?s"
    by (rule healthy_reachable.healthy_world)
  have 2: "set [trade_row demo_trade] = ran ?tbl" "set [trade_row demo_trade] = ran (in_db ?s)"
    by (simp_all add: inserter_init_def)
  have slot: "row_slot (trade_row demo_trade) = Some 7" by (simp add: trade_row_slot demo_trade_def)
  have "select_max_slot [trade_row demo_trade] = Some 7"
    by (simp add: select_max_slot_def List.map_filter_simps slot)
  then have floor: "replay_floor [trade_row demo_trade] = Some 0" using replay_floor_eq [of 7] by simp
  have 3: "sorted (map (\<lambda>r. sint (tr_slot r)) (in_sent ?s))"
    "list_all (\<lambda>r. 0 \<le> sint (tr_slot r) \<and>
       unwrap_or 0 (replay_floor [trade_row demo_trade]) \<le> sint (tr_slot r)) (in_sent ?s)"
    "list_all (\<lambda>r0. \<forall>v. row_slot r0 = Some v \<longrightarrow> 0 \<le> v \<and> v < 2 ^ 63) [trade_row demo_trade]"
    using slot by (simp_all add: floor trade_row_slot)
  have "demo_trade \<in> set (in_buffer ?s @ in_channel ?s)" by simp
  from checkpoint_covers_trades [OF 1 2 3 floor this] show ?thesis by (intro exI [of _ ?s]) simp
qed




section \<open>Swaps\<close>

text \<open>Filling a buffer, and the flush of a full one.\<close>

lemma fill_buffer:
  "length rs < FLUSH_ROWS \<Longrightarrow>
   healthy_reachable insert_batch chunk_len db0 ((inserter_init db0)\<lparr>in_buffer := rs, in_sent := rs\<rparr>)"
proof (induction rs rule: rev_induct)
  case Nil
  show ?case
    using healthy_reachable.healthy_init [of insert_batch chunk_len db0] by (simp add: inserter_init_def)
next
  case (snoc r rs)
  let ?s = "(inserter_init db0)\<lparr>in_buffer := rs, in_sent := rs\<rparr>"
  let ?s1 = "?s\<lparr>in_channel := [r], in_sent := rs @ [r]\<rparr>"
  have w: "world_step ?s ?s1"
    using world_step.send [of ?s r] by (simp add: inserter_init_def CHANNEL_CAPACITY_def)
  have "healthy_reachable insert_batch chunk_len db0 ?s" using snoc by simp
  then have 1: "healthy_reachable insert_batch chunk_len db0 ?s1" using w by (rule healthy_reachable.healthy_world)
  have "task_step insert_batch chunk_len (\<lambda>_. Db_Done) ?s1 ((inserter_init db0)\<lparr>in_buffer := rs @ [r], in_sent := rs @ [r]\<rparr>)"
    using snoc.prems by (intro task_step.recv [of _ r "[]"]) (simp_all add: inserter_init_def on_record_def Let_def)
  with 1 show ?case by (rule healthy_reachable.healthy_task)
qed

lemma fill_and_flush:
  assumes "length rs = FLUSH_ROWS" "insert_batch rs db0 = Some (Some db1)" "FLUSH_ROWS \<le> chunk_len"
  shows "healthy_reachable insert_batch chunk_len db0 ((inserter_init db0)\<lparr>in_sent := rs, in_db := db1\<rparr>)"
proof -
  have "rs \<noteq> []" using assms(1) by (auto simp: FLUSH_ROWS_def)
  then obtain init r where rs: "rs = init @ [r]" by (metis rev_exhaust)
  let ?s = "(inserter_init db0)\<lparr>in_buffer := init, in_sent := init\<rparr>"
  let ?s1 = "?s\<lparr>in_channel := [r], in_sent := rs\<rparr>"
  have w: "world_step ?s ?s1"
    using world_step.send [of ?s r] by (simp add: inserter_init_def CHANNEL_CAPACITY_def rs)
  have "length init < FLUSH_ROWS" using assms(1) rs by simp
  then have "healthy_reachable insert_batch chunk_len db0 ?s" by (rule fill_buffer)
  then have 1: "healthy_reachable insert_batch chunk_len db0 ?s1" using w by (rule healthy_reachable.healthy_world)
  have "chunks chunk_len rs = [rs]"
  proof -
    have "0 < chunk_len" "length rs \<le> chunk_len" using assms(1,3) by (simp_all add: FLUSH_ROWS_def)
    then show ?thesis
      using \<open>rs \<noteq> []\<close> by (subst chunks.simps) (simp add: chunks.simps [of chunk_len "[]"])
  qed
  then have "task_step insert_batch chunk_len (\<lambda>_. Db_Done) ?s1 ((inserter_init db0)\<lparr>in_sent := rs, in_db := db1\<rparr>)"
    using assms(1,2) rs
    by (intro task_step.recv [of _ r "[]"])
       (simp_all add: inserter_init_def on_record_def Let_def flush_def flush_buffer_def attempt_insert_def)
  with 1 show ?thesis by (rule healthy_reachable.healthy_task)
qed

text \<open>C29. The checkpoint of the trades does not cover the swaps: 500 trades of one slot are written at once,
  while a swap of a slot more than 32 below is still in the buffer of the other inserter, with no failure
  anywhere. The replay of a restart at that moment starts above the swap, which is then never recorded.\<close>

theorem checkpoint_skips_buffered_swap:
  assumes "length trades = FLUSH_ROWS" "list_all (\<lambda>r. tr_slot r = slot) trades" "sint (ar_slot swap) + 32 < sint slot"
    "0 \<le> sint (ar_slot swap)"
  shows "\<exists>a b. healthy_reachable batch_insert_trades TRADE_CHUNK Map.empty a \<and> in_sent a = trades \<and>
    healthy_reachable batch_insert_alt_trades ALT_CHUNK Map.empty b \<and> in_sent b = [swap] \<and>
    in_buffer b = [swap] \<and> in_db b = Map.empty \<and>
    (\<forall>rows. set rows = ran (in_db a) \<longrightarrow>
       (\<exists>from_slot. replay_floor rows = Some from_slot \<and> sint (ar_slot swap) < from_slot))"
proof -
  obtain tbl where tbl: "batch_insert_trades trades Map.empty = Some (Some tbl)"
    using amm_store.insert_view [of trades Map.empty] assms(1) by (auto simp: FLUSH_ROWS_def TRADE_CHUNK_def)
  let ?a = "(inserter_init Map.empty)\<lparr>in_sent := trades, in_db := tbl\<rparr>"
  let ?b = "(inserter_init Map.empty)\<lparr>in_buffer := [swap], in_sent := [swap]\<rparr>"
  have a: "healthy_reachable batch_insert_trades TRADE_CHUNK Map.empty ?a"
    using assms(1) tbl by (rule fill_and_flush) (simp add: FLUSH_ROWS_def TRADE_CHUNK_def)
  have b: "healthy_reachable batch_insert_alt_trades ALT_CHUNK Map.empty ?b"
    by (rule fill_buffer) (simp add: FLUSH_ROWS_def)
  have only: "amm_store.shows_only trades Map.empty tbl"
    using amm_store.insert_shows_only [OF tbl _, of "[]"] assms(1)
    by (simp add: amm_store.shows_only_def FLUSH_ROWS_def TRADE_CHUNK_def)
  have "\<exists>from_slot. replay_floor rows = Some from_slot \<and> sint (ar_slot swap) < from_slot" if rows: "set rows = ran tbl" for rows
  proof -
    have slots: "row_slot r = Some v \<Longrightarrow> v = sint slot" if "r \<in> set rows" for r v
      using table_slots [OF only _, of r v] that rows assms(2) by (auto simp: list_all_iff)
    obtain t ts where t: "trades = t # ts" using assms(1) by (cases trades) (auto simp: FLUSH_ROWS_def)
    have "shown trade_set tbl (trade_sql_key t) \<noteq> None"
      using amm_store.insert_view [of trades Map.empty] tbl assms(1) t by (auto simp: FLUSH_ROWS_def TRADE_CHUNK_def)
    then obtain r where r: "tbl (trade_sql_key t) = Some r" by (auto simp: shown_def)
    then have "r \<in> set rows" using rows by (auto simp: ran_def)
    moreover have "row_slot r \<noteq> None"
    proof -
      obtain x where "shown trade_set tbl (trade_sql_key t) = Some (trade_content x)"
      proof -
        have "shown trade_set tbl (trade_sql_key t) \<noteq> shown trade_set Map.empty (trade_sql_key t)"
          using r by (simp add: shown_def)
        with only that show thesis unfolding amm_store.shows_only_def by blast
      qed
      then show ?thesis using shown_row_slot [of tbl "trade_sql_key t" r, OF r] row_slot_updated trade_row_slot by (simp add: trade_content_def)
    qed
    ultimately have max: "select_max_slot rows \<noteq> None"
      by (induction rows) (auto simp: select_max_slot_def Let_def List.map_filter_simps split: option.splits if_splits)
    then obtain v where v: "select_max_slot rows = Some v" by auto
    then have "v = sint slot" using select_max_slot_Some(1) [OF v] slots by auto
    with v assms(3,4) signed_slot_bound [of slot] show ?thesis
      using replay_floor_eq [of v rows] by simp
  qed
  with a b show ?thesis
    by (intro exI [of _ ?a] exI [of _ ?b]) (simp add: inserter_init_def)
qed

theorem checkpoint_skips_buffered_swap_witness:
  "\<exists>b :: (alt_trade_record, sql_table) inserter. healthy_reachable batch_insert_alt_trades ALT_CHUNK Map.empty b \<and>
     in_buffer b = [demo_swap] \<and> in_db b = Map.empty"
proof -
  have "length (replicate 500 (demo_trade\<lparr>tr_slot := 200\<rparr>)) = FLUSH_ROWS"
    "list_all (\<lambda>r. tr_slot r = 200) (replicate 500 (demo_trade\<lparr>tr_slot := 200\<rparr>))"
    "sint (ar_slot demo_swap) + 32 < sint (200 :: i64)" "0 \<le> sint (ar_slot demo_swap)"
    by (simp_all add: FLUSH_ROWS_def demo_swap_def list_all_iff)
  from checkpoint_skips_buffered_swap [OF this] show ?thesis by blast
qed

end
