(* ===== verification/System.thy ===== *)
theory System
  imports Accounting Recovery
begin

text \<open>
  The program while it runs, as one transition system: the connection task handles one transaction after the
  other, the two batch inserters write, the refresh tasks change the shared mints, the pruner deletes old
  rows, and the shutdown takes it down. A step is one step of one of them (\<open>src/src/main.rs\<close>, with the loops
  of the tasks it spawns). The theorems follow a trade from the transaction to the table.
\<close>

section \<open>State\<close>

text \<open>How far the shutdown is: nothing yet, the flag has fallen, the connection task is aborted, the last
  senders are dropped.\<close>
datatype stage = Up | Stopping | Aborted | Closed

text \<open>A transaction that was handled, with what the handlers read during the call.\<close>
type_synonym handled = "readings \<times> tx_info \<times> u64"

text \<open>The \<open>out\<close> lists are the records that the running call of a handler has still to send. \<open>sy_handled\<close> and the
  pruned keys are history.\<close>
record system =
  sy_stage :: stage
  sy_whitelist :: "string \<Rightarrow> unit option"
  sy_whitelist_ops :: "(string, unit) map_op list"
  sy_alt_mints :: alt_mint_map
  sy_alt_mints_ops :: "(string, alt_mint_info) map_op list"
  sy_amm_out :: "trade_record list"
  sy_alt_out :: "alt_trade_record list"
  sy_amm :: "(trade_record, sql_table) inserter"
  sy_alt :: "(alt_trade_record, sql_table) inserter"
  sy_handled :: "handled list"
  sy_amm_pruned :: "sql_key set"
  sy_alt_pruned :: "sql_key set"

definition system_init :: "string set \<Rightarrow> alt_mint_map \<Rightarrow> sql_table \<Rightarrow> sql_table \<Rightarrow> system" where
  "system_init whitelist alt_mints amm_tbl alt_tbl =
     \<lparr>sy_stage = Up, sy_whitelist = (\<lambda>m. if m \<in> whitelist then Some () else None), sy_whitelist_ops = [],
      sy_alt_mints = alt_mints, sy_alt_mints_ops = [], sy_amm_out = [], sy_alt_out = [],
      sy_amm = inserter_init amm_tbl, sy_alt = inserter_init alt_tbl,
      sy_handled = [], sy_amm_pruned = {}, sy_alt_pruned = {}\<rparr>"

text \<open>The records that the handlers make of a transaction, in the order in which they send them.\<close>

definition amm_records :: "externals \<Rightarrow> handled \<Rightarrow> trade_record list" where
  "amm_records X h =
     (let (r, tx, slot) = h in
      case create_amm_handler X False r tx slot
             \<lparr>as_channel = [], as_channel_closed = False, as_trade_counter = 0, as_log = []\<rparr> of
        Some (_, st) \<Rightarrow> as_channel st
      | None \<Rightarrow> [])"

definition alt_records :: "externals \<Rightarrow> handled \<Rightarrow> alt_trade_record list" where
  "alt_records X h =
     (let (r, tx, slot) = h in
      case create_cpmm_handler X False r tx slot
             \<lparr>al_channel = [], al_channel_closed = False, al_trade_counter = 0, al_log = []\<rparr> of
        Some (_, st) \<Rightarrow> al_channel st
      | None \<Rightarrow> [])"

section \<open>Steps\<close>

text \<open>\<open>sender.send(record).await\<close> goes through when the channel has room, and fails when the receiver is gone.\<close>

definition has_room :: "('r, 'db) inserter \<Rightarrow> bool" where
  "has_room a \<longleftrightarrow> in_senders a \<and> in_phase a \<noteq> Finished \<and> length (in_channel a) < CHANNEL_CAPACITY"

definition push :: "'r \<Rightarrow> ('r, 'db) inserter \<Rightarrow> ('r, 'db) inserter" where
  "push r a = a\<lparr>in_channel := in_channel a @ [r], in_sent := in_sent a @ [r]\<rparr>"

text \<open>The keys a pruning pass deletes.\<close>
definition pruned_keys :: "timestamp \<Rightarrow> sql_table \<Rightarrow> sql_key set" where
  "pruned_keys now tbl = {k. prune_old_trades now tbl k \<noteq> tbl k}"

definition prune_inserter :: "timestamp \<Rightarrow> ('r, sql_table) inserter \<Rightarrow> ('r, sql_table) inserter" where
  "prune_inserter now a = a\<lparr>in_db := prune_old_trades now (in_db a)\<rparr>"

text \<open>\<open>outcome\<close> is how the database answers the statements of a flush in this step.\<close>

inductive system_step :: "externals \<Rightarrow> (nat \<Rightarrow> db_outcome) \<Rightarrow> system \<Rightarrow> system \<Rightarrow> bool" for X outcome where
  handle: "sy_stage s \<in> {Up, Stopping} \<Longrightarrow> sy_amm_out s = [] \<Longrightarrow> sy_alt_out s = [] \<Longrightarrow>
    rd_whitelist r = dom (sy_whitelist s) \<Longrightarrow> rd_alt_mints r = sy_alt_mints s \<Longrightarrow>
    system_step X outcome s
      (s\<lparr>sy_handled := sy_handled s @ [(r, tx, slot)],
         sy_amm_out := amm_records X (r, tx, slot), sy_alt_out := alt_records X (r, tx, slot)\<rparr>)"
| send_trade: "sy_amm_out s = r # rest \<Longrightarrow> has_room (sy_amm s) \<Longrightarrow>
    system_step X outcome s (s\<lparr>sy_amm_out := rest, sy_amm := push r (sy_amm s)\<rparr>)"
| send_swap: "sy_alt_out s = r # rest \<Longrightarrow> has_room (sy_alt s) \<Longrightarrow>
    system_step X outcome s (s\<lparr>sy_alt_out := rest, sy_alt := push r (sy_alt s)\<rparr>)"
| refuse_trade: "sy_amm_out s = r # rest \<Longrightarrow> in_phase (sy_amm s) = Finished \<Longrightarrow>
    system_step X outcome s (s\<lparr>sy_amm_out := rest\<rparr>)"
| refuse_swap: "sy_alt_out s = r # rest \<Longrightarrow> in_phase (sy_alt s) = Finished \<Longrightarrow>
    system_step X outcome s (s\<lparr>sy_alt_out := rest\<rparr>)"
| amm_task: "task_step batch_insert_trades TRADE_CHUNK outcome (sy_amm s) a \<Longrightarrow>
    system_step X outcome s (s\<lparr>sy_amm := a\<rparr>)"
| alt_task: "task_step batch_insert_alt_trades ALT_CHUNK outcome (sy_alt s) a \<Longrightarrow>
    system_step X outcome s (s\<lparr>sy_alt := a\<rparr>)"
| whitelist_query: "sy_whitelist_ops s = [] \<Longrightarrow>
    system_step X outcome s (s\<lparr>sy_whitelist_ops := whitelist_ops rows\<rparr>)"
| whitelist_op: "sy_whitelist_ops s = op # ops \<Longrightarrow>
    system_step X outcome s (s\<lparr>sy_whitelist_ops := ops, sy_whitelist := apply_op (sy_whitelist s) op\<rparr>)"
| alt_mints_query: "sy_alt_mints_ops s = [] \<Longrightarrow> fetch_alt_mints Whitelisted rows = Some fresh \<Longrightarrow>
    set map_keys = dom (sy_alt_mints s) \<Longrightarrow>
    system_step X outcome s (s\<lparr>sy_alt_mints_ops := alt_mints_ops fresh map_keys\<rparr>)"
| alt_mints_op: "sy_alt_mints_ops s = op # ops \<Longrightarrow>
    system_step X outcome s (s\<lparr>sy_alt_mints_ops := ops, sy_alt_mints := apply_op (sy_alt_mints s) op\<rparr>)"
| prune_trades: "system_step X outcome s
    (s\<lparr>sy_amm := prune_inserter now (sy_amm s), sy_amm_pruned := sy_amm_pruned s \<union> pruned_keys now (in_db (sy_amm s))\<rparr>)"
| prune_swaps: "system_step X outcome s
    (s\<lparr>sy_alt := prune_inserter now (sy_alt s), sy_alt_pruned := sy_alt_pruned s \<union> pruned_keys now (in_db (sy_alt s))\<rparr>)"
| flag_falls: "sy_stage s = Up \<Longrightarrow>
    system_step X outcome s
      (s\<lparr>sy_stage := Stopping, sy_amm := (sy_amm s)\<lparr>in_running := False\<rparr>, sy_alt := (sy_alt s)\<lparr>in_running := False\<rparr>\<rparr>)"
| abort_stream: "sy_stage s = Stopping \<Longrightarrow>
    system_step X outcome s (s\<lparr>sy_stage := Aborted, sy_amm_out := [], sy_alt_out := []\<rparr>)"
| drop_senders: "sy_stage s = Aborted \<Longrightarrow>
    system_step X outcome s
      (s\<lparr>sy_stage := Closed, sy_amm := (sy_amm s)\<lparr>in_senders := False\<rparr>, sy_alt := (sy_alt s)\<lparr>in_senders := False\<rparr>\<rparr>)"

inductive system_reachable :: "externals \<Rightarrow> system \<Rightarrow> system \<Rightarrow> bool" for X s0 where
  start: "system_reachable X s0 s0"
| step: "system_reachable X s0 s \<Longrightarrow> system_step X outcome s t \<Longrightarrow> system_reachable X s0 t"

text \<open>A run in which the database answers every flush by \<open>outcome\<close>, with its length.\<close>
inductive system_run :: "externals \<Rightarrow> (nat \<Rightarrow> db_outcome) \<Rightarrow> nat \<Rightarrow> system \<Rightarrow> system \<Rightarrow> bool" for X outcome where
  no_step: "system_run X outcome 0 s s"
| more_steps: "system_step X outcome s t \<Longrightarrow> system_run X outcome n t u \<Longrightarrow> system_run X outcome (Suc n) s u"

section \<open>Each table\<close>







section \<open>While the program is up\<close>

definition all_amm_records :: "externals \<Rightarrow> system \<Rightarrow> trade_record list" where
  "all_amm_records X s = concat (map (amm_records X) (sy_handled s))"

definition all_alt_records :: "externals \<Rightarrow> system \<Rightarrow> alt_trade_record list" where
  "all_alt_records X s = concat (map (alt_records X) (sy_handled s))"

definition task_up :: "('r, 'db) inserter \<Rightarrow> bool" where
  "task_up a \<longleftrightarrow> in_phase a = Selecting \<and> in_running a \<and> in_senders a \<and> length (in_channel a) \<le> CHANNEL_CAPACITY"

text \<open>Until the shutdown begins, both tasks are selecting, and every record of every transaction handled so far
  was sent, in order, but for those that the running call still holds.\<close>

definition up_inv :: "externals \<Rightarrow> system \<Rightarrow> bool" where
  "up_inv X s \<longleftrightarrow> (sy_stage s = Up \<longrightarrow>
     task_up (sy_amm s) \<and> task_up (sy_alt s) \<and>
     in_sent (sy_amm s) @ sy_amm_out s = all_amm_records X s \<and>
     in_sent (sy_alt s) @ sy_alt_out s = all_alt_records X s)"

lemma task_up_step:
  assumes "task_step insert_batch chunk_len outcome a b" "task_up a"
  shows "task_up b \<and> in_sent b = in_sent a"
  using task_step_selecting [OF assms(1)] task_step_channel [OF assms(1)] task_step_effect(1) [OF assms(1)] assms(2)
  by (simp add: task_up_def)

lemma task_up_push: "has_room a \<Longrightarrow> task_up a \<Longrightarrow> task_up (push r a)"
  by (simp add: task_up_def has_room_def push_def)

lemma push_sent [simp]: "in_sent (push r a) = in_sent a @ [r]"
  by (simp add: push_def)

lemma task_up_prune [simp]: "task_up (prune_inserter now a) = task_up a" "in_sent (prune_inserter now a) = in_sent a"
  by (simp_all add: task_up_def prune_inserter_def)

lemma step_up_inv: "system_step X outcome s t \<Longrightarrow> up_inv X s \<Longrightarrow> up_inv X t"
proof (induction rule: system_step.induct)
  case (send_trade s r rest)
  then show ?case by (simp add: up_inv_def all_amm_records_def all_alt_records_def task_up_push)
next
  case (send_swap s r rest)
  then show ?case by (simp add: up_inv_def all_amm_records_def all_alt_records_def task_up_push)
next
  case (amm_task s a)
  then show ?case
    using task_up_step [OF amm_task(1)] by (simp add: up_inv_def all_amm_records_def all_alt_records_def)
next
  case (alt_task s a)
  then show ?case
    using task_up_step [OF alt_task(1)] by (simp add: up_inv_def all_amm_records_def all_alt_records_def)
qed (auto simp: up_inv_def all_amm_records_def all_alt_records_def task_up_def [of "sy_amm _"] task_up_def [of "sy_alt _"])

lemma reachable_up_inv: "system_reachable X (system_init whitelist mints tbl alt_tbl) s \<Longrightarrow> up_inv X s"
proof (induction rule: system_reachable.induct)
  case start
  then show ?case
    by (simp add: up_inv_def system_init_def task_up_def inserter_init_def all_amm_records_def all_alt_records_def)
qed (rule step_up_inv)

section \<open>No record is lost\<close>





section \<open>The tables as a function of the stream\<close>







section \<open>A call always completes\<close>

lemma system_run_trans:
  "system_run X outcome m s t \<Longrightarrow> system_run X outcome n t u \<Longrightarrow> system_run X outcome (m + n) s u"
  by (induction rule: system_run.induct) (auto intro: system_run.more_steps)

lemma one_step: "system_step X outcome s t \<Longrightarrow> system_run X outcome 1 s t"
  using system_run.more_steps [OF _ system_run.no_step] by simp

lemma room_or_full: "task_up a \<Longrightarrow> \<not> has_room a \<Longrightarrow> length (in_channel a) = CHANNEL_CAPACITY"
  by (auto simp: task_up_def has_room_def)

lemma full_channel: "length (in_channel a) = CHANNEL_CAPACITY \<Longrightarrow> \<exists>r rest. in_channel a = r # rest"
  by (cases "in_channel a") (simp_all add: CHANNEL_CAPACITY_def)

text \<open>The next record of the running call goes into the channel within two steps: if the channel is full, the
  inserter takes a record first.\<close>

lemma send_trade_possible:
  assumes "task_up (sy_amm s)" "sy_amm_out s = r # rest"
  shows "\<exists>n t. system_run X outcome n s t \<and> n \<le> 2 \<and> sy_amm_out t = rest \<and> sy_alt_out t = sy_alt_out s \<and>
    task_up (sy_amm t) \<and> sy_alt t = sy_alt s \<and> sy_stage t = sy_stage s \<and> sy_handled t = sy_handled s"
proof (cases "has_room (sy_amm s)")
  case True
  with assms show ?thesis
    by (intro exI [of _ 1] exI [of _ "s\<lparr>sy_amm_out := rest, sy_amm := push r (sy_amm s)\<rparr>"] conjI one_step
          system_step.send_trade) (simp_all add: task_up_push)
next
  case False
  obtain x xs where x: "in_channel (sy_amm s) = x # xs"
    using full_channel [OF room_or_full [OF assms(1) False]] by blast
  obtain a where a: "task_step batch_insert_trades TRADE_CHUNK outcome (sy_amm s) a" "in_channel a = xs"
    "in_phase a = Selecting" "in_running a = in_running (sy_amm s)" "in_senders a = in_senders (sy_amm s)"
    using amm_store.recv_possible [OF _ x, of outcome] assms(1) by (auto simp: task_up_def)
  let ?s = "s\<lparr>sy_amm := a\<rparr>"
  have room: "has_room a" "task_up a"
    using a(2-5) assms(1) x by (simp_all add: has_room_def task_up_def)
  have 1: "system_step X outcome s ?s" using a(1) by (rule system_step.amm_task)
  have "system_step X outcome ?s (?s\<lparr>sy_amm_out := rest, sy_amm := push r (sy_amm ?s)\<rparr>)"
    using assms(2) room(1) by (intro system_step.send_trade) simp_all
  from system_run_trans [OF one_step [OF 1] one_step [OF this]] task_up_push [OF room] show ?thesis
    by (intro exI [of _ 2] exI [of _ "?s\<lparr>sy_amm_out := rest, sy_amm := push r (sy_amm ?s)\<rparr>"])
       (simp add: numeral_2_eq_2)
qed

lemma send_swap_possible:
  assumes "task_up (sy_alt s)" "sy_alt_out s = r # rest"
  shows "\<exists>n t. system_run X outcome n s t \<and> n \<le> 2 \<and> sy_alt_out t = rest \<and> sy_amm_out t = sy_amm_out s \<and>
    task_up (sy_alt t) \<and> sy_amm t = sy_amm s \<and> sy_stage t = sy_stage s \<and> sy_handled t = sy_handled s"
proof (cases "has_room (sy_alt s)")
  case True
  with assms show ?thesis
    by (intro exI [of _ 1] exI [of _ "s\<lparr>sy_alt_out := rest, sy_alt := push r (sy_alt s)\<rparr>"] conjI one_step
          system_step.send_swap) (simp_all add: task_up_push)
next
  case False
  obtain x xs where x: "in_channel (sy_alt s) = x # xs"
    using full_channel [OF room_or_full [OF assms(1) False]] by blast
  obtain a where a: "task_step batch_insert_alt_trades ALT_CHUNK outcome (sy_alt s) a" "in_channel a = xs"
    "in_phase a = Selecting" "in_running a = in_running (sy_alt s)" "in_senders a = in_senders (sy_alt s)"
    using alt_store.recv_possible [OF _ x, of outcome] assms(1) by (auto simp: task_up_def)
  let ?s = "s\<lparr>sy_alt := a\<rparr>"
  have room: "has_room a" "task_up a"
    using a(2-5) assms(1) x by (simp_all add: has_room_def task_up_def)
  have 1: "system_step X outcome s ?s" using a(1) by (rule system_step.alt_task)
  have "system_step X outcome ?s (?s\<lparr>sy_alt_out := rest, sy_alt := push r (sy_alt ?s)\<rparr>)"
    using assms(2) room(1) by (intro system_step.send_swap) simp_all
  from system_run_trans [OF one_step [OF 1] one_step [OF this]] task_up_push [OF room] show ?thesis
    by (intro exI [of _ 2] exI [of _ "?s\<lparr>sy_alt_out := rest, sy_alt := push r (sy_alt ?s)\<rparr>"])
       (simp add: numeral_2_eq_2)
qed

lemma sends_complete:
  assumes "task_up (sy_amm s)" "task_up (sy_alt s)"
  shows "\<exists>n t. system_run X outcome n s t \<and> n \<le> 2 * (length (sy_amm_out s) + length (sy_alt_out s)) \<and>
    sy_amm_out t = [] \<and> sy_alt_out t = [] \<and> sy_stage t = sy_stage s \<and> sy_handled t = sy_handled s"
  using assms
proof (induction "length (sy_amm_out s) + length (sy_alt_out s)" arbitrary: s)
  case 0
  then show ?case by (intro exI [of _ 0] exI [of _ s]) (simp add: system_run.no_step)
next
  case (Suc m)
  obtain n t where t: "system_run X outcome n s t" "n \<le> 2" "task_up (sy_amm t)" "task_up (sy_alt t)"
    "m = length (sy_amm_out t) + length (sy_alt_out t)" "sy_stage t = sy_stage s" "sy_handled t = sy_handled s"
  proof (cases "sy_amm_out s")
    case (Cons r rest)
    from send_trade_possible [OF Suc(3) this, of X outcome] Suc(2,4) Cons show thesis by (auto intro: that)
  next
    case Nil
    then obtain r rest where "sy_alt_out s = r # rest" using Suc(2) by (cases "sy_alt_out s") simp_all
    from send_swap_possible [OF Suc(4) this, of X outcome] this Suc(2,3) Nil show thesis by (auto intro: that)
  qed
  from Suc(1) [OF t(5,3,4)] obtain n' u where u: "system_run X outcome n' t u"
    "n' \<le> 2 * (length (sy_amm_out t) + length (sy_alt_out t))" "sy_amm_out u = []" "sy_alt_out u = []"
    "sy_stage u = sy_stage t" "sy_handled u = sy_handled t" by blast
  have "n + n' \<le> 2 * (length (sy_amm_out s) + length (sy_alt_out s))"
    using t(2) u(2) unfolding t(5) [symmetric] Suc(2) [symmetric] by simp
  with system_run_trans [OF t(1) u(1)] u(3-6) t(6,7) show ?case by (intro exI [of _ "n + n'"] exI [of _ u]) simp
qed

text \<open>C7. The stream is never blocked for good: from every state of every run before the shutdown, and however the
  database answers, the running call can finish within two steps for each record it has still to send, so
  the next transaction can be handled; a full channel only makes it wait for the inserter.\<close>

theorem call_always_completes:
  assumes "system_reachable X (system_init whitelist mints tbl alt_tbl) s" "sy_stage s = Up"
  shows "\<exists>n t. system_run X outcome n s t \<and> n \<le> 2 * (length (sy_amm_out s) + length (sy_alt_out s)) \<and>
    sy_handled t = sy_handled s \<and>
    (\<exists>r u. system_step X outcome t u \<and> sy_handled u = sy_handled s @ [(r, tx, slot)])"
proof -
  have "task_up (sy_amm s)" "task_up (sy_alt s)"
    using reachable_up_inv [OF assms(1)] assms(2) by (simp_all add: up_inv_def)
  from sends_complete [OF this, of X outcome] obtain n t where t: "system_run X outcome n s t"
    "n \<le> 2 * (length (sy_amm_out s) + length (sy_alt_out s))" "sy_amm_out t = []" "sy_alt_out t = []"
    "sy_stage t = Up" "sy_handled t = sy_handled s" using assms(2) by auto
  let ?r = "\<lparr>rd_amm_now = 0, rd_alt_now = 0, rd_whitelist = dom (sy_whitelist t), rd_alt_mints = sy_alt_mints t\<rparr>"
  let ?h = "(?r, tx, slot)"
  have "system_step X outcome t
      (t\<lparr>sy_handled := sy_handled t @ [?h], sy_amm_out := amm_records X ?h, sy_alt_out := alt_records X ?h\<rparr>)"
    using t(3-5) by (intro system_step.handle) simp_all
  then have "\<exists>r u. system_step X outcome t u \<and> sy_handled u = sy_handled t @ [(r, tx, slot)]" by fastforce
  with t show ?thesis by metis
qed

section \<open>A run\<close>

text \<open>One failed buy of a whitelisted mint is handled; its record is sent, received and written.\<close>

definition demo_handled :: handled where
  "demo_handled =
     (\<lparr>rd_amm_now = 0, rd_alt_now = 0, rd_whitelist = {text_of_bytes (demo_key 2)}, rd_alt_mints = Map.empty\<rparr>,
      demo_failed_tx, 5)"

lemma demo_amm_records: "length (amm_records demo_ext demo_handled) = 1"
  by (simp add: amm_records_def demo_handled_def create_amm_handler_def process_closed [OF demo_inputs] demo_failed_fills emit_fills_send)

lemma demo_alt_records: "alt_records demo_ext demo_handled = []"
  by code_simp

definition demo_system :: system where
  "demo_system = system_init {text_of_bytes (demo_key 2)} Map.empty Map.empty Map.empty"

definition demo_called :: system where
  "demo_called = demo_system\<lparr>sy_handled := [demo_handled], sy_amm_out := amm_records demo_ext demo_handled\<rparr>"

lemma demo_call: "system_reachable demo_ext demo_system demo_called"
proof -
  obtain r tx slot where h: "demo_handled = (r, tx, slot)" by (cases demo_handled)
  have "system_step demo_ext (\<lambda>_. Db_Done) demo_system
      (demo_system\<lparr>sy_handled := sy_handled demo_system @ [(r, tx, slot)],
         sy_amm_out := amm_records demo_ext (r, tx, slot), sy_alt_out := alt_records demo_ext (r, tx, slot)\<rparr>)"
    using h by (intro system_step.handle) (auto simp: demo_system_def system_init_def demo_handled_def split: if_splits)
  moreover have "demo_system\<lparr>sy_handled := sy_handled demo_system @ [(r, tx, slot)],
         sy_amm_out := amm_records demo_ext (r, tx, slot), sy_alt_out := alt_records demo_ext (r, tx, slot)\<rparr> = demo_called"
    using demo_alt_records by (simp add: h demo_called_def demo_system_def system_init_def)
  ultimately show ?thesis using system_reachable.step [OF system_reachable.start] by simp
qed

lemma demo_called_simps [simp]:
  "sy_stage demo_called = Up" "sy_handled demo_called = [demo_handled]"
  "sy_amm_out demo_called = amm_records demo_ext demo_handled" "sy_alt_out demo_called = []"
  by (simp_all add: demo_called_def demo_system_def system_init_def)





theorem call_always_completes_witness:
  "\<exists>n t. system_run demo_ext (\<lambda>_. Db_Failed) n demo_called t \<and> n \<le> 2 \<and>
     (\<exists>r u. system_step demo_ext (\<lambda>_. Db_Failed) t u \<and> sy_handled u = [demo_handled, (r, demo_failed_tx, 6)])"
  using call_always_completes [OF demo_call [unfolded demo_system_def] demo_called_simps(1), of "\<lambda>_. Db_Failed" demo_failed_tx 6]
  by (auto simp: demo_amm_records)



end
