(* ===== verification/Renumber.thy ===== *)
theory Renumber
  imports System
begin

text \<open>
  The whitelist and the numbering of trades. A narrower whitelist only drops fills of a transaction; but the
  records are numbered after the filter, and the number is part of the primary key. So a replay under
  another whitelist writes trades under the keys of other trades.
\<close>

section \<open>The whitelist is a filter\<close>

definition narrowed :: "timestamp \<Rightarrow> string set \<Rightarrow> tx_context \<Rightarrow> tx_context" where
  "narrowed now whitelist ctx = ctx\<lparr>tc_whitelist := whitelist, tc_now := now\<rparr>"

lemma narrowed_simps [simp]:
  "tc_success (narrowed now whitelist ctx) = tc_success ctx" "tc_readonly (narrowed now whitelist ctx) = tc_readonly ctx"
  "tc_tx_signature (narrowed now whitelist ctx) = tc_tx_signature ctx"
  "tc_pump_program_id (narrowed now whitelist ctx) = tc_pump_program_id ctx"
  "tc_pump_swap_program_id (narrowed now whitelist ctx) = tc_pump_swap_program_id ctx"
  "tc_whitelist (narrowed now whitelist ctx) = whitelist"
  by (simp_all add: narrowed_def)

definition only_of :: "string set \<Rightarrow> trade_fill list \<Rightarrow> trade_fill list" where
  "only_of whitelist fills = filter (\<lambda>f. fl_mint f \<in> whitelist) fills"

lemma only_of_simps [simp]:
  "only_of W [] = []" "only_of W (f # fs) = (if fl_mint f \<in> W then f # only_of W fs else only_of W fs)"
  "only_of W (fs @ gs) = only_of W fs @ only_of W gs"
  by (simp_all add: only_of_def)

lemma eligible_narrowed:
  assumes "\<not> tc_readonly ctx" "W \<subseteq> tc_whitelist ctx"
  shows "eligible X (narrowed now W ctx) pool base quote =
    (if x_pubkey_to_string X base \<in> W then eligible X ctx pool base quote else None)"
  using assms by (auto simp: eligible_def Let_def split: option.splits)

lemma trade_amounts_narrowed:
  "trade_amounts (narrowed now W ctx) = trade_amounts ctx"
  by (simp add: fun_eq_iff trade_amounts_def)

lemma hop_fill_mint [simp]: "fl_mint (hop_fill X hops is_cpi user hop ccy is_buy a src) = x_pubkey_to_string X (hop_base_mint hop)"
  by (simp add: hop_fill_def split: prod.splits)

lemma single_trade_fill_narrowed:
  assumes "pubkey_text_ok X" "\<not> tc_readonly ctx" "W \<subseteq> tc_whitelist ctx"
  shows "single_trade_fill X (narrowed now W ctx) instr meta full parent start kind =
    map_option (\<lambda>fill. case fill of None \<Rightarrow> None | Some f \<Rightarrow> if fl_mint f \<in> W then Some f else None)
      (single_trade_fill X ctx instr meta full parent start kind)"
proof (cases "trade_keys X instr full")
  case (Some keys)
  then obtain mint quote_mint pool_address base quote pool where
    k: "trade_keys X instr full = Some ((mint, quote_mint, pool_address), (base, quote, pool))"
    by (cases keys) auto
  obtain amounts src where a: "trade_amounts ctx instr meta parent start kind ccy = Some (amounts ccy, src ccy)" for ccy
  proof -
    have "\<exists>p. trade_amounts ctx instr meta parent start kind ccy = Some p" for ccy
      by (simp add: trade_amounts_def panic_free split: option.splits prod.splits)
    then show thesis using that [of "\<lambda>ccy. fst (the (trade_amounts ctx instr meta parent start kind ccy))"
        "\<lambda>ccy. snd (the (trade_amounts ctx instr meta parent start kind ccy))"]
      by (metis option.sel prod.collapse)
  qed
  have mint: "mint = x_pubkey_to_string X base" using trade_keys_Some [OF assms(1) k] by simp
  show ?thesis
  proof (cases "eligible X ctx pool base quote")
    case (Some ccy)
    obtain t q mc br qr where "amounts ccy = (t, q, mc, br, qr)" by (cases "amounts ccy")
    then show ?thesis
      using eligible_narrowed [OF assms(2,3), of X now pool base quote] Some
      by (simp add: single_trade_fill_def k trade_amounts_narrowed a mint Let_def)
  next
    case None
    then show ?thesis
      using eligible_narrowed [OF assms(2,3), of X now pool base quote]
      by (simp add: single_trade_fill_def k)
  qed
qed (simp add: single_trade_fill_def)

lemma route_fills_narrowed:
  assumes "\<not> tc_readonly ctx" "W \<subseteq> tc_whitelist ctx"
  shows "map snd (route_fills X (narrowed now W ctx) hops is_cpi user dats next_hop) =
    only_of W (map snd (route_fills X ctx hops is_cpi user dats next_hop))"
proof (induction dats arbitrary: next_hop)
  case (Cons dat dats)
  then show ?case
    by (auto simp: eligible_narrowed [OF assms] bind_eq_Some_conv split: option.splits)
qed simp

lemma request_loop_narrowed:
  assumes "\<not> tc_readonly ctx" "W \<subseteq> tc_whitelist ctx"
  shows "multi_hop_request_loop X (narrowed now W ctx) hops is_cpi user amount_in min_out last_ix hs i =
    only_of W (multi_hop_request_loop X ctx hops is_cpi user amount_in min_out last_ix hs i)"
proof (induction hs arbitrary: i)
  case (Cons h hs)
  obtain hop is_buy where h: "h = (hop, is_buy)" by (cases h)
  show ?case
    by (cases "eligible X ctx (hop_pool hop) (hop_base_mint hop) (hop_quote_mint hop)")
       (simp_all add: h Cons Let_def eligible_narrowed [OF assms])
qed simp

lemma multi_hop_fills_narrowed:
  assumes "\<not> tc_readonly ctx" "W \<subseteq> tc_whitelist ctx"
  shows "the (multi_hop_fills X (narrowed now W ctx) instr meta full parent start) =
    only_of W (the (multi_hop_fills X ctx instr meta full parent start))"
proof (cases "tc_success ctx")
  case True
  then show ?thesis by (simp add: multi_hop_fills_success route_fills_narrowed [OF assms])
next
  case False
  then show ?thesis
    by (simp add: multi_hop_fills_failed request_loop_narrowed [OF assms] split: option.splits prod.splits)
qed

lemma fills_of_item_narrowed:
  assumes "pubkey_text_ok X" "\<not> tc_readonly ctx" "W \<subseteq> tc_whitelist ctx"
  shows "fills_of_item X (narrowed now W ctx) meta full item = only_of W (fills_of_item X ctx meta full item)"
proof -
  obtain instr parent start where item: "item = (instr, parent, start)" by (cases item)
  show ?thesis
  proof (cases "pump_swap_trade_ix (take 8 (ci_data instr))")
    case (Some kind)
    obtain fill where "single_trade_fill X ctx instr meta full parent start kind = Some fill"
      using single_trade_fill_closed [of X ctx instr meta full parent start kind] by blast
    then show ?thesis
      using Some single_trade_fill_narrowed [OF assms, of now instr meta full parent start kind]
      by (cases fill)
         (simp_all add: fills_of_item_def item route_fills_of_def multi_hop_fills_narrowed [OF assms(2,3)])
  qed (simp add: fills_of_item_def item route_fills_of_def multi_hop_fills_narrowed [OF assms(2,3)])
qed

lemma amm_context_narrowed:
  "amm_context X now' tx slot W' readonly inp = narrowed now' W' (amm_context X now tx slot W readonly inp)"
  by (simp add: amm_context_def narrowed_def Let_def split: prod.splits)

lemma amm_fills_narrowed:
  assumes "pubkey_text_ok X" "narrow \<subseteq> wide"
  shows "amm_fills X now' tx slot narrow False inp = only_of narrow (amm_fills X now tx slot wide False inp)"
proof -
  obtain p q msg meta where inp: "inp = (p, q, msg, meta)" by (cases inp)
  let ?ctx = "amm_context X now tx slot wide False (p, q, msg, meta)"
  have "fills_of_items X (narrowed now' narrow ?ctx) meta full items = only_of narrow (fills_of_items X ?ctx meta full items)"
    for full items
    by (induction items)
       (simp_all add: fills_of_items_def fills_of_item_narrowed [OF assms(1) _ , of ?ctx] assms(2))
  then show ?thesis
    by (simp add: amm_fills_def inp Let_def amm_context_narrowed [of X now' tx slot narrow False _ now wide])
qed

text \<open>C25. The whitelist acts as a filter on the fills of a transaction: under a narrower whitelist the handler makes
  exactly the fills whose mint is still listed, in the same order and with the same contents.\<close>

theorem whitelist_filters_fills:
  assumes "pubkey_text_ok X" "narrow \<subseteq> wide"
  shows "amm_fills X now' tx slot narrow False inp =
    filter (\<lambda>f. fl_mint f \<in> narrow) (amm_fills X now tx slot wide False inp)"
  using amm_fills_narrowed [OF assms] by (simp add: only_of_def)

section \<open>Numbering after the filter\<close>

lemma amm_records_eq:
  assumes "amm_inputs X tx = Inr inp"
  shows "amm_records X (r, tx, slot) =
    numbered (amm_context X (rd_amm_now r) tx slot (rd_whitelist r) False inp) 0
      (amm_fills X (rd_amm_now r) tx slot (rd_whitelist r) False inp)"
  by (simp add: amm_records_def create_amm_handler_def process_closed [OF assms] emit_fills_send)

lemma trade_content_key_free: "trade_content (r\<lparr>tr_ix_index := i, tr_created_at := t\<rparr>) = trade_content r"
  by (rule ext)
     (simp add: trade_content_def updated_columns_def trade_set_def trade_row_def row_of_def trade_columns_def
                trade_values_def trade_params_def)

lemma record_of_narrowed:
  "trade_record_of (narrowed now W ctx) f j = (trade_record_of ctx f i)\<lparr>tr_ix_index := j, tr_created_at := now\<rparr>"
  by (simp add: trade_record_of_def narrowed_def)

lemma trade_sql_key_eq: "trade_sql_key r = trade_sql_key r' \<longleftrightarrow> trade_key r = trade_key r'"
  using trade_row_key_inject [of r r'] by (simp add: trade_sql_key_def)

text \<open>C28. A replay is not harmless when the whitelist changed in between. A transaction with two trades is recorded with
  both mints listed; replayed while the first mint is not (it was removed, or a refresh is under way), the
  second trade gets the number, and so the key, of the first. After both deliveries the first trade is
  gone from the table and the second stands in it twice.\<close>

theorem replay_overwrites_other_trade:
  assumes "pubkey_text_ok X" "amm_inputs X tx = Inr inp"
    "amm_fills X (rd_amm_now r) tx slot (rd_whitelist r) False inp = [f1, f2]"
    "rd_whitelist r' \<subseteq> rd_whitelist r" "fl_mint f1 \<notin> rd_whitelist r'" "fl_mint f2 \<in> rd_whitelist r'"
  shows "\<exists>a b c tbl1 tbl2. amm_records X (r, tx, slot) = [a, b] \<and> amm_records X (r', tx, slot) = [c] \<and>
    tr_mint_address a = fl_mint f1 \<and> tr_mint_address b = fl_mint f2 \<and> trade_sql_key a \<noteq> trade_sql_key b \<and>
    batch_insert_trades [a, b] tbl = Some (Some tbl1) \<and> batch_insert_trades [c] tbl1 = Some (Some tbl2) \<and>
    shown trade_set tbl2 (trade_sql_key a) = Some (trade_content b) \<and>
    shown trade_set tbl2 (trade_sql_key b) = Some (trade_content b)"
proof -
  let ?ctx = "amm_context X (rd_amm_now r) tx slot (rd_whitelist r) False inp"
  let ?ctx' = "narrowed (rd_amm_now r') (rd_whitelist r') ?ctx"
  let ?a = "trade_record_of ?ctx f1 0" and ?b = "trade_record_of ?ctx f2 1" and ?c = "trade_record_of ?ctx' f2 0"
  have first: "amm_records X (r, tx, slot) = [?a, ?b]"
    by (simp add: amm_records_eq [OF assms(2)] assms(3))
  have "amm_fills X (rd_amm_now r') tx slot (rd_whitelist r') False inp = [f2]"
    using amm_fills_narrowed [OF assms(1,4), of "rd_amm_now r'" tx slot inp "rd_amm_now r"] assms(3,5,6) by simp
  then have again: "amm_records X (r', tx, slot) = [?c]"
    by (simp add: amm_records_eq [OF assms(2)] amm_context_narrowed [of X "rd_amm_now r'" tx slot "rd_whitelist r'" False inp "rd_amm_now r" "rd_whitelist r"])
  have keys: "trade_sql_key ?c = trade_sql_key ?a" "trade_sql_key ?a \<noteq> trade_sql_key ?b"
    by (simp_all add: trade_sql_key_eq trade_key_def trade_record_of_def)
  have content: "trade_content ?c = trade_content ?b"
    unfolding record_of_narrowed [of "rd_amm_now r'" "rd_whitelist r'" ?ctx f2 0 1] by (rule trade_content_key_free)
  obtain tbl1 where tbl1: "batch_insert_trades [?a, ?b] tbl = Some (Some tbl1)"
    "\<And>k. shown trade_set tbl1 k = (if k \<in> trade_sql_key ` set [?a, ?b]
       then Some (trade_content (last (filter (\<lambda>r. trade_sql_key r = k) [?a, ?b]))) else shown trade_set tbl k)"
    using amm_store.insert_view [of "[?a, ?b]" tbl] by (auto simp: TRADE_CHUNK_def)
  obtain tbl2 where tbl2: "batch_insert_trades [?c] tbl1 = Some (Some tbl2)"
    "\<And>k. shown trade_set tbl2 k = (if k \<in> trade_sql_key ` set [?c]
       then Some (trade_content (last (filter (\<lambda>r. trade_sql_key r = k) [?c]))) else shown trade_set tbl1 k)"
    using amm_store.insert_view [of "[?c]" tbl1] by (auto simp: TRADE_CHUNK_def)
  have "shown trade_set tbl2 (trade_sql_key ?a) = Some (trade_content ?b)"
    using tbl2(2) [of "trade_sql_key ?a"] keys(1) content by simp
  moreover have "shown trade_set tbl2 (trade_sql_key ?b) = Some (trade_content ?b)"
    using tbl2(2) [of "trade_sql_key ?b"] tbl1(2) [of "trade_sql_key ?b"] keys by simp
  moreover have "tr_mint_address ?a = fl_mint f1" "tr_mint_address ?b = fl_mint f2"
    by (simp_all add: trade_record_of_def)
  ultimately show ?thesis using first again tbl1(1) tbl2(1) keys(2)
    by (intro exI [of _ ?a] exI [of _ ?b] exI [of _ ?c] exI [of _ tbl1] exI [of _ tbl2] conjI)
qed

text \<open>Two failed buys, of different mints, in one transaction.\<close>

definition demo_two_msg :: message where
  "demo_two_msg = \<lparr>msg_account_keys = demo_accounts,
     msg_instructions = [demo_buy, demo_buy\<lparr>ci_accounts := [2, 4, 0, 3, 2]\<rparr>]\<rparr>"

definition demo_two_tx :: tx_info where
  "demo_two_tx = \<lparr>tx_signature_bytes = [1], tx_transaction = Some (Some demo_two_msg), tx_meta = Some demo_failed_meta\<rparr>"

definition demo_two_input :: amm_input where
  "demo_two_input = (demo_program, take 32 (bytes_of_text PUMP_PROGRAM_ID), demo_two_msg, demo_failed_meta)"

definition demo_readings :: "string set \<Rightarrow> readings" where
  "demo_readings whitelist = \<lparr>rd_amm_now = 0, rd_alt_now = 0, rd_whitelist = whitelist, rd_alt_mints = Map.empty\<rparr>"

lemma demo_two_inputs: "amm_inputs demo_ext demo_two_tx = Inr demo_two_input"
  by code_simp

lemma demo_two_fills:
  "map fl_mint (amm_fills demo_ext 0 demo_two_tx 5 {text_of_bytes (demo_key 2), text_of_bytes (demo_key 3)} False demo_two_input) =
   [text_of_bytes (demo_key 2), text_of_bytes (demo_key 3)]"
  by code_simp

lemma demo_mints_differ: "text_of_bytes (demo_key 2) \<noteq> text_of_bytes (demo_key 3)"
  by code_simp

theorem whitelist_filters_fills_witness:
  "amm_fills demo_ext 7 demo_two_tx 5 {text_of_bytes (demo_key 3)} False demo_two_input =
     filter (\<lambda>f. fl_mint f = text_of_bytes (demo_key 3))
       (amm_fills demo_ext 0 demo_two_tx 5 {text_of_bytes (demo_key 2), text_of_bytes (demo_key 3)} False demo_two_input)"
  using whitelist_filters_fills [OF demo_pubkey_text_ok, of "{text_of_bytes (demo_key 3)}"
      "{text_of_bytes (demo_key 2), text_of_bytes (demo_key 3)}" 7 demo_two_tx 5 demo_two_input 0]
  by simp

lemma demo_two_fills_split:
  obtains f1 f2 where "amm_fills demo_ext 0 demo_two_tx 5 {text_of_bytes (demo_key 2), text_of_bytes (demo_key 3)} False demo_two_input = [f1, f2]"
    "fl_mint f1 = text_of_bytes (demo_key 2)" "fl_mint f2 = text_of_bytes (demo_key 3)"
  using demo_two_fills unfolding map_eq_Cons_conv map_is_Nil_conv by blast

theorem replay_overwrites_other_trade_witness:
  "\<exists>a b tbl1 tbl2. trade_sql_key a \<noteq> trade_sql_key b \<and> tr_mint_address a \<noteq> tr_mint_address b \<and>
    batch_insert_trades [a, b] Map.empty = Some (Some tbl1) \<and> shown trade_set tbl2 (trade_sql_key a) = Some (trade_content b)"
proof -
  let ?k2 = "text_of_bytes (demo_key 2)" and ?k3 = "text_of_bytes (demo_key 3)"
  let ?r = "demo_readings {?k2, ?k3}" and ?r' = "demo_readings {?k3}"
  obtain f1 f2 where f: "amm_fills demo_ext 0 demo_two_tx 5 {?k2, ?k3} False demo_two_input = [f1, f2]"
    "fl_mint f1 = ?k2" "fl_mint f2 = ?k3" by (rule demo_two_fills_split)
  have "rd_amm_now ?r = 0" "rd_whitelist ?r = {?k2, ?k3}" "rd_whitelist ?r' = {?k3}"
    by (simp_all only: demo_readings_def readings.select_convs)
  moreover from this have "amm_fills demo_ext (rd_amm_now ?r) demo_two_tx 5 (rd_whitelist ?r) False demo_two_input = [f1, f2]"
    using f(1) by (simp only:)
  ultimately obtain a b c tbl1 tbl2 where t: "tr_mint_address a = fl_mint f1" "tr_mint_address b = fl_mint f2"
    "trade_sql_key a \<noteq> trade_sql_key b" "batch_insert_trades [a, b] Map.empty = Some (Some tbl1)"
    "shown trade_set tbl2 (trade_sql_key a) = Some (trade_content b)"
    using replay_overwrites_other_trade [OF demo_pubkey_text_ok demo_two_inputs, of ?r 5 f1 f2 ?r' Map.empty] f(2,3) demo_mints_differ
    by auto
  with f(2,3) demo_mints_differ show ?thesis by metis
qed

end
