(* ===== verification/Schema.thy ===== *)
theory Schema
  imports Trades AltTrades
begin

text \<open>
  The schema statements (\<open>ensure_table\<close> of \<open>src/src/database/trades.rs\<close> and \<open>ensure_alt_table\<close> of
  \<open>src/src/database/alt_trades.rs\<close>): they create the tables, or bring an older table to the present form.
  The statements are data, in the order of the source, with the meaning they have in PostgreSQL; a batch
  runs in one transaction, so an error (\<open>None\<close>) changes nothing. The rows stored in a table that is
  migrated are not part of the model.
\<close>

section \<open>Statements\<close>

datatype sql_type =
    Ty_Text | Ty_Smallint | Ty_Integer | Ty_Bigint | Ty_Boolean | Ty_Double | Ty_Timestamptz
  | Ty_Numeric nat nat

record column_def =
  cd_type :: sql_type
  cd_not_null :: bool
  cd_default :: "sql_value option"

text \<open>
  \<open>Create_Table\<close>, \<open>Add_Column\<close> and \<open>Create_Index\<close> carry \<open>IF NOT EXISTS\<close>. \<open>Column_To_Numeric\<close> is the block
  that alters a column whose data type is not \<open>numeric\<close>, \<open>Widen_Primary_Key\<close> the block that replaces a
  primary key of one column.
\<close>
datatype ddl =
    Create_Table "(string \<times> column_def) list" "string list"
  | Add_Column string column_def
  | Column_To_Numeric string nat nat
  | Widen_Primary_Key "string list"
  | Create_Index string string
  | Comment_On_Table string

record table_state =
  ts_columns :: "(string \<times> column_def) list"
  ts_key :: "string list"
  ts_indexes :: "(string \<times> string) list"
  ts_comment :: "string option"

definition nullable :: "sql_type \<Rightarrow> column_def" where
  "nullable ty = \<lparr>cd_type = ty, cd_not_null = False, cd_default = None\<rparr>"

definition not_null :: "sql_type \<Rightarrow> column_def" where
  "not_null ty = \<lparr>cd_type = ty, cd_not_null = True, cd_default = None\<rparr>"

definition not_null_default :: "sql_type \<Rightarrow> sql_value \<Rightarrow> column_def" where
  "not_null_default ty v = \<lparr>cd_type = ty, cd_not_null = True, cd_default = Some v\<rparr>"

definition is_numeric :: "sql_type \<Rightarrow> bool" where
  "is_numeric ty = (case ty of Ty_Numeric _ _ \<Rightarrow> True | _ \<Rightarrow> False)"

definition has_column :: "table_state \<Rightarrow> string \<Rightarrow> bool" where
  "has_column t c = (c \<in> set (map fst (ts_columns t)))"

text \<open>\<open>ADD PRIMARY KEY\<close> makes its columns \<open>NOT NULL\<close>.\<close>
definition set_key :: "string list \<Rightarrow> table_state \<Rightarrow> table_state option" where
  "set_key key t =
     (if list_all (has_column t) key
      then Some (t\<lparr>ts_key := key,
             ts_columns := map (\<lambda>(c, d). (c, if c \<in> set key then d\<lparr>cd_not_null := True\<rparr> else d)) (ts_columns t)\<rparr>)
      else None)"

definition to_numeric :: "string \<Rightarrow> nat \<Rightarrow> nat \<Rightarrow> (string \<times> column_def) list \<Rightarrow> (string \<times> column_def) list" where
  "to_numeric c p q =
     map (\<lambda>(c', d). (c', if c' = c \<and> \<not> is_numeric (cd_type d) then d\<lparr>cd_type := Ty_Numeric p q\<rparr> else d))"

fun exec_ddl :: "ddl \<Rightarrow> table_state option \<Rightarrow> table_state option option" where
  "exec_ddl (Create_Table columns key) None =
     map_option Some (set_key key \<lparr>ts_columns = columns, ts_key = [], ts_indexes = [], ts_comment = None\<rparr>)"
| "exec_ddl (Create_Table columns key) (Some t) = Some (Some t)"
| "exec_ddl (Column_To_Numeric c p q) None = Some None"
| "exec_ddl _ None = None"
| "exec_ddl (Add_Column c d) (Some t) =
     Some (Some (if has_column t c then t else t\<lparr>ts_columns := ts_columns t @ [(c, d)]\<rparr>))"
| "exec_ddl (Column_To_Numeric c p q) (Some t) = Some (Some (t\<lparr>ts_columns := to_numeric c p q (ts_columns t)\<rparr>))"
| "exec_ddl (Widen_Primary_Key key) (Some t) =
     (if length (ts_key t) = 1 then map_option Some (set_key key t) else Some (Some t))"
| "exec_ddl (Create_Index name c) (Some t) =
     (if name \<in> set (map fst (ts_indexes t)) then Some (Some t)
      else if has_column t c then Some (Some (t\<lparr>ts_indexes := ts_indexes t @ [(name, c)]\<rparr>)) else None)"
| "exec_ddl (Comment_On_Table text) (Some t) = Some (Some (t\<lparr>ts_comment := Some text\<rparr>))"

primrec exec_batch_ddl :: "ddl list \<Rightarrow> table_state option \<Rightarrow> table_state option option" where
  "exec_batch_ddl [] t = Some t"
| "exec_batch_ddl (d # ds) t = do { t \<leftarrow> exec_ddl d t; exec_batch_ddl ds t }"

section \<open>The two batches\<close>

definition amount :: sql_type where
  "amount = Ty_Numeric 20 0"

definition false_default :: column_def where
  "false_default = not_null_default Ty_Boolean (Sql_Bool False)"

definition true_default :: column_def where
  "true_default = not_null_default Ty_Boolean (Sql_Bool True)"

definition text_default :: "string \<Rightarrow> column_def" where
  "text_default s = not_null_default Ty_Text (Sql_Text s)"

definition trade_column_defs :: "(string \<times> column_def) list" where
  "trade_column_defs =
     [(''tx_signature'', not_null Ty_Text),
      (''ix_index'', not_null_default Ty_Integer (Sql_Int 0)),
      (''pool_address'', text_default ''''),
      (''mint_address'', not_null Ty_Text),
      (''quote_mint_address'', text_default ''So11111111111111111111111111111111111111112''),
      (''instruction_type'', text_default ''unknown''),
      (''amount_source'', text_default ''event''),
      (''is_cpi'', false_default),
      (''user_pubkey'', not_null Ty_Text),
      (''is_buy'', not_null Ty_Boolean),
      (''token_amount'', not_null amount),
      (''sol_amount'', not_null amount),
      (''market_cap'', nullable amount),
      (''is_usdc'', false_default),
      (''success'', true_default),
      (''slot'', not_null Ty_Bigint),
      (''created_at'', not_null Ty_Timestamptz),
      (''priority_fee'', nullable Ty_Bigint),
      (''transfer_tip'', nullable Ty_Bigint),
      (''tip_provider'', nullable Ty_Text),
      (''compute_units_consumed'', nullable Ty_Bigint),
      (''lamports_per_compute_unit'', nullable Ty_Double)]"

definition ensure_table :: "ddl list" where
  "ensure_table =
     [Create_Table trade_column_defs [''tx_signature'', ''ix_index''],
      Add_Column ''ix_index'' (not_null_default Ty_Integer (Sql_Int 0)),
      Add_Column ''pool_address'' (text_default ''''),
      Add_Column ''quote_mint_address'' (text_default ''So11111111111111111111111111111111111111112''),
      Add_Column ''instruction_type'' (text_default ''unknown''),
      Add_Column ''amount_source'' (text_default ''event''),
      Add_Column ''is_cpi'' false_default,
      Add_Column ''priority_fee'' (nullable Ty_Bigint),
      Add_Column ''transfer_tip'' (nullable Ty_Bigint),
      Add_Column ''tip_provider'' (nullable Ty_Text),
      Add_Column ''is_usdc'' false_default,
      Add_Column ''success'' true_default,
      Add_Column ''compute_units_consumed'' (nullable Ty_Bigint),
      Add_Column ''lamports_per_compute_unit'' (nullable Ty_Double),
      Column_To_Numeric ''token_amount'' 20 0,
      Column_To_Numeric ''sol_amount'' 20 0,
      Column_To_Numeric ''market_cap'' 20 0,
      Widen_Primary_Key [''tx_signature'', ''ix_index''],
      Create_Index ''idx_amm_trades_mint'' ''mint_address'',
      Create_Index ''idx_amm_trades_pool'' ''pool_address'',
      Create_Index ''idx_amm_trades_quote_mint'' ''quote_mint_address'',
      Create_Index ''idx_amm_trades_slot'' ''slot'',
      Create_Index ''idx_amm_trades_user'' ''user_pubkey'',
      Create_Index ''idx_amm_trades_created_at'' ''created_at'',
      Create_Index ''idx_amm_trades_success'' ''success'']"

definition alt_column_defs :: "(string \<times> column_def) list" where
  "alt_column_defs =
     [(''tx_signature'', not_null Ty_Text),
      (''ix_index'', not_null_default Ty_Integer (Sql_Int 0)),
      (''platform'', text_default ''stonk_fun''),
      (''venue'', text_default ''raydium_cpmm''),
      (''pool_address'', text_default ''''),
      (''mint_address'', not_null Ty_Text),
      (''quote_mint_address'', not_null Ty_Text),
      (''instruction_type'', text_default ''unknown''),
      (''amount_source'', text_default ''event''),
      (''is_cpi'', false_default),
      (''user_pubkey'', not_null Ty_Text),
      (''is_buy'', not_null Ty_Boolean),
      (''token_amount'', not_null amount),
      (''quote_amount'', not_null amount),
      (''market_cap'', nullable amount),
      (''base_reserves'', nullable amount),
      (''quote_reserves'', nullable amount),
      (''base_transfer_fee'', nullable amount),
      (''trade_fee'', nullable amount),
      (''creator_fee'', nullable amount),
      (''base_decimals'', not_null_default Ty_Smallint (Sql_Int 6)),
      (''quote_decimals'', nullable Ty_Smallint),
      (''is_sol'', false_default),
      (''is_usdc'', false_default),
      (''success'', true_default),
      (''slot'', not_null Ty_Bigint),
      (''created_at'', not_null Ty_Timestamptz),
      (''priority_fee'', nullable Ty_Bigint),
      (''transfer_tip'', nullable Ty_Bigint),
      (''tip_provider'', nullable Ty_Text),
      (''compute_units_consumed'', nullable Ty_Bigint),
      (''lamports_per_compute_unit'', nullable Ty_Double)]"

definition ensure_alt_table :: "ddl list" where
  "ensure_alt_table =
     [Create_Table alt_column_defs [''tx_signature'', ''ix_index''],
      Add_Column ''platform'' (text_default ''stonk_fun''),
      Add_Column ''venue'' (text_default ''raydium_cpmm''),
      Add_Column ''base_reserves'' (nullable amount),
      Add_Column ''quote_reserves'' (nullable amount),
      Add_Column ''base_transfer_fee'' (nullable amount),
      Add_Column ''trade_fee'' (nullable amount),
      Add_Column ''creator_fee'' (nullable amount),
      Add_Column ''base_decimals'' (not_null_default Ty_Smallint (Sql_Int 6)),
      Add_Column ''quote_decimals'' (nullable Ty_Smallint),
      Add_Column ''is_sol'' false_default,
      Add_Column ''is_usdc'' false_default,
      Add_Column ''success'' true_default,
      Add_Column ''priority_fee'' (nullable Ty_Bigint),
      Add_Column ''transfer_tip'' (nullable Ty_Bigint),
      Add_Column ''tip_provider'' (nullable Ty_Text),
      Add_Column ''compute_units_consumed'' (nullable Ty_Bigint),
      Add_Column ''lamports_per_compute_unit'' (nullable Ty_Double),
      Create_Index ''idx_alt_trades_mint'' ''mint_address'',
      Create_Index ''idx_alt_trades_pool'' ''pool_address'',
      Create_Index ''idx_alt_trades_quote_mint'' ''quote_mint_address'',
      Create_Index ''idx_alt_trades_slot'' ''slot'',
      Create_Index ''idx_alt_trades_user'' ''user_pubkey'',
      Create_Index ''idx_alt_trades_created_at'' ''created_at'',
      Create_Index ''idx_alt_trades_success'' ''success'',
      Comment_On_Table ''stonk.fun post-migration (Raydium CPMM) swaps on whitelisted alt_mints. quote_amount / market_cap / reserves are atomic units of quote_mint_address; token_amount is the pool-side base amount net of the Token-2022 transfer fee (base_transfer_fee).'']"

section \<open>Running a batch again\<close>

text \<open>A statement that has nothing left to do.\<close>
fun satisfied :: "ddl \<Rightarrow> table_state \<Rightarrow> bool" where
  "satisfied (Create_Table columns key) t = True"
| "satisfied (Add_Column c d) t = has_column t c"
| "satisfied (Column_To_Numeric c p q) t =
     list_all (\<lambda>(c', d). c' \<noteq> c \<or> is_numeric (cd_type d)) (ts_columns t)"
| "satisfied (Widen_Primary_Key key) t = (length (ts_key t) \<noteq> 1)"
| "satisfied (Create_Index name c) t = (name \<in> set (map fst (ts_indexes t)))"
| "satisfied (Comment_On_Table text) t = (ts_comment t = Some text)"

text \<open>A later statement that does not undo an earlier one.\<close>
fun keeps :: "ddl \<Rightarrow> ddl \<Rightarrow> bool" where
  "keeps (Column_To_Numeric c p q) (Add_Column c' d) = (c' \<noteq> c)"
| "keeps (Widen_Primary_Key key) (Widen_Primary_Key key') = (length key' \<noteq> 1)"
| "keeps (Comment_On_Table text) (Comment_On_Table text') = (text' = text)"
| "keeps _ _ = True"

lemma map_fst_columns: "map fst (map (\<lambda>(c, d). (c, f c d)) cs) = map fst cs"
  by (induction cs) auto

lemma map_types_columns:
  "(\<And>c d. cd_type (f c d) = cd_type d) \<Longrightarrow>
   map (\<lambda>(c, d). (c, cd_type d)) (map (\<lambda>(c, d). (c, f c d)) cs) = map (\<lambda>(c, d). (c, cd_type d)) cs"
  by (induction cs) auto


text \<open>What \<open>ADD PRIMARY KEY\<close> leaves as it was.\<close>
lemma set_key_same:
  assumes "set_key key t = Some t'"
  shows "map fst (ts_columns t') = map fst (ts_columns t)" "ts_key t' = key"
    "ts_indexes t' = ts_indexes t" "ts_comment t' = ts_comment t"
    "map (\<lambda>(c, d). (c, cd_type d)) (ts_columns t') = map (\<lambda>(c, d). (c, cd_type d)) (ts_columns t)"
proof -
  have t': "t' = t\<lparr>ts_key := key,
      ts_columns := map (\<lambda>(c, d). (c, if c \<in> set key then d\<lparr>cd_not_null := True\<rparr> else d)) (ts_columns t)\<rparr>"
    using assms by (simp add: set_key_def split: if_splits)
  show "map fst (ts_columns t') = map fst (ts_columns t)"
    unfolding t' by (simp del: map_map add: map_fst_columns)
  show "map (\<lambda>(c, d). (c, cd_type d)) (ts_columns t') = map (\<lambda>(c, d). (c, cd_type d)) (ts_columns t)"
    unfolding t' by (simp del: map_map add: map_types_columns)
qed (use assms in \<open>auto simp: set_key_def split: if_splits\<close>)

lemma set_key_has_column: "set_key key t = Some t' \<Longrightarrow> has_column t' c = has_column t c"
  unfolding has_column_def by (drule set_key_same(1)) (simp only:)

lemma to_numeric_fst: "map fst (to_numeric c p q cs) = map fst cs"
  unfolding to_numeric_def by (rule map_fst_columns)

definition numeric_column :: "string \<Rightarrow> (string \<times> sql_type) list \<Rightarrow> bool" where
  "numeric_column c cs = list_all (\<lambda>(c', ty). c' \<noteq> c \<or> is_numeric ty) cs"

lemma numeric_column_simps:
  "numeric_column c (xs @ ys) \<longleftrightarrow> numeric_column c xs \<and> numeric_column c ys"
  "numeric_column c [(c', ty)] \<longleftrightarrow> c' \<noteq> c \<or> is_numeric ty"
  by (simp_all add: numeric_column_def)

lemma satisfied_numeric:
  "satisfied (Column_To_Numeric c p q) t = numeric_column c (map (\<lambda>(c, d). (c, cd_type d)) (ts_columns t))"
  by (simp add: numeric_column_def list_all_iff case_prod_beta)

lemma to_numeric_numeric:
  "numeric_column c (map (\<lambda>(c, d). (c, cd_type d)) (to_numeric c p q cs))"
  "numeric_column c' (map (\<lambda>(c, d). (c, cd_type d)) cs) \<Longrightarrow>
   numeric_column c' (map (\<lambda>(c, d). (c, cd_type d)) (to_numeric c p q cs))"
  by (induction cs) (auto simp: to_numeric_def numeric_column_def is_numeric_def)

text \<open>What a statement does to a table that exists: it either fails or leaves a table.\<close>
lemma exec_ddl_table: "exec_ddl d (Some t) = Some st \<Longrightarrow> \<exists>t'. st = Some t'"
  by (cases d) (auto split: if_splits)

definition keyed :: "ddl \<Rightarrow> bool" where
  "keyed d = (case d of Widen_Primary_Key key \<Rightarrow> length key \<noteq> 1 | _ \<Rightarrow> True)"

lemma exec_satisfied:
  assumes "exec_ddl d (Some t) = Some (Some t')" "keyed d"
  shows "satisfied d t'"
proof (cases d)
  case (Column_To_Numeric c p q)
  then show ?thesis using assms to_numeric_numeric(1) by (auto simp: satisfied_numeric simp del: satisfied.simps)
next
  case (Widen_Primary_Key key)
  then show ?thesis using assms by (auto simp: keyed_def set_key_same(2) split: if_splits)
qed (use assms in \<open>auto simp: has_column_def split: if_splits\<close>)

lemma satisfied_exec: "satisfied d t \<Longrightarrow> exec_ddl d (Some t) = Some (Some t)"
proof (cases d)
  case (Column_To_Numeric c p q)
  assume "satisfied d t"
  then have "to_numeric c p q (ts_columns t) = ts_columns t"
    unfolding to_numeric_def Column_To_Numeric by (intro map_idI) (auto simp: list_all_iff)
  then show ?thesis by (simp add: Column_To_Numeric)
qed auto

lemma exec_keeps:
  assumes "exec_ddl d' (Some t) = Some (Some t')" "satisfied d t" "keeps d d'"
  shows "satisfied d t'"
proof (cases d)
  case (Column_To_Numeric c p q)
  with assms show ?thesis
    by (cases d')
       (auto simp: satisfied_numeric numeric_column_simps to_numeric_numeric(2)
                   set_key_same(5) simp del: satisfied.simps(3) map_map split: if_splits)
next
  case (Add_Column c e)
  with assms show ?thesis
    by (cases d') (auto simp: has_column_def set_key_same(1) to_numeric_fst simp del: set_map split: if_splits)
next
  case (Create_Index n c)
  with assms show ?thesis
    by (cases d') (auto simp: set_key_same(3) simp del: set_map split: if_splits)
next
  case (Widen_Primary_Key key)
  with assms show ?thesis by (cases d') (auto simp: set_key_same(2) split: if_splits)
next
  case (Comment_On_Table x)
  with assms show ?thesis by (cases d') (auto simp: set_key_same(4) split: if_splits)
qed simp

lemma exec_batch_keeps:
  "exec_batch_ddl ds (Some t) = Some (Some t') \<Longrightarrow> satisfied d t \<Longrightarrow> list_all (keeps d) ds \<Longrightarrow> satisfied d t'"
proof (induction ds arbitrary: t)
  case (Cons d' ds)
  then obtain t1 where "exec_ddl d' (Some t) = Some (Some t1)" "exec_batch_ddl ds (Some t1) = Some (Some t')"
    using exec_ddl_table [of d' t] by (auto simp: bind_eq_Some_conv)
  with Cons.IH [of t1] Cons.prems exec_keeps [of d' t t1 d] show ?case by simp
qed simp

lemma exec_batch_satisfied:
  "exec_batch_ddl ds (Some t) = Some (Some t') \<Longrightarrow> sorted_wrt keeps ds \<Longrightarrow> list_all keyed ds \<Longrightarrow>
   list_all (\<lambda>d. satisfied d t') ds"
proof (induction ds arbitrary: t)
  case (Cons d ds)
  then obtain t1 where t1: "exec_ddl d (Some t) = Some (Some t1)" "exec_batch_ddl ds (Some t1) = Some (Some t')"
    using exec_ddl_table [of d t] by (auto simp: bind_eq_Some_conv)
  have "satisfied d t1" using exec_satisfied [OF t1(1)] Cons.prems(3) by simp
  then have "satisfied d t'"
    using exec_batch_keeps [OF t1(2)] Cons.prems(2) by (simp add: list_all_iff)
  with Cons.IH [OF t1(2)] Cons.prems(2,3) show ?case by simp
qed simp

lemma satisfied_batch: "list_all (\<lambda>d. satisfied d t) ds \<Longrightarrow> exec_batch_ddl ds (Some t) = Some (Some t)"
  by (induction ds) (simp_all add: satisfied_exec)

lemma batch_again:
  assumes "exec_batch_ddl (Create_Table columns key # ds) st = Some (Some t)"
    "sorted_wrt keeps ds" "list_all keyed ds"
  shows "exec_batch_ddl (Create_Table columns key # ds) (Some t) = Some (Some t)"
proof -
  obtain s where "exec_batch_ddl ds (Some s) = Some (Some t)"
    using assms(1) by (cases st) (auto simp: bind_eq_Some_conv)
  from satisfied_batch [OF exec_batch_satisfied [OF this assms(2,3)]] show ?thesis by simp
qed

text \<open>Running the statements of either table again, as every start of the collector does, changes nothing:
  once a batch has gone through, from no table at all or from any older form of it, a second one leaves the
  columns, the key, the indexes and the comment exactly as they are.\<close>

theorem ensure_table_idempotent:
  assumes "batch \<in> {ensure_table, ensure_alt_table}" "exec_batch_ddl batch st = Some (Some t)"
  shows "exec_batch_ddl batch (Some t) = Some (Some t)"
proof -
  have "\<exists>columns key ds. batch = Create_Table columns key # ds \<and> sorted_wrt keeps ds \<and> list_all keyed ds"
    using assms(1) by (auto simp: ensure_table_def ensure_alt_table_def keyed_def)
  with assms(2) show ?thesis by (auto intro: batch_again)
qed

section \<open>Migration\<close>
















section \<open>The rows fit\<close>

text \<open>A value a column takes. Text and timestamps are taken as they are.\<close>
fun value_fits :: "column_def \<Rightarrow> sql_value \<Rightarrow> bool" where
  "value_fits d Sql_Null = (\<not> cd_not_null d)"
| "value_fits d (Sql_Text s) = (cd_type d = Ty_Text)"
| "value_fits d (Sql_Int i) =
     (case cd_type d of
        Ty_Smallint \<Rightarrow> - (2 ^ 15) \<le> i \<and> i < 2 ^ 15
      | Ty_Integer \<Rightarrow> - (2 ^ 31) \<le> i \<and> i < 2 ^ 31
      | Ty_Bigint \<Rightarrow> - (2 ^ 63) \<le> i \<and> i < 2 ^ 63
      | _ \<Rightarrow> False)"
| "value_fits d (Sql_Bool b) = (cd_type d = Ty_Boolean)"
| "value_fits d (Sql_Double x) = (cd_type d = Ty_Double)"
| "value_fits d (Sql_Time t) = (cd_type d = Ty_Timestamptz)"
| "value_fits d (Sql_Numeric n) = (case cd_type d of Ty_Numeric p q \<Rightarrow> \<bar>n\<bar> < 10 ^ (p - q) | _ \<Rightarrow> False)"

text \<open>A statement that leaves the columns and the key as they are.\<close>
definition quiet :: "table_state \<Rightarrow> ddl \<Rightarrow> bool" where
  "quiet t d = (case d of Create_Index name c \<Rightarrow> has_column t c | Comment_On_Table text \<Rightarrow> True | _ \<Rightarrow> satisfied d t)"

lemma quiet_exec:
  assumes "quiet t d"
  shows "\<exists>t'. exec_ddl d (Some t) = Some (Some t') \<and> ts_columns t' = ts_columns t \<and> ts_key t' = ts_key t"
proof (cases d)
  case (Create_Index name c)
  then show ?thesis using assms by (simp add: quiet_def)
next
  case (Comment_On_Table x)
  then show ?thesis by simp
qed (use assms in \<open>simp_all add: quiet_def satisfied_exec del: satisfied.simps exec_ddl.simps\<close>)

lemma quiet_same: "ts_columns t' = ts_columns t \<Longrightarrow> ts_key t' = ts_key t \<Longrightarrow> quiet t' d = quiet t d"
  by (cases d) (auto simp: quiet_def has_column_def)

lemma quiet_batch:
  "list_all (quiet t) ds \<Longrightarrow>
   \<exists>t'. exec_batch_ddl ds (Some t) = Some (Some t') \<and> ts_columns t' = ts_columns t \<and> ts_key t' = ts_key t"
proof (induction ds arbitrary: t)
  case (Cons d ds)
  then obtain t1 where t1: "exec_ddl d (Some t) = Some (Some t1)" "ts_columns t1 = ts_columns t" "ts_key t1 = ts_key t"
    using quiet_exec [of t d] by auto
  have "list_all (quiet t1) ds"
    using Cons.prems by (simp add: list_all_iff quiet_same [OF t1(2,3)])
  from Cons.IH [OF this] t1 show ?case by auto
qed simp

text \<open>The columns and the key of a created table, when the rest of the batch has nothing to add to it.\<close>
lemma created:
  assumes "set_key key \<lparr>ts_columns = columns, ts_key = [], ts_indexes = [], ts_comment = None\<rparr> = Some t"
    "list_all (quiet t) ds"
  shows "\<exists>t'. exec_batch_ddl (Create_Table columns key # ds) None = Some (Some t') \<and>
     ts_columns t' = ts_columns t \<and> ts_key t' = ts_key t"
  using quiet_batch [OF assms(2)] by (simp add: assms(1))

lemma fits_i64: "- (2 ^ 63) \<le> sint (v :: i64) \<and> sint v < 2 ^ 63"
  using sint_ge [of v] sint_lt [of v] by simp

lemma fits_u64: "\<bar>uint (v :: u64)\<bar> < 10 ^ 20"
  using uint_lt2p [of v] by simp

lemma fits_i32: "- (2 ^ 31) \<le> sint (v :: i32) \<and> sint v < 2 ^ 31"
  using sint_ge [of v] sint_lt [of v] by simp

lemma fits_i16: "- (2 ^ 15) \<le> sint (v :: i16) \<and> sint v < 2 ^ 15"
  using sint_ge [of v] sint_lt [of v] by simp

lemma fits_opt: "value_fits d (opt_value f x) \<longleftrightarrow> (case x of None \<Rightarrow> \<not> cd_not_null d | Some v \<Rightarrow> value_fits d (f v))"
  by (simp add: opt_value_def split: option.splits)

lemma set_key_not_null:
  assumes "set key \<subseteq> set (map fst cs)" "list_all (\<lambda>(c, d). c \<in> set key \<longrightarrow> cd_not_null d) cs"
  shows "set_key key \<lparr>ts_columns = cs, ts_key = k, ts_indexes = i, ts_comment = m\<rparr> =
    Some \<lparr>ts_columns = cs, ts_key = key, ts_indexes = i, ts_comment = m\<rparr>"
proof -
  have "map (\<lambda>(c, d). (c, if c \<in> set key then d\<lparr>cd_not_null := True\<rparr> else d)) cs = cs"
    using assms(2) by (intro map_idI) (auto simp: list_all_iff)
  moreover have "list_all (has_column \<lparr>ts_columns = cs, ts_key = k, ts_indexes = i, ts_comment = m\<rparr>) key"
    using assms(1) by (auto simp: list_all_iff has_column_def simp del: set_map)
  ultimately show ?thesis by (simp add: set_key_def)
qed

lemma created_batch:
  assumes "set key \<subseteq> set (map fst cs)" "list_all (\<lambda>(c, d). c \<in> set key \<longrightarrow> cd_not_null d) cs"
    "list_all (quiet \<lparr>ts_columns = cs, ts_key = key, ts_indexes = [], ts_comment = None\<rparr>) ds"
  shows "\<exists>t. exec_batch_ddl (Create_Table cs key # ds) None = Some (Some t) \<and> ts_columns t = cs \<and> ts_key t = key"
  using created [OF set_key_not_null [OF assms(1,2)] assms(3)] by simp

lemma trade_column_names: "map fst trade_column_defs = trade_columns"
  by (simp add: trade_column_defs_def trade_columns_def)

lemma alt_column_names: "map fst alt_column_defs = alt_columns"
  by (simp add: alt_column_defs_def alt_columns_def)

lemma amm_table_created:
  "\<exists>t. exec_batch_ddl ensure_table None = Some (Some t) \<and> ts_columns t = trade_column_defs \<and> ts_key t = trade_key_columns"
  unfolding ensure_table_def trade_key_columns_def
proof (rule created_batch)
  show "set [''tx_signature'', ''ix_index''] \<subseteq> set (map fst trade_column_defs)"
    by (simp add: trade_column_names trade_columns_def)
  show "list_all (\<lambda>(c, d). c \<in> set [''tx_signature'', ''ix_index''] \<longrightarrow> cd_not_null d) trade_column_defs"
    by (simp add: trade_column_defs_def not_null_def not_null_default_def)
qed (simp add: quiet_def has_column_def trade_column_names trade_columns_def, simp add: trade_column_defs_def amount_def is_numeric_def not_null_def nullable_def)

lemma alt_table_created:
  "\<exists>t. exec_batch_ddl ensure_alt_table None = Some (Some t) \<and> ts_columns t = alt_column_defs \<and> ts_key t = alt_key_columns"
  unfolding ensure_alt_table_def alt_key_columns_def
proof (rule created_batch)
  show "set [''tx_signature'', ''ix_index''] \<subseteq> set (map fst alt_column_defs)"
    by (simp add: alt_column_names alt_columns_def)
  show "list_all (\<lambda>(c, d). c \<in> set [''tx_signature'', ''ix_index''] \<longrightarrow> cd_not_null d) alt_column_defs"
    by (simp add: alt_column_defs_def not_null_def not_null_default_def)
qed (simp add: quiet_def has_column_def alt_column_names alt_columns_def)

lemmas column_kinds = nullable_def not_null_def not_null_default_def false_default_def true_default_def
  text_default_def amount_def

lemmas word_fits = fits_i64 [simplified] fits_i32 [simplified] fits_i16 [simplified] fits_u64 [simplified]

lemma trade_values_fit: "list_all2 (\<lambda>(c, d). value_fits d) trade_column_defs (trade_values r)"
  by (simp add: trade_column_defs_def trade_values_def trade_params_def column_kinds fits_opt word_fits split: option.splits)

lemma alt_values_fit: "list_all2 (\<lambda>(c, d). value_fits d) alt_column_defs (alt_values r)"
  by (simp add: alt_column_defs_def alt_values_def alt_params_def alt_opt_n_def column_kinds fits_opt word_fits
      split: option.splits)

text \<open>C31. Every record a handler can produce has the types of its table: the created tables have exactly the
  columns the insert statements name, in their order, with the conflict target as primary key, and the value
  bound for each column fits its type, amounts up to \<open>2 ^ 64 - 1\<close> included, and is null only where null is
  allowed.\<close>

theorem rows_fit_schema:
  "(\<exists>t. exec_batch_ddl ensure_table None = Some (Some t) \<and> map fst (ts_columns t) = trade_columns \<and>
      ts_key t = trade_key_columns \<and> list_all2 (\<lambda>(c, d). value_fits d) (ts_columns t) (trade_values r)) \<and>
   (\<exists>t. exec_batch_ddl ensure_alt_table None = Some (Some t) \<and> map fst (ts_columns t) = alt_columns \<and>
      ts_key t = alt_key_columns \<and> list_all2 (\<lambda>(c, d). value_fits d) (ts_columns t) (alt_values a))"
  using amm_table_created alt_table_created trade_values_fit [of r] alt_values_fit [of a]
  by (auto simp: trade_column_names alt_column_names)

theorem ensure_table_idempotent_witness:
  "\<exists>t. exec_batch_ddl ensure_table None = Some (Some t) \<and> exec_batch_ddl ensure_table (Some t) = Some (Some t)"
proof -
  obtain t where t: "exec_batch_ddl ensure_table None = Some (Some t)" using amm_table_created by blast
  with ensure_table_idempotent [of ensure_table None t] show ?thesis by (intro exI [of _ t] conjI) simp_all
qed

end
