(* ===== verification/Pool.thy ===== *)
theory Pool
  imports Prelude
begin

text \<open>
  The shared connection pool (\<open>src/src/database/pool.rs\<close>): the settings taken from \<open>PG_DATABASE_URL\<close>, the limits of the
  pool, and the process-wide cell that is filled once. The parser of connection strings (\<open>tokio_postgres\<close>), the lossy
  decoding of the password and the construction of a pool (\<open>deadpool_postgres\<close>) are parameters; a failing \<open>expect\<close> is a
  panic, \<open>None\<close>.
\<close>

section \<open>Settings\<close>

datatype pg_host = Tcp string | Unix string

text \<open>What the code reads of a parsed connection string.\<close>
record tokio_config =
  tk_user :: "string option"
  tk_password :: "bytes option"
  tk_dbname :: "string option"
  tk_hosts :: "pg_host list"
  tk_ports :: "u16 list"

text \<open>Timeouts in seconds.\<close>
record pool_limits =
  pl_max_size :: nat
  pl_wait :: "u64 option"
  pl_create :: "u64 option"
  pl_recycle :: "u64 option"

record pool_config =
  cf_user :: "string option"
  cf_password :: "string option"
  cf_dbname :: "string option"
  cf_application_name :: "string option"
  cf_host :: "string option"
  cf_port :: "u16 option"
  cf_pool :: "pool_limits option"

text \<open>\<open>Config::new()\<close>\<close>
definition config_new :: pool_config where
  "config_new = \<lparr>cf_user = None, cf_password = None, cf_dbname = None, cf_application_name = None, cf_host = None,
     cf_port = None, cf_pool = None\<rparr>"

definition config_of :: "(bytes \<Rightarrow> string) \<Rightarrow> tokio_config \<Rightarrow> pool_config" where
  "config_of from_utf8_lossy tokio_config =
     (let cfg = config_new\<lparr>cf_user := tk_user tokio_config,
            cf_password := map_option from_utf8_lossy (tk_password tokio_config),
            cf_dbname := tk_dbname tokio_config, cf_application_name := Some ''all-trade-data''\<rparr>;
          cfg = (case vec_get (tk_hosts tokio_config) 0 of Some (Tcp hostname) \<Rightarrow> cfg\<lparr>cf_host := Some hostname\<rparr> | _ \<Rightarrow> cfg);
          cfg = (case vec_get (tk_ports tokio_config) 0 of Some port \<Rightarrow> cfg\<lparr>cf_port := Some port\<rparr> | None \<Rightarrow> cfg)
      in cfg\<lparr>cf_pool := Some \<lparr>pl_max_size = 5, pl_wait = Some 30, pl_create = Some 5, pl_recycle = Some 5\<rparr>\<rparr>)"

section \<open>The cell\<close>

text \<open>What the code takes from outside: the variable, the parser, the decoding, the construction.\<close>
record 'pool pool_env =
  pv_database_url :: "string option"
  pv_parse :: "string \<Rightarrow> tokio_config option"
  pv_from_utf8_lossy :: "bytes \<Rightarrow> string"
  pv_create_pool :: "pool_config \<Rightarrow> 'pool option"

text \<open>The closure of \<open>get_or_init\<close>.\<close>
definition create_shared_pool :: "'pool pool_env \<Rightarrow> 'pool may_panic" where
  "create_shared_pool env = do {
     database_url \<leftarrow> pv_database_url env;
     tokio_config \<leftarrow> pv_parse env database_url;
     pv_create_pool env (config_of (pv_from_utf8_lossy env) tokio_config) }"

text \<open>\<open>DB_POOL\<close> is \<open>None\<close> until it is filled.\<close>
definition get_pool :: "'pool option \<Rightarrow> 'pool may_panic" where
  "get_pool cell = cell"

definition init_pool :: "'pool pool_env \<Rightarrow> 'pool option \<Rightarrow> ('pool \<times> 'pool option) may_panic" where
  "init_pool env cell = do {
     cell \<leftarrow> (case cell of Some pool \<Rightarrow> Some (Some pool) | None \<Rightarrow> do { pool \<leftarrow> create_shared_pool env; Some (Some pool) });
     pool \<leftarrow> get_pool cell;
     Some (pool, cell) }"

section \<open>Properties\<close>

text \<open>The pool never holds more than five connections, whatever the variable says.\<close>

lemma config_limits:
  "cf_pool (config_of f t) = Some \<lparr>pl_max_size = 5, pl_wait = Some 30, pl_create = Some 5, pl_recycle = Some 5\<rparr>"
  by (simp add: config_of_def Let_def)

text \<open>Of several hosts and ports only the first is used; a Unix socket in first place leaves the host unset.\<close>

lemma config_address:
  "cf_host (config_of f t) = (case tk_hosts t of Tcp h # _ \<Rightarrow> Some h | _ \<Rightarrow> None)"
  "cf_port (config_of f t) = (case tk_ports t of p # _ \<Rightarrow> Some p | [] \<Rightarrow> None)"
  by (cases "tk_hosts t"; cases "tk_ports t"; simp add: config_of_def config_new_def Let_def split: pg_host.split)+

text \<open>Initialisation panics exactly when the cell is empty and the variable is missing, unreadable or refused; it never
  replaces a pool, so every later call, with whatever surroundings, returns the pool of the first one.\<close>

lemma init_pool_panics:
  "init_pool env cell = None \<longleftrightarrow> cell = None \<and> create_shared_pool env = None"
  by (cases cell; cases "create_shared_pool env") (simp_all add: init_pool_def get_pool_def)

lemma init_pool_once:
  assumes "init_pool env cell = Some (pool, cell')"
  shows "cell' = Some pool" "get_pool cell' = Some pool" "init_pool env' cell' = Some (pool, cell')"
    "cell = None \<or> cell = Some pool"
proof -
  from assms have "cell' = Some pool \<and> (cell = None \<or> cell = Some pool)"
    by (cases cell; cases "create_shared_pool env") (auto simp: init_pool_def get_pool_def)
  then show "cell' = Some pool" "get_pool cell' = Some pool" "init_pool env' cell' = Some (pool, cell')"
    "cell = None \<or> cell = Some pool"
    by (simp_all add: init_pool_def get_pool_def)
qed

lemma get_pool_before_init: "get_pool None = None"
  by (simp add: get_pool_def)

end
