(* ===== verification/Logger.thy ===== *)
theory Logger
  imports Prelude
begin

text \<open>
  Logging (\<open>src/src/utils/logger.rs\<close>): the filters, the line on standard output and the closure that appends to the log file
  of the day. The dispatch of \<open>fern\<close> and the formats of \<open>chrono\<close> are parameters: which records pass the filters, the texts
  of the time and of a level.
\<close>

section \<open>Configuration\<close>

datatype level_filter = Off | Error | Warn | Info | Debug | Trace

datatype color = Red | Green | Yellow | Blue | BrightBlack | Default_Color

record log_dispatch =
  ld_level :: level_filter
  ld_level_for :: "(string \<times> level_filter) list"
  ld_colors :: "level_filter \<Rightarrow> color"

definition colors :: "level_filter \<Rightarrow> color" where
  "colors = (\<lambda>_. Default_Color)(Info := Green, Warn := Yellow, Error := Red, Debug := Blue, Trace := BrightBlack)"

definition log_setup :: log_dispatch where
  "log_setup = \<lparr>ld_level = Info, ld_level_for = [(''h2'', Warn), (''hyper'', Warn), (''rustls'', Warn)], ld_colors = colors\<rparr>"

section \<open>Output\<close>

record log_record =
  lg_level :: level_filter
  lg_target :: string
  lg_args :: string

text \<open>The third-party functions: the filter, a level in its colour, a level as text.\<close>
record log_env =
  le_enabled :: "log_dispatch \<Rightarrow> log_record \<Rightarrow> bool"
  le_colored :: "color \<Rightarrow> level_filter \<Rightarrow> string"
  le_level_text :: "level_filter \<Rightarrow> string"

text \<open>One reading of the clock: the local time for the console, the UTC day and the UTC time for the file.\<close>
record clock =
  ck_local :: string
  ck_day :: string
  ck_utc :: string

record log_state =
  lo_current_date :: string
  lo_stdout :: "string list"
  lo_files :: "string \<Rightarrow> string list option"

definition log_line :: "string \<Rightarrow> string \<Rightarrow> string \<Rightarrow> string \<Rightarrow> string" where
  "log_line time level target message = ''['' @ time @ ''] ['' @ level @ ''] ['' @ target @ ''] - '' @ message"

definition stdout_line :: "log_env \<Rightarrow> clock \<Rightarrow> log_record \<Rightarrow> string" where
  "stdout_line E ck r = log_line (ck_local ck) (le_colored E (ld_colors log_setup (lg_level r)) (lg_level r)) (lg_target r) (lg_args r)"

definition file_line :: "log_env \<Rightarrow> clock \<Rightarrow> log_record \<Rightarrow> string" where
  "file_line E ck r = log_line (ck_utc ck) (le_level_text E (lg_level r)) (lg_target r) (lg_args r)"

definition log_path :: "string \<Rightarrow> string" where
  "log_path today = ''logs/app-'' @ today @ ''.log''"

text \<open>The closure of \<open>Output::call\<close>; \<open>writable\<close> tells whether a path can be opened and written. Opening creates the file
  when it is missing.\<close>
definition file_output :: "log_env \<Rightarrow> (string \<Rightarrow> bool) \<Rightarrow> clock \<Rightarrow> log_record \<Rightarrow> log_state \<Rightarrow> log_state may_panic" where
  "file_output E writable ck r st =
     (let today = ck_day ck;
          st = (if lo_current_date st \<noteq> today then st\<lparr>lo_current_date := today\<rparr> else st);
          path = log_path today
      in if \<not> writable path then None
         else Some (st\<lparr>lo_files := (lo_files st)(path \<mapsto> unwrap_or [] (lo_files st path) @ [file_line E ck r])\<rparr>))"

text \<open>One call of the logger: both outputs, in the order they are chained.\<close>
definition log_call :: "log_env \<Rightarrow> (string \<Rightarrow> bool) \<Rightarrow> clock \<Rightarrow> log_record \<Rightarrow> log_state \<Rightarrow> log_state may_panic" where
  "log_call E writable ck r st =
     (if le_enabled E log_setup r
      then file_output E writable ck r (st\<lparr>lo_stdout := lo_stdout st @ [stdout_line E ck r]\<rparr>)
      else Some st)"

primrec log_calls :: "log_env \<Rightarrow> (string \<Rightarrow> bool) \<Rightarrow> (clock \<times> log_record) list \<Rightarrow> log_state \<Rightarrow> log_state may_panic" where
  "log_calls E writable [] st = Some st"
| "log_calls E writable (x # xs) st = do { st \<leftarrow> log_call E writable (fst x) (snd x) st; log_calls E writable xs st }"

section \<open>Properties\<close>

lemma log_path_inj: "log_path a = log_path b \<longleftrightarrow> a = b"
  by (simp add: log_path_def)

text \<open>The lines a sequence of calls writes, all of them or those of one day.\<close>
definition day_lines :: "log_env \<Rightarrow> string \<Rightarrow> (clock \<times> log_record) list \<Rightarrow> string list" where
  "day_lines E day xs =
     map (\<lambda>x. file_line E (fst x) (snd x)) (filter (\<lambda>x. le_enabled E log_setup (snd x) \<and> ck_day (fst x) = day) xs)"

text \<open>Every record that passes the filters is one line of the file of its own UTC day, in the order of the calls, behind what
  the file already held: a log that runs over midnight neither loses a line nor puts it in the wrong file. The date kept
  behind the mutex has no influence on where a line goes.\<close>

lemma log_calls_total:
  assumes "\<And>path. writable path"
  shows "\<exists>st'. log_calls E writable xs st = Some st'"
  using assms by (induction xs arbitrary: st) (auto simp: log_call_def file_output_def Let_def)

lemma log_calls_by_day:
  assumes "\<And>path. writable path" "log_calls E writable xs st = Some st'"
  shows "unwrap_or [] (lo_files st' (log_path day)) = unwrap_or [] (lo_files st (log_path day)) @ day_lines E day xs \<and>
    lo_stdout st' = lo_stdout st @ map (\<lambda>x. stdout_line E (fst x) (snd x)) (filter (\<lambda>x. le_enabled E log_setup (snd x)) xs)"
  using assms(2)
proof (induction xs arbitrary: st)
  case (Cons x xs)
  from Cons.prems obtain st1 where st1: "log_call E writable (fst x) (snd x) st = Some st1" "log_calls E writable xs st1 = Some st'"
    by (auto simp: bind_eq_Some_conv)
  show ?case
    using Cons.IH [OF st1(2)] st1(1) assms(1)
    by (auto simp: log_call_def file_output_def Let_def day_lines_def log_path_inj unwrap_or_def split: if_splits)
qed (simp add: day_lines_def)

lemma log_call_panics:
  "log_call E writable ck r st = None \<longleftrightarrow> le_enabled E log_setup r \<and> \<not> writable (log_path (ck_day ck))"
  by (simp add: log_call_def file_output_def Let_def)

end
