(* ===== verification/TransactionTests.thy ===== *)
theory TransactionTests
  imports EventSearch MarketCap Events
begin

text \<open>
  The unit tests of \<open>src/src/utils/transaction.rs\<close> (\<open>mod tests\<close>), on the definitions of this development. A test
  is a truth value, the conjunction of its assertions; its builders are definitions of their own. That the
  tests pass here is evidence that the definitions read the source as its authors do. The test that derives
  live pool addresses is left out: the derivation is a parameter.
\<close>



section \<open>Vocabulary of the tests\<close>

text \<open>\<open>b[a..a + n].copy_from_slice(xs)\<close>, which panics out of range.\<close>
definition copy_into :: "nat \<Rightarrow> bytes \<Rightarrow> bytes \<Rightarrow> bytes may_panic" where
  "copy_into a xs b = (if a + length xs \<le> length b then Some (take a b @ xs @ drop (a + length xs) b) else None)"

text \<open>The fields of an inner instruction that the tests set.\<close>
definition test_inner :: "u32 \<Rightarrow> bytes \<Rightarrow> u32 \<Rightarrow> inner_instruction" where
  "test_inner program_id_index dat stack_height =
     \<lparr>ii_program_id_index = program_id_index, ii_accounts = [], ii_data = dat, ii_stack_height = Some stack_height\<rparr>"

definition test_meta :: "u32 \<Rightarrow> inner_instruction list \<Rightarrow> transaction_status_meta" where
  "test_meta ix ixs = demo_meta [\<lparr>block_index = ix, block_instructions = ixs\<rparr>]"

section \<open>Quote currencies and market cap\<close>

definition quote_currency_classifies_every_valid_mint :: "externals \<Rightarrow> pubkey \<Rightarrow> bool" where
  "quote_currency_classifies_every_valid_mint X other \<longleftrightarrow>
     quote_currency_of X WSOL_MINT = Some Sol \<and>
     quote_currency_of X USDC_MINT = Some Usdc \<and>
     quote_currency_of X (x_pubkey_to_string X other) = Some (Other other) \<and>
     quote_currency_of X ''not-a-pubkey'' = None"

lemma quote_currency_classifies_every_valid_mint_passes:
  assumes "pubkey_text_ok X" "length other = 32" "x_pubkey_from_str X ''not-a-pubkey'' = None"
    "x_pubkey_to_string X other \<noteq> WSOL_MINT" "x_pubkey_to_string X other \<noteq> USDC_MINT"
  shows "quote_currency_classifies_every_valid_mint X other"
proof -
  have 1: "WSOL_MINT \<noteq> USDC_MINT" "''not-a-pubkey'' \<noteq> WSOL_MINT" "''not-a-pubkey'' \<noteq> USDC_MINT" by code_simp+
  have 2: "quote_currency_of X (x_pubkey_to_string X other) = Some (Other other)"
    using quote_currency_of_key [OF assms(1,2)] assms(4,5) by (simp only: if_False)
  have 3: "quote_currency_of X ''not-a-pubkey'' = None"
    using 1(2,3) assms(3) by (simp only: quote_currency_of_def if_False option.map)
  have 4: "quote_currency_of X USDC_MINT = Some Usdc"
    using 1(1) [symmetric] by (simp only: quote_currency_of_def if_False if_True refl)
  have 5: "quote_currency_of X WSOL_MINT = Some Sol" by (simp only: quote_currency_of_def if_True refl)
  show ?thesis unfolding quote_currency_classifies_every_valid_mint_def by (intro conjI 2 3 4 5)
qed

definition market_cap_in_native_units_does_not_depend_on_quote_decimals :: "pubkey \<Rightarrow> bool" where
  "market_cap_in_native_units_does_not_depend_on_quote_decimals other \<longleftrightarrow>
     list_all (\<lambda>ccy. get_market_cap_from_reserves 1000000000000 30000000 ccy = 30000000000) [Sol, Usdc, Other other]"

lemma market_cap_in_native_units_does_not_depend_on_quote_decimals_passes:
  "market_cap_in_native_units_does_not_depend_on_quote_decimals other"
proof -
  have "f64_round (cap_val 1000000000000 30000000 Sol) = 30000000000"
    "f64_round (cap_val 1000000000000 30000000 Usdc) = 30000000000"
    "f64_round (cap_val 1000000000000 30000000 (Other [])) = 30000000000" by code_simp+
  moreover have "cap_val b q (Other other) = cap_val b q (Other [])" for b q
    by (simp add: cap_defs base_unit_def)
  ultimately show ?thesis
    by (simp add: market_cap_in_native_units_does_not_depend_on_quote_decimals_def market_cap_closed f64_as_u64_def)
qed

definition market_cap_uses_quote_currency_base_unit :: bool where
  "market_cap_uses_quote_currency_base_unit \<longleftrightarrow>
     get_market_cap_in_quote 100000000000000 500000000000 0 0 True Sol = 5000000000000 \<and>
     get_market_cap_in_quote 100000000000000 500000000 0 0 True Usdc = 5000000000"

lemma market_cap_no_trade:
  "get_market_cap_in_quote base quote 0 0 is_buy ccy = get_market_cap_from_reserves base quote ccy"
proof (cases "base = 0")
  case False
  have "f64_sub (quote_val quote ccy) 0 = quote_val quote ccy" "f64_add (base_val base) 0 = base_val base"
    "f64_add (quote_val quote ccy) 0 = quote_val quote ccy" "f64_sub (base_val base) 0 = base_val base"
    by (simp_all add: f64_ops quote_val_def base_val_def rnd_idem)
  then show ?thesis
    using base_val_pos [OF False] False
    by (simp add: market_cap_closed get_market_cap_in_quote_def Let_def
          f64_of_u64_0 f64_of_u64_supply f64_div_def [of 0]
          flip: base_val_def quote_val_def price_val_def supply_val_def cap_val_def)
qed (simp add: get_market_cap_from_reserves_def get_market_cap_in_quote_def)

lemma market_cap_uses_quote_currency_base_unit_passes: "market_cap_uses_quote_currency_base_unit"
proof -
  have "f64_round (cap_val 100000000000000 500000000000 Sol) = 5000000000000"
    "f64_round (cap_val 100000000000000 500000000 Usdc) = 5000000000" by code_simp+
  then show ?thesis
    by (simp add: market_cap_uses_quote_currency_base_unit_def market_cap_no_trade market_cap_closed f64_as_u64_def)
qed

section \<open>Event search\<close>

definition finds_event_inside_nested_cpi_trade_subtree :: bool where
  "finds_event_inside_nested_cpi_trade_subtree \<longleftrightarrow>
     (let event_disc = PUMP_SWAP_BUY_EVENT_DISC;
          event_data = the (copy_into 8 event_disc (replicate 16 0));
          meta = test_meta 2 [test_inner 7 BUY_EXACT_IN_DISCRIMINATOR 3, test_inner 8 [] 4, test_inner 7 event_data 4]
      in map_option (map_option (take 8)) (find_event_data meta 2 1 7 event_disc) = Some (Some event_disc))"

lemma finds_event_inside_nested_cpi_trade_subtree_passes: "finds_event_inside_nested_cpi_trade_subtree"
  by code_simp

definition tagged_event :: "u8 \<Rightarrow> u32 \<Rightarrow> inner_instruction" where
  "tagged_event tag stack = test_inner 7 (the (copy_into 8 PUMP_SWAP_BUY_EVENT_DISC (replicate 16 0)) @ [tag]) stack"

definition direct_child_events_skip_a_nested_trades_event :: bool where
  "direct_child_events_skip_a_nested_trades_event \<longleftrightarrow>
     (let meta = test_meta 0 [tagged_event 1 2, test_inner 7 AMM_BUY_V2_DISCRIMINATOR 2, tagged_event 2 3, tagged_event 3 2]
      in map_option (map (\<lambda>d. d ! 8)) (direct_child_events meta 0 0 7) = Some [1, 3] \<and>
         map_option (map_option (\<lambda>d. d ! 8)) (find_event_data meta 0 2 7 PUMP_SWAP_BUY_EVENT_DISC) = Some (Some 2))"

lemma direct_child_events_skip_a_nested_trades_event_passes: "direct_child_events_skip_a_nested_trades_event"
  by code_simp

definition does_not_borrow_event_from_sibling_cpi_trade :: bool where
  "does_not_borrow_event_from_sibling_cpi_trade \<longleftrightarrow>
     (let event_disc = PUMP_SWAP_BUY_EVENT_DISC;
          sibling_event = the (copy_into 8 event_disc (replicate 16 0));
          meta = test_meta 1 [test_inner 7 BUY_EXACT_IN_DISCRIMINATOR 2, test_inner 7 BUY_EXACT_IN_DISCRIMINATOR 2,
                              test_inner 7 sibling_event 3]
      in find_event_data meta 1 1 7 event_disc = Some None)"

lemma does_not_borrow_event_from_sibling_cpi_trade_passes: "does_not_borrow_event_from_sibling_cpi_trade"
  by code_simp

section \<open>Decoding of PumpSwap events\<close>

text \<open>The builders of the tests are \<open>encode_buy_event\<close> and \<open>encode_sell_event\<close>; what the tests do not name is zero.\<close>

definition migrated_pool_fields :: pump_swap_event where
  "migrated_pool_fields = \<lparr>pe_timestamp = 0, pe_base_amount = 1000000000, pe_limit_amount = 0,
     pe_user_base_reserves = 0, pe_user_quote_reserves = 0,
     pe_pool_base_token_reserves = 206900000000000, pe_pool_quote_token_reserves = 85000000000,
     pe_quote_amount = 500000000, pe_fees = replicate 40 0, pe_user_quote_amount = 505000000,
     pe_pool = replicate 32 0, pe_accounts = replicate 192 0, pe_creator_fees = replicate 16 0,
     pe_ix_name = bytes_of_text ''buy'', pe_volume_fields = replicate 41 0, pe_late_fees = replicate 32 0,
     pe_virtual_quote_reserves = 30000000000, pe_can_boost = 0, pe_base_supply = 1000000000000000\<rparr>"

lemma migrated_pool_wf [simp]: "event_wf migrated_pool_fields"
  by (simp add: event_wf_def migrated_pool_fields_def)

lemma migrated_pool_simps [simp]:
  "pe_base_amount migrated_pool_fields = 1000000000" "pe_pool_base_token_reserves migrated_pool_fields = 206900000000000"
  "pe_pool_quote_token_reserves migrated_pool_fields = 85000000000" "pe_quote_amount migrated_pool_fields = 500000000"
  "pe_user_quote_amount migrated_pool_fields = 505000000" "pe_virtual_quote_reserves migrated_pool_fields = 30000000000"
  by (simp_all add: migrated_pool_fields_def)

lemma event_wf_updates [simp]:
  "event_wf (e\<lparr>pe_virtual_quote_reserves := v\<rparr>) = event_wf e"
  "length name < 2 ^ 32 \<Longrightarrow> event_wf e \<Longrightarrow> event_wf (e\<lparr>pe_ix_name := name\<rparr>)"
  by (auto simp: event_wf_def)

definition pump_swap_vqr_offsets_match_idl :: bool where
  "pump_swap_vqr_offsets_match_idl \<longleftrightarrow>
     PUMP_SWAP_SELL_VQR_OFFSET = 392 \<and> PUMP_SWAP_BUY_IX_NAME_OFFSET = 401 \<and> PUMP_SWAP_BUY_POST_IX_NAME_SCALARS = 32"

definition pump_swap_sell_event_reads_virtual_quote_reserves :: bool where
  "pump_swap_sell_event_reads_virtual_quote_reserves \<longleftrightarrow>
     extract_pump_swap_virtual_quote_reserves (encode_sell_event migrated_pool_fields True) False = Some (Some 30000000000)"

definition pump_swap_buy_event_walks_variable_length_ix_name :: bool where
  "pump_swap_buy_event_walks_variable_length_ix_name \<longleftrightarrow>
     list_all (\<lambda>ix_name.
       extract_pump_swap_virtual_quote_reserves
         (encode_buy_event (migrated_pool_fields\<lparr>pe_ix_name := bytes_of_text ix_name\<rparr>) True) True = Some (Some 30000000000))
       [[], ''buy'', ''buy_exact_quote_in'', replicate 255 CHR ''x'']"

definition pump_swap_virtual_quote_reserves_decodes_negative :: bool where
  "pump_swap_virtual_quote_reserves_decodes_negative \<longleftrightarrow>
     (let f = migrated_pool_fields\<lparr>pe_virtual_quote_reserves := - 5000000000\<rparr>
      in extract_pump_swap_virtual_quote_reserves (encode_buy_event f True) True = Some (Some (- 5000000000)) \<and>
         extract_pump_swap_virtual_quote_reserves (encode_sell_event f True) False = Some (Some (- 5000000000)))"

definition pump_swap_virtual_quote_reserves_none_on_pre_upgrade_payload :: bool where
  "pump_swap_virtual_quote_reserves_none_on_pre_upgrade_payload \<longleftrightarrow>
     extract_pump_swap_virtual_quote_reserves (encode_buy_event migrated_pool_fields False) True = Some None \<and>
     extract_pump_swap_virtual_quote_reserves (encode_sell_event migrated_pool_fields False) False = Some None"

lemma virtual_quote_reserves_tests_pass:
  "pump_swap_vqr_offsets_match_idl" "pump_swap_sell_event_reads_virtual_quote_reserves"
  "pump_swap_buy_event_walks_variable_length_ix_name" "pump_swap_virtual_quote_reserves_decodes_negative"
  "pump_swap_virtual_quote_reserves_none_on_pre_upgrade_payload"
  by (simp_all add: pump_swap_vqr_offsets_match_idl_def PUMP_SWAP_SELL_VQR_OFFSET_def PUMP_SWAP_BUY_IX_NAME_OFFSET_def
        PUMP_SWAP_BUY_POST_IX_NAME_SCALARS_def pump_swap_sell_event_reads_virtual_quote_reserves_def
        pump_swap_buy_event_walks_variable_length_ix_name_def pump_swap_virtual_quote_reserves_decodes_negative_def
        pump_swap_virtual_quote_reserves_none_on_pre_upgrade_payload_def buy_event_decoded sell_event_decoded)

definition pump_swap_virtual_quote_reserves_wrong_layout_does_not_alias :: bool where
  "pump_swap_virtual_quote_reserves_wrong_layout_does_not_alias \<longleftrightarrow>
     extract_pump_swap_virtual_quote_reserves (encode_sell_event migrated_pool_fields True) True \<noteq> Some (Some 30000000000) \<and>
     extract_pump_swap_virtual_quote_reserves (encode_buy_event migrated_pool_fields True) False \<noteq> Some (Some 30000000000)"

lemma pump_swap_virtual_quote_reserves_wrong_layout_does_not_alias_passes:
  "pump_swap_virtual_quote_reserves_wrong_layout_does_not_alias"
proof -
  have "extract_pump_swap_virtual_quote_reserves (encode_sell_event migrated_pool_fields True) True \<noteq> Some (Some 30000000000)"
    by code_simp
  moreover have "extract_pump_swap_virtual_quote_reserves (encode_buy_event migrated_pool_fields True) False \<noteq> Some (Some 30000000000)"
  proof -
    let ?bs = "encode_buy_event migrated_pool_fields True" and ?f = "replicate 9 0 @ [3, 0, 0, 0, 98, 117, 121] :: bytes"
    have "slice_get ?bs 392 408 = Some ?f" "\<not> length ?bs < 408" by code_simp+
    moreover have "le_int ?f = 161446073898564567484699717804002115584" by code_simp
    ultimately show ?thesis
      by (simp add: extract_pump_swap_virtual_quote_reserves_def PUMP_SWAP_SELL_VQR_OFFSET_def usize_checked_add_def
                    try_array_def from_le_bytes_code)
  qed
  ultimately show ?thesis by (simp add: pump_swap_virtual_quote_reserves_wrong_layout_does_not_alias_def)
qed

definition pump_swap_virtual_quote_reserves_survives_absurd_ix_name_len :: bool where
  "pump_swap_virtual_quote_reserves_survives_absurd_ix_name_len \<longleftrightarrow>
     (let p = PUMP_SWAP_BUY_IX_NAME_OFFSET
      in do { bs \<leftarrow> copy_into p (to_le_bytes 4 (- 1 :: u32)) (encode_buy_event migrated_pool_fields True);
              extract_pump_swap_virtual_quote_reserves bs True } = Some None)"

lemma pump_swap_virtual_quote_reserves_survives_absurd_ix_name_len_passes:
  "pump_swap_virtual_quote_reserves_survives_absurd_ix_name_len"
proof -
  let ?e = "encode_buy_event migrated_pool_fields True"
  let ?bs = "take 401 ?e @ to_le_bytes 4 (- 1 :: u32) @ drop 405 ?e"
  have len: "length ?e = 465" by code_simp
  have bs: "copy_into 401 (to_le_bytes 4 (- 1 :: u32)) ?e = Some ?bs" by (simp add: copy_into_def len)
  have "field ?bs 401 4 = (- 1 :: u32)" by (simp add: layout len)
  moreover have "unat (- 1 :: u32) = 4294967295" by (simp add: unsigned_minus_1_eq_mask mask_eq_exp_minus_1)
  ultimately have "extract_pump_swap_virtual_quote_reserves ?bs True = Some None"
    unfolding extract_vqr_closed by (simp only: Let_def if_True) (simp add: len)
  with bs show ?thesis
    by (simp add: pump_swap_virtual_quote_reserves_survives_absurd_ix_name_len_def PUMP_SWAP_BUY_IX_NAME_OFFSET_def)
qed

definition pump_swap_decoders_never_panic_on_truncated_payloads :: bool where
  "pump_swap_decoders_never_panic_on_truncated_payloads \<longleftrightarrow>
     list_all (\<lambda>full. list_all (\<lambda>len.
       (let bs = take len full
        in extract_pump_swap_virtual_quote_reserves bs True \<noteq> None \<and>
           extract_pump_swap_virtual_quote_reserves bs False \<noteq> None \<and>
           extract_pool_reserves_from_data bs \<noteq> None \<and> extract_quote_volume bs \<noteq> None \<and>
           extract_transaction_amounts bs \<noteq> None \<and> extract_boost_buy_event bs \<noteq> None)) [0..<length full])
       [encode_buy_event migrated_pool_fields True, encode_sell_event migrated_pool_fields True]"

lemma pump_swap_decoders_never_panic_on_truncated_payloads_passes:
  "pump_swap_decoders_never_panic_on_truncated_payloads"
  by (simp add: pump_swap_decoders_never_panic_on_truncated_payloads_def Let_def panic_free list_all_iff)

definition pump_swap_appended_fields_do_not_shift_existing_offsets :: bool where
  "pump_swap_appended_fields_do_not_shift_existing_offsets \<longleftrightarrow>
     list_all (\<lambda>bs.
       extract_pool_reserves_from_data bs = Some (Some 206900000000000, Some 85000000000) \<and>
       extract_transaction_amounts bs = Some (Some 1000000000) \<and>
       (case extract_quote_volume bs of
          Some (buy_vol, sell_vol) \<Rightarrow> buy_vol = Some 505000000 \<and> sell_vol = Some 500000000
        | None \<Rightarrow> False))
       [encode_buy_event migrated_pool_fields True, encode_sell_event migrated_pool_fields True]"

lemma pump_swap_appended_fields_do_not_shift_existing_offsets_passes:
  "pump_swap_appended_fields_do_not_shift_existing_offsets"
  by (simp add: pump_swap_appended_fields_do_not_shift_existing_offsets_def buy_event_decoded sell_event_decoded)

section \<open>Effective quote reserves\<close>

definition RAW_QUOTE :: u64 where
  "RAW_QUOTE = 85000000000"

definition effective_quote_reserves_absent_field_is_raw_balance :: bool where
  "effective_quote_reserves_absent_field_is_raw_balance \<longleftrightarrow> effective_quote_reserves RAW_QUOTE None = RAW_QUOTE"

definition effective_quote_reserves_zero_is_no_op :: bool where
  "effective_quote_reserves_zero_is_no_op \<longleftrightarrow> effective_quote_reserves RAW_QUOTE (Some 0) = RAW_QUOTE"

definition effective_quote_reserves_applies_signed_adjustment :: bool where
  "effective_quote_reserves_applies_signed_adjustment \<longleftrightarrow>
     effective_quote_reserves RAW_QUOTE (Some 30000000000) = 115000000000 \<and>
     effective_quote_reserves RAW_QUOTE (Some (- 5000000000)) = 80000000000"

definition effective_quote_reserves_clamps_and_saturates :: bool where
  "effective_quote_reserves_clamps_and_saturates \<longleftrightarrow>
     effective_quote_reserves RAW_QUOTE (Some (2 ^ 127)) = 0 \<and>
     effective_quote_reserves RAW_QUOTE (Some (- ucast RAW_QUOTE - 1)) = 0 \<and>
     effective_quote_reserves (- 1) (Some (2 ^ 127 - 1)) = - 1"

lemma effective_of_spec:
  "effective_quote_reserves raw (Some v) = word_of_int (max 0 (min (2 ^ 64 - 1) (uint raw + sint v)))"
  by (rule word_uint_eqI) (simp add: effective_quote_reserves_spec uint_word_of_int_eq take_bit_int_eq_self)

lemma effective_quote_reserves_tests_pass:
  "effective_quote_reserves_absent_field_is_raw_balance" "effective_quote_reserves_zero_is_no_op"
  "effective_quote_reserves_applies_signed_adjustment" "effective_quote_reserves_clamps_and_saturates"
proof -
  have s: "sint (2 ^ 127 :: i128) = - (2 ^ 127)" "sint (2 ^ 127 - 1 :: i128) = 2 ^ 127 - 1"
    "sint (- ucast RAW_QUOTE - 1 :: i128) = - 85000000001" "sint (30000000000 :: i128) = 30000000000"
    "sint (- 5000000000 :: i128) = - 5000000000" "uint RAW_QUOTE = 85000000000"
    by (simp_all add: RAW_QUOTE_def)
  have m: "uint (- 1 :: u64) = 2 ^ 64 - 1" by code_simp
  show "effective_quote_reserves_absent_field_is_raw_balance" "effective_quote_reserves_zero_is_no_op"
    unfolding effective_quote_reserves_absent_field_is_raw_balance_def effective_quote_reserves_zero_is_no_op_def
      effective_of_spec s by (simp_all add: effective_quote_reserves_def RAW_QUOTE_def)
  show "effective_quote_reserves_applies_signed_adjustment" "effective_quote_reserves_clamps_and_saturates"
    unfolding effective_quote_reserves_applies_signed_adjustment_def effective_quote_reserves_clamps_and_saturates_def
      effective_of_spec s m by simp_all
qed

section \<open>The event of \<open>boost_buy_and_burn\<close>\<close>

text \<open>The closure \<open>build\<close>.\<close>
definition build_boost_event :: "i128 \<Rightarrow> bytes may_panic" where
  "build_boost_event virtual_quote = do {
     b \<leftarrow> copy_into 152 (to_le_bytes 8 (7000000 :: u64)) (replicate 200 0);
     b \<leftarrow> copy_into 160 (to_le_bytes 8 (3000000 :: u64)) b;
     b \<leftarrow> copy_into 168 (to_le_bytes 16 virtual_quote) b;
     b \<leftarrow> copy_into 184 (to_le_bytes 8 (85000000000 :: u64)) b;
     copy_into 192 (to_le_bytes 8 (206900000000000 :: u64)) b }"

definition boost_buy_event_reports_effective_quote_reserves :: bool where
  "boost_buy_event_reports_effective_quote_reserves \<longleftrightarrow>
     do { b \<leftarrow> build_boost_event 0; extract_boost_buy_event b } =
       Some (Some (3000000, 7000000, 206900000000000, 85000000000)) \<and>
     do { b \<leftarrow> build_boost_event 30000000000; extract_boost_buy_event b } =
       Some (Some (3000000, 7000000, 206900000000000, 115000000000)) \<and>
     do { b \<leftarrow> build_boost_event (- 5000000000); t \<leftarrow> extract_boost_buy_event b; Some (map_option (\<lambda>(_, _, _, q). q) t) } =
       Some (Some 80000000000) \<and>
     do { b \<leftarrow> build_boost_event (2 ^ 127); t \<leftarrow> extract_boost_buy_event b; Some (map_option (\<lambda>(_, _, _, q). q) t) } =
       Some (Some 0) \<and>
     do { b \<leftarrow> build_boost_event 0; extract_boost_buy_event (take 199 b) } = Some None"

lemma boost_buy_event_reports_effective_quote_reserves_passes: "boost_buy_event_reports_effective_quote_reserves"
  by code_simp

end
