(* ===== verification/AmmTests.thy ===== *)
theory AmmTests
  imports AmmProperties TransactionTests
begin

text \<open>
  The unit tests of \<open>src/src/handler/amm_handler.rs\<close> (\<open>mod tests\<close>): the whole handler on synthetic transactions. Fresh
  keys are the keys \<open>new_unique n\<close>; \<open>test_ext\<close> are third-party functions with the base58 texts of the program's own
  constants.
\<close>

section \<open>Third-party functions of the tests\<close>

definition wsol_key :: pubkey where
  "wsol_key = [6, 155, 136, 87, 254, 171, 129, 132, 251, 104, 127, 99, 70, 24, 192, 53,
     218, 196, 57, 220, 26, 235, 59, 85, 152, 160, 240, 0, 0, 0, 0, 1]"

definition usdc_key :: pubkey where
  "usdc_key = [198, 250, 122, 243, 190, 219, 173, 58, 61, 101, 243, 106, 171, 201, 116, 49,
     177, 187, 228, 194, 210, 246, 224, 228, 124, 166, 2, 3, 69, 47, 93, 97]"

definition pump_key :: pubkey where
  "pump_key = [1, 86, 224, 246, 147, 102, 90, 207, 68, 219, 21, 104, 191, 23, 91, 170,
     81, 137, 203, 151, 245, 210, 255, 59, 101, 93, 43, 182, 253, 109, 24, 176]"

definition pump_swap_key :: pubkey where
  "pump_swap_key = [12, 20, 222, 252, 130, 94, 198, 118, 148, 37, 8, 24, 187, 101, 64, 101,
     244, 41, 141, 49, 86, 213, 113, 180, 212, 248, 9, 12, 24, 233, 168, 99]"

definition test_key_texts :: "(pubkey \<times> string) list" where
  "test_key_texts = [(wsol_key, WSOL_MINT), (usdc_key, USDC_MINT), (pump_key, PUMP_PROGRAM_ID), (pump_swap_key, PUMP_SWAP_PROGRAM_ID)]"

definition test_ext :: externals where
  "test_ext = demo_ext\<lparr>
     x_pubkey_to_string := (\<lambda>k. case map_of test_key_texts k of Some s \<Rightarrow> s | None \<Rightarrow> text_of_bytes k),
     x_pubkey_from_str := (\<lambda>s. case map_of (map prod.swap test_key_texts) s of
       Some k \<Rightarrow> Some k | None \<Rightarrow> if length s = 32 then Some (bytes_of_text s) else None)\<rparr>"

definition new_unique :: "nat \<Rightarrow> pubkey" where
  "new_unique n = replicate 32 (word_of_nat (100 + n))"

section \<open>Synthetic trades\<close>

definition PROGRAM_INDEX :: u32 where
  "PROGRAM_INDEX = 5"

definition ROUTER_INDEX :: u32 where
  "ROUTER_INDEX = 6"

text \<open>Every single-pool trade instruction, in the order the fixture emits them.\<close>
definition variants :: "(string \<times> bytes) list" where
  "variants =
     [(''buy'', AMM_BUY_DISCRIMINATOR), (''buy_exact_quote_in'', BUY_EXACT_IN_DISCRIMINATOR),
      (''sell'', AMM_SELL_DISCRIMINATOR), (''boost_buy_and_burn'', BOOST_BUY_AND_BURN_DISCRIMINATOR),
      (''buy_v2'', AMM_BUY_V2_DISCRIMINATOR), (''buy_exact_quote_in_v2'', AMM_BUY_EXACT_QUOTE_IN_V2_DISCRIMINATOR),
      (''sell_v2'', AMM_SELL_V2_DISCRIMINATOR)]"

definition VARIANTS :: "string list" where
  "VARIANTS = [''buy'', ''buy_exact_quote_in'', ''sell'', ''boost_buy_and_burn'', ''buy_v2'', ''buy_exact_quote_in_v2'', ''sell_v2'']"

definition test_instruction :: "bytes \<Rightarrow> u64 \<Rightarrow> u64 \<Rightarrow> compiled_instruction" where
  "test_instruction discriminator arg0 arg1 =
     \<lparr>ci_program_id_index = PROGRAM_INDEX, ci_accounts = [0, 1, 2, 3, 4],
      ci_data = discriminator @ to_le_bytes 8 arg0 @ to_le_bytes 8 arg1\<rparr>"

definition EVENT_BASE_RESERVES :: u64 where
  "EVENT_BASE_RESERVES = 800"

definition EVENT_RAW_QUOTE_RESERVES :: u64 where
  "EVENT_RAW_QUOTE_RESERVES = 900"

text \<open>\<open>event.resize(n, 0)\<close>\<close>
definition resize :: "nat \<Rightarrow> bytes \<Rightarrow> bytes" where
  "resize n b = take n b @ replicate (n - length b) 0"

definition emitted_event_with_virtual ::
  "string \<Rightarrow> u64 \<Rightarrow> u64 \<Rightarrow> u32 \<Rightarrow> i128 option \<Rightarrow> inner_instruction may_panic" where
  "emitted_event_with_virtual kind token quote stack_height virtual_quote = do {
     let (disc, len) =
       (if kind = ''sell'' \<or> kind = ''sell_v2'' then (PUMP_SWAP_SELL_EVENT_DISC, 120)
        else if kind = ''boost_buy_and_burn'' then (PUMP_SWAP_BOOST_BUY_EVENT_DISC, 200)
        else (PUMP_SWAP_BUY_EVENT_DISC, 120));
     event \<leftarrow> copy_into 0 disc (replicate len 0);
     event \<leftarrow> (if kind = ''boost_buy_and_burn'' then do {
         event \<leftarrow> copy_into 152 (to_le_bytes 8 quote) event;
         event \<leftarrow> copy_into 160 (to_le_bytes 8 token) event;
         event \<leftarrow> copy_into 168 (to_le_bytes 16 (unwrap_or 0 virtual_quote)) event;
         event \<leftarrow> copy_into 184 (to_le_bytes 8 EVENT_RAW_QUOTE_RESERVES) event;
         copy_into 192 (to_le_bytes 8 EVENT_BASE_RESERVES) event }
       else do {
         event \<leftarrow> copy_into 16 (to_le_bytes 8 token) event;
         event \<leftarrow> copy_into 48 (to_le_bytes 8 EVENT_BASE_RESERVES) event;
         event \<leftarrow> copy_into 56 (to_le_bytes 8 EVENT_RAW_QUOTE_RESERVES) event;
         let is_sell = take 4 kind = ''sell'';
         event \<leftarrow> copy_into (if is_sell then 64 else 112) (to_le_bytes 8 quote) event;
         Some (case virtual_quote of
             None \<Rightarrow> event
           | Some virtual_quote \<Rightarrow>
               (if is_sell then resize PUMP_SWAP_SELL_VQR_OFFSET event
                else resize PUMP_SWAP_BUY_IX_NAME_OFFSET event @ to_le_bytes 4 (3 :: u32) @ ascii ''buy'' @
                     replicate (8 * 4) 0) @
               to_le_bytes 16 virtual_quote @ [0] @ to_le_bytes 8 (0 :: u64)) });
     Some \<lparr>ii_program_id_index = PROGRAM_INDEX, ii_accounts = [], ii_data = replicate 8 0 @ event,
           ii_stack_height = Some stack_height\<rparr> }"

definition routed_trade :: "nat \<Rightarrow> string \<Rightarrow> compiled_instruction \<Rightarrow> i128 option \<Rightarrow> inner_instruction list may_panic" where
  "routed_trade i kind trade virtual_quote = do {
     event \<leftarrow> emitted_event_with_virtual kind (100 + of_nat i) (200 + of_nat i) 3 virtual_quote;
     Some [\<lparr>ii_program_id_index = ci_program_id_index trade, ii_accounts = ci_accounts trade, ii_data = ci_data trade,
            ii_stack_height = Some 2\<rparr>, event] }"

definition direct_trades :: "bool \<Rightarrow> compiled_instruction list" where
  "direct_trades failed = map (\<lambda>(i, (_, disc)).
     test_instruction disc (10 + of_nat i) (if failed \<and> i = 0 then - 1 else 20 + of_nat i)) (List.enumerate 0 variants)"

definition fixture_with_quote ::
  "externals \<Rightarrow> bool \<Rightarrow> bool \<Rightarrow> i128 option \<Rightarrow> pubkey \<Rightarrow> tx_info may_panic" where
  "fixture_with_quote X with_events failed virtual_quote quote = do {
     let user = new_unique 1; let global = new_unique 2; let base = new_unique 3;
     pump_swap \<leftarrow> x_pubkey_from_str X PUMP_SWAP_PROGRAM_ID;
     pump \<leftarrow> x_pubkey_from_str X PUMP_PROGRAM_ID;
     let pool_authority = x_find_program_address X [ascii ''pool-authority'', base] pump;
     let pool_index = to_le_bytes 2 (0 :: u16);
     let pool = x_find_program_address X [ascii ''pool'', pool_index, pool_authority, base, quote] pump_swap;
     let router = new_unique 4;
     let outer = direct_trades failed @ [\<lparr>ci_program_id_index = ROUTER_INDEX, ci_accounts = [], ci_data = []\<rparr>];
     inner_instructions \<leftarrow> (if with_events then do {
         own \<leftarrow> map_may_panic (\<lambda>(i, (kind, _)). do {
           event \<leftarrow> emitted_event_with_virtual kind (100 + of_nat i) (200 + of_nat i) 2 virtual_quote;
           Some \<lparr>block_index = of_nat i, block_instructions = [event]\<rparr> }) (List.enumerate 0 variants);
         routed \<leftarrow> map_may_panic (\<lambda>(i, ((kind, _), trade)). routed_trade i kind trade virtual_quote)
           (List.enumerate 0 (zip variants (direct_trades failed)));
         Some (own @ [\<lparr>block_index = of_nat (length VARIANTS), block_instructions = concat routed\<rparr>]) }
       else Some []);
     Some \<lparr>tx_signature_bytes = replicate 64 7,
       tx_transaction = Some (Some \<lparr>msg_account_keys = [pool, user, global, base, quote, pump_swap, router],
         msg_instructions = outer\<rparr>),
       tx_meta = Some ((demo_meta inner_instructions)\<lparr>m_err := (if failed then Some [1] else None)\<rparr>)\<rparr> }"

definition fixture_with_virtual :: "externals \<Rightarrow> bool \<Rightarrow> bool \<Rightarrow> i128 option \<Rightarrow> tx_info may_panic" where
  "fixture_with_virtual X with_events failed virtual_quote = do {
     quote \<leftarrow> x_pubkey_from_str X WSOL_MINT;
     fixture_with_quote X with_events failed virtual_quote quote }"

text \<open>The records the handler sends for a transaction when \<open>mint\<close> is whitelisted.\<close>
definition records_of :: "externals \<Rightarrow> tx_info \<Rightarrow> u64 \<Rightarrow> string set \<Rightarrow> trade_record list may_panic" where
  "records_of X tx slot whitelist =
     (case process_pump_swap_tx X 0 tx slot whitelist False
             \<lparr>as_channel = [], as_channel_closed = False, as_trade_counter = 0, as_log = []\<rparr> of
        Some (Inr _, st) \<Rightarrow> Some (as_channel st)
      | _ \<Rightarrow> None)"

section \<open>The events of the fixture\<close>


lemma copy_into_Some [simp]:
  "a + length xs \<le> length b \<Longrightarrow> copy_into a xs b = Some (take a b @ xs @ drop (a + length xs) b)"
  by (simp add: copy_into_def)

lemma length_ascii [simp]: "length (ascii s) = length s"
  by (simp add: ascii_def)

lemma lens: "length PUMP_SWAP_SELL_EVENT_DISC = 8" "length PUMP_SWAP_BUY_EVENT_DISC = 8" "length PUMP_SWAP_BOOST_BUY_EVENT_DISC = 8"
  by code_simp+

definition event_bytes :: "string \<Rightarrow> u64 \<Rightarrow> u64 \<Rightarrow> i128 option \<Rightarrow> bytes" where
  "event_bytes kind token quote virtual_quote =
     (if kind = ''boost_buy_and_burn'' then
        PUMP_SWAP_BOOST_BUY_EVENT_DISC @ replicate 144 0 @ to_le_bytes 8 quote @ to_le_bytes 8 token @
        to_le_bytes 16 (unwrap_or 0 virtual_quote) @ to_le_bytes 8 EVENT_RAW_QUOTE_RESERVES @ to_le_bytes 8 EVENT_BASE_RESERVES
      else if take 4 kind = ''sell'' then
        PUMP_SWAP_SELL_EVENT_DISC @ replicate 8 0 @ to_le_bytes 8 token @ replicate 24 0 @
        to_le_bytes 8 EVENT_BASE_RESERVES @ to_le_bytes 8 EVENT_RAW_QUOTE_RESERVES @ to_le_bytes 8 quote @ replicate 48 0 @
        (case virtual_quote of None \<Rightarrow> [] | Some v \<Rightarrow> replicate 272 0 @ to_le_bytes 16 v @ [0] @ to_le_bytes 8 (0 :: u64))
      else
        PUMP_SWAP_BUY_EVENT_DISC @ replicate 8 0 @ to_le_bytes 8 token @ replicate 24 0 @
        to_le_bytes 8 EVENT_BASE_RESERVES @ to_le_bytes 8 EVENT_RAW_QUOTE_RESERVES @ replicate 48 0 @ to_le_bytes 8 quote @
        (case virtual_quote of None \<Rightarrow> []
         | Some v \<Rightarrow> replicate 281 0 @ to_le_bytes 4 (3 :: u32) @ ascii ''buy'' @ replicate 32 0 @
             to_le_bytes 16 v @ [0] @ to_le_bytes 8 (0 :: u64)))"

lemma sells: "take 4 ''sell'' = ''sell''" "take 4 ''sell_v2'' = ''sell''" "take 4 ''buy'' \<noteq> ''sell''" "take 4 ''buy_v2'' \<noteq> ''sell''"
  "take 4 ''buy_exact_quote_in'' \<noteq> ''sell''" "take 4 ''buy_exact_quote_in_v2'' \<noteq> ''sell''" "take 4 ''boost_buy_and_burn'' \<noteq> ''sell''"
  by simp_all

lemma emitted_sell:
  assumes "kind = ''sell'' \<or> kind = ''sell_v2''"
  shows "emitted_event_with_virtual kind token quote stack_height v =
    Some \<lparr>ii_program_id_index = PROGRAM_INDEX, ii_accounts = [], ii_data = replicate 8 0 @ event_bytes kind token quote v,
           ii_stack_height = Some stack_height\<rparr>"
  using assms
  by (cases v) (auto simp: emitted_event_with_virtual_def event_bytes_def Let_def lens resize_def PUMP_SWAP_SELL_VQR_OFFSET_def)

lemma emitted_boost:
  "emitted_event_with_virtual ''boost_buy_and_burn'' token quote stack_height v =
    Some \<lparr>ii_program_id_index = PROGRAM_INDEX, ii_accounts = [], ii_data = replicate 8 0 @ event_bytes ''boost_buy_and_burn'' token quote v,
           ii_stack_height = Some stack_height\<rparr>"
  by (auto simp: emitted_event_with_virtual_def event_bytes_def Let_def lens)

lemma emitted_buy:
  assumes "kind \<noteq> ''sell''" "kind \<noteq> ''sell_v2''" "kind \<noteq> ''boost_buy_and_burn''" "take 4 kind \<noteq> ''sell''"
  shows "emitted_event_with_virtual kind token quote stack_height v =
    Some \<lparr>ii_program_id_index = PROGRAM_INDEX, ii_accounts = [], ii_data = replicate 8 0 @ event_bytes kind token quote v,
           ii_stack_height = Some stack_height\<rparr>"
  using assms
  by (cases v) (simp_all add: emitted_event_with_virtual_def event_bytes_def Let_def lens resize_def PUMP_SWAP_BUY_IX_NAME_OFFSET_def)

definition event_disc_of :: "string \<Rightarrow> bytes" where
  "event_disc_of kind = (if kind = ''boost_buy_and_burn'' then PUMP_SWAP_BOOST_BUY_EVENT_DISC
     else if take 4 kind = ''sell'' then PUMP_SWAP_SELL_EVENT_DISC else PUMP_SWAP_BUY_EVENT_DISC)"

lemma discs_differ: "PUMP_SWAP_SELL_EVENT_DISC \<noteq> PUMP_SWAP_BOOST_BUY_EVENT_DISC" "PUMP_SWAP_BUY_EVENT_DISC \<noteq> PUMP_SWAP_BOOST_BUY_EVENT_DISC"
  by code_simp+

lemma effective_zero: "effective_quote_reserves q (Some 0) = q"
proof -
  have "uint q < 2 ^ 64" using unsigned_less [of q, where ?'a = int] by simp
  then have "uint (effective_quote_reserves q (Some 0)) = uint q" unfolding effective_quote_reserves_spec by simp
  then show ?thesis by (rule word_uint_eqI)
qed

lemma event_amounts_boost:
  "event_amounts (event_bytes ''boost_buy_and_burn'' token quote v) PUMP_SWAP_BOOST_BUY_EVENT_DISC is_buy ccy =
   Some (Some (token, quote, Some (get_market_cap_from_reserves EVENT_BASE_RESERVES (effective_quote_reserves EVENT_RAW_QUOTE_RESERVES v) ccy),
     EVENT_BASE_RESERVES, effective_quote_reserves EVENT_RAW_QUOTE_RESERVES v))"
proof -
  have "effective_quote_reserves q None = q" for q by (simp add: effective_quote_reserves_def)
  then have "effective_quote_reserves EVENT_RAW_QUOTE_RESERVES (Some (unwrap_or 0 v)) = effective_quote_reserves EVENT_RAW_QUOTE_RESERVES v"
    by (cases v) (simp_all add: effective_zero unwrap_or_def)
  then show ?thesis
    by (simp add: event_amounts_def extract_boost_closed event_bytes_def layout lens)
qed

lemma event_amounts_sell:
  assumes "take 4 kind = ''sell''"
  shows "event_amounts (event_bytes kind token quote v) PUMP_SWAP_SELL_EVENT_DISC False ccy =
   Some (Some (token, quote, Some (get_market_cap_from_reserves EVENT_BASE_RESERVES (effective_quote_reserves EVENT_RAW_QUOTE_RESERVES v) ccy),
     EVENT_BASE_RESERVES, effective_quote_reserves EVENT_RAW_QUOTE_RESERVES v))"
proof -
  have "kind \<noteq> ''boost_buy_and_burn''" using assms by auto
  then show ?thesis using assms
  by (cases v) (simp_all add: event_amounts_def extract_pool_reserves_closed extract_quote_volume_closed extract_transaction_amounts_closed
    extract_vqr_closed event_bytes_def layout lens discs_differ Let_def)
qed

lemma event_amounts_buy:
  assumes "kind \<noteq> ''boost_buy_and_burn''" "take 4 kind \<noteq> ''sell''"
  shows "event_amounts (event_bytes kind token quote v) PUMP_SWAP_BUY_EVENT_DISC True ccy =
   Some (Some (token, quote, Some (get_market_cap_from_reserves EVENT_BASE_RESERVES (effective_quote_reserves EVENT_RAW_QUOTE_RESERVES v) ccy),
     EVENT_BASE_RESERVES, effective_quote_reserves EVENT_RAW_QUOTE_RESERVES v))"
  using assms
  by (cases v) (simp_all add: event_amounts_def extract_pool_reserves_closed extract_quote_volume_closed extract_transaction_amounts_closed
    extract_vqr_closed event_bytes_def layout lens discs_differ Let_def)

definition test_event :: "string \<Rightarrow> u64 \<Rightarrow> u64 \<Rightarrow> u32 \<Rightarrow> i128 option \<Rightarrow> inner_instruction" where
  "test_event kind token quote stack_height v =
     \<lparr>ii_program_id_index = PROGRAM_INDEX, ii_accounts = [], ii_data = replicate 8 0 @ event_bytes kind token quote v,
      ii_stack_height = Some stack_height\<rparr>"

definition trade_kind :: "string \<Rightarrow> pump_swap_trade_ix" where
  "trade_kind kind = \<lparr>ti_name = kind, ti_is_buy = (take 4 kind \<noteq> ''sell''),
     ti_is_exact_in = (kind \<in> {''buy_exact_quote_in'', ''boost_buy_and_burn'', ''buy_exact_quote_in_v2''}),
     ti_event_disc = event_disc_of kind\<rparr>"

lemma variant_kinds:
  "list_all (\<lambda>(kind, disc). pump_swap_trade_ix disc = Some (trade_kind kind) \<and> length disc = 8 \<and>
     disc \<noteq> AMM_MULTI_HOP_SWAP_DISCRIMINATOR) variants"
  by code_simp

lemma variant_cases:
  assumes "(kind, disc) \<in> set variants"
  shows "kind = ''sell'' \<or> kind = ''sell_v2'' \<or> kind = ''boost_buy_and_burn'' \<or>
    kind \<noteq> ''sell'' \<and> kind \<noteq> ''sell_v2'' \<and> kind \<noteq> ''boost_buy_and_burn'' \<and> take 4 kind \<noteq> ''sell''"
proof -
  have "list_all (\<lambda>(kind, disc). kind = ''sell'' \<or> kind = ''sell_v2'' \<or> kind = ''boost_buy_and_burn'' \<or>
    kind \<noteq> ''sell'' \<and> kind \<noteq> ''sell_v2'' \<and> kind \<noteq> ''boost_buy_and_burn'' \<and> take 4 kind \<noteq> ''sell'') variants"
    by code_simp
  with assms show ?thesis unfolding list_all_iff by blast
qed

lemma emitted_variant:
  assumes "(kind, disc) \<in> set variants"
  shows "emitted_event_with_virtual kind token quote stack_height v = Some (test_event kind token quote stack_height v)"
proof -
  from variant_cases [OF assms] consider "kind = ''sell'' \<or> kind = ''sell_v2''" | "kind = ''boost_buy_and_burn''"
    | "kind \<noteq> ''sell''" "kind \<noteq> ''sell_v2''" "kind \<noteq> ''boost_buy_and_burn''" "take 4 kind \<noteq> ''sell''" by metis
  then show ?thesis
  proof cases
    case 1 then show ?thesis unfolding test_event_def by (rule emitted_sell)
  next
    case 2 then show ?thesis unfolding test_event_def by (simp only: emitted_boost)
  next
    case 3 then show ?thesis unfolding test_event_def by (rule emitted_buy)
  qed
qed

lemma variant_amounts:
  assumes "(kind, disc) \<in> set variants"
  shows "event_amounts (event_bytes kind token quote v) (ti_event_disc (trade_kind kind)) (ti_is_buy (trade_kind kind)) ccy =
   Some (Some (token, quote, Some (get_market_cap_from_reserves EVENT_BASE_RESERVES (effective_quote_reserves EVENT_RAW_QUOTE_RESERVES v) ccy),
     EVENT_BASE_RESERVES, effective_quote_reserves EVENT_RAW_QUOTE_RESERVES v))"
proof -
  have s: "take 4 kind = ''sell''" if "kind = ''sell'' \<or> kind = ''sell_v2''" using that by auto
  consider "kind = ''boost_buy_and_burn''" | "kind \<noteq> ''boost_buy_and_burn''" "take 4 kind = ''sell''"
    | "kind \<noteq> ''boost_buy_and_burn''" "take 4 kind \<noteq> ''sell''" by blast
  then show ?thesis
  proof cases
    case 1 then show ?thesis by (simp add: trade_kind_def event_disc_of_def event_amounts_boost)
  next
    case 2 then show ?thesis by (simp add: trade_kind_def event_disc_of_def event_amounts_sell)
  next
    case 3 then show ?thesis by (simp add: trade_kind_def event_disc_of_def event_amounts_buy)
  qed
qed

text \<open>The event that follows a trade, one level deeper, is its event.\<close>

lemma next_event_found:
  assumes "event_block meta parent = Some b" "trade_stack_of (Some b) start = h" "h < h + 1"
    "drop start (block_instructions b) = test_event kind token quote (h + 1) v # rest"
    "rest = [] \<or> ii_stack_height (hd rest) = Some h"
  shows "find_event_data meta parent start PROGRAM_INDEX (event_disc_of kind) = Some (Some (event_bytes kind token quote v))"
proof -
  have len: "16 \<le> length (ii_data (test_event kind token quote (h + 1) v))" "take 8 (event_bytes kind token quote v) = event_disc_of kind"
    "8 \<le> length (event_bytes kind token quote v)"
    by (simp_all add: test_event_def event_bytes_def event_disc_of_def lens)
  have "direct_child_events meta parent start PROGRAM_INDEX = Some [event_bytes kind token quote v]"
    using assms len(1)
    by (cases rest) (auto simp: direct_child_events_def block_ixs_def test_event_def is_none_or_def slice_from_def)
  then show ?thesis using len by (simp add: find_event_data_def slice_get_def)
qed

section \<open>The fixture in closed form\<close>

definition inner_of :: "compiled_instruction \<Rightarrow> inner_instruction" where
  "inner_of trade = \<lparr>ii_program_id_index = ci_program_id_index trade, ii_accounts = ci_accounts trade, ii_data = ci_data trade,
     ii_stack_height = Some 2\<rparr>"

lemma compiled_of_inner_of [simp]: "compiled_of_inner (inner_of trade) = trade"
  by (simp add: compiled_of_inner_def inner_of_def)

text \<open>The \<open>i\<close>-th variant, its direct trade and its event.\<close>

definition kind_at :: "nat \<Rightarrow> string" where "kind_at i = fst (variants ! i)"
definition direct_at :: "bool \<Rightarrow> nat \<Rightarrow> compiled_instruction" where
  "direct_at failed i =
     test_instruction (snd (variants ! i)) (10 + of_nat i) (if failed \<and> i = 0 then - 1 else 20 + of_nat i)"
definition event_of :: "nat \<Rightarrow> u32 \<Rightarrow> i128 option \<Rightarrow> inner_instruction" where
  "event_of i h v = test_event (kind_at i) (100 + of_nat i) (200 + of_nat i) h v"

lemma enumerate_upt: "List.enumerate 0 xs = map (\<lambda>i. (i, xs ! i)) [0..<length xs]"
  by (rule nth_equalityI) (simp_all add: nth_enumerate_eq)

lemma length_variants [simp]: "length variants = 7"
  by (simp add: variants_def)

lemma direct_trades_eq: "direct_trades failed = map (direct_at failed) [0..<7]"
  by (simp add: direct_trades_def enumerate_upt direct_at_def comp_def split_beta del: upt_Suc)

definition own_blocks :: "i128 option \<Rightarrow> inner_instructions list" where
  "own_blocks v = map (\<lambda>i. \<lparr>block_index = of_nat i, block_instructions = [event_of i 2 v]\<rparr>) [0..<7]"

definition routed_block :: "bool \<Rightarrow> i128 option \<Rightarrow> inner_instructions" where
  "routed_block failed v = \<lparr>block_index = 7,
     block_instructions = concat (map (\<lambda>i. [inner_of (direct_at failed i), event_of i 3 v]) [0..<7])\<rparr>"

definition fixture_blocks :: "bool \<Rightarrow> bool \<Rightarrow> i128 option \<Rightarrow> inner_instructions list" where
  "fixture_blocks with_events failed v = (if with_events then own_blocks v @ [routed_block failed v] else [])"

definition amm_test_meta :: "bool \<Rightarrow> bool \<Rightarrow> i128 option \<Rightarrow> transaction_status_meta" where
  "amm_test_meta with_events failed v =
     (demo_meta (fixture_blocks with_events failed v))\<lparr>m_err := (if failed then Some [1] else None)\<rparr>"

definition amm_test_message :: "bool \<Rightarrow> bytes list \<Rightarrow> message" where
  "amm_test_message failed keys = \<lparr>msg_account_keys = keys,
     msg_instructions = direct_trades failed @ [\<lparr>ci_program_id_index = ROUTER_INDEX, ci_accounts = [], ci_data = []\<rparr>]\<rparr>"

definition amm_test_tx :: "bool \<Rightarrow> bool \<Rightarrow> i128 option \<Rightarrow> bytes list \<Rightarrow> tx_info" where
  "amm_test_tx with_events failed v keys = \<lparr>tx_signature_bytes = replicate 64 7,
     tx_transaction = Some (Some (amm_test_message failed keys)), tx_meta = Some (amm_test_meta with_events failed v)\<rparr>"

definition test_pool :: "pubkey \<Rightarrow> pubkey" where
  "test_pool quote = canonical_pump_swap_pool test_ext (new_unique 3) quote pump_key pump_swap_key"

definition test_accounts :: "pubkey \<Rightarrow> bytes list" where
  "test_accounts quote = [test_pool quote, new_unique 1, new_unique 2, new_unique 3, quote, pump_swap_key, new_unique 4]"

lemma test_keys_parse:
  "x_pubkey_from_str test_ext PUMP_SWAP_PROGRAM_ID = Some pump_swap_key" "x_pubkey_from_str test_ext PUMP_PROGRAM_ID = Some pump_key"
  "x_pubkey_from_str test_ext WSOL_MINT = Some wsol_key"
  by code_simp+

lemma emitted_at:
  assumes "i < 7"
  shows "emitted_event_with_virtual (kind_at i) token quote h v = Some (test_event (kind_at i) token quote h v)"
proof -
  obtain kind disc where k: "variants ! i = (kind, disc)" by fastforce
  have "i < length variants" using assms by simp
  then have "(kind, disc) \<in> set variants" unfolding k [symmetric] by (rule nth_mem)
  from emitted_variant [OF this] show ?thesis by (simp add: kind_at_def k)
qed

lemma map_may_panic_upt:
  assumes "\<And>i. i < n \<Longrightarrow> f i = Some (g i)"
  shows "map_may_panic f [0..<n] = Some (map g [0..<n])"
  by (rule map_may_panic_Some) (simp add: assms)

lemma fixture_closed:
  "fixture_with_quote test_ext with_events failed v quote = Some (amm_test_tx with_events failed v (test_accounts quote))"
proof -
  have own: "map_may_panic (\<lambda>(i, (kind, _)). do {
         event \<leftarrow> emitted_event_with_virtual kind (100 + of_nat i) (200 + of_nat i) 2 v;
         Some \<lparr>block_index = of_nat i, block_instructions = [event]\<rparr> }) (List.enumerate 0 variants) = Some (own_blocks v)"
    unfolding enumerate_upt map_may_panic_map own_blocks_def length_variants
    by (rule map_may_panic_upt) (simp add: split_beta kind_at_def [symmetric] emitted_at event_of_def)
  have routed: "map_may_panic (\<lambda>(i, ((kind, _), trade)). routed_trade i kind trade v)
      (List.enumerate 0 (zip variants (direct_trades failed))) =
      Some (map (\<lambda>i. [inner_of (direct_at failed i), event_of i 3 v]) [0..<7])"
  proof -
    have len: "length (zip variants (direct_trades failed)) = 7" by (simp add: direct_trades_eq del: upt_Suc)
    show ?thesis
      unfolding enumerate_upt map_may_panic_map len
      by (rule map_may_panic_upt)
        (simp add: split_beta kind_at_def [symmetric] routed_trade_def emitted_at event_of_def inner_of_def direct_trades_eq del: upt_Suc)
  qed
  show ?thesis
    by (simp add: fixture_with_quote_def test_keys_parse own routed Let_def test_accounts_def test_pool_def canonical_pump_swap_pool_def
      amm_test_tx_def amm_test_message_def amm_test_meta_def fixture_blocks_def routed_block_def VARIANTS_def)
qed


section \<open>The fills of the fixture\<close>

lemma upt7: "[0..<7] = [0, 1, 2, 3, 4, 5, 6 :: nat]"
  by (simp add: upt_rec)

lemma direct_at_simps [simp]:
  "ci_program_id_index (direct_at failed i) = 5" "ci_accounts (direct_at failed i) = [0, 1, 2, 3, 4]"
  "ii_program_id_index (inner_of trade) = ci_program_id_index trade" "ii_program_id_index (event_of i h v) = 5"
  "ii_stack_height (inner_of trade) = Some 2" "ii_stack_height (event_of i h v) = Some h"
  by (simp_all add: direct_at_def test_instruction_def PROGRAM_INDEX_def inner_of_def event_of_def test_event_def)

lemma amm_test_items:
  assumes "program_index_of full pump_swap_key = Some 5"
  shows "get_program_instructions (amm_test_message failed keys) (amm_test_meta with_events failed v) full pump_swap_key =
    map (\<lambda>i. (direct_at failed i, i, 0)) [0..<7] @
    (if with_events
     then map (\<lambda>i. (compiled_of_inner (event_of i 2 v), i, 1)) [0..<7] @
       concat (map (\<lambda>i. [(direct_at failed i, 7, 2 * i + 1), (compiled_of_inner (event_of i 3 v), 7, 2 * i + 2)]) [0..<7])
     else [])"
  by (simp add: get_program_instructions_def assms amm_test_message_def amm_test_meta_def demo_meta_def fixture_blocks_def
    own_blocks_def routed_block_def direct_trades_eq upt7 ROUTER_INDEX_def Let_def)

lemma event_item_no_fill: "fills_of_item X ctx meta full (compiled_of_inner (event_of i h v), p, s) = []"
proof -
  have "pump_swap_trade_ix (replicate 8 0) = None" "AMM_MULTI_HOP_SWAP_DISCRIMINATOR \<noteq> replicate 8 0" by code_simp+
  then show ?thesis by (simp add: fills_of_item_def event_of_def test_event_def)
qed

lemma kind_at_classified:
  assumes "i < 7"
  shows "take 8 (ci_data (direct_at failed i)) = snd (variants ! i)" "length (snd (variants ! i)) = 8"
    "pump_swap_trade_ix (snd (variants ! i)) = Some (trade_kind (kind_at i))"
    "snd (variants ! i) \<noteq> AMM_MULTI_HOP_SWAP_DISCRIMINATOR"
proof -
  have "list_all (\<lambda>x. pump_swap_trade_ix (snd x) = Some (trade_kind (fst x)) \<and> length (snd x) = 8 \<and>
      snd x \<noteq> AMM_MULTI_HOP_SWAP_DISCRIMINATOR) variants"
    by code_simp
  then show "length (snd (variants ! i)) = 8" "pump_swap_trade_ix (snd (variants ! i)) = Some (trade_kind (kind_at i))"
    "snd (variants ! i) \<noteq> AMM_MULTI_HOP_SWAP_DISCRIMINATOR"
    using assms by (simp_all only: list_all_length length_variants kind_at_def not_False_eq_True)
  then show "take 8 (ci_data (direct_at failed i)) = snd (variants ! i)"
    by (simp add: direct_at_def test_instruction_def)
qed

text \<open>The accounts of every trade are the first five keys.\<close>

definition keys_ok :: "bytes list \<Rightarrow> bool" where
  "keys_ok keys \<longleftrightarrow> length keys = 7 \<and> list_all (\<lambda>k. length k = 32) keys \<and> program_index_of keys pump_swap_key = Some 5"

lemma test_pubkey_text_ok: "pubkey_text_ok test_ext"
proof -
  have texts: "list_all (\<lambda>(k, s). x_pubkey_from_str test_ext s = Some k \<and> length k = 32 \<and> length s \<noteq> 32) test_key_texts"
    by code_simp
  have to: "x_pubkey_to_string test_ext k = (case map_of test_key_texts k of Some s \<Rightarrow> s | None \<Rightarrow> text_of_bytes k)"
    and parse: "x_pubkey_from_str test_ext s = (case map_of (map prod.swap test_key_texts) s of
      Some k \<Rightarrow> Some k | None \<Rightarrow> if length s = 32 then Some (bytes_of_text s) else None)" for k s
    by (simp_all add: test_ext_def)
  have "x_pubkey_from_str test_ext (x_pubkey_to_string test_ext k) = Some k" if "length k = 32" for k
  proof (cases "map_of test_key_texts k")
    case None
    have "map_of (map prod.swap test_key_texts) (text_of_bytes k) = None"
      using texts that by (fastforce simp: map_of_eq_None_iff list_all_iff)
    with None that show ?thesis by (simp add: to parse)
  next
    case (Some s)
    then have "(k, s) \<in> set test_key_texts" by (rule map_of_SomeD)
    with texts Some show ?thesis by (auto simp: to list_all_iff)
  qed
  moreover have "length k = 32" if "x_pubkey_from_str test_ext s = Some k" for s k
  proof (cases "map_of (map prod.swap test_key_texts) s")
    case None
    with that show ?thesis by (auto simp: parse split: if_splits)
  next
    case (Some k')
    then have "(s, k') \<in> set (map prod.swap test_key_texts)" by (rule map_of_SomeD)
    then have "(k', s) \<in> set test_key_texts" by auto
    with texts Some that show ?thesis by (auto simp: parse list_all_iff)
  qed
  ultimately show ?thesis by (simp add: pubkey_text_ok_def)
qed

lemma trade_keys_of:
  assumes "keys_ok keys"
  shows "trade_keys test_ext (direct_at failed i) keys =
    Some ((x_pubkey_to_string test_ext (keys ! 3), x_pubkey_to_string test_ext (keys ! 4), x_pubkey_to_string test_ext (keys ! 0)),
          (keys ! 3, keys ! 4, keys ! 0))"
    "resolve_instruction_account test_ext (direct_at failed i) keys 1 = Some (x_pubkey_to_string test_ext (keys ! 1))"
proof -
  have len: "length (keys ! k) = 32" if "k < 7" for k using assms that by (simp add: keys_ok_def list_all_length)
  have acc: "instruction_account_pubkey (direct_at failed i) keys k = Some (keys ! k)" if "k < 5" for k
  proof -
    have "k \<in> {0, 1, 2, 3, 4}" using that by auto
    then show ?thesis using len assms by (auto simp: instruction_account_pubkey_def vec_get_def try_array_def keys_ok_def)
  qed
  show "trade_keys test_ext (direct_at failed i) keys =
    Some ((x_pubkey_to_string test_ext (keys ! 3), x_pubkey_to_string test_ext (keys ! 4), x_pubkey_to_string test_ext (keys ! 0)),
          (keys ! 3, keys ! 4, keys ! 0))"
    by (simp add: trade_keys_def resolve_eqs acc pubkey_text_roundtrip [OF test_pubkey_text_ok] len)
  show "resolve_instruction_account test_ext (direct_at failed i) keys 1 = Some (x_pubkey_to_string test_ext (keys ! 1))"
    by (simp add: resolve_eqs acc)
qed

definition test_fill :: "bytes list \<Rightarrow> quote_currency \<Rightarrow> nat \<Rightarrow> bool \<Rightarrow> amounts \<times> string \<Rightarrow> trade_fill" where
  "test_fill keys ccy i is_cpi x =
     (let ((token, quote, cap, base_reserves, quote_reserves), source) = x in
      \<lparr>fl_pool_address = x_pubkey_to_string test_ext (keys ! 0), fl_mint = x_pubkey_to_string test_ext (keys ! 3),
       fl_quote_mint = x_pubkey_to_string test_ext (keys ! 4), fl_quote_currency = ccy, fl_instruction_type = kind_at i,
       fl_is_cpi = is_cpi, fl_user = x_pubkey_to_string test_ext (keys ! 1), fl_is_buy = ti_is_buy (trade_kind (kind_at i)),
       fl_token_amount = token, fl_quote_volume = quote, fl_market_cap = cap, fl_base_reserves = base_reserves,
       fl_quote_reserves = quote_reserves, fl_amount_source = source\<rparr>)"

lemma trade_item_fills:
  assumes "keys_ok keys" "i < 7"
  shows "fills_of_item test_ext ctx meta keys (direct_at failed i, p, s) =
    (case eligible test_ext ctx (keys ! 0) (keys ! 3) (keys ! 4) of
       None \<Rightarrow> []
     | Some ccy \<Rightarrow> [test_fill keys ccy i (0 < s) (the (trade_amounts ctx (direct_at failed i) meta p s (trade_kind (kind_at i)) ccy))])"
proof -
  have n: "\<not> length (ci_data (direct_at failed i)) < 8" by (simp add: direct_at_def test_instruction_def kind_at_classified [OF assms(2)])
  have name: "ti_name (trade_kind kind) = kind" for kind by (simp add: trade_kind_def)
  show ?thesis
  proof (cases "eligible test_ext ctx (keys ! 0) (keys ! 3) (keys ! 4)")
    case None
    then show ?thesis using n
      by (simp add: fills_of_item_def kind_at_classified [OF assms(2)] single_trade_fill_def trade_keys_of [OF assms(1)])
  next
    case (Some ccy)
    obtain token quote cap br qr source where
      "trade_amounts ctx (direct_at failed i) meta p s (trade_kind (kind_at i)) ccy = Some ((token, quote, cap, br, qr), source)"
      using trade_amounts_total [of ctx "direct_at failed i" meta p s "trade_kind (kind_at i)" ccy] by (metis prod_cases5)
    with Some n show ?thesis
      by (simp add: fills_of_item_def kind_at_classified [OF assms(2)] single_trade_fill_def trade_keys_of [OF assms(1)] trade_keys_of(2) [OF assms(1), unfolded One_nat_def]
          unwrap_or_def test_fill_def name)
  qed
qed


text \<open>Amounts asked for, and amounts executed.\<close>

lemma requested_amounts_at:
  "i < 7 \<Longrightarrow> extract_pump_swap_requested_amounts (ci_data (direct_at failed i)) exact_in =
    Some (let a = 10 + of_nat i; b = (if failed \<and> i = 0 then - 1 else 20 + of_nat i) in if exact_in then (b, a) else (a, b))"
  by (simp add: extract_requested_closed direct_at_def test_instruction_def kind_at_classified layout from_le_bytes_to_le_bytes Let_def)

lemma failed_amounts:
  assumes "\<not> tc_success ctx" "i < 7"
  shows "trade_amounts ctx (direct_at failed i) meta p s (trade_kind (kind_at i)) ccy =
    (let a = 10 + of_nat i; b = (if failed \<and> i = 0 then - 1 else 20 + of_nat i);
         (token, quote) = (if ti_is_exact_in (trade_kind (kind_at i)) then (b, a) else (a, b))
     in Some ((token, quote, None, 0, 0), ''instruction_request''))"
  using assms by (simp add: trade_amounts_def requested_amounts_at Let_def split_beta)

lemma landed_amounts:
  assumes "tc_success ctx" "i < 7"
    "find_event_data meta p s 5 (event_disc_of (kind_at i)) = Some (Some (event_bytes (kind_at i) (100 + of_nat i) (200 + of_nat i) v))"
  shows "trade_amounts ctx (direct_at failed i) meta p s (trade_kind (kind_at i)) ccy =
    Some ((100 + of_nat i, 200 + of_nat i,
      Some (get_market_cap_from_reserves EVENT_BASE_RESERVES (effective_quote_reserves EVENT_RAW_QUOTE_RESERVES v) ccy),
      EVENT_BASE_RESERVES, effective_quote_reserves EVENT_RAW_QUOTE_RESERVES v), ''event'')"
proof -
  obtain kind disc where k: "variants ! i = (kind, disc)" by fastforce
  have "i < length variants" using assms by simp
  then have "(kind, disc) \<in> set variants" unfolding k [symmetric] by (rule nth_mem)
  note amounts = variant_amounts [OF this]
  have "kind = kind_at i" "ti_event_disc (trade_kind (kind_at i)) = event_disc_of (kind_at i)"
    by (simp_all add: kind_at_def k trade_kind_def)
  with assms amounts show ?thesis by (simp add: trade_amounts_def)
qed

lemma own_event:
  assumes "i < 7"
  shows "find_event_data (amm_test_meta True failed v) i 0 5 (event_disc_of (kind_at i)) =
    Some (Some (event_bytes (kind_at i) (100 + of_nat i) (200 + of_nat i) v))"
proof -
  have b: "event_block (amm_test_meta True failed v) i = Some \<lparr>block_index = of_nat i, block_instructions = [event_of i 2 v]\<rparr>"
  proof -
    have "i \<in> set [0, 1, 2, 3, 4, 5, 6]" using assms by auto
    then show ?thesis
      by (auto simp: event_block_def amm_test_meta_def demo_meta_def fixture_blocks_def own_blocks_def upt7)
  qed
  show ?thesis
    unfolding PROGRAM_INDEX_def [symmetric]
    by (rule next_event_found [OF b, of 0 1 _ _ _ v "[]"]) (simp_all add: trade_stack_of_def event_of_def)
qed

lemma routed_event:
  assumes "i < 7"
  shows "find_event_data (amm_test_meta True failed v) 7 (2 * i + 1) 5 (event_disc_of (kind_at i)) =
    Some (Some (event_bytes (kind_at i) (100 + of_nat i) (200 + of_nat i) v))"
proof -
  have b: "event_block (amm_test_meta True failed v) 7 = Some (routed_block failed v)"
    by (simp add: event_block_def amm_test_meta_def demo_meta_def fixture_blocks_def own_blocks_def upt7 routed_block_def)
  have i: "i \<in> set [0, 1, 2, 3, 4, 5, 6]" using assms by auto
  have st: "trade_stack_of (Some (routed_block failed v)) (2 * i + 1) = 2"
    using i by (auto simp: trade_stack_of_def routed_block_def upt7 unwrap_or_def)
  have "\<exists>rest. drop (2 * i + 1) (block_instructions (routed_block failed v)) = event_of i 3 v # rest \<and>
      (rest = [] \<or> ii_stack_height (hd rest) = Some 2)"
    using i by (auto simp: routed_block_def upt7)
  then obtain rest where "drop (2 * i + 1) (block_instructions (routed_block failed v)) = event_of i 3 v # rest"
      "rest = [] \<or> ii_stack_height (hd rest) = Some 2" by blast
  then show ?thesis
    unfolding PROGRAM_INDEX_def [symmetric]
    by (intro next_event_found [OF b st, of _ _ _ v rest]) (simp_all add: event_of_def)
qed


section \<open>The records of the fixture\<close>

definition landed_fill :: "bytes list \<Rightarrow> quote_currency \<Rightarrow> i128 option \<Rightarrow> bool \<Rightarrow> nat \<Rightarrow> trade_fill" where
  "landed_fill keys ccy v is_cpi i = test_fill keys ccy i is_cpi ((100 + of_nat i, 200 + of_nat i,
      Some (get_market_cap_from_reserves EVENT_BASE_RESERVES (effective_quote_reserves EVENT_RAW_QUOTE_RESERVES v) ccy),
      EVENT_BASE_RESERVES, effective_quote_reserves EVENT_RAW_QUOTE_RESERVES v), ''event'')"

definition failed_fill :: "bytes list \<Rightarrow> quote_currency \<Rightarrow> nat \<Rightarrow> trade_fill" where
  "failed_fill keys ccy i = test_fill keys ccy i False
    (let a = 10 + of_nat i; b = (if i = 0 then - 1 else 20 + of_nat i);
         (token, quote) = (if ti_is_exact_in (trade_kind (kind_at i)) then (b, a) else (a, b))
     in ((token, quote, None, 0, 0), ''instruction_request''))"

abbreviation test_input :: "bool \<Rightarrow> bool \<Rightarrow> i128 option \<Rightarrow> bytes list \<Rightarrow> amm_input" where
  "test_input with_events failed v keys \<equiv>
     (pump_swap_key, pump_key, amm_test_message failed keys, amm_test_meta with_events failed v)"

lemma amm_test_fills:
  assumes "keys_ok keys" "failed \<longrightarrow> \<not> with_events" "with_events \<or> failed"
    and e: "eligible test_ext (amm_context test_ext 0 (amm_test_tx with_events failed v keys) slot whitelist False
        (test_input with_events failed v keys)) (keys ! 0) (keys ! 3) (keys ! 4) = e"
  shows "amm_fills test_ext 0 (amm_test_tx with_events failed v keys) slot whitelist False (test_input with_events failed v keys) =
    (case e of
       None \<Rightarrow> []
     | Some ccy \<Rightarrow>
         (if failed then map (failed_fill keys ccy) [0..<7]
          else map (landed_fill keys ccy v False) [0..<7] @ map (landed_fill keys ccy v True) [0..<7]))"
proof -
  let ?meta = "amm_test_meta with_events failed v"
  let ?ctx = "amm_context test_ext 0 (amm_test_tx with_events failed v keys) slot whitelist False (test_input with_events failed v keys)"
  have acc: "full_account_list (amm_test_message g keys) (amm_test_meta b g v) = keys" for b g
    by (simp add: full_account_list_def amm_test_message_def amm_test_meta_def demo_meta_def)
  have idx: "program_index_of keys pump_swap_key = Some 5" using assms(1) by (simp add: keys_ok_def)
  have ok: "tc_success ?ctx \<longleftrightarrow> \<not> failed" by (simp add: tx_succeeded_def amm_test_tx_def amm_test_meta_def)
  have trade: "fills_of_item test_ext ?ctx ?meta keys (direct_at failed i, p, s) = (case e of None \<Rightarrow> []
     | Some ccy \<Rightarrow> [test_fill keys ccy i (0 < s) (the (trade_amounts ?ctx (direct_at failed i) ?meta p s (trade_kind (kind_at i)) ccy))])"
    if "i < 7" for i p s
    unfolding trade_item_fills [OF assms(1) that] e by (rule refl)
  show ?thesis
  proof (cases e)
    case None
    then have "fills_of_item test_ext ?ctx ?meta keys (direct_at failed i, p, s) = []" if "i < 7" for i p s
      using trade [OF that] by simp
    then show ?thesis
      by (cases with_events)
        (auto simp: amm_fills_def acc fills_of_items_def amm_test_items [OF idx] None event_item_no_fill upt7)
  next
    case (Some ccy)
    show ?thesis
    proof (cases failed)
      case True
      then have "fills_of_item test_ext ?ctx ?meta keys (direct_at failed i, i, 0) = [failed_fill keys ccy i]" if "i < 7" for i
        using trade [OF that, of i 0] Some failed_amounts [OF _ that, of ?ctx failed ?meta i 0 ccy] ok
        by (simp add: failed_fill_def Let_def split_beta)
      with True assms(2) show ?thesis
        by (simp add: amm_fills_def acc fills_of_items_def amm_test_items [OF idx] Some comp_def upt7)
    next
      case False
      with assms(3) have we: "with_events" by simp
      have direct: "fills_of_item test_ext ?ctx ?meta keys (direct_at failed i, i, 0) = [landed_fill keys ccy v False i]" if "i < 7" for i
        using trade [OF that, of i 0] Some landed_amounts [OF _ that own_event [OF that, of failed v]] ok False we
        by (simp add: landed_fill_def)
      have routed: "fills_of_item test_ext ?ctx ?meta keys (direct_at failed i, 7, 2 * i + 1) = [landed_fill keys ccy v True i]" if "i < 7" for i
        using trade [OF that, of 7 "2 * i + 1"] Some landed_amounts [OF _ that routed_event [OF that, of failed v]] ok False we
        by (simp add: landed_fill_def)
      show ?thesis
        using direct routed [of 0] routed [of 1] routed [of 2] routed [of 3] routed [of 4] routed [of 5] routed [of 6] False we
        by (simp add: amm_fills_def acc fills_of_items_def amm_test_items [OF idx] Some comp_def upt7 event_item_no_fill)
    qed
  qed
qed

lemma amm_test_records:
  "records_of test_ext (amm_test_tx with_events failed v keys) slot whitelist =
   Some (numbered (amm_context test_ext 0 (amm_test_tx with_events failed v keys) slot whitelist False (test_input with_events failed v keys)) 0
     (amm_fills test_ext 0 (amm_test_tx with_events failed v keys) slot whitelist False (test_input with_events failed v keys)))"
proof -
  have "amm_inputs test_ext (amm_test_tx with_events failed v keys) = Inr (test_input with_events failed v keys)"
    by (simp add: amm_inputs_def test_keys_parse amm_test_tx_def)
  then show ?thesis by (simp add: records_of_def process_closed emit_fills_send)
qed

lemma test_eligible:
  "eligible test_ext (amm_context test_ext 0 tx slot whitelist False (pump_swap_key, pump_key, msg, meta)) pool base quote =
   (if x_pubkey_to_string test_ext base = WSOL_MINT \<or> x_pubkey_to_string test_ext base \<notin> whitelist \<or>
       pool \<noteq> canonical_pump_swap_pool test_ext base quote pump_key pump_swap_key
    then None else quote_currency_of test_ext (x_pubkey_to_string test_ext quote))"
  by (auto simp: eligible_def Let_def split: Option.bind_splits)

end
