(* ===== verification/AmmHandlerTests.thy ===== *)
theory AmmHandlerTests
  imports AmmTests
begin

text \<open>
  The unit tests of \<open>src/src/handler/amm_handler.rs\<close> on the fixture of \<open>AmmTests\<close>: each test is a boolean definition that
  reads like the test, and a lemma that it passes. \<open>None\<close> inside a test is a panic of the test.
\<close>

section \<open>Virtual reserves\<close>

text \<open>\<open>message.account_keys[n]\<close>, as a key.\<close>
definition tx_key :: "tx_info \<Rightarrow> nat \<Rightarrow> pubkey may_panic" where
  "tx_key tx n = (case tx_transaction tx of
     Some (Some msg) \<Rightarrow> do { k \<leftarrow> vec_get (msg_account_keys msg) n; try_array 32 k }
   | _ \<Rightarrow> None)"

text \<open>The next \<open>n\<close> records on the channel; \<open>recv().await.unwrap()\<close> panics when there are fewer.\<close>
definition receive :: "nat \<Rightarrow> 'a list \<Rightarrow> 'a list may_panic" where
  "receive n records = (if n \<le> length records then Some (take n records) else None)"

definition N :: nat where
  "N = length VARIANTS"

definition amm_fixture :: "bool \<Rightarrow> bool \<Rightarrow> tx_info may_panic" where
  "amm_fixture with_events failed = fixture_with_virtual test_ext with_events failed None"

definition market_caps_for :: "i128 option \<Rightarrow> u64 option list may_panic" where
  "market_caps_for virtual_quote = do {
     tx \<leftarrow> fixture_with_virtual test_ext True False virtual_quote;
     base \<leftarrow> tx_key tx 3;
     records \<leftarrow> records_of test_ext tx 42 {x_pubkey_to_string test_ext base};
     caps \<leftarrow> receive (2 * N) records;
     Some (map tr_market_cap caps) }"

definition virtual_quote_reserves_reach_market_cap_for_every_variant :: bool where
  "virtual_quote_reserves_reach_market_cap_for_every_variant \<longleftrightarrow>
     (case (market_caps_for None, market_caps_for (Some (ucast EVENT_RAW_QUOTE_RESERVES))) of
        (Some baseline, Some boosted) \<Rightarrow>
          list_all (\<lambda>caps. case caps of (Some base, Some boost) \<Rightarrow> boost = base * 2 | _ \<Rightarrow> False) (zip baseline boosted)
      | _ \<Rightarrow> False)"

definition fully_offset_virtual_reserves_zero_the_market_cap :: bool where
  "fully_offset_virtual_reserves_zero_the_market_cap \<longleftrightarrow>
     (case market_caps_for (Some (- ucast EVENT_RAW_QUOTE_RESERVES)) of
        Some caps \<Rightarrow> list_all (\<lambda>cap. cap = Some 0) caps
      | None \<Rightarrow> False)"

definition phase_one_zero_virtual_reserves_change_nothing :: bool where
  "phase_one_zero_virtual_reserves_change_nothing \<longleftrightarrow>
     market_caps_for (Some 0) = market_caps_for None \<and> market_caps_for None \<noteq> None"

text \<open>The keys of the fixture on a SOL pool pass the filters when the coin is whitelisted.\<close>

lemma length_new_unique [simp]: "length (new_unique n) = 32"
  by (simp add: new_unique_def)

lemma length_test_pool [simp]: "length (test_pool quote) = 32"
  by (simp add: test_pool_def canonical_pump_swap_pool_def test_ext_def demo_ext_def pump_swap_key_def)

lemma sol_keys: "keys_ok (test_accounts wsol_key)"
  by code_simp

lemma sol_texts:
  "x_pubkey_to_string test_ext wsol_key = WSOL_MINT" "x_pubkey_to_string test_ext (new_unique 3) \<noteq> WSOL_MINT"
  by code_simp+

lemma test_accounts_nth [simp]:
  "test_accounts quote ! 0 = test_pool quote" "test_accounts quote ! 1 = new_unique 1" "test_accounts quote ! 3 = new_unique 3"
  "test_accounts quote ! 4 = quote"
  by (simp_all add: test_accounts_def)

lemma fixture_key_3: "tx_key (amm_test_tx with_events failed v (test_accounts quote)) 3 = Some (new_unique 3)"
  by (simp add: tx_key_def amm_test_tx_def amm_test_message_def test_accounts_def try_array_def)

lemma fixture_with_virtual_closed:
  "fixture_with_virtual test_ext with_events failed v = Some (amm_test_tx with_events failed v (test_accounts wsol_key))"
  by (simp add: fixture_with_virtual_def test_keys_parse fixture_closed)

lemma sol_eligible:
  "eligible test_ext (amm_context test_ext 0 tx slot {x_pubkey_to_string test_ext (new_unique 3)} False (pump_swap_key, pump_key, msg, meta))
     (test_pool wsol_key) (new_unique 3) wsol_key = Some Sol"
  using sol_texts by (simp add: test_eligible test_pool_def quote_currency_of_def)

lemma sol_records:
  assumes "failed \<longrightarrow> \<not> with_events" "with_events \<or> failed"
  shows "\<exists>ctx. records_of test_ext (amm_test_tx with_events failed v (test_accounts wsol_key)) slot {x_pubkey_to_string test_ext (new_unique 3)} =
    Some (numbered ctx 0
      (if failed then map (failed_fill (test_accounts wsol_key) Sol) [0..<7]
       else map (landed_fill (test_accounts wsol_key) Sol v False) [0..<7] @ map (landed_fill (test_accounts wsol_key) Sol v True) [0..<7])) \<and>
    tc_success ctx = (\<not> failed) \<and> tc_slot ctx = slot"
proof -
  have ok: "tx_succeeded (amm_test_tx with_events failed v keys) \<longleftrightarrow> \<not> failed" for with_events failed keys
    by (simp add: tx_succeeded_def amm_test_tx_def amm_test_meta_def)
  show ?thesis
    by (subst amm_test_records, subst amm_test_fills [OF sol_keys assms refl])
      (auto simp: sol_eligible ok intro!: exI [of _ "amm_context _ _ _ _ _ _ _"])
qed


lemma market_caps_numbered: "map tr_market_cap (numbered ctx i fs) = map fl_market_cap fs"
  by (induction fs arbitrary: i) (simp_all add: trade_record_of_def)

lemma market_caps_closed:
  "market_caps_for v = Some (replicate 14
     (Some (get_market_cap_from_reserves EVENT_BASE_RESERVES (effective_quote_reserves EVENT_RAW_QUOTE_RESERVES v) Sol)))"
proof -
  obtain ctx where "records_of test_ext (amm_test_tx True False v (test_accounts wsol_key)) 42 {x_pubkey_to_string test_ext (new_unique 3)} =
    Some (numbered ctx 0
      (map (landed_fill (test_accounts wsol_key) Sol v False) [0..<7] @ map (landed_fill (test_accounts wsol_key) Sol v True) [0..<7]))"
    using sol_records [of False True v 42] by auto
  then show ?thesis
    by (simp add: market_caps_for_def fixture_with_virtual_closed fixture_key_3 receive_def N_def VARIANTS_def market_caps_numbered
      comp_def landed_fill_def test_fill_def map_replicate_const replicate_add [symmetric] del: upt_Suc)
qed

lemma fixture_caps:
  "get_market_cap_from_reserves EVENT_BASE_RESERVES 900 Sol = 1125000000000000"
  "get_market_cap_from_reserves EVENT_BASE_RESERVES 1800 Sol = 2250000000000000"
  "get_market_cap_from_reserves EVENT_BASE_RESERVES 0 Sol = 0"
proof -
  have "f64_round (cap_val EVENT_BASE_RESERVES 900 Sol) = 1125000000000000" "f64_round (cap_val EVENT_BASE_RESERVES 1800 Sol) = 2250000000000000"
    "f64_round (cap_val EVENT_BASE_RESERVES 0 Sol) = 0" "EVENT_BASE_RESERVES \<noteq> 0"
    by code_simp+
  then show "get_market_cap_from_reserves EVENT_BASE_RESERVES 900 Sol = 1125000000000000"
    "get_market_cap_from_reserves EVENT_BASE_RESERVES 1800 Sol = 2250000000000000"
    "get_market_cap_from_reserves EVENT_BASE_RESERVES 0 Sol = 0"
    by (simp_all add: market_cap_closed f64_as_u64_def)
qed

lemma fixture_reserves:
  "effective_quote_reserves EVENT_RAW_QUOTE_RESERVES None = 900"
  "effective_quote_reserves EVENT_RAW_QUOTE_RESERVES (Some (ucast EVENT_RAW_QUOTE_RESERVES)) = 1800"
  "effective_quote_reserves EVENT_RAW_QUOTE_RESERVES (Some (- ucast EVENT_RAW_QUOTE_RESERVES)) = 0"
proof -
  have s: "sint (900 :: i128) = 900" "sint (- 900 :: i128) = - 900" by simp_all
  show "effective_quote_reserves EVENT_RAW_QUOTE_RESERVES None = 900"
    by (simp only: effective_quote_reserves_def EVENT_RAW_QUOTE_RESERVES_def option.case)
  show "effective_quote_reserves EVENT_RAW_QUOTE_RESERVES (Some (ucast EVENT_RAW_QUOTE_RESERVES)) = 1800"
    "effective_quote_reserves EVENT_RAW_QUOTE_RESERVES (Some (- ucast EVENT_RAW_QUOTE_RESERVES)) = 0"
    by (simp_all add: effective_of_spec EVENT_RAW_QUOTE_RESERVES_def s)
qed

lemma virtual_reserve_tests_pass:
  "virtual_quote_reserves_reach_market_cap_for_every_variant" "fully_offset_virtual_reserves_zero_the_market_cap"
  "phase_one_zero_virtual_reserves_change_nothing"
proof -
  have z: "effective_quote_reserves EVENT_RAW_QUOTE_RESERVES (Some 0) = effective_quote_reserves EVENT_RAW_QUOTE_RESERVES None"
    unfolding fixture_reserves(1) effective_zero by (simp add: EVENT_RAW_QUOTE_RESERVES_def)
  show "virtual_quote_reserves_reach_market_cap_for_every_variant" "fully_offset_virtual_reserves_zero_the_market_cap"
    by (simp_all add: virtual_quote_reserves_reach_market_cap_for_every_variant_def
      fully_offset_virtual_reserves_zero_the_market_cap_def market_caps_closed fixture_reserves fixture_caps zip_replicate list_all_iff)
  show "phase_one_zero_virtual_reserves_change_nothing"
    unfolding phase_one_zero_virtual_reserves_change_nothing_def market_caps_closed z by simp
qed


section \<open>Every variant is recorded\<close>

definition captures_every_current_trade_variant_direct_and_through_cpi :: bool where
  "captures_every_current_trade_variant_direct_and_through_cpi \<longleftrightarrow>
     (case do {
        tx \<leftarrow> amm_fixture True False;
        base \<leftarrow> tx_key tx 3;
        let mint = x_pubkey_to_string test_ext base;
        records \<leftarrow> records_of test_ext tx 42 {mint};
        records \<leftarrow> receive (2 * N) records;
        Some (map tr_instruction_type records = VARIANTS @ VARIANTS \<and>
          list_all (\<lambda>(i, record). let variant = i mod N in
            tr_success record \<and> tr_amount_source record = ''event'' \<and>
            tr_token_amount record = 100 + of_nat variant \<and> tr_sol_amount record = 200 + of_nat variant \<and>
            tr_ix_index record = of_nat i \<and> tr_is_cpi record = (N \<le> i) \<and> tr_slot record = 42 \<and>
            tr_mint_address record = mint \<and> \<not> tr_is_usdc record \<and> tr_market_cap record \<noteq> None)
          (List.enumerate 0 records)) } of
        Some b \<Rightarrow> b | None \<Rightarrow> False)"

definition retains_failed_eventless_trade_attempts_from_instruction_bounds :: bool where
  "retains_failed_eventless_trade_attempts_from_instruction_bounds \<longleftrightarrow>
     (case do {
        tx \<leftarrow> amm_fixture False True;
        base \<leftarrow> tx_key tx 3;
        records \<leftarrow> records_of test_ext tx 43 {x_pubkey_to_string test_ext base};
        records \<leftarrow> receive N records;
        Some (list_all (\<lambda>(i, record).
            let exact_in = (i = 1 \<or> i = 3 \<or> i = 5) in
            tr_instruction_type record = VARIANTS ! i \<and> \<not> tr_success record \<and>
            tr_amount_source record = ''instruction_request'' \<and>
            tr_token_amount record = (if exact_in then 20 + of_nat i else 10 + of_nat i) \<and>
            tr_sol_amount record = (if i = 0 then - 1 else if exact_in then 10 + of_nat i else 20 + of_nat i))
          (List.enumerate 0 records)) } of
        Some b \<Rightarrow> b | None \<Rightarrow> False)"

lemma kind_at_literals:
  "kind_at 0 = ''buy''" "kind_at (Suc 0) = ''buy_exact_quote_in''" "kind_at 2 = ''sell''" "kind_at 3 = ''boost_buy_and_burn''"
  "kind_at 4 = ''buy_v2''" "kind_at 5 = ''buy_exact_quote_in_v2''" "kind_at 6 = ''sell_v2''"
  by (simp_all add: kind_at_def variants_def)

lemma exact_in_literals:
  "ti_is_exact_in (trade_kind (kind_at 0)) = False" "ti_is_exact_in (trade_kind (kind_at (Suc 0)))"
  "ti_is_exact_in (trade_kind (kind_at 2)) = False" "ti_is_exact_in (trade_kind (kind_at 3))"
  "ti_is_exact_in (trade_kind (kind_at 4)) = False" "ti_is_exact_in (trade_kind (kind_at 5))"
  "ti_is_exact_in (trade_kind (kind_at 6)) = False"
  unfolding kind_at_literals trade_kind_def by simp_all

lemma N_seven: "N = 7"
  by (simp add: N_def VARIANTS_def)

lemma variant_names: "map kind_at [0..<7] = VARIANTS"
  by (simp add: upt7 kind_at_literals VARIANTS_def)

lemma types_numbered: "map tr_instruction_type (numbered ctx i fs) = map fl_instruction_type fs"
  by (induction fs arbitrary: i) (simp_all add: trade_record_of_def)

lemma captures_every_current_trade_variant_direct_and_through_cpi_passes:
  "captures_every_current_trade_variant_direct_and_through_cpi"
proof -
  let ?fills = "map (landed_fill (test_accounts wsol_key) Sol None False) [0..<7] @ map (landed_fill (test_accounts wsol_key) Sol None True) [0..<7]"
  obtain ctx where r: "records_of test_ext (amm_test_tx True False None (test_accounts wsol_key)) 42 {x_pubkey_to_string test_ext (new_unique 3)} =
      Some (numbered ctx 0 ?fills)" "tc_success ctx" "tc_slot ctx = 42"
    using sol_records [of False True None 42] by auto
  have kinds: "map fl_instruction_type ?fills = VARIANTS @ VARIANTS"
    by (simp add: variant_names [symmetric] landed_fill_def test_fill_def comp_def del: upt_Suc)
  have nth: "?fills ! i = landed_fill (test_accounts wsol_key) Sol None (7 \<le> i) (i mod 7)" if "i < 14" for i
    using that by (auto simp: nth_append mod_if)
  show ?thesis
    by (simp add: captures_every_current_trade_variant_direct_and_through_cpi_def amm_fixture_def fixture_with_virtual_closed
      fixture_key_3 r receive_def N_seven types_numbered kinds list_all_length nth_enumerate_eq
      nth_numbered nth del: upt_Suc map_append)
      (simp add: trade_record_of_def r landed_fill_def test_fill_def Let_def)
qed

lemma retains_failed_eventless_trade_attempts_from_instruction_bounds_passes:
  "retains_failed_eventless_trade_attempts_from_instruction_bounds"
proof -
  let ?fills = "map (failed_fill (test_accounts wsol_key) Sol) [0..<7]"
  obtain ctx where r: "records_of test_ext (amm_test_tx False True None (test_accounts wsol_key)) 43 {x_pubkey_to_string test_ext (new_unique 3)} =
      Some (numbered ctx 0 ?fills)" "\<not> tc_success ctx"
    using sol_records [of True False None 43] by auto
  show ?thesis
    by (simp add: retains_failed_eventless_trade_attempts_from_instruction_bounds_def amm_fixture_def fixture_with_virtual_closed
      fixture_key_3 r receive_def N_def upt7 VARIANTS_def trade_record_of_def failed_fill_def test_fill_def exact_in_literals [unfolded kind_at_literals]
      kind_at_literals Let_def)
qed

section \<open>Filters\<close>

text \<open>\<open>message.account_keys[n] = key\<close>\<close>
definition set_tx_key :: "nat \<Rightarrow> pubkey \<Rightarrow> tx_info \<Rightarrow> tx_info may_panic" where
  "set_tx_key n key tx = (case tx_transaction tx of
     Some (Some msg) \<Rightarrow>
       (if n < length (msg_account_keys msg)
        then Some (tx\<lparr>tx_transaction := Some (Some (msg\<lparr>msg_account_keys := (msg_account_keys msg)[n := key]\<rparr>))\<rparr>)
        else None)
   | _ \<Rightarrow> None)"

definition preserves_intentional_whitelist_and_pool_safety_filters :: bool where
  "preserves_intentional_whitelist_and_pool_safety_filters \<longleftrightarrow>
     (case do {
        tx \<leftarrow> amm_fixture True False;
        not_whitelisted \<leftarrow> records_of test_ext tx 44 {};
        wsol \<leftarrow> x_pubkey_from_str test_ext WSOL_MINT;
        wsol_tx \<leftarrow> set_tx_key 3 wsol tx;
        wsol_base \<leftarrow> records_of test_ext wsol_tx 45 {WSOL_MINT};
        base \<leftarrow> tx_key tx 3;
        other_pools \<leftarrow> map_may_panic (\<lambda>account_index. do {
            tx \<leftarrow> set_tx_key account_index (new_unique 5) tx;
            records_of test_ext tx 46 {x_pubkey_to_string test_ext base} }) [4, 0];
        Some (not_whitelisted = [] \<and> wsol_base = [] \<and> list_all (\<lambda>records. records = []) other_pools) } of
        Some b \<Rightarrow> b | None \<Rightarrow> False)"

definition records_canonical_pools_with_any_quote_mint :: bool where
  "records_canonical_pools_with_any_quote_mint \<longleftrightarrow>
     (let quote = new_unique 5 in
      list_all (\<lambda>failed. case do {
          tx \<leftarrow> fixture_with_quote test_ext (\<not> failed) failed None quote;
          mint \<leftarrow> tx_key tx 3;
          records \<leftarrow> records_of test_ext tx 50 {x_pubkey_to_string test_ext mint};
          Some (length records = (if failed then N else 2 * N) \<and>
            list_all (\<lambda>r. tr_quote_mint_address r = x_pubkey_to_string test_ext quote \<and>
              tr_mint_address r = x_pubkey_to_string test_ext mint \<and> \<not> tr_is_usdc r \<and> tr_success r = (\<not> failed) \<and>
              (if failed then tr_market_cap r = None
               else case tr_market_cap r of Some mc \<Rightarrow> 0 < mc | None \<Rightarrow> False)) records) } of
          Some b \<Rightarrow> b | None \<Rightarrow> False) [False, True])"

lemma set_key_amm_test_tx:
  "n < length keys \<Longrightarrow> set_tx_key n key (amm_test_tx with_events failed v keys) =
     Some (amm_test_tx with_events failed v (keys[n := key]))"
  by (simp add: set_tx_key_def amm_test_tx_def amm_test_message_def)

lemma filtered_records:
  assumes "keys_ok keys"
    "x_pubkey_to_string test_ext (keys ! 3) = WSOL_MINT \<or> x_pubkey_to_string test_ext (keys ! 3) \<notin> whitelist \<or>
     keys ! 0 \<noteq> canonical_pump_swap_pool test_ext (keys ! 3) (keys ! 4) pump_key pump_swap_key"
  shows "records_of test_ext (amm_test_tx True False v keys) slot whitelist = Some []"
proof -
  have "eligible test_ext (amm_context test_ext 0 (amm_test_tx True False v keys) slot whitelist False (test_input True False v keys))
      (keys ! 0) (keys ! 3) (keys ! 4) = None"
    unfolding test_eligible using assms(2) by auto
  note fills = amm_test_fills [OF assms(1) _ _ this]
  show ?thesis by (subst amm_test_records, subst fills) simp_all
qed

lemma other_keys:
  "keys_ok ((test_accounts wsol_key)[3 := wsol_key])" "keys_ok ((test_accounts wsol_key)[4 := new_unique 5])"
  "keys_ok ((test_accounts wsol_key)[0 := new_unique 5])" "keys_ok (test_accounts (new_unique 5))"
  by code_simp+

lemma other_pools:
  "(test_accounts wsol_key)[4 := new_unique 5] ! 0 \<noteq>
     canonical_pump_swap_pool test_ext ((test_accounts wsol_key)[4 := new_unique 5] ! 3) ((test_accounts wsol_key)[4 := new_unique 5] ! 4)
       pump_key pump_swap_key"
  "(test_accounts wsol_key)[0 := new_unique 5] ! 0 \<noteq>
     canonical_pump_swap_pool test_ext ((test_accounts wsol_key)[0 := new_unique 5] ! 3) ((test_accounts wsol_key)[0 := new_unique 5] ! 4)
       pump_key pump_swap_key"
  by code_simp+

lemma preserves_intentional_whitelist_and_pool_safety_filters_passes:
  "preserves_intentional_whitelist_and_pool_safety_filters"
proof -
  have len: "length (test_accounts wsol_key) = 7" by (simp add: test_accounts_def)
  have 1: "records_of test_ext (amm_test_tx True False None (test_accounts wsol_key)) 44 {} = Some []"
    by (rule filtered_records [OF sol_keys]) simp
  have 2: "records_of test_ext (amm_test_tx True False None ((test_accounts wsol_key)[3 := wsol_key])) 45 {WSOL_MINT} = Some []"
    by (rule filtered_records [OF other_keys(1)]) (simp add: len sol_texts)
  have 3: "records_of test_ext (amm_test_tx True False None ((test_accounts wsol_key)[4 := new_unique 5])) slot whitelist = Some []"
    "records_of test_ext (amm_test_tx True False None ((test_accounts wsol_key)[0 := new_unique 5])) slot whitelist = Some []" for slot whitelist
    by (rule filtered_records [OF other_keys(2)], use other_pools(1) in blast)
      (rule filtered_records [OF other_keys(3)], use other_pools(2) in blast)
  show ?thesis
    by (simp add: preserves_intentional_whitelist_and_pool_safety_filters_def amm_fixture_def fixture_with_virtual_closed
      set_key_amm_test_tx len test_keys_parse fixture_key_3 1 2 3)
qed

lemma any_quote_caps:
  "0 < get_market_cap_from_reserves EVENT_BASE_RESERVES (effective_quote_reserves EVENT_RAW_QUOTE_RESERVES None) (Other k)"
proof -
  have "base_unit (Other k) = base_unit (Other [])" by (simp add: base_unit_def)
  then have "cap_val EVENT_BASE_RESERVES 900 (Other k) = cap_val EVENT_BASE_RESERVES 900 (Other [])" by (simp add: cap_defs)
  moreover have "f64_round (cap_val EVENT_BASE_RESERVES 900 (Other [])) = 1125000000000000" "EVENT_BASE_RESERVES \<noteq> 0" by code_simp+
  ultimately show ?thesis by (simp add: fixture_reserves market_cap_closed f64_as_u64_def)
qed


lemma any_quote_eligible:
  "eligible test_ext (amm_context test_ext 0 tx slot {x_pubkey_to_string test_ext (new_unique 3)} False (pump_swap_key, pump_key, msg, meta))
     (test_accounts (new_unique 5) ! 0) (test_accounts (new_unique 5) ! 3) (test_accounts (new_unique 5) ! 4) = Some (Other (new_unique 5))"
proof -
  have "quote_currency_of test_ext (x_pubkey_to_string test_ext (new_unique 5)) = Some (Other (new_unique 5))" by code_simp
  then show ?thesis using sol_texts by (simp add: test_eligible test_pool_def)
qed

lemma any_quote_records:
  assumes "failed \<longrightarrow> \<not> with_events" "with_events \<or> failed"
  shows "\<exists>ctx. records_of test_ext (amm_test_tx with_events failed v (test_accounts (new_unique 5))) 50 {x_pubkey_to_string test_ext (new_unique 3)} =
    Some (numbered ctx 0
      (if failed then map (failed_fill (test_accounts (new_unique 5)) (Other (new_unique 5))) [0..<7]
       else map (landed_fill (test_accounts (new_unique 5)) (Other (new_unique 5)) v False) [0..<7] @
            map (landed_fill (test_accounts (new_unique 5)) (Other (new_unique 5)) v True) [0..<7])) \<and>
    tc_success ctx = (\<not> failed)"
proof -
  have "tx_succeeded (amm_test_tx with_events failed v keys) \<longleftrightarrow> \<not> failed" for with_events failed keys
    by (simp add: tx_succeeded_def amm_test_tx_def amm_test_meta_def)
  then show ?thesis
    by (subst amm_test_records, subst amm_test_fills [OF other_keys(4) assms any_quote_eligible])
      (auto intro!: exI [of _ "amm_context _ _ _ _ _ _ _"])
qed

lemma list_all_numbered:
  assumes "\<And>f j. f \<in> set fs \<Longrightarrow> P (trade_record_of ctx f j)"
  shows "list_all P (numbered ctx i fs)"
  using assms by (auto simp: list_all_iff dest!: set_numbered)

lemma records_canonical_pools_with_any_quote_mint_passes: "records_canonical_pools_with_any_quote_mint"
proof -
  obtain ctx where landed: "records_of test_ext (amm_test_tx True False None (test_accounts (new_unique 5))) 50 {x_pubkey_to_string test_ext (new_unique 3)} =
    Some (numbered ctx 0 (map (landed_fill (test_accounts (new_unique 5)) (Other (new_unique 5)) None False) [0..<7] @
      map (landed_fill (test_accounts (new_unique 5)) (Other (new_unique 5)) None True) [0..<7]))" "tc_success ctx"
    using any_quote_records [of False True None] by auto
  obtain ctx' where failed: "records_of test_ext (amm_test_tx False True None (test_accounts (new_unique 5))) 50 {x_pubkey_to_string test_ext (new_unique 3)} =
    Some (numbered ctx' 0 (map (failed_fill (test_accounts (new_unique 5)) (Other (new_unique 5))) [0..<7]))" "\<not> tc_success ctx'"
    using any_quote_records [of True False None] by auto
  show ?thesis
    by (simp add: records_canonical_pools_with_any_quote_mint_def fixture_closed fixture_key_3 landed failed N_seven del: upt_Suc)
      (auto intro!: list_all_numbered simp: trade_record_of_def landed_fill_def failed_fill_def test_fill_def Let_def landed failed
        any_quote_caps split: prod.splits)
qed

end
