(* ===== verification/RouteTests.thy ===== *)
theory RouteTests
  imports AmmHandlerTests
begin

text \<open>
  The unit tests of \<open>src/src/handler/amm_handler.rs\<close> on routes of one hop: a landed route with its event, a failed one,
  and an event of a pool the route does not trade.
\<close>

section \<open>Routes of one hop\<close>

text \<open>Accounts: 0 user, 1 the account the route spends from, 2 to 15 other fixed accounts, 16 to 20 the hop, 21 PumpSwap.\<close>
definition single_hop_route ::
  "externals \<Rightarrow> bool \<Rightarrow> pubkey option option \<Rightarrow> (tx_info \<times> pubkey \<times> pubkey \<times> pubkey) may_panic" where
  "single_hop_route X is_buy event_pool = do {
     let base = new_unique 1;
     quote \<leftarrow> x_pubkey_from_str X WSOL_MINT;
     pump_swap \<leftarrow> x_pubkey_from_str X PUMP_SWAP_PROGRAM_ID;
     pump \<leftarrow> x_pubkey_from_str X PUMP_PROGRAM_ID;
     let pool = canonical_pump_swap_pool X base quote pump pump_swap;
     let user = new_unique 2;
     let keys = [user] @ map (\<lambda>n. new_unique (2 + n)) [1..<16] @ [base, quote, pool, new_unique 18, new_unique 19] @ [pump_swap];
     let program_index = of_nat (length keys - 1);
     let dat = AMM_MULTI_HOP_SWAP_DISCRIMINATOR @ to_le_bytes 8 (1000 :: u64) @ to_le_bytes 8 (900 :: u64);
     let ix = \<lparr>ci_program_id_index = program_index, ci_accounts = map of_nat [0..<21], ci_data = dat\<rparr>;
     inner_instructions \<leftarrow> (case event_pool of
         None \<Rightarrow> Some []
       | Some event_pool \<Rightarrow> do {
           let disc = (if is_buy then PUMP_SWAP_BUY_EVENT_DISC else PUMP_SWAP_SELL_EVENT_DISC);
           event \<leftarrow> copy_into 0 disc (replicate 200 0);
           event \<leftarrow> copy_into 16 (to_le_bytes 8 (5000 :: u64)) event;
           event \<leftarrow> copy_into 48 (to_le_bytes 8 EVENT_BASE_RESERVES) event;
           event \<leftarrow> copy_into 56 (to_le_bytes 8 EVENT_RAW_QUOTE_RESERVES) event;
           event \<leftarrow> copy_into (if is_buy then 112 else 64) (to_le_bytes 8 (700 :: u64)) event;
           event \<leftarrow> copy_into 120 (unwrap_or pool event_pool) event;
           Some [\<lparr>block_index = 0, block_instructions =
             [\<lparr>ii_program_id_index = program_index, ii_accounts = [], ii_data = replicate 8 0 @ event, ii_stack_height = Some 2\<rparr>]\<rparr>] });
     let spent = (if is_buy then quote else base);
     Some (\<lparr>tx_signature_bytes = replicate 64 9,
         tx_transaction = Some (Some \<lparr>msg_account_keys = keys, msg_instructions = [ix]\<rparr>),
         tx_meta = Some ((demo_meta inner_instructions)
           \<lparr>m_err := (if event_pool = None then Some [1] else None),
            m_pre_token_balances := [\<lparr>tb_account_index = 1, tb_mint = x_pubkey_to_string X spent, tb_ui_token_amount = None\<rparr>]\<rparr>)\<rparr>,
       user, base, pool) }"

definition single_hop_route_is_the_users_own_trade :: bool where
  "single_hop_route_is_the_users_own_trade \<longleftrightarrow>
     list_all (\<lambda>is_buy. case do {
        (tx, user, base, pool) \<leftarrow> single_hop_route test_ext is_buy (Some None);
        records \<leftarrow> records_of test_ext tx 50 {x_pubkey_to_string test_ext base};
        Some (case records of
            [r] \<Rightarrow> tr_instruction_type r = MULTI_HOP_INSTRUCTION_TYPE \<and> tr_user_pubkey r = x_pubkey_to_string test_ext user \<and>
              tr_mint_address r = x_pubkey_to_string test_ext base \<and> tr_pool_address r = x_pubkey_to_string test_ext pool \<and>
              tr_quote_mint_address r = WSOL_MINT \<and> tr_is_buy r = is_buy \<and> (tr_token_amount r, tr_sol_amount r) = (5000, 700) \<and>
              tr_amount_source r = ''event'' \<and> tr_market_cap r \<noteq> None \<and> \<not> tr_is_cpi r
          | _ \<Rightarrow> False) } of Some b \<Rightarrow> b | None \<Rightarrow> False) [True, False]"

definition failed_single_hop_route_reads_side_from_the_spent_account :: bool where
  "failed_single_hop_route_reads_side_from_the_spent_account \<longleftrightarrow>
     list_all (\<lambda>is_buy. case do {
        (tx, _, base, _) \<leftarrow> single_hop_route test_ext is_buy None;
        records \<leftarrow> records_of test_ext tx 50 {x_pubkey_to_string test_ext base};
        Some (case records of
            [r] \<Rightarrow> \<not> tr_success r \<and> tr_is_buy r = is_buy \<and> tr_amount_source r = ''instruction_request'' \<and> tr_market_cap r = None \<and>
              (tr_token_amount r, tr_sol_amount r) = (if is_buy then (900, 1000) else (1000, 900))
          | _ \<Rightarrow> False) } of Some b \<Rightarrow> b | None \<Rightarrow> False) [True, False]"

definition multi_hop_event_for_an_unknown_pool_is_ignored :: bool where
  "multi_hop_event_for_an_unknown_pool_is_ignored \<longleftrightarrow>
     (case do {
        (tx, _, base, _) \<leftarrow> single_hop_route test_ext True (Some (Some (new_unique 20)));
        records_of test_ext tx 50 {x_pubkey_to_string test_ext base} } of
        Some records \<Rightarrow> records = [] | None \<Rightarrow> False)"


text \<open>The pieces of a route.\<close>

definition hop_pool_key :: pubkey where
  "hop_pool_key = canonical_pump_swap_pool test_ext (new_unique 1) wsol_key pump_key pump_swap_key"

definition hop_keys :: "bytes list" where
  "hop_keys = [new_unique 2] @ map (\<lambda>n. new_unique (2 + n)) [1..<16] @
     [new_unique 1, wsol_key, hop_pool_key, new_unique 18, new_unique 19] @ [pump_swap_key]"

definition hop_ix :: compiled_instruction where
  "hop_ix = \<lparr>ci_program_id_index = 21, ci_accounts = map of_nat [0..<21],
     ci_data = AMM_MULTI_HOP_SWAP_DISCRIMINATOR @ to_le_bytes 8 (1000 :: u64) @ to_le_bytes 8 (900 :: u64)\<rparr>"

definition hop_event :: "bool \<Rightarrow> pubkey \<Rightarrow> bytes" where
  "hop_event is_buy pool = (if is_buy then PUMP_SWAP_BUY_EVENT_DISC else PUMP_SWAP_SELL_EVENT_DISC) @ replicate 8 0 @
     to_le_bytes 8 (5000 :: u64) @ replicate 24 0 @ to_le_bytes 8 EVENT_BASE_RESERVES @ to_le_bytes 8 EVENT_RAW_QUOTE_RESERVES @
     (if is_buy then replicate 48 0 @ to_le_bytes 8 (700 :: u64) else to_le_bytes 8 (700 :: u64) @ replicate 48 0) @
     pool @ replicate 48 0"

definition hop_meta :: "bool \<Rightarrow> pubkey option \<Rightarrow> transaction_status_meta" where
  "hop_meta is_buy event_pool =
     (demo_meta (case event_pool of None \<Rightarrow> []
        | Some pool \<Rightarrow> [\<lparr>block_index = 0, block_instructions = [\<lparr>ii_program_id_index = 21, ii_accounts = [],
            ii_data = replicate 8 0 @ hop_event is_buy pool, ii_stack_height = Some 2\<rparr>]\<rparr>]))
       \<lparr>m_err := (if event_pool = None then Some [1] else None),
        m_pre_token_balances := [\<lparr>tb_account_index = 1,
          tb_mint = x_pubkey_to_string test_ext (if is_buy then wsol_key else new_unique 1), tb_ui_token_amount = None\<rparr>]\<rparr>"

definition hop_message :: message where
  "hop_message = \<lparr>msg_account_keys = hop_keys, msg_instructions = [hop_ix]\<rparr>"

definition hop_tx :: "bool \<Rightarrow> pubkey option \<Rightarrow> tx_info" where
  "hop_tx is_buy event_pool = \<lparr>tx_signature_bytes = replicate 64 9, tx_transaction = Some (Some hop_message),
     tx_meta = Some (hop_meta is_buy event_pool)\<rparr>"

lemma length_hop_pool_key [simp]: "length hop_pool_key = 32"
  by (simp add: hop_pool_key_def canonical_pump_swap_pool_def test_ext_def demo_ext_def pump_swap_key_def)

lemma single_hop_route_closed:
  assumes "case event_pool of Some (Some pool) \<Rightarrow> length pool = 32 | _ \<Rightarrow> True"
  shows "single_hop_route test_ext is_buy event_pool =
    Some (hop_tx is_buy (map_option (unwrap_or hop_pool_key) event_pool), new_unique 2, new_unique 1, hop_pool_key)"
proof -
  have "length (unwrap_or hop_pool_key p) = 32" if "event_pool = Some p" for p
    using assms that by (cases p) (simp_all add: unwrap_or_def)
  moreover have "drop 152 (replicate 200 (0 :: u8)) = replicate 48 0" by simp
  ultimately show ?thesis
    by (cases event_pool; cases is_buy)
      (simp_all add: single_hop_route_def test_keys_parse Let_def hop_tx_def hop_message_def hop_keys_def hop_ix_def hop_meta_def
        hop_event_def hop_pool_key_def [unfolded One_nat_def, symmetric] lens del: replicate_Suc)
qed


definition the_hop :: pump_swap_hop where
  "the_hop = \<lparr>hop_base_mint = new_unique 1, hop_quote_mint = wsol_key, hop_pool = hop_pool_key\<rparr>"

lemma hop_route: "route_hops hop_ix hop_keys = [the_hop]"
  by code_simp

lemma hop_user: "resolve_instruction_account test_ext hop_ix hop_keys PUMP_SWAP_MULTI_HOP_USER_IX_POS = Some (x_pubkey_to_string test_ext (new_unique 2))"
  by code_simp

lemma hop_program: "program_index_of hop_keys pump_swap_key = Some 21"
  by code_simp

lemma hop_items:
  "get_program_instructions hop_message (hop_meta is_buy event_pool) hop_keys pump_swap_key = (hop_ix, 0, 0) #
    (case event_pool of None \<Rightarrow> [] | Some pool \<Rightarrow>
      [(\<lparr>ci_program_id_index = 21, ci_accounts = [], ci_data = replicate 8 0 @ hop_event is_buy pool\<rparr>, 0, 1)])"
  by (cases event_pool)
    (simp_all add: get_program_instructions_def hop_program hop_message_def hop_meta_def demo_meta_def hop_ix_def compiled_of_inner_def)

lemma hop_eligible:
  "eligible test_ext (amm_context test_ext 0 tx slot {x_pubkey_to_string test_ext (new_unique 1)} False (pump_swap_key, pump_key, msg, meta))
     (hop_pool the_hop) (hop_base_mint the_hop) (hop_quote_mint the_hop) = Some Sol"
proof -
  have "x_pubkey_to_string test_ext (new_unique 1) \<noteq> WSOL_MINT" by code_simp
  then show ?thesis using sol_texts by (simp add: test_eligible the_hop_def hop_pool_key_def quote_currency_of_def)
qed

lemma hop_events:
  "map (event_at (hop_meta is_buy (Some pool)) 0) (own_event_positions (hop_meta is_buy (Some pool)) 0 0 21) = [hop_event is_buy pool]"
proof -
  have b: "event_block (hop_meta is_buy (Some pool)) 0 = Some \<lparr>block_index = 0, block_instructions = [\<lparr>ii_program_id_index = 21, ii_accounts = [],
            ii_data = replicate 8 0 @ hop_event is_buy pool, ii_stack_height = Some 2\<rparr>]\<rparr>"
    by (simp add: event_block_def hop_meta_def demo_meta_def)
  have "8 \<le> length (hop_event is_buy pool)" by (simp add: hop_event_def lens)
  then show ?thesis
    by (simp add: own_event_positions_def is_own_event_def event_at_def b block_ixs_def trade_stack_of_def is_none_or_def Let_def)
qed

lemma hop_event_hop:
  assumes "length pool = 32"
  shows "event_hop [the_hop] 0 (hop_event is_buy pool) = Some (if pool = hop_pool_key then Some (is_buy, 0) else None)"
proof -
  have "extract_pump_swap_event_pool (hop_event is_buy pool) = Some pool" using assms
    by (cases is_buy) (simp_all add: extract_pump_swap_event_pool_def hop_event_def layout lens try_array_def)
  moreover have "take 8 (hop_event is_buy pool) = (if is_buy then PUMP_SWAP_BUY_EVENT_DISC else PUMP_SWAP_SELL_EVENT_DISC)"
    "8 \<le> length (hop_event is_buy pool)" by (simp_all add: hop_event_def lens)
  moreover have "PUMP_SWAP_SELL_EVENT_DISC \<noteq> PUMP_SWAP_BUY_EVENT_DISC" by code_simp
  ultimately show ?thesis by (cases is_buy; cases "pool = hop_pool_key") (simp_all add: event_hop_closed the_hop_def)
qed

lemma hop_event_amounts:
  assumes "length pool = 32"
  shows "event_amounts_fn (hop_event is_buy pool) (take 8 (hop_event is_buy pool)) is_buy Sol =
    Some (5000, 700, Some (get_market_cap_from_reserves EVENT_BASE_RESERVES EVENT_RAW_QUOTE_RESERVES Sol),
      EVENT_BASE_RESERVES, EVENT_RAW_QUOTE_RESERVES)"
proof -
  have none: "effective_quote_reserves q None = q" for q by (simp add: effective_quote_reserves_def)
  show ?thesis using assms
    by (cases is_buy)
      (simp_all add: event_amounts_fn_def event_amounts_def extract_pool_reserves_closed extract_quote_volume_closed
        extract_transaction_amounts_closed extract_vqr_closed hop_event_def layout lens discs_differ Let_def none)
qed

lemma hop_not_routed: "\<not> multi_hop_is_routed [the_hop] (hop_base_mint the_hop) is_buy"
  by (simp add: multi_hop_is_routed_def)

lemma hop_sides:
  "Option.bind (multi_hop_input_mint test_ext hop_ix (hop_meta True None) [the_hop]) (multi_hop_sides [the_hop]) = Some [True]"
  "Option.bind (multi_hop_input_mint test_ext hop_ix (hop_meta False None) [the_hop]) (multi_hop_sides [the_hop]) = Some [False]"
  by code_simp+

abbreviation hop_input :: "bool \<Rightarrow> pubkey option \<Rightarrow> amm_input" where
  "hop_input is_buy event_pool \<equiv> (pump_swap_key, pump_key, hop_message, hop_meta is_buy event_pool)"

abbreviation hop_ctx :: "bool \<Rightarrow> pubkey option \<Rightarrow> tx_context" where
  "hop_ctx is_buy event_pool \<equiv> amm_context test_ext 0 (hop_tx is_buy event_pool) 50 {x_pubkey_to_string test_ext (new_unique 1)} False
     (hop_input is_buy event_pool)"

text \<open>A one-hop route yields one fill of the hop, or none when its event names another pool.\<close>

lemma hop_fills:
  assumes "case event_pool of Some pool \<Rightarrow> length pool = 32 | None \<Rightarrow> True"
  shows "fills_of_item test_ext (hop_ctx is_buy event_pool) (hop_meta is_buy event_pool) hop_keys (hop_ix, 0, 0) =
    (case event_pool of
       Some pool \<Rightarrow> (if pool = hop_pool_key
         then [hop_fill test_ext [the_hop] False (x_pubkey_to_string test_ext (new_unique 2)) the_hop Sol is_buy
                 (5000, 700, Some (get_market_cap_from_reserves EVENT_BASE_RESERVES EVENT_RAW_QUOTE_RESERVES Sol),
                  EVENT_BASE_RESERVES, EVENT_RAW_QUOTE_RESERVES) ''event'']
         else [])
     | None \<Rightarrow> [hop_fill test_ext [the_hop] False (x_pubkey_to_string test_ext (new_unique 2)) the_hop Sol is_buy
                 (if is_buy then 900 else 1000, if is_buy then 1000 else 900, None, 0, 0) ''instruction_request''])"
proof -
  let ?ctx = "hop_ctx is_buy event_pool" and ?meta = "hop_meta is_buy event_pool"
  have dat: "take 8 (ci_data hop_ix) = AMM_MULTI_HOP_SWAP_DISCRIMINATOR" "length (ci_data hop_ix) = 24" "ci_program_id_index hop_ix = 21"
  proof -
    have "length AMM_MULTI_HOP_SWAP_DISCRIMINATOR = 8" by code_simp
    then show "take 8 (ci_data hop_ix) = AMM_MULTI_HOP_SWAP_DISCRIMINATOR" "length (ci_data hop_ix) = 24" "ci_program_id_index hop_ix = 21"
      by (simp_all add: hop_ix_def)
  qed
  have route: "fills_of_item test_ext ?ctx ?meta hop_keys (hop_ix, 0, 0) = the (multi_hop_fills test_ext ?ctx hop_ix ?meta hop_keys 0 0)"
    by (simp add: fills_of_item_def dat route_fills_of_def)
  have ok: "tc_success ?ctx \<longleftrightarrow> event_pool \<noteq> None" by (simp add: tx_succeeded_def hop_tx_def hop_meta_def)
  have user: "unwrap_or ''unknown'' (resolve_instruction_account test_ext hop_ix hop_keys PUMP_SWAP_MULTI_HOP_USER_IX_POS) =
      x_pubkey_to_string test_ext (new_unique 2)" unfolding hop_user by (simp add: unwrap_or_def)
  show ?thesis
  proof (cases event_pool)
    case None
    have "length AMM_MULTI_HOP_SWAP_DISCRIMINATOR = 8" by code_simp
    then have fields: "field (ci_data hop_ix) 8 8 = (1000 :: u64)" "field (ci_data hop_ix) 16 8 = (900 :: u64)"
      by (simp_all add: hop_ix_def field_def layout from_le_bytes_to_le_bytes)
    have "\<not> tc_success ?ctx" using ok None by simp
    from multi_hop_fills_failed [OF this, of test_ext hop_ix ?meta hop_keys 0 0] show ?thesis
      unfolding route user hop_route using hop_sides None
      by (cases is_buy) (simp_all add: dat fields hop_eligible [unfolded One_nat_def] Let_def)
  next
    case (Some pool)
    then have len: "length pool = 32" and "tc_success ?ctx" using assms ok by simp_all
    from multi_hop_fills_success [OF this(2), of test_ext hop_ix ?meta hop_keys 0 0] show ?thesis
      unfolding route user hop_route dat
      using Some len by (simp add: hop_events hop_event_hop hop_event_amounts hop_eligible [unfolded One_nat_def])
  qed
qed

lemma hop_records:
  assumes "case event_pool of Some pool \<Rightarrow> length pool = 32 | None \<Rightarrow> True"
  shows "records_of test_ext (hop_tx is_buy event_pool) 50 {x_pubkey_to_string test_ext (new_unique 1)} =
    Some (numbered (hop_ctx is_buy event_pool) 0
      (fills_of_item test_ext (hop_ctx is_buy event_pool) (hop_meta is_buy event_pool) hop_keys (hop_ix, 0, 0)))"
proof -
  have inputs: "amm_inputs test_ext (hop_tx is_buy event_pool) = Inr (hop_input is_buy event_pool)"
    by (simp add: amm_inputs_def test_keys_parse hop_tx_def)
  have acc: "full_account_list hop_message (hop_meta is_buy event_pool) = hop_keys"
    by (simp add: full_account_list_def hop_message_def hop_meta_def demo_meta_def)
  have "pump_swap_trade_ix (replicate 8 0) = None" "AMM_MULTI_HOP_SWAP_DISCRIMINATOR \<noteq> replicate 8 0" by code_simp+
  then have none: "fills_of_item X ctx meta full (\<lparr>ci_program_id_index = 21, ci_accounts = [], ci_data = replicate 8 0 @ d\<rparr>, p, s) = []"
    for X ctx meta full d p s by (simp add: fills_of_item_def)
  have "amm_fills test_ext 0 (hop_tx is_buy event_pool) 50 {x_pubkey_to_string test_ext (new_unique 1)} False (hop_input is_buy event_pool) =
      fills_of_item test_ext (hop_ctx is_buy event_pool) (hop_meta is_buy event_pool) hop_keys (hop_ix, 0, 0)"
    unfolding amm_fills_def prod.case Let_def acc fills_of_items_def hop_items
    by (cases event_pool) (simp_all add: none)
  then show ?thesis unfolding records_of_def process_closed [OF inputs] by (simp add: emit_fills_send)
qed

lemma single_hop_route_tests_pass:
  "single_hop_route_is_the_users_own_trade" "failed_single_hop_route_reads_side_from_the_spent_account"
  "multi_hop_event_for_an_unknown_pool_is_ignored"
proof -
  have other: "new_unique 20 \<noteq> hop_pool_key" by code_simp
  have ok: "tc_success (hop_ctx is_buy event_pool) \<longleftrightarrow> event_pool \<noteq> None" for is_buy event_pool
    by (simp add: tx_succeeded_def hop_tx_def hop_meta_def)
  have records: "records_of test_ext (hop_tx is_buy event_pool) 50 {x_pubkey_to_string test_ext (new_unique (Suc 0))} =
      Some (numbered (hop_ctx is_buy event_pool) 0 (case event_pool of
         Some pool \<Rightarrow> (if pool = hop_pool_key
           then [hop_fill test_ext [the_hop] False (x_pubkey_to_string test_ext (new_unique 2)) the_hop Sol is_buy
                   (5000, 700, Some (get_market_cap_from_reserves EVENT_BASE_RESERVES EVENT_RAW_QUOTE_RESERVES Sol),
                    EVENT_BASE_RESERVES, EVENT_RAW_QUOTE_RESERVES) ''event'']
           else [])
       | None \<Rightarrow> [hop_fill test_ext [the_hop] False (x_pubkey_to_string test_ext (new_unique 2)) the_hop Sol is_buy
                   (if is_buy then 900 else 1000, if is_buy then 1000 else 900, None, 0, 0) ''instruction_request'']))"
    if "case event_pool of Some pool \<Rightarrow> length pool = 32 | None \<Rightarrow> True" for is_buy event_pool
    using hop_records [OF that, of is_buy] hop_fills [OF that, of is_buy] by (simp add: One_nat_def)
  show "single_hop_route_is_the_users_own_trade" "failed_single_hop_route_reads_side_from_the_spent_account"
    using hop_not_routed sol_texts(1) ok [of True None] ok [of False None]
    by (simp_all add: single_hop_route_is_the_users_own_trade_def failed_single_hop_route_reads_side_from_the_spent_account_def
      single_hop_route_closed records trade_record_of_def hop_fill_def the_hop_def unwrap_or_def)
  show "multi_hop_event_for_an_unknown_pool_is_ignored"
    using other by (simp add: multi_hop_event_for_an_unknown_pool_is_ignored_def single_hop_route_closed records unwrap_or_def)
qed

end
