(* ===== verification/StonkFixture.thy ===== *)
theory StonkFixture
  imports Wire
begin

text \<open>
  The transaction of \<open>src/fixtures/stonk/tx_cpmm_swap_base_input_2cY4Pc3j.json\<close>, a swap on a live pool, as the
  gRPC message that \<open>fixture_tx\<close> of the tests makes of it: keys, instruction data and the signature decoded from
  base58. \<open>fixture_ext\<close> are the third-party functions on what the transaction needs of them: base58 and base64 as
  tables, and the address of the one pool it derives.
\<close>

definition fx_b0 :: bytes where
  "fx_b0 = [73, 241, 151, 143, 78, 254, 103, 216, 171, 145, 75, 227, 194, 154, 53, 23, 171, 136, 103, 203, 243,
     41, 25, 197, 213, 113, 34, 180, 48, 201, 158, 118]"

definition fx_s0 :: string where
  "fx_s0 = ''5yeRmwgdP28xfqsAPSe16hcETkvhzpWhBwzH9g5fAdiM''"

definition fx_b1 :: bytes where
  "fx_b1 = [192, 116, 225, 190, 204, 252, 120, 72, 238, 70, 170, 79, 61, 210, 223, 64, 132, 85, 223, 150, 126,
     97, 55, 161, 191, 204, 151, 134, 246, 48, 101, 67]"

definition fx_s1 :: string where
  "fx_s1 = ''DxGedhu8RXir7f7uG4G1nhZmHx97p4QDhMXpaC7u8kSv''"

definition fx_b2 :: bytes where
  "fx_b2 = [175, 233, 241, 115, 166, 98, 69, 252, 76, 128, 82, 57, 145, 148, 21, 224, 249, 12, 237, 189, 193,
     13, 151, 48, 117, 34, 207, 7, 195, 154, 131, 255]"

definition fx_s2 :: string where
  "fx_s2 = ''CqhFN3UDMfpiwJjQDNweozthutt3PqaVySMgFUCDgUtn''"

definition fx_b3 :: bytes where
  "fx_b3 = [37, 240, 198, 71, 113, 108, 241, 220, 46, 208, 173, 201, 81, 182, 114, 151, 183, 56, 40, 17, 10,
     146, 83, 20, 5, 253, 48, 233, 44, 37, 116, 10]"

definition fx_s3 :: string where
  "fx_s3 = ''3Z72ZvshrSi5fXCKEFFdqivL4ns7RvFzb8cdM9wFmqSZ''"

definition fx_b4 :: bytes where
  "fx_b4 = [86, 249, 138, 197, 131, 209, 70, 252, 220, 45, 86, 15, 47, 180, 226, 100, 123, 32, 171, 38, 217,
     27, 97, 113, 75, 13, 103, 227, 110, 255, 173, 163]"

definition fx_s4 :: string where
  "fx_s4 = ''6rWkysTxZmqosDcxtKytiY63yQQD3n2qFUgj3nrGv2LS''"

definition fx_b5 :: bytes where
  "fx_b5 = [186, 4, 176, 74, 164, 203, 67, 254, 255, 211, 82, 1, 202, 207, 150, 97, 48, 211, 110, 162, 181,
     236, 76, 82, 1, 118, 239, 182, 53, 93, 46, 19]"

definition fx_s5 :: string where
  "fx_s5 = ''DX8ykUKbMWduHgfQ5JnjfEec1oWaVbfuVRef6r1HRqHt''"

definition fx_b6 :: bytes where
  "fx_b6 = [160, 64, 139, 125, 150, 104, 133, 93, 200, 95, 58, 53, 195, 243, 216, 66, 116, 201, 164, 4, 197,
     102, 57, 96, 121, 89, 32, 21, 66, 99, 7, 254]"

definition fx_s6 :: string where
  "fx_s6 = ''BnZKJE5QE4ENiqt1f8k1rXjcgPyQJQ4WPHc98HoQRLbo''"

definition fx_b7 :: bytes where
  "fx_b7 = [250, 61, 108, 218, 23, 107, 21, 207, 159, 19, 164, 36, 33, 214, 120, 166, 91, 55, 61, 99, 243, 39,
     168, 89, 69, 220, 82, 80, 235, 63, 223, 183]"

definition fx_s7 :: string where
  "fx_s7 = ''HqqFTK7sd8jKAqCK8LJJPzMqXF2P1in6ydE2tKbsbb26''"

definition fx_b8 :: bytes where
  "fx_b8 = [172, 183, 119, 21, 187, 114, 208, 167, 212, 84, 92, 6, 174, 186, 33, 52, 88, 58, 169, 50, 0, 39,
     145, 251, 96, 253, 123, 231, 25, 154, 237, 151]"

definition fx_s8 :: string where
  "fx_s8 = ''CdDP8XDdufDUyPG2igwX2HbmLgutiVQjT671KSd1ifTt''"

definition fx_b9 :: bytes where
  "fx_b9 = [103, 95, 23, 74, 127, 3, 2, 90, 172, 142, 152, 106, 97, 156, 3, 131, 156, 20, 22, 161, 76, 229, 96,
     235, 208, 177, 60, 205, 99, 241, 236, 27]"

definition fx_s9 :: string where
  "fx_s9 = ''7xX6Ks8S6ohrikaxf2mGkrkhtTMdyRV4hwtPQbXQFnZg''"

definition fx_b10 :: bytes where
  "fx_b10 = [13, 9, 109, 122, 174, 121, 23, 204, 196, 161, 24, 36, 137, 108, 232, 232, 62, 28, 235, 238, 166,
     53, 75, 40, 65, 63, 232, 133, 83, 8, 38, 75]"

definition fx_s10 :: string where
  "fx_s10 = ''ste11p7e2KLYou5bwtt35H7BM6uMdo4pvioGjJXKFcN''"

definition fx_b11 :: bytes where
  "fx_b11 = [3, 6, 70, 111, 229, 33, 23, 50, 255, 236, 173, 186, 114, 195, 155, 231, 188, 140, 229, 187, 197,
     247, 18, 107, 44, 67, 155, 58, 64, 0, 0, 0]"

definition fx_s11 :: string where
  "fx_s11 = ''ComputeBudget111111111111111111111111111111''"

definition fx_b12 :: bytes where
  "fx_b12 = [13, 59, 109, 105, 18, 120, 233, 207, 230, 46, 34, 19, 40, 124, 68, 15, 34, 173, 156, 184, 246, 174,
     206, 82, 91, 94, 244, 144, 231, 231, 65, 136]"

definition fx_s12 :: string where
  "fx_s12 = ''term9YPb9mzAsABaqN71A4xdbxHmpBNZavpBiQKZzN3''"

definition fx_b13 :: bytes where
  "fx_b13 = [0, 0, 0, 0, 0, 0, 0, 0, 0, 0, 0, 0, 0, 0, 0, 0, 0, 0, 0, 0, 0, 0, 0, 0, 0, 0, 0, 0, 0, 0, 0, 0]"

definition fx_s13 :: string where
  "fx_s13 = ''11111111111111111111111111111111''"

definition fx_b14 :: bytes where
  "fx_b14 = [169, 42, 90, 139, 79, 41, 89, 82, 132, 37, 80, 170, 147, 253, 91, 149, 181, 172, 230, 168, 235,
     146, 12, 147, 148, 46, 67, 105, 12, 32, 236, 115]"

definition fx_s14 :: string where
  "fx_s14 = ''CPMMoo8L3F4NbTegBCKVNunggL7H1ZpdTHKxQB5qKP1C''"

definition fx_b15 :: bytes where
  "fx_b15 = [169, 178, 31, 23, 126, 155, 151, 110, 142, 225, 41, 244, 26, 239, 55, 132, 170, 197, 20, 148, 144,
     149, 176, 2, 230, 17, 125, 89, 208, 54, 150, 143]"

definition fx_s15 :: string where
  "fx_s15 = ''CRRS5ieQmBrZjWhcj99JuGrT5tyuWDaGAXLXLFjbAtjQ''"

definition fx_b16 :: bytes where
  "fx_b16 = [250, 101, 140, 28, 47, 3, 131, 107, 1, 40, 60, 236, 193, 59, 114, 129, 36, 41, 136, 126, 30, 230,
     210, 247, 41, 218, 1, 232, 174, 87, 139, 3]"

definition fx_s16 :: string where
  "fx_s16 = ''HrSjY8WztUJFavB2Joz5ojFLpMhfpNmxMyL57zUENcDg''"

definition fx_b17 :: bytes where
  "fx_b17 = [61, 110, 71, 46, 103, 164, 110, 166, 180, 189, 11, 171, 157, 253, 53, 226, 180, 199, 47, 29, 109,
     89, 194, 234, 185, 92, 148, 37, 115, 173, 34, 241]"

definition fx_s17 :: string where
  "fx_s17 = ''58oQChx4yWmvKdwLLZzBi4ChoCc2fqCUWBkwMihLYQo2''"

definition fx_b18 :: bytes where
  "fx_b18 = [184, 112, 225, 45, 211, 121, 137, 21, 97, 210, 233, 250, 143, 38, 67, 24, 52, 235, 115, 111, 47,
     36, 252, 42, 42, 77, 255, 31, 213, 220, 164, 223]"

definition fx_s18 :: string where
  "fx_s18 = ''DQyrAcCrDXQ7NeoqGgDCZwBvWDcYmFCjSb9JtteuvPpz''"

definition fx_b19 :: bytes where
  "fx_b19 = [242, 203, 185, 183, 96, 237, 219, 24, 87, 6, 48, 48, 99, 173, 51, 215, 181, 114, 150, 234, 2, 212,
     224, 51, 94, 49, 206, 175, 164, 204, 66, 221]"

definition fx_s19 :: string where
  "fx_s19 = ''HLmqeL62xR1QoZ1HKKbXRrdN1p3phKpxRMb2VVopvBBz''"

definition fx_b20 :: bytes where
  "fx_b20 = [253, 191, 56, 92, 10, 179, 243, 209, 255, 227, 233, 44, 174, 138, 1, 22, 255, 99, 226, 143, 30,
     179, 120, 111, 206, 68, 212, 214, 186, 160, 27, 40]"

definition fx_s20 :: string where
  "fx_s20 = ''J5XGHmzrRmnYWbmw45DbYkdZAU2bwERFZ11qCDXPvFB5''"

definition fx_b21 :: bytes where
  "fx_b21 = [101, 254, 132, 191, 60, 57, 127, 227, 73, 177, 182, 33, 1, 77, 250, 83, 61, 31, 70, 3, 114, 76, 84,
     50, 202, 91, 6, 44, 145, 122, 41, 195]"

definition fx_s21 :: string where
  "fx_s21 = ''7s9GwyhHTmszPpzYtLaUDFW3LYfuS6XCnFWrGqUk5X4n''"

definition fx_b22 :: bytes where
  "fx_b22 = [30, 173, 59, 216, 167, 246, 156, 229, 188, 249, 139, 66, 111, 245, 195, 119, 244, 98, 39, 243, 69,
     134, 13, 19, 198, 55, 37, 153, 107, 168, 193, 137]"

definition fx_s22 :: string where
  "fx_s22 = ''34kSWMiP9Y19sDfryY5GPoJhpAEJMXdqmVx7AFQLdgbi''"

definition fx_b23 :: bytes where
  "fx_b23 = [60, 231, 191, 222, 152, 122, 178, 198, 161, 38, 122, 174, 176, 32, 101, 0, 252, 96, 194, 26, 136,
     151, 144, 161, 80, 140, 56, 176, 227, 240, 31, 227]"

definition fx_s23 :: string where
  "fx_s23 = ''56kRVanrMZAoWUugu42qZgRYzrBSDvNp9VAzpFVvvYLa''"

definition fx_b24 :: bytes where
  "fx_b24 = [22, 60, 216, 187, 126, 160, 18, 157, 37, 128, 196, 71, 172, 69, 240, 111, 51, 44, 9, 185, 99, 165,
     76, 28, 146, 30, 187, 30, 129, 122, 92, 195]"

definition fx_s24 :: string where
  "fx_s24 = ''2VonP11BMewbJkR2ms8pskPE7ChESFqre89vxTZSDgpr''"

definition fx_b25 :: bytes where
  "fx_b25 = [222, 188, 254, 197, 18, 29, 175, 119, 126, 20, 50, 19, 206, 61, 255, 158, 139, 65, 205, 35, 122,
     250, 23, 14, 56, 229, 237, 193, 189, 216, 106, 165]"

definition fx_s25 :: string where
  "fx_s25 = ''FzUf7rnQvQa51EtLjKGuc5DmeFkJoez4cspVvR9VEtha''"

definition fx_b26 :: bytes where
  "fx_b26 = [144, 122, 193, 3, 240, 152, 63, 53, 238, 156, 246, 57, 119, 118, 209, 150, 69, 151, 1, 114, 219,
     141, 21, 242, 147, 218, 124, 64, 13, 208, 252, 14]"

definition fx_s26 :: string where
  "fx_s26 = ''AizGpPZHiPnmJ2x6w7orYVASrQwyy6PackqxzAnKmX5F''"

definition fx_b27 :: bytes where
  "fx_b27 = [227, 40, 243, 107, 1, 235, 222, 241, 26, 246, 74, 199, 233, 59, 144, 39, 60, 231, 124, 138, 22,
     145, 22, 82, 212, 198, 183, 33, 133, 15, 1, 129]"

definition fx_s27 :: string where
  "fx_s27 = ''GHjmLtU8uH3RChFKJPJkTipGypCfuCque8TUNpeZB512''"

definition fx_b28 :: bytes where
  "fx_b28 = [77, 65, 136, 191, 127, 71, 65, 126, 80, 234, 124, 156, 143, 251, 152, 118, 166, 64, 64, 92, 224,
     159, 192, 45, 100, 159, 94, 245, 87, 148, 23, 87]"

definition fx_s28 :: string where
  "fx_s28 = ''6CaMPPGiGzJHA7RRi4vNjPY5MLZaPXA3vV8AgpChDrqL''"

definition fx_b29 :: bytes where
  "fx_b29 = [61, 71, 162, 140, 210, 120, 115, 134, 128, 77, 72, 173, 0, 165, 17, 62, 180, 191, 151, 123, 164,
     22, 134, 18, 164, 20, 167, 215, 191, 64, 46, 193]"

definition fx_s29 :: string where
  "fx_s29 = ''58DDz9unwP1nDHTmRDr2KTcQ8ZGkuyhsNZc2fuH14YJL''"

definition fx_b30 :: bytes where
  "fx_b30 = [10, 241, 195, 67, 33, 136, 202, 58, 99, 81, 53, 161, 58, 24, 149, 26, 206, 189, 114, 242, 227, 140,
     68, 62, 240, 38, 176, 203, 127, 156, 131, 9]"

definition fx_s30 :: string where
  "fx_s30 = ''jitodontfront11111111111TradeWithPadreDotGg''"

definition fx_b31 :: bytes where
  "fx_b31 = [6, 221, 246, 225, 215, 101, 161, 147, 217, 203, 225, 70, 206, 235, 121, 172, 28, 180, 133, 237, 95,
     91, 55, 145, 58, 140, 245, 133, 126, 255, 0, 169]"

definition fx_s31 :: string where
  "fx_s31 = ''TokenkegQfeZyiNwAJbNbGKPFXCWuBvf9Ss623VQ5DA''"

definition fx_b32 :: bytes where
  "fx_b32 = [6, 221, 246, 225, 238, 117, 143, 222, 24, 66, 93, 188, 228, 108, 205, 218, 182, 26, 252, 77, 131,
     185, 13, 39, 254, 189, 249, 40, 216, 161, 139, 252]"

definition fx_s32 :: string where
  "fx_s32 = ''TokenzQdBNbLqP5VEhdkAS6EPFLC1PHnBqCXEpPxuEb''"

definition fx_b33 :: bytes where
  "fx_b33 = [140, 151, 37, 143, 78, 36, 137, 241, 187, 61, 16, 41, 20, 142, 13, 131, 11, 90, 19, 153, 218, 255,
     16, 132, 4, 142, 123, 216, 219, 233, 248, 89]"

definition fx_s33 :: string where
  "fx_s33 = ''ATokenGPvbdGVxr1b2hvZbsiqW5xWH25efTNsLJA8knL''"

definition fx_b34 :: bytes where
  "fx_b34 = [198, 250, 122, 243, 190, 219, 173, 58, 61, 101, 243, 106, 171, 201, 116, 49, 177, 187, 228, 194,
     210, 246, 224, 228, 124, 166, 2, 3, 69, 47, 93, 97]"

definition fx_s34 :: string where
  "fx_s34 = ''EPjFWdd5AufqSSqeM2qN1xzybapC8G4wEGGkZwyTDt1v''"

definition fx_b35 :: bytes where
  "fx_b35 = [6, 155, 136, 87, 254, 171, 129, 132, 251, 104, 127, 99, 70, 24, 192, 53, 218, 196, 57, 220, 26,
     235, 59, 85, 152, 160, 240, 0, 0, 0, 0, 1]"

definition fx_s35 :: string where
  "fx_s35 = ''So11111111111111111111111111111111111111112''"

definition fx_b36 :: bytes where
  "fx_b36 = [235, 0, 217, 245, 178, 146, 180, 33, 74, 199, 208, 55, 180, 214, 240, 100, 80, 185, 100, 96, 13,
     243, 115, 5, 43, 181, 232, 79, 47, 142, 154, 103]"

definition fx_s36 :: string where
  "fx_s36 = ''GpMZbSM2GgvTKHJirzeGfMFoaZ8UR2X7F4v8vHTvxFbL''"

definition fx_b37 :: bytes where
  "fx_b37 = [165, 213, 202, 158, 4, 207, 93, 181, 144, 183, 20, 186, 47, 227, 44, 177, 89, 19, 63, 193, 193,
     146, 183, 34, 87, 253, 7, 211, 156, 176, 64, 30]"

definition fx_s37 :: string where
  "fx_s37 = ''CAMMCzo5YL8w4VFF8KVHrK22GGUsp5VTaW7grrKgrWqK''"

definition fx_b38 :: bytes where
  "fx_b38 = [194, 115, 164, 16, 243, 154, 29, 120, 136, 197, 28, 163, 165, 70, 82, 114, 121, 37, 213, 38, 98,
     252, 189, 189, 84, 128, 236, 236, 108, 147, 213, 63]"

definition fx_s38 :: string where
  "fx_s38 = ''E64NGkDLLCdQ2yFNPcavaKptrEgmiQaNykUuLC1Qgwyp''"

definition fx_b39 :: bytes where
  "fx_b39 = [5, 74, 83, 90, 153, 41, 33, 6, 77, 36, 232, 113, 96, 218, 56, 124, 124, 53, 181, 221, 188, 146,
     187, 129, 228, 31, 168, 64, 65, 5, 68, 141]"

definition fx_s39 :: string where
  "fx_s39 = ''MemoSq4gqABAXKb96qnH8TysNcWxMyWCqXgDLGmfcHr''"

definition fx_b40 :: bytes where
  "fx_b40 = [75, 217, 73, 196, 54, 2, 195, 63, 32, 119, 144, 237, 22, 163, 82, 76, 161, 185, 151, 92, 241, 33,
     162, 169, 12, 255, 236, 125, 248, 182, 138, 205]"

definition fx_s40 :: string where
  "fx_s40 = ''675kPX9MHTjS2zt1qfr1NYHuzeLXfQM9H24wFSUt1Mp8''"

definition fx_b41 :: bytes where
  "fx_b41 = [65, 87, 176, 88, 15, 49, 197, 252, 228, 74, 98, 88, 45, 188, 249, 215, 142, 231, 89, 67, 160, 132,
     163, 147, 179, 80, 54, 141, 34, 137, 147, 8]"

definition fx_s41 :: string where
  "fx_s41 = ''5Q544fKrFoe6tsEbD7S8EmxGTJYAKtTVhAW5Q5pge4j1''"

definition fx_b42 :: bytes where
  "fx_b42 = [190, 38, 47, 11, 129, 189, 83, 209, 239, 37, 99, 43, 174, 153, 186, 230, 244, 54, 97, 158, 83, 67,
     80, 190, 198, 112, 128, 146, 245, 16, 79, 100]"

definition fx_s42 :: string where
  "fx_s42 = ''DoGEV7LASBkQbibMc5k5vKnTZoMg423GpJ5QtJEGfm7R''"

text \<open>The account keys, the loaded writable and the loaded readonly addresses, with their base58 texts.\<close>

definition fixture_keys :: "(bytes \<times> string) list" where
  "fixture_keys =
    [(fx_b0, fx_s0), (fx_b1, fx_s1), (fx_b2, fx_s2), (fx_b3, fx_s3), (fx_b4, fx_s4), (fx_b5, fx_s5), (fx_b6, fx_s6),
     (fx_b7, fx_s7), (fx_b8, fx_s8), (fx_b9, fx_s9), (fx_b10, fx_s10), (fx_b11, fx_s11), (fx_b12, fx_s12), (fx_b13,
     fx_s13), (fx_b14, fx_s14), (fx_b15, fx_s15), (fx_b16, fx_s16), (fx_b17, fx_s17), (fx_b18, fx_s18), (fx_b19,
     fx_s19), (fx_b20, fx_s20), (fx_b21, fx_s21), (fx_b22, fx_s22), (fx_b23, fx_s23), (fx_b24, fx_s24), (fx_b25,
     fx_s25), (fx_b26, fx_s26), (fx_b27, fx_s27), (fx_b28, fx_s28), (fx_b29, fx_s29), (fx_b30, fx_s30), (fx_b31,
     fx_s31), (fx_b32, fx_s32), (fx_b33, fx_s33), (fx_b34, fx_s34), (fx_b35, fx_s35), (fx_b36, fx_s36), (fx_b37,
     fx_s37), (fx_b38, fx_s38), (fx_b39, fx_s39), (fx_b40, fx_s40), (fx_b41, fx_s41), (fx_b42, fx_s42)]"

definition fx_d0 :: bytes where
  "fx_d0 = [2, 64, 239, 7, 0]"

definition fx_d1 :: bytes where
  "fx_d1 = [3, 4, 88, 29, 0, 0, 0, 0, 0]"

definition fx_d2 :: bytes where
  "fx_d2 = [222, 68, 238, 59, 185, 182, 63, 136, 44, 241]"

definition fx_d3 :: bytes where
  "fx_d3 = [73, 242, 172, 226, 158, 28, 154, 63, 3, 0, 0, 0, 1, 7, 0, 0, 0, 112, 100, 114, 45, 117, 115, 119,
     0, 0, 0, 0, 0, 0, 0, 0, 1, 7, 0, 0, 0, 112, 100, 114, 45, 119, 114, 103, 0, 0, 0, 0, 0, 0, 0, 0, 0,
     0, 0, 0, 0, 0, 0, 0, 0, 0, 0, 0, 0, 0, 0, 0, 0, 0, 0, 0, 0]"

definition fx_d4 :: bytes where
  "fx_d4 = [143, 190, 90, 218, 196, 30, 51, 222, 135, 84, 38, 242, 195, 3, 0, 0, 162, 104, 220, 135, 17, 0, 0,
     0]"

definition fx_d5 :: bytes where
  "fx_d5 = [63, 9, 114, 66, 4, 245, 47, 161, 2, 0, 0, 0, 1, 16, 0, 0, 7, 0, 20, 207, 238, 33, 0, 0, 0, 0, 3]"

definition fx_d6 :: bytes where
  "fx_d6 = [2, 0, 0, 0, 64, 75, 76, 0, 0, 0, 0, 0]"

definition fx_d7 :: bytes where
  "fx_d7 = [2, 0, 0, 0, 32, 31, 155, 0, 0, 0, 0, 0]"

definition fx_d8 :: bytes where
  "fx_d8 = [2, 0, 0, 0, 56, 182, 22, 0, 0, 0, 0, 0]"

definition fx_d9 :: bytes where
  "fx_d9 = [9, 0, 0, 0, 73, 241, 151, 143, 78, 254, 103, 216, 171, 145, 75, 227, 194, 154, 53, 23, 171, 136,
     103, 203, 243, 41, 25, 197, 213, 113, 34, 180, 48, 201, 158, 118, 7, 0, 0, 0, 0, 0, 0, 0, 112, 100,
     114, 45, 117, 115, 119, 165, 0, 0, 0, 0, 0, 0, 0, 6, 221, 246, 225, 215, 101, 161, 147, 217, 203,
     225, 70, 206, 235, 121, 172, 28, 180, 133, 237, 95, 91, 55, 145, 58, 140, 245, 133, 126, 255, 0,
     169]"

definition fx_d10 :: bytes where
  "fx_d10 = [18, 73, 241, 151, 143, 78, 254, 103, 216, 171, 145, 75, 227, 194, 154, 53, 23, 171, 136, 103, 203,
     243, 41, 25, 197, 213, 113, 34, 180, 48, 201, 158, 118]"

definition fx_d11 :: bytes where
  "fx_d11 = [9, 0, 0, 0, 73, 241, 151, 143, 78, 254, 103, 216, 171, 145, 75, 227, 194, 154, 53, 23, 171, 136,
     103, 203, 243, 41, 25, 197, 213, 113, 34, 180, 48, 201, 158, 118, 7, 0, 0, 0, 0, 0, 0, 0, 112, 100,
     114, 45, 119, 114, 103, 165, 0, 0, 0, 0, 0, 0, 0, 6, 221, 246, 225, 215, 101, 161, 147, 217, 203,
     225, 70, 206, 235, 121, 172, 28, 180, 133, 237, 95, 91, 55, 145, 58, 140, 245, 133, 126, 255, 0,
     169]"

definition fx_d12 :: bytes where
  "fx_d12 = [1]"

definition fx_d13 :: bytes where
  "fx_d13 = [21, 7, 0]"

definition fx_d14 :: bytes where
  "fx_d14 = [0, 0, 0, 0, 56, 182, 22, 0, 0, 0, 0, 0, 165, 0, 0, 0, 0, 0, 0, 0, 6, 221, 246, 225, 215, 101, 161,
     147, 217, 203, 225, 70, 206, 235, 121, 172, 28, 180, 133, 237, 95, 91, 55, 145, 58, 140, 245, 133,
     126, 255, 0, 169]"

definition fx_d15 :: bytes where
  "fx_d15 = [22]"

definition fx_d16 :: bytes where
  "fx_d16 = [12, 135, 84, 38, 242, 195, 3, 0, 0, 6]"

definition fx_d17 :: bytes where
  "fx_d17 = [12, 44, 98, 166, 33, 28, 0, 0, 0, 8]"

definition fx_d18 :: bytes where
  "fx_d18 = [43, 4, 237, 11, 26, 201, 30, 98, 44, 98, 166, 33, 28, 0, 0, 0, 0, 0, 0, 0, 0, 0, 0, 0, 0, 0, 0, 0,
     0, 0, 0, 0, 0, 0, 0, 0, 0, 0, 0, 0, 1]"

definition fx_d19 :: bytes where
  "fx_d19 = [12, 100, 47, 30, 6, 0, 0, 0, 0, 6]"

definition fx_d20 :: bytes where
  "fx_d20 = [16, 100, 47, 30, 6, 0, 0, 0, 0, 20, 207, 238, 33, 0, 0, 0, 0]"

definition fx_d21 :: bytes where
  "fx_d21 = [3, 100, 47, 30, 6, 0, 0, 0, 0]"

definition fx_d22 :: bytes where
  "fx_d22 = [3, 121, 57, 176, 59, 0, 0, 0, 0]"

definition fx_d23 :: bytes where
  "fx_d23 = [9]"

definition fixture_signature :: "bytes \<times> string" where
  "fixture_signature =
    ([80, 169, 85, 53, 69, 186, 109, 143, 114, 141, 224, 59, 75, 178, 51, 43, 197, 33, 133, 17, 204, 209,
      131, 3, 5, 109, 38, 106, 51, 123, 137, 243, 76, 65, 245, 120, 220, 224, 239, 113, 127, 35, 169, 137,
      247, 117, 211, 222, 76, 103, 198, 170, 224, 31, 132, 63, 92, 52, 159, 160, 35, 80, 95, 14],
      ''2cY4Pc3j47u9tvQDPDQFX61N2jHszAfjEysg7EczX8wJYH2TVMZR51iKjjE7RUXfN34FGiRa2GuvkqqUuc9Jqgw7'')"

definition fixture_instructions :: "compiled_instruction list" where
  "fixture_instructions =
    [\<lparr>ci_program_id_index = 11, ci_accounts = [30],
      ci_data = fx_d0\<rparr>,
     \<lparr>ci_program_id_index = 11, ci_accounts = [],
      ci_data = fx_d1\<rparr>,
     \<lparr>ci_program_id_index = 12, ci_accounts = [1, 0],
      ci_data = fx_d2\<rparr>,
     \<lparr>ci_program_id_index = 12, ci_accounts = [0, 13, 31, 32, 33, 2, 42, 3, 34, 4, 35],
      ci_data = fx_d3\<rparr>,
     \<lparr>ci_program_id_index = 14, ci_accounts = [0, 36, 15, 5, 6, 2, 7, 8, 32, 31, 16, 42, 9],
      ci_data = fx_d4\<rparr>,
     \<lparr>ci_program_id_index = 12, ci_accounts = [0, 13, 31, 32, 33, 37, 38, 21, 2, 3, 22, 23, 24, 39, 42, 34, 25, 26, 27, 28, 29, 40, 17, 41, 18,
        19, 3, 4, 2, 42, 3, 34, 4, 35],
      ci_data = fx_d5\<rparr>,
     \<lparr>ci_program_id_index = 13, ci_accounts = [0, 10],
      ci_data = fx_d6\<rparr>,
     \<lparr>ci_program_id_index = 13, ci_accounts = [0, 20],
      ci_data = fx_d7\<rparr>]"

definition fixture_inner_instructions :: "inner_instructions list" where
  "fixture_inner_instructions =
    [\<lparr>block_index = 3, block_instructions =
      [\<lparr>ii_program_id_index = 13, ii_accounts = [0, 2],
        ii_data = fx_d8, ii_stack_height = Some 2\<rparr>,
       \<lparr>ii_program_id_index = 13, ii_accounts = [2, 0],
        ii_data = fx_d9, ii_stack_height = Some 2\<rparr>,
       \<lparr>ii_program_id_index = 31, ii_accounts = [2, 42],
        ii_data = fx_d10, ii_stack_height = Some 2\<rparr>,
       \<lparr>ii_program_id_index = 13, ii_accounts = [0, 3],
        ii_data = fx_d8, ii_stack_height = Some 2\<rparr>,
       \<lparr>ii_program_id_index = 13, ii_accounts = [3, 0],
        ii_data = fx_d11, ii_stack_height = Some 2\<rparr>,
       \<lparr>ii_program_id_index = 31, ii_accounts = [3, 34],
        ii_data = fx_d10, ii_stack_height = Some 2\<rparr>,
       \<lparr>ii_program_id_index = 33, ii_accounts = [0, 4, 0, 35, 13, 31],
        ii_data = fx_d12, ii_stack_height = Some 2\<rparr>,
       \<lparr>ii_program_id_index = 31, ii_accounts = [35],
        ii_data = fx_d13, ii_stack_height = Some 3\<rparr>,
       \<lparr>ii_program_id_index = 13, ii_accounts = [0, 4],
        ii_data = fx_d14, ii_stack_height = Some 3\<rparr>,
       \<lparr>ii_program_id_index = 31, ii_accounts = [4],
        ii_data = fx_d15, ii_stack_height = Some 3\<rparr>,
       \<lparr>ii_program_id_index = 31, ii_accounts = [4, 35],
        ii_data = fx_d10, ii_stack_height = Some 3\<rparr>]\<rparr>,
     \<lparr>block_index = 4, block_instructions =
      [\<lparr>ii_program_id_index = 32, ii_accounts = [6, 16, 7, 0],
        ii_data = fx_d16, ii_stack_height = Some 2\<rparr>,
       \<lparr>ii_program_id_index = 31, ii_accounts = [8, 42, 2, 36],
        ii_data = fx_d17, ii_stack_height = Some 2\<rparr>]\<rparr>,
     \<lparr>block_index = 5, block_instructions =
      [\<lparr>ii_program_id_index = 37, ii_accounts = [0, 38, 21, 2, 3, 22, 23, 24, 31, 32, 39, 42, 34, 25, 26, 27, 28, 29],
        ii_data = fx_d18, ii_stack_height = Some 2\<rparr>,
       \<lparr>ii_program_id_index = 31, ii_accounts = [2, 42, 22, 0],
        ii_data = fx_d17, ii_stack_height = Some 3\<rparr>,
       \<lparr>ii_program_id_index = 31, ii_accounts = [23, 34, 3, 21],
        ii_data = fx_d19, ii_stack_height = Some 3\<rparr>,
       \<lparr>ii_program_id_index = 40, ii_accounts = [31, 17, 41, 18, 19, 3, 4, 0],
        ii_data = fx_d20, ii_stack_height = Some 2\<rparr>,
       \<lparr>ii_program_id_index = 31, ii_accounts = [3, 19, 0],
        ii_data = fx_d21, ii_stack_height = Some 3\<rparr>,
       \<lparr>ii_program_id_index = 31, ii_accounts = [18, 4, 41],
        ii_data = fx_d22, ii_stack_height = Some 3\<rparr>,
       \<lparr>ii_program_id_index = 31, ii_accounts = [2, 0, 0],
        ii_data = fx_d23, ii_stack_height = Some 2\<rparr>,
       \<lparr>ii_program_id_index = 31, ii_accounts = [3, 0, 0],
        ii_data = fx_d23, ii_stack_height = Some 2\<rparr>,
       \<lparr>ii_program_id_index = 31, ii_accounts = [4, 0, 0],
        ii_data = fx_d23, ii_stack_height = Some 2\<rparr>]\<rparr>]"

definition fixture_pre_token_balances :: "token_balance list" where
  "fixture_pre_token_balances =
    [\<lparr>tb_account_index = 6, tb_mint = ''HrSjY8WztUJFavB2Joz5ojFLpMhfpNmxMyL57zUENcDg'',
      tb_ui_token_amount = Some \<lparr>uta_amount = ''4140116104327'', uta_decimals = 6\<rparr>\<rparr>,
     \<lparr>tb_account_index = 7, tb_mint = ''HrSjY8WztUJFavB2Joz5ojFLpMhfpNmxMyL57zUENcDg'',
      tb_ui_token_amount = Some \<lparr>uta_amount = ''265659717775167'', uta_decimals = 6\<rparr>\<rparr>,
     \<lparr>tb_account_index = 8, tb_mint = ''DoGEV7LASBkQbibMc5k5vKnTZoMg423GpJ5QtJEGfm7R'',
      tb_ui_token_amount = Some \<lparr>uta_amount = ''8078689827599'', uta_decimals = 8\<rparr>\<rparr>,
     \<lparr>tb_account_index = 18, tb_mint = ''So11111111111111111111111111111111111111112'',
      tb_ui_token_amount = Some \<lparr>uta_amount = ''144576122460211'', uta_decimals = 9\<rparr>\<rparr>,
     \<lparr>tb_account_index = 19, tb_mint = ''EPjFWdd5AufqSSqeM2qN1xzybapC8G4wEGGkZwyTDt1v'',
      tb_ui_token_amount = Some \<lparr>uta_amount = ''14781544796410'', uta_decimals = 6\<rparr>\<rparr>,
     \<lparr>tb_account_index = 22, tb_mint = ''DoGEV7LASBkQbibMc5k5vKnTZoMg423GpJ5QtJEGfm7R'',
      tb_ui_token_amount = Some \<lparr>uta_amount = ''154329750609228'', uta_decimals = 8\<rparr>\<rparr>,
     \<lparr>tb_account_index = 23, tb_mint = ''EPjFWdd5AufqSSqeM2qN1xzybapC8G4wEGGkZwyTDt1v'',
      tb_ui_token_amount = Some \<lparr>uta_amount = ''101113713611'', uta_decimals = 6\<rparr>\<rparr>]"

definition fixture_post_token_balances :: "token_balance list" where
  "fixture_post_token_balances =
    [\<lparr>tb_account_index = 6, tb_mint = ''HrSjY8WztUJFavB2Joz5ojFLpMhfpNmxMyL57zUENcDg'',
      tb_ui_token_amount = Some \<lparr>uta_amount = ''0'', uta_decimals = 6\<rparr>\<rparr>,
     \<lparr>tb_account_index = 7, tb_mint = ''HrSjY8WztUJFavB2Joz5ojFLpMhfpNmxMyL57zUENcDg'',
      tb_ui_token_amount = Some \<lparr>uta_amount = ''269758432718450'', uta_decimals = 6\<rparr>\<rparr>,
     \<lparr>tb_account_index = 8, tb_mint = ''DoGEV7LASBkQbibMc5k5vKnTZoMg423GpJ5QtJEGfm7R'',
      tb_ui_token_amount = Some \<lparr>uta_amount = ''7957866191075'', uta_decimals = 8\<rparr>\<rparr>,
     \<lparr>tb_account_index = 18, tb_mint = ''So11111111111111111111111111111111111111112'',
      tb_ui_token_amount = Some \<lparr>uta_amount = ''144575121055418'', uta_decimals = 9\<rparr>\<rparr>,
     \<lparr>tb_account_index = 19, tb_mint = ''EPjFWdd5AufqSSqeM2qN1xzybapC8G4wEGGkZwyTDt1v'',
      tb_ui_token_amount = Some \<lparr>uta_amount = ''14781647437918'', uta_decimals = 6\<rparr>\<rparr>,
     \<lparr>tb_account_index = 22, tb_mint = ''DoGEV7LASBkQbibMc5k5vKnTZoMg423GpJ5QtJEGfm7R'',
      tb_ui_token_amount = Some \<lparr>uta_amount = ''154450574245752'', uta_decimals = 8\<rparr>\<rparr>,
     \<lparr>tb_account_index = 23, tb_mint = ''EPjFWdd5AufqSSqeM2qN1xzybapC8G4wEGGkZwyTDt1v'',
      tb_ui_token_amount = Some \<lparr>uta_amount = ''101011072103'', uta_decimals = 6\<rparr>\<rparr>]"

text \<open>The log lines; the two that carry data are split for their length.\<close>
definition fixture_data_1 :: string where
  "fixture_data_1 =
     ''QMbN6CYIceK6BLBKpMtD/v/TUgHKz5ZhMNNuorXsTFIBdu+2NV0uE+N6Irhf8QAA+WDG8lAHAAAzv3JOugMAACxipiEcAAAA'' @
     ''VJWzowkAAAAAAAAAAAAAAAH6ZYwcLwODawEoPOzBO3KBJCmIfh7m0vcp2gHorleLA74mLwuBvVPR7yVjK66Zuub0NmGeU0NQ'' @
     ''vsZwgJL1EE9kH5HBYgIAAADFcr5IAAAAAAA=''"

definition fixture_data_2 :: string where
  "fixture_data_2 =
     ''QMbN6CYIceJl/oS/PDl/40mxtiEBTfpTPR9GA3JMVDLKWwYskXopw0nxl49O/mfYq5FL48KaNReriGfL8ykZxdVxIrQwyZ52'' @
     ''r+nxc6ZiRfxMgFI5kZQV4PkM7b3BDZcwdSLPB8Oag/8l8MZHcWzx3C7QrclRtnKXtzgoEQqSUxQF/TDpLCV0CixipiEcAAAA'' @
     ''AAAAAAAAAABkLx4GAAAAAAAAAAAAAAAAAYLF+n5vhHgHAAAAAAAAAAD/y7Hgb7MAAAAAAAAAAAAA4Ov+/wAAAAAAAAAAR+0D'' @
     ''AAAAAAA=''"

definition second_swap_data :: string where
  "second_swap_data =
     ''QMbN6CYIceK6BLBKpMtD/v/TUgHKz5ZhMNNuorXsTFIBdu+2NV0uExY6lQYa9QAAzf4f0TQHAADoAwAAAAAAAB4AAAAAAAAA'' @
     ''AAAAAAAAAAAAAAAAAAAAAAH6ZYwcLwODawEoPOzBO3KBJCmIfh7m0vcp2gHorleLA74mLwuBvVPR7yVjK66Zuub0NmGeU0NQ'' @
     ''vsZwgJL1EE9kAAAAAAAAAAAAAAAAAAAAAAA=''"

definition fixture_logs :: "string list" where
  "fixture_logs =
    [''Program ComputeBudget111111111111111111111111111111 invoke [1]'',
     ''Program ComputeBudget111111111111111111111111111111 success'',
     ''Program ComputeBudget111111111111111111111111111111 invoke [1]'',
     ''Program ComputeBudget111111111111111111111111111111 success'',
     ''Program term9YPb9mzAsABaqN71A4xdbxHmpBNZavpBiQKZzN3 invoke [1]'',
     ''Program log: Instruction: ValidateNonce'',
     ''Program term9YPb9mzAsABaqN71A4xdbxHmpBNZavpBiQKZzN3 consumed 3296 of 519700 compute units'',
     ''Program term9YPb9mzAsABaqN71A4xdbxHmpBNZavpBiQKZzN3 success'',
     ''Program term9YPb9mzAsABaqN71A4xdbxHmpBNZavpBiQKZzN3 invoke [1]'',
     ''Program log: Instruction: RouteOpen'',
     ''Program 11111111111111111111111111111111 invoke [2]'',
     ''Program 11111111111111111111111111111111 success'',
     ''Program 11111111111111111111111111111111 invoke [2]'',
     ''Program 11111111111111111111111111111111 success'',
     ''Program TokenkegQfeZyiNwAJbNbGKPFXCWuBvf9Ss623VQ5DA invoke [2]'',
     ''Program TokenkegQfeZyiNwAJbNbGKPFXCWuBvf9Ss623VQ5DA consumed 233 of 505075 compute units'',
     ''Program TokenkegQfeZyiNwAJbNbGKPFXCWuBvf9Ss623VQ5DA success'',
     ''Program 11111111111111111111111111111111 invoke [2]'',
     ''Program 11111111111111111111111111111111 success'',
     ''Program 11111111111111111111111111111111 invoke [2]'',
     ''Program 11111111111111111111111111111111 success'',
     ''Program TokenkegQfeZyiNwAJbNbGKPFXCWuBvf9Ss623VQ5DA invoke [2]'',
     ''Program TokenkegQfeZyiNwAJbNbGKPFXCWuBvf9Ss623VQ5DA consumed 233 of 497543 compute units'',
     ''Program TokenkegQfeZyiNwAJbNbGKPFXCWuBvf9Ss623VQ5DA success'',
     ''Program ATokenGPvbdGVxr1b2hvZbsiqW5xWH25efTNsLJA8knL invoke [2]'',
     ''Program log: CreateIdempotent'',
     ''Program TokenkegQfeZyiNwAJbNbGKPFXCWuBvf9Ss623VQ5DA invoke [3]'',
     ''Program TokenkegQfeZyiNwAJbNbGKPFXCWuBvf9Ss623VQ5DA consumed 179 of 485152 compute units'',
     ''Program return: TokenkegQfeZyiNwAJbNbGKPFXCWuBvf9Ss623VQ5DA pQAAAAAAAAA='',
     ''Program TokenkegQfeZyiNwAJbNbGKPFXCWuBvf9Ss623VQ5DA success'',
     ''Program 11111111111111111111111111111111 invoke [3]'',
     ''Program 11111111111111111111111111111111 success'',
     ''Program log: Initialize the associated token account'',
     ''Program TokenkegQfeZyiNwAJbNbGKPFXCWuBvf9Ss623VQ5DA invoke [3]'',
     ''Program TokenkegQfeZyiNwAJbNbGKPFXCWuBvf9Ss623VQ5DA consumed 37 of 480063 compute units'',
     ''Program TokenkegQfeZyiNwAJbNbGKPFXCWuBvf9Ss623VQ5DA success'',
     ''Program TokenkegQfeZyiNwAJbNbGKPFXCWuBvf9Ss623VQ5DA invoke [3]'',
     ''Program TokenkegQfeZyiNwAJbNbGKPFXCWuBvf9Ss623VQ5DA consumed 229 of 477602 compute units'',
     ''Program TokenkegQfeZyiNwAJbNbGKPFXCWuBvf9Ss623VQ5DA success'',
     ''Program ATokenGPvbdGVxr1b2hvZbsiqW5xWH25efTNsLJA8knL consumed 14913 of 492003 compute units'',
     ''Program ATokenGPvbdGVxr1b2hvZbsiqW5xWH25efTNsLJA8knL success'',
     ''Program term9YPb9mzAsABaqN71A4xdbxHmpBNZavpBiQKZzN3 consumed 40285 of 516404 compute units'',
     ''Program term9YPb9mzAsABaqN71A4xdbxHmpBNZavpBiQKZzN3 success'',
     ''Program CPMMoo8L3F4NbTegBCKVNunggL7H1ZpdTHKxQB5qKP1C invoke [1]'',
     ''Program log: Instruction: SwapBaseInput'',
     ''Program data: '' @ fixture_data_1,
     ''Program TokenzQdBNbLqP5VEhdkAS6EPFLC1PHnBqCXEpPxuEb invoke [2]'',
     ''Program log: Instruction: TransferChecked'',
     ''Program TokenzQdBNbLqP5VEhdkAS6EPFLC1PHnBqCXEpPxuEb consumed 3378 of 453713 compute units'',
     ''Program TokenzQdBNbLqP5VEhdkAS6EPFLC1PHnBqCXEpPxuEb success'',
     ''Program TokenkegQfeZyiNwAJbNbGKPFXCWuBvf9Ss623VQ5DA invoke [2]'',
     ''Program TokenkegQfeZyiNwAJbNbGKPFXCWuBvf9Ss623VQ5DA consumed 105 of 448272 compute units'',
     ''Program TokenkegQfeZyiNwAJbNbGKPFXCWuBvf9Ss623VQ5DA success'',
     ''Program CPMMoo8L3F4NbTegBCKVNunggL7H1ZpdTHKxQB5qKP1C consumed 29556 of 476119 compute units'',
     ''Program CPMMoo8L3F4NbTegBCKVNunggL7H1ZpdTHKxQB5qKP1C success'',
     ''Program term9YPb9mzAsABaqN71A4xdbxHmpBNZavpBiQKZzN3 invoke [1]'',
     ''Program log: Instruction: RouteClose'',
     ''Program CAMMCzo5YL8w4VFF8KVHrK22GGUsp5VTaW7grrKgrWqK invoke [2]'',
     ''Program log: Instruction: SwapV2'',
     ''Program data: '' @ fixture_data_2,
     ''Program TokenkegQfeZyiNwAJbNbGKPFXCWuBvf9Ss623VQ5DA invoke [3]'',
     ''Program TokenkegQfeZyiNwAJbNbGKPFXCWuBvf9Ss623VQ5DA consumed 105 of 387217 compute units'',
     ''Program TokenkegQfeZyiNwAJbNbGKPFXCWuBvf9Ss623VQ5DA success'',
     ''Program TokenkegQfeZyiNwAJbNbGKPFXCWuBvf9Ss623VQ5DA invoke [3]'',
     ''Program TokenkegQfeZyiNwAJbNbGKPFXCWuBvf9Ss623VQ5DA consumed 105 of 384519 compute units'',
     ''Program TokenkegQfeZyiNwAJbNbGKPFXCWuBvf9Ss623VQ5DA success'',
     ''Program CAMMCzo5YL8w4VFF8KVHrK22GGUsp5VTaW7grrKgrWqK consumed 50013 of 432135 compute units'',
     ''Program CAMMCzo5YL8w4VFF8KVHrK22GGUsp5VTaW7grrKgrWqK success'',
     ''Program 675kPX9MHTjS2zt1qfr1NYHuzeLXfQM9H24wFSUt1Mp8 invoke [2]'',
     ''Program log: Program ID: 675kPX9MHTjS2zt1qfr1NYHuzeLXfQM9H24wFSUt1Mp8'',
     ''Program log: Number of accounts: 8'',
     ''Program log: ray_log: A2QvHgYAAAAAFM/uIQAAAAABAAAAAAAAAGQvHgYAAAAAADy6aX2DAADSDt6PcQ0AAHk5sDsAAAAA'',
     ''Program TokenkegQfeZyiNwAJbNbGKPFXCWuBvf9Ss623VQ5DA invoke [3]'',
     ''Program TokenkegQfeZyiNwAJbNbGKPFXCWuBvf9Ss623VQ5DA consumed 76 of 366238 compute units'',
     ''Program TokenkegQfeZyiNwAJbNbGKPFXCWuBvf9Ss623VQ5DA success'',
     ''Program TokenkegQfeZyiNwAJbNbGKPFXCWuBvf9Ss623VQ5DA invoke [3]'',
     ''Program TokenkegQfeZyiNwAJbNbGKPFXCWuBvf9Ss623VQ5DA consumed 83 of 364176 compute units'',
     ''Program TokenkegQfeZyiNwAJbNbGKPFXCWuBvf9Ss623VQ5DA success'',
     ''Program 675kPX9MHTjS2zt1qfr1NYHuzeLXfQM9H24wFSUt1Mp8 consumed 15404 of 378895 compute units'',
     ''Program 675kPX9MHTjS2zt1qfr1NYHuzeLXfQM9H24wFSUt1Mp8 success'',
     ''Program TokenkegQfeZyiNwAJbNbGKPFXCWuBvf9Ss623VQ5DA invoke [2]'',
     ''Program TokenkegQfeZyiNwAJbNbGKPFXCWuBvf9Ss623VQ5DA consumed 120 of 360958 compute units'',
     ''Program TokenkegQfeZyiNwAJbNbGKPFXCWuBvf9Ss623VQ5DA success'',
     ''Program TokenkegQfeZyiNwAJbNbGKPFXCWuBvf9Ss623VQ5DA invoke [2]'',
     ''Program TokenkegQfeZyiNwAJbNbGKPFXCWuBvf9Ss623VQ5DA consumed 120 of 358431 compute units'',
     ''Program TokenkegQfeZyiNwAJbNbGKPFXCWuBvf9Ss623VQ5DA success'',
     ''Program TokenkegQfeZyiNwAJbNbGKPFXCWuBvf9Ss623VQ5DA invoke [2]'',
     ''Program TokenkegQfeZyiNwAJbNbGKPFXCWuBvf9Ss623VQ5DA consumed 118 of 355904 compute units'',
     ''Program TokenkegQfeZyiNwAJbNbGKPFXCWuBvf9Ss623VQ5DA success'',
     ''Program term9YPb9mzAsABaqN71A4xdbxHmpBNZavpBiQKZzN3 consumed 92141 of 446563 compute units'',
     ''Program term9YPb9mzAsABaqN71A4xdbxHmpBNZavpBiQKZzN3 success'',
     ''Program 11111111111111111111111111111111 invoke [1]'',
     ''Program 11111111111111111111111111111111 success'',
     ''Program 11111111111111111111111111111111 invoke [1]'',
     ''Program 11111111111111111111111111111111 success'']"

text \<open>What the data decodes to.\<close>
definition fixture_payloads :: "(string \<times> bytes) list" where
  "fixture_payloads =
    [(fixture_data_1,
      [64, 198, 205, 232, 38, 8, 113, 226, 186, 4, 176, 74, 164, 203, 67, 254, 255, 211, 82, 1, 202, 207,
      150, 97, 48, 211, 110, 162, 181, 236, 76, 82, 1, 118, 239, 182, 53, 93, 46, 19, 227, 122, 34, 184,
      95, 241, 0, 0, 249, 96, 198, 242, 80, 7, 0, 0, 51, 191, 114, 78, 186, 3, 0, 0, 44, 98, 166, 33, 28,
      0, 0, 0, 84, 149, 179, 163, 9, 0, 0, 0, 0, 0, 0, 0, 0, 0, 0, 0, 1, 250, 101, 140, 28, 47, 3, 131,
      107, 1, 40, 60, 236, 193, 59, 114, 129, 36, 41, 136, 126, 30, 230, 210, 247, 41, 218, 1, 232, 174,
      87, 139, 3, 190, 38, 47, 11, 129, 189, 83, 209, 239, 37, 99, 43, 174, 153, 186, 230, 244, 54, 97,
      158, 83, 67, 80, 190, 198, 112, 128, 146, 245, 16, 79, 100, 31, 145, 193, 98, 2, 0, 0, 0, 197, 114,
      190, 72, 0, 0, 0, 0, 0]),
     (fixture_data_2,
      [64, 198, 205, 232, 38, 8, 113, 226, 101, 254, 132, 191, 60, 57, 127, 227, 73, 177, 182, 33, 1, 77,
      250, 83, 61, 31, 70, 3, 114, 76, 84, 50, 202, 91, 6, 44, 145, 122, 41, 195, 73, 241, 151, 143, 78,
      254, 103, 216, 171, 145, 75, 227, 194, 154, 53, 23, 171, 136, 103, 203, 243, 41, 25, 197, 213, 113,
      34, 180, 48, 201, 158, 118, 175, 233, 241, 115, 166, 98, 69, 252, 76, 128, 82, 57, 145, 148, 21,
      224, 249, 12, 237, 189, 193, 13, 151, 48, 117, 34, 207, 7, 195, 154, 131, 255, 37, 240, 198, 71,
      113, 108, 241, 220, 46, 208, 173, 201, 81, 182, 114, 151, 183, 56, 40, 17, 10, 146, 83, 20, 5, 253,
      48, 233, 44, 37, 116, 10, 44, 98, 166, 33, 28, 0, 0, 0, 0, 0, 0, 0, 0, 0, 0, 0, 100, 47, 30, 6, 0,
      0, 0, 0, 0, 0, 0, 0, 0, 0, 0, 0, 1, 130, 197, 250, 126, 111, 132, 120, 7, 0, 0, 0, 0, 0, 0, 0, 0,
      255, 203, 177, 224, 111, 179, 0, 0, 0, 0, 0, 0, 0, 0, 0, 0, 224, 235, 254, 255, 0, 0, 0, 0, 0, 0, 0,
      0, 71, 237, 3, 0, 0, 0, 0, 0]),
     (second_swap_data,
      [64, 198, 205, 232, 38, 8, 113, 226, 186, 4, 176, 74, 164, 203, 67, 254, 255, 211, 82, 1, 202, 207,
      150, 97, 48, 211, 110, 162, 181, 236, 76, 82, 1, 118, 239, 182, 53, 93, 46, 19, 22, 58, 149, 6, 26,
      245, 0, 0, 205, 254, 31, 209, 52, 7, 0, 0, 232, 3, 0, 0, 0, 0, 0, 0, 30, 0, 0, 0, 0, 0, 0, 0, 0, 0,
      0, 0, 0, 0, 0, 0, 0, 0, 0, 0, 0, 0, 0, 0, 1, 250, 101, 140, 28, 47, 3, 131, 107, 1, 40, 60, 236,
      193, 59, 114, 129, 36, 41, 136, 126, 30, 230, 210, 247, 41, 218, 1, 232, 174, 87, 139, 3, 190, 38,
      47, 11, 129, 189, 83, 209, 239, 37, 99, 43, 174, 153, 186, 230, 244, 54, 97, 158, 83, 67, 80, 190,
      198, 112, 128, 146, 245, 16, 79, 100, 0, 0, 0, 0, 0, 0, 0, 0, 0, 0, 0, 0, 0, 0, 0, 0, 0])]"

definition lookup_or :: "'b \<Rightarrow> ('a \<times> 'b) list \<Rightarrow> 'a \<Rightarrow> 'b" where
  "lookup_or d table k = (case map_of table k of Some v \<Rightarrow> v | None \<Rightarrow> d)"

text \<open>A key that is not of the transaction, for the test that replaces the pool.\<close>
definition fake_pool_key :: "bytes \<times> string" where
  "fake_pool_key = (replicate 32 7, ''fake-pool'')"

definition fixture_ext :: externals where
  "fixture_ext = \<lparr>
     x_pubkey_to_string = lookup_or ''unknown-key'' (fake_pool_key # fixture_keys),
     x_pubkey_from_str = map_of (map prod.swap fixture_keys),
     x_find_program_address = (\<lambda>seeds program.
       if seeds = [CPMM_POOL_SEED, fx_b15, fx_b42, fx_b16] \<and>
          program = fx_b14
       then fx_b5 else replicate 32 0),
     x_compute_budget_id = fx_b11,
     x_bs58_encode = lookup_or ''unknown-bytes'' (fixture_signature # fake_pool_key # fixture_keys),
     x_base64_decode = map_of fixture_payloads\<rparr>"

definition fixture_message :: message where
  "fixture_message = \<lparr>msg_account_keys = map fst (take 17 fixture_keys), msg_instructions = fixture_instructions\<rparr>"

definition fixture_meta :: transaction_status_meta where
  "fixture_meta =
     \<lparr>m_err = None, m_inner_instructions = fixture_inner_instructions,
      m_loaded_writable_addresses = map fst (take 13 (drop 17 fixture_keys)),
      m_loaded_readonly_addresses = map fst (drop 30 fixture_keys),
      m_pre_balances = [], m_post_balances = [],
      m_pre_token_balances = fixture_pre_token_balances, m_post_token_balances = fixture_post_token_balances,
      m_log_messages = fixture_logs, m_compute_units_consumed = Some 165878\<rparr>"

definition fixture_tx :: tx_info where
  "fixture_tx = \<lparr>tx_signature_bytes = fst fixture_signature, tx_transaction = Some (Some fixture_message),
     tx_meta = Some fixture_meta\<rparr>"

end
