(* ===== verification/CpmmTests.thy ===== *)
theory CpmmTests
  imports Cpmm StonkFixture
begin

text \<open>
  The unit tests of \<open>src/src/utils/cpmm.rs\<close> (\<open>mod tests\<close>), on the definitions of this development and on the
  recorded transaction of \<open>StonkFixture\<close>. The test that derives the pools of further live pairs is left out: the
  derivation is a parameter.
\<close>

section \<open>A recorded swap\<close>

definition BASE_MINT :: string where
  "BASE_MINT = ''HrSjY8WztUJFavB2Joz5ojFLpMhfpNmxMyL57zUENcDg''"

definition QUOTE_MINT :: string where
  "QUOTE_MINT = ''DoGEV7LASBkQbibMc5k5vKnTZoMg423GpJ5QtJEGfm7R''"

definition POOL :: string where
  "POOL = ''DX8ykUKbMWduHgfQ5JnjfEec1oWaVbfuVRef6r1HRqHt''"

definition SUPPLY :: u64 where
  "SUPPLY = 1000000000000000"

text \<open>The only event of the logs that parses; the other payload is of another program.\<close>

definition fixture_event :: cpmm_swap_event where
  "fixture_event = \<lparr>ce_pool_id = POOL, ce_input_vault_before = 265393413454563, ce_output_vault_before = 8044251865337,
     ce_input_amount = 4098714943283, ce_output_amount = 120823636524, ce_input_transfer_fee = 41401161044,
     ce_output_transfer_fee = 0, ce_base_input = True, ce_input_mint = BASE_MINT, ce_output_mint = QUOTE_MINT,
     ce_trade_fee = 10246787359, ce_creator_fee = 1220440773, ce_creator_fee_on_input = False\<rparr>"

lemma fixture_events: "cpmm_swap_events_from_logs fixture_ext fixture_logs = [fixture_event]"
  by code_simp

definition cpmm_swap_event_from_fixture :: bool where
  "cpmm_swap_event_from_fixture \<longleftrightarrow>
     (case cpmm_swap_events_from_logs fixture_ext fixture_logs of
        [ev] \<Rightarrow>
          ce_pool_id ev = POOL \<and> ce_input_vault_before ev = 265393413454563 \<and>
          ce_output_vault_before ev = 8044251865337 \<and> ce_input_amount ev = 4098714943283 \<and>
          ce_output_amount ev = 120823636524 \<and> ce_input_transfer_fee ev = 41401161044 \<and>
          ce_output_transfer_fee ev = 0 \<and> ce_base_input ev \<and> ce_input_mint ev = BASE_MINT \<and>
          ce_output_mint ev = QUOTE_MINT \<and> ce_trade_fee ev = 10246787359 \<and> ce_creator_fee ev = 1220440773 \<and>
          \<not> ce_creator_fee_on_input ev \<and>
          (case cpmm_resolve_side ev BASE_MINT of
             Some side \<Rightarrow>
               \<not> cs_is_buy side \<and> cs_base_amount side = 4098714943283 \<and> cs_quote_amount side = 120823636524 \<and>
               cs_base_reserve_after side = 269492128397846 \<and> cs_quote_reserve_after side = 7923428228813 \<and>
               cs_base_transfer_fee side = 41401161044 \<and>
               (let expected = (7923428228813 * ucast SUPPLY :: u128) div 269492128397846;
                    mc = cpmm_market_cap (cs_quote_reserve_after side) (cs_base_reserve_after side) SUPPLY
                in mc = ucast expected \<and> 29300000000000 \<le> mc \<and> mc \<le> 29500000000000)
           | None \<Rightarrow> False) \<and>
          cpmm_resolve_side ev ''nope'' = None \<and>
          (case cpmm_resolve_side ev QUOTE_MINT of
             Some mirrored \<Rightarrow> cs_is_buy mirrored \<and> cs_base_amount mirrored = 120823636524 \<and>
               cs_quote_amount mirrored = 4098714943283
           | None \<Rightarrow> False)
      | _ \<Rightarrow> False)"

lemma cpmm_swap_event_from_fixture_passes: "cpmm_swap_event_from_fixture"
  unfolding cpmm_swap_event_from_fixture_def fixture_events by code_simp

section \<open>Guards and edge cases\<close>

definition swap_event_length_guard :: "externals \<Rightarrow> bool" where
  "swap_event_length_guard X \<longleftrightarrow>
     cpmm_parse X (CPMM_SWAP_EVENT_DISC @ replicate (CPMM_SWAP_EVENT_BODY_LEN - 1) 0) = None \<and>
     cpmm_parse X (CPMM_SWAP_EVENT_DISC @ replicate (CPMM_SWAP_EVENT_BODY_LEN + 1) 0) = None \<and>
     cpmm_parse X (replicate 8 0 @ replicate CPMM_SWAP_EVENT_BODY_LEN 0) = None \<and>
     cpmm_parse X (CPMM_SWAP_EVENT_DISC @ replicate CPMM_SWAP_EVENT_BODY_LEN 0) \<noteq> None \<and>
     cpmm_parse X [] = None"

lemma swap_event_length_guard_passes: "swap_event_length_guard X"
proof -
  have "replicate 8 0 \<noteq> CPMM_SWAP_EVENT_DISC" "length CPMM_SWAP_EVENT_DISC = 8" by code_simp+
  then show ?thesis
    by (simp add: swap_event_length_guard_def cpmm_parse_def split_at_checked_def CPMM_SWAP_EVENT_BODY_LEN_def
                  u64_at_def pubkey_at_def rust_defs)
qed

definition market_cap_edge_cases :: bool where
  "market_cap_edge_cases \<longleftrightarrow>
     cpmm_market_cap 1 0 SUPPLY = 0 \<and> cpmm_market_cap (- 1) 1 (- 1) = - 1 \<and> cpmm_market_cap 10 5 100 = 200"

lemma market_cap_edge_cases_passes: "market_cap_edge_cases"
  by code_simp

definition requested_amounts_follow_input_output_legs :: bool where
  "requested_amounts_follow_input_output_legs \<longleftrightarrow>
     (let dat = replicate 8 0 @ to_le_bytes 8 (11 :: u64) @ to_le_bytes 8 (22 :: u64)
      in cpmm_requested_amounts dat True = (11, 22) \<and> cpmm_requested_amounts dat False = (22, 11) \<and>
         cpmm_requested_amounts (take 20 dat) True = (0, 0))"

lemma requested_amounts_follow_input_output_legs_passes: "requested_amounts_follow_input_output_legs"
  by code_simp

section \<open>Vault balances\<close>

text \<open>The closure \<open>row\<close>.\<close>
definition balance_row :: "u32 \<Rightarrow> string \<Rightarrow> string \<Rightarrow> token_balance" where
  "balance_row idx mint amount = \<lparr>tb_account_index = idx, tb_mint = mint,
     tb_ui_token_amount = Some \<lparr>uta_amount = amount, uta_decimals = 6\<rparr>\<rparr>"

definition vault_balance_fallback_reconstructs_amounts :: bool where
  "vault_balance_fallback_reconstructs_amounts \<longleftrightarrow>
     (let meta = (demo_meta [])
            \<lparr>m_pre_token_balances := [balance_row 4 BASE_MINT ''1000'', balance_row 5 QUOTE_MINT ''500''],
             m_post_token_balances := [balance_row 4 BASE_MINT ''1100'', balance_row 5 QUOTE_MINT ''460'']\<rparr>
      in (case cpmm_swap_from_vault_balances meta POOL 4 5 BASE_MINT QUOTE_MINT of
            Some ev \<Rightarrow> ce_input_amount ev = 100 \<and> ce_output_amount ev = 40 \<and>
              ce_input_vault_before ev = 1000 \<and> ce_output_vault_before ev = 500
          | None \<Rightarrow> False) \<and>
         token_decimals_from_meta meta BASE_MINT = Some 6 \<and>
         token_decimals_from_meta meta ''nope'' = None \<and>
         cpmm_swap_from_vault_balances meta POOL 4 9 BASE_MINT QUOTE_MINT = None)"

lemma vault_balance_fallback_reconstructs_amounts_passes: "vault_balance_fallback_reconstructs_amounts"
  by code_simp

end
