(* ===== verification/CpmmHandlerTests.thy ===== *)
theory CpmmHandlerTests
  imports CpmmProperties CpmmTests TransactionTests
begin

text \<open>
  The unit tests of \<open>src/src/handler/cpmm_handler.rs\<close> (\<open>mod tests\<close>): the whole handler on the recorded transaction
  of \<open>StonkFixture\<close> and on variations of it. The passing tests rest on the closed form of the handler
  (\<open>process_cpmm_closed\<close>), so that only the pieces of the transaction are evaluated.
\<close>

section \<open>Builders\<close>

definition tracked_info :: "string option \<Rightarrow> i16 option \<Rightarrow> alt_mint_info" where
  "tracked_info cpmm_pool quote_decimals =
     \<lparr>mi_quote_mint = QUOTE_MINT, mi_total_supply = SUPPLY, mi_base_decimals = 6,
      mi_quote_decimals = quote_decimals, mi_cpmm_pool = cpmm_pool\<rparr>"

text \<open>A run of the handler; a panic or an error is \<open>None\<close>.\<close>
definition run_cpmm :: "tx_info \<Rightarrow> alt_mint_map \<Rightarrow> alt_trade_record list option" where
  "run_cpmm tx mints =
     (case process_cpmm_tx fixture_ext 0 tx 446404878 mints False
             \<lparr>al_channel = [], al_channel_closed = False, al_trade_counter = 0, al_log = []\<rparr> of
        Some (Inr _, st) \<Rightarrow> Some (al_channel st)
      | _ \<Rightarrow> None)"

definition is_swap_base_input :: "bytes \<Rightarrow> bool" where
  "is_swap_base_input dat \<longleftrightarrow> take 8 dat = CPMM_SWAP_BASE_INPUT_DISCRIMINATOR"

definition find_swap :: "message \<Rightarrow> transaction_status_meta \<Rightarrow> compiled_instruction option" where
  "find_swap msg meta =
     (case List.find (\<lambda>i. is_swap_base_input (ci_data i)) (msg_instructions msg) of
        Some ix \<Rightarrow> Some ix
      | None \<Rightarrow> map_option (\<lambda>i. \<lparr>ci_program_id_index = ii_program_id_index i, ci_accounts = ii_accounts i, ci_data = ii_data i\<rparr>)
          (List.find (\<lambda>i. is_swap_base_input (ii_data i)) (concat (map block_instructions (m_inner_instructions meta)))))"

section \<open>The pieces of the transaction\<close>

definition fixture_program :: pubkey where
  "fixture_program = fx_b14"

definition fixture_config :: pubkey where
  "fixture_config = fx_b15"

definition fixture_pool :: pubkey where
  "fixture_pool = fx_b5"

definition fixture_base :: pubkey where
  "fixture_base = fx_b16"

definition fixture_quote :: pubkey where
  "fixture_quote = fx_b42"

definition fixture_swap :: compiled_instruction where
  "fixture_swap = fixture_instructions ! 4"

definition fixture_accounts :: "bytes list" where
  "fixture_accounts = map fst fixture_keys"

lemma fixture_key_texts:
  "x_pubkey_to_string fixture_ext fixture_base = BASE_MINT" "x_pubkey_to_string fixture_ext fixture_quote = QUOTE_MINT"
  "x_pubkey_to_string fixture_ext fixture_pool = POOL" "x_pubkey_to_string fixture_ext (fst fake_pool_key) = ''fake-pool''"
  by code_simp+

lemma fixture_pool_derived:
  "cpmm_canonical_pool fixture_ext fixture_program fixture_config fixture_base fixture_quote = fixture_pool"
  by code_simp

lemma fixture_texts_differ: "BASE_MINT \<noteq> QUOTE_MINT" "QUOTE_MINT \<noteq> BASE_MINT" "BASE_MINT \<noteq> WSOL_MINT"
  "QUOTE_MINT \<noteq> WSOL_MINT" "QUOTE_MINT \<noteq> USDC_MINT" "POOL \<noteq> ''fake-pool''" "fst fake_pool_key \<noteq> fixture_pool"
  by code_simp+

lemma fixture_keys_parse:
  "x_pubkey_from_str fixture_ext RAYDIUM_CPMM_PROGRAM_ID = Some fixture_program"
  "x_pubkey_from_str fixture_ext STONK_CPMM_AMM_CONFIG = Some fixture_config"
  by code_simp+

lemma fixture_inputs:
  "tx_transaction tx = Some (Some msg) \<Longrightarrow> tx_meta tx = Some meta \<Longrightarrow>
   cpmm_inputs fixture_ext tx = Inr (fixture_program, fixture_config, msg, meta)"
  by (simp add: cpmm_inputs_def fixture_keys_parse)

lemma run_cpmm_eq:
  assumes "tx_transaction tx = Some (Some msg)" "tx_meta tx = Some meta"
  shows "run_cpmm tx mints =
    Some (cpmm_records fixture_ext 0 tx 446404878 mints (fixture_program, fixture_config, msg, meta))"
  by (simp add: run_cpmm_def process_cpmm_closed [OF fixture_inputs [OF assms]] fold_send_alt)

lemma fixture_swap_data:
  "cpmm_instruction_type (take 8 (ci_data fixture_swap)) = Some ''swap_base_input''" "length (ci_data fixture_swap) = 24"
  "CPMM_SWAP_MIN_ACCOUNTS \<le> length (ci_accounts fixture_swap)"
  "cpmm_requested_amounts (ci_data fixture_swap) True = (4140116104327, 75293812898)"
  by code_simp+

lemma fixture_swap_accounts:
  "instruction_account_pubkey fixture_swap fixture_accounts CPMM_SWAP_AMM_CONFIG_IX_POS = Some fixture_config"
  "instruction_account_pubkey fixture_swap fixture_accounts CPMM_SWAP_POOL_STATE_IX_POS = Some fixture_pool"
  "instruction_account_pubkey fixture_swap fixture_accounts CPMM_SWAP_INPUT_MINT_IX_POS = Some fixture_base"
  "instruction_account_pubkey fixture_swap fixture_accounts CPMM_SWAP_OUTPUT_MINT_IX_POS = Some fixture_quote"
  by code_simp+

lemma fixture_accounts_eq:
  "cpmm_accounts (fixture_program, fixture_config, fixture_message, meta\<lparr>m_loaded_writable_addresses := m_loaded_writable_addresses fixture_meta,
     m_loaded_readonly_addresses := m_loaded_readonly_addresses fixture_meta\<rparr>) = fixture_accounts"
proof -
  have "map fst (take 17 fixture_keys) @ map fst (take 13 (drop 17 fixture_keys)) @ map fst (drop 30 fixture_keys) = fixture_accounts"
    by code_simp
  then show ?thesis by (simp add: cpmm_accounts_def fixture_message_def fixture_meta_def)
qed

lemma fixture_items:
  "cpmm_items (fixture_program, fixture_config, fixture_message, fixture_meta) = [(fixture_swap, 4, 0)]"
  by code_simp

text \<open>What the guards make of the swap, for any launch tracked under the base mint.\<close>

definition swap_target :: "alt_mint_info \<Rightarrow> string \<Rightarrow> cpmm_target" where
  "swap_target info pool_address =
     \<lparr>ct_input_mint = BASE_MINT, ct_output_mint = QUOTE_MINT, ct_mint = BASE_MINT, ct_quote_mint = QUOTE_MINT,
      ct_base_is_input = True, ct_info = info, ct_pool_address = pool_address\<rparr>"

lemma swap_target_simps [simp]:
  "ct_input_mint (swap_target info pool) = BASE_MINT" "ct_output_mint (swap_target info pool) = QUOTE_MINT"
  "ct_mint (swap_target info pool) = BASE_MINT" "ct_quote_mint (swap_target info pool) = QUOTE_MINT"
  "ct_base_is_input (swap_target info pool) = True" "ct_info (swap_target info pool) = info"
  "ct_pool_address (swap_target info pool) = pool"
  by (simp_all add: swap_target_def)

lemma tracked_info_simps [simp]:
  "mi_quote_mint (tracked_info pool decimals) = QUOTE_MINT" "mi_total_supply (tracked_info pool decimals) = SUPPLY"
  "mi_base_decimals (tracked_info pool decimals) = 6" "mi_quote_decimals (tracked_info pool decimals) = decimals"
  "mi_cpmm_pool (tracked_info pool decimals) = pool"
  by (simp_all add: tracked_info_def)

lemma swap_guards:
  assumes "instruction_account_pubkey fixture_swap full CPMM_SWAP_AMM_CONFIG_IX_POS = Some fixture_config"
    "instruction_account_pubkey fixture_swap full CPMM_SWAP_POOL_STATE_IX_POS = Some pool"
    "instruction_account_pubkey fixture_swap full CPMM_SWAP_INPUT_MINT_IX_POS = Some fixture_base"
    "instruction_account_pubkey fixture_swap full CPMM_SWAP_OUTPUT_MINT_IX_POS = Some fixture_quote"
  shows "item_swap fixture_ext fixture_program fixture_config [BASE_MINT \<mapsto> info] full (fixture_swap, i, j) =
    (if mi_quote_mint info = QUOTE_MINT \<and>
        (pool = fixture_pool \<or> mi_cpmm_pool info = Some (x_pubkey_to_string fixture_ext pool))
     then Some (''swap_base_input'', swap_target info (x_pubkey_to_string fixture_ext pool)) else None)"
    "item_swap fixture_ext fixture_program fixture_config Map.empty full (fixture_swap, i, j) = None"
  using assms fixture_swap_data fixture_texts_differ(1,2)
  by (simp_all add: item_swap_def cpmm_target_of_def fixture_key_texts tracked_leg_def fixture_pool_derived swap_target_def
        split: option.splits)

lemma token_decimals_of_fixture: "token_decimals_from_meta fixture_meta QUOTE_MINT = Some 8"
  by code_simp

lemma fixture_payer:
  "resolve_instruction_account fixture_ext fixture_swap fixture_accounts 0 =
   Some ''5yeRmwgdP28xfqsAPSe16hcETkvhzpWhBwzH9g5fAdiM''"
  by code_simp

lemma fixture_signature_text: "take 8 (x_bs58_encode fixture_ext (fst fixture_signature)) = ''2cY4Pc3j''"
  by code_simp

section \<open>The recorded sell\<close>

definition records_live_cpmm_sell_from_fixture :: bool where
  "records_live_cpmm_sell_from_fixture \<longleftrightarrow>
     (case run_cpmm fixture_tx [BASE_MINT \<mapsto> tracked_info None None] of
        Some [r] \<Rightarrow>
          take 8 (ar_tx_signature r) = ''2cY4Pc3j'' \<and> ar_ix_index r = 0 \<and> ar_platform r = ''stonk_fun'' \<and>
          ar_venue r = ''raydium_cpmm'' \<and> ar_pool_address r = POOL \<and> ar_mint_address r = BASE_MINT \<and>
          ar_quote_mint_address r = QUOTE_MINT \<and> ar_instruction_type r = ''swap_base_input'' \<and>
          ar_amount_source r = ''event'' \<and> \<not> ar_is_cpi r \<and> \<not> ar_is_buy r \<and> ar_success r \<and>
          ar_token_amount r = 4098714943283 \<and> ar_quote_amount r = 120823636524 \<and>
          ar_base_reserves r = Some 269492128397846 \<and> ar_quote_reserves r = Some 7923428228813 \<and>
          ar_base_transfer_fee r = Some 41401161044 \<and> ar_trade_fee r = Some 10246787359 \<and>
          ar_creator_fee r = Some 1220440773 \<and>
          ar_market_cap r = Some (ucast ((7923428228813 * ucast SUPPLY :: u128) div 269492128397846)) \<and>
          ar_quote_decimals r = Some 8 \<and> ar_base_decimals r = 6 \<and> \<not> ar_is_sol r \<and> \<not> ar_is_usdc r \<and>
          ar_slot r = 446404878 \<and> ar_compute_units_consumed r \<noteq> None \<and>
          ar_user_pubkey r = ''5yeRmwgdP28xfqsAPSe16hcETkvhzpWhBwzH9g5fAdiM''
      | _ \<Rightarrow> False)"

lemma fixture_tx_parts:
  "tx_transaction fixture_tx = Some (Some fixture_message)" "tx_meta fixture_tx = Some fixture_meta"
  "tx_signature_bytes fixture_tx = fst fixture_signature"
  by (simp_all add: fixture_tx_def)

lemma fixture_accounts_of: "cpmm_accounts (fixture_program, fixture_config, fixture_message, fixture_meta) = fixture_accounts"
  using fixture_accounts_eq [of fixture_meta] by simp

lemma fixture_swap_event:
  "take_pool_event POOL [fixture_event] = Some (fixture_event, [])"
  by (simp add: take_pool_event_def fixture_event_def)

text \<open>The only swap, when the transaction landed.\<close>

lemma fixture_swaps:
  assumes "mi_quote_mint info = QUOTE_MINT"
  shows "cpmm_tx_swaps fixture_ext fixture_tx [BASE_MINT \<mapsto> info] (fixture_program, fixture_config, fixture_message, fixture_meta) =
    [((fixture_swap, 4, 0), ''swap_base_input'', swap_target info POOL, Some (fixture_event, ''event''))]"
proof -
  have "tx_succeeded fixture_tx" by (simp add: tx_succeeded_def fixture_tx_parts fixture_meta_def)
  moreover have "m_log_messages fixture_meta = fixture_logs" by (simp add: fixture_meta_def)
  moreover have "ct_pool_address (swap_target info POOL) = POOL" by simp
  ultimately show ?thesis
    using assms swap_guards(1) [OF fixture_swap_accounts, of info 4 0]
    by (simp add: cpmm_tx_swaps_def fixture_accounts_of fixture_items fixture_events fixture_key_texts swap_event_log
          fixture_swap_event)
qed

text \<open>The amounts of the swap from its event.\<close>

lemma fixture_amounts:
  "cpmm_amounts_of (Some (fixture_event, source)) (swap_target info pool) dat =
     \<lparr>ca_is_buy = False, ca_token_amount = 4098714943283, ca_quote_amount = 120823636524,
      ca_market_cap = Some (cpmm_market_cap 7923428228813 269492128397846 (mi_total_supply info)),
      ca_base_reserves = Some 269492128397846, ca_quote_reserves = Some 7923428228813,
      ca_base_transfer_fee = Some 41401161044, ca_trade_fee = Some 10246787359, ca_creator_fee = Some 1220440773,
      ca_amount_source = source\<rparr>"
proof -
  have "cpmm_resolve_side fixture_event BASE_MINT =
      Some \<lparr>cs_is_buy = False, cs_base_amount = 4098714943283, cs_quote_amount = 120823636524,
        cs_base_reserve_after = 269492128397846, cs_quote_reserve_after = 7923428228813, cs_base_transfer_fee = 41401161044\<rparr>"
    by code_simp
  moreover have "ce_trade_fee fixture_event = 10246787359" "ce_creator_fee fixture_event = 1220440773"
    by (simp_all add: fixture_event_def)
  ultimately show ?thesis by (simp add: cpmm_amounts_of_def Let_def)
qed

lemma fixture_market_cap:
  "cpmm_market_cap 7923428228813 269492128397846 SUPPLY = ucast ((7923428228813 * ucast SUPPLY :: u128) div 269492128397846)"
  by code_simp

text \<open>The fields of the records that do not depend on the fees.\<close>

lemma cpmm_ctx_fields [simp]:
  "cc_tx_signature (cpmm_ctx X now tx slot inp) = x_bs58_encode X (tx_signature_bytes tx)"
  "cc_slot (cpmm_ctx X now tx slot inp) = slot" "cc_success (cpmm_ctx X now tx slot inp) = tx_succeeded tx"
  "cc_compute_units_consumed (cpmm_ctx X now tx slot (p, c, msg, meta)) = m_compute_units_consumed meta"
  by (simp_all add: cpmm_ctx_def Let_def split: prod.splits)

lemma records_live_cpmm_sell_from_fixture_passes: "records_live_cpmm_sell_from_fixture"
proof -
  have "tx_succeeded fixture_tx" by (simp add: tx_succeeded_def fixture_tx_parts fixture_meta_def)
  moreover have "m_compute_units_consumed fixture_meta \<noteq> None" by (simp add: fixture_meta_def)
  moreover have "STONK_PLATFORM_NAME = ''stonk_fun''" "RAYDIUM_CPMM_VENUE_NAME = ''raydium_cpmm''" by code_simp+
  ultimately show ?thesis
    unfolding records_live_cpmm_sell_from_fixture_def run_cpmm_eq [OF fixture_tx_parts(1,2)]
    using fixture_swaps [of "tracked_info None None"]
    by (simp add: cpmm_records_def record_of_swap_def alt_record_of_def fixture_amounts fixture_accounts_of
          fixture_tx_parts fixture_signature_text fixture_payer token_decimals_of_fixture fixture_market_cap fixture_texts_differ)
qed

definition alt_mints_quote_decimals_take_precedence_and_recorded_pool_is_trusted :: bool where
  "alt_mints_quote_decimals_take_precedence_and_recorded_pool_is_trusted \<longleftrightarrow>
     (case run_cpmm fixture_tx [BASE_MINT \<mapsto> tracked_info (Some POOL) (Some 8)] of
        Some [r] \<Rightarrow> ar_quote_decimals r = Some 8
      | _ \<Rightarrow> False)"

lemma alt_mints_quote_decimals_take_precedence_and_recorded_pool_is_trusted_passes:
  "alt_mints_quote_decimals_take_precedence_and_recorded_pool_is_trusted"
  unfolding alt_mints_quote_decimals_take_precedence_and_recorded_pool_is_trusted_def run_cpmm_eq [OF fixture_tx_parts(1,2)]
  using fixture_swaps [of "tracked_info (Some POOL) (Some 8)"]
  by (simp add: cpmm_records_def record_of_swap_def alt_record_of_def)

section \<open>Swaps that are dropped\<close>

text \<open>The transaction with another pool in the place of the migration pool.\<close>

definition foreign_pool_message :: message where
  "foreign_pool_message =
     (let pool_idx = the (position (\<lambda>k. k = fixture_pool) fixture_accounts)
      in fixture_message\<lparr>msg_account_keys := (msg_account_keys fixture_message)[pool_idx := fst fake_pool_key]\<rparr>)"

definition foreign_pool_tx :: tx_info where
  "foreign_pool_tx = fixture_tx\<lparr>tx_transaction := Some (Some foreign_pool_message)\<rparr>"

definition foreign_pool_accounts :: "bytes list" where
  "foreign_pool_accounts = fixture_accounts[5 := fst fake_pool_key]"

definition untracked_mint_wrong_quote_and_wrong_pool_are_dropped :: bool where
  "untracked_mint_wrong_quote_and_wrong_pool_are_dropped \<longleftrightarrow>
     run_cpmm fixture_tx Map.empty = Some [] \<and>
     run_cpmm fixture_tx [BASE_MINT \<mapsto> (tracked_info None None)\<lparr>mi_quote_mint := WSOL_MINT\<rparr>] = Some [] \<and>
     run_cpmm foreign_pool_tx [BASE_MINT \<mapsto> tracked_info None None] = Some [] \<and>
     (let full = msg_account_keys foreign_pool_message @ m_loaded_writable_addresses fixture_meta @ m_loaded_readonly_addresses fixture_meta;
          swap = the (find_swap foreign_pool_message fixture_meta);
          fake_pool = x_bs58_encode fixture_ext (full ! unat (ci_accounts swap ! CPMM_SWAP_POOL_STATE_IX_POS))
      in case run_cpmm foreign_pool_tx [BASE_MINT \<mapsto> tracked_info (Some fake_pool) None] of
           Some [r] \<Rightarrow> ar_amount_source r = ''vault_balances'' \<and> ar_token_amount r = 4098714943283 \<and>
             ar_quote_amount r = 120823636524
         | _ \<Rightarrow> False)"

lemma foreign_pool_pieces:
  "cpmm_accounts (fixture_program, fixture_config, foreign_pool_message, fixture_meta) = foreign_pool_accounts"
  "cpmm_items (fixture_program, fixture_config, foreign_pool_message, fixture_meta) = [(fixture_swap, 4, 0)]"
  "find_swap foreign_pool_message fixture_meta = Some fixture_swap"
  "x_bs58_encode fixture_ext (foreign_pool_accounts ! unat (ci_accounts fixture_swap ! CPMM_SWAP_POOL_STATE_IX_POS)) = ''fake-pool''"
  by code_simp+

lemma foreign_pool_guards:
  "instruction_account_pubkey fixture_swap foreign_pool_accounts CPMM_SWAP_AMM_CONFIG_IX_POS = Some fixture_config"
  "instruction_account_pubkey fixture_swap foreign_pool_accounts CPMM_SWAP_POOL_STATE_IX_POS = Some (fst fake_pool_key)"
  "instruction_account_pubkey fixture_swap foreign_pool_accounts CPMM_SWAP_INPUT_MINT_IX_POS = Some fixture_base"
  "instruction_account_pubkey fixture_swap foreign_pool_accounts CPMM_SWAP_OUTPUT_MINT_IX_POS = Some fixture_quote"
  by code_simp+

definition fallback_event :: cpmm_swap_event where
  "fallback_event = \<lparr>ce_pool_id = ''fake-pool'', ce_input_vault_before = 265659717775167, ce_output_vault_before = 8078689827599,
     ce_input_amount = 4098714943283, ce_output_amount = 120823636524, ce_input_transfer_fee = 0,
     ce_output_transfer_fee = 0, ce_base_input = True, ce_input_mint = BASE_MINT, ce_output_mint = QUOTE_MINT,
     ce_trade_fee = 0, ce_creator_fee = 0, ce_creator_fee_on_input = False\<rparr>"

lemma foreign_pool_fallback:
  "vault_index fixture_swap foreign_pool_accounts CPMM_SWAP_INPUT_VAULT_IX_POS = Some 7"
  "vault_index fixture_swap foreign_pool_accounts CPMM_SWAP_OUTPUT_VAULT_IX_POS = Some 8"
  "cpmm_swap_from_vault_balances fixture_meta ''fake-pool'' 7 8 BASE_MINT QUOTE_MINT = Some fallback_event"
  "find_event_data fixture_meta 4 0 (ci_program_id_index fixture_swap) CPMM_SWAP_EVENT_DISC = Some None"
  by code_simp+

lemma foreign_pool_event:
  "swap_event fixture_ext fixture_meta foreign_pool_accounts (fixture_swap, 4, 0) (swap_target info ''fake-pool'') [fixture_event] =
   Some (Some (fallback_event, ''vault_balances''), [fixture_event])"
proof -
  have "ce_pool_id fixture_event \<noteq> ''fake-pool''" by code_simp
  then have "take_pool_event ''fake-pool'' [fixture_event] = None" by (simp add: take_pool_event_def)
  then show ?thesis
    using foreign_pool_fallback by (simp add: swap_event_def vault_fallback_def del: constants)
qed

lemma foreign_pool_tx_parts:
  "tx_transaction foreign_pool_tx = Some (Some foreign_pool_message)" "tx_meta foreign_pool_tx = Some fixture_meta"
  by (simp_all add: foreign_pool_tx_def fixture_tx_parts)

lemma foreign_pool_swaps:
  "cpmm_tx_swaps fixture_ext foreign_pool_tx [BASE_MINT \<mapsto> tracked_info recorded None]
     (fixture_program, fixture_config, foreign_pool_message, fixture_meta) =
   (if recorded = Some ''fake-pool''
    then [((fixture_swap, 4, 0), ''swap_base_input'', swap_target (tracked_info recorded None) ''fake-pool'',
           Some (fallback_event, ''vault_balances''))]
    else [])"
proof -
  have "tx_succeeded foreign_pool_tx" by (simp add: tx_succeeded_def foreign_pool_tx_parts fixture_meta_def)
  moreover have "m_log_messages fixture_meta = fixture_logs" by (simp add: fixture_meta_def)
  ultimately show ?thesis
    using swap_guards(1) [OF foreign_pool_guards, of "tracked_info recorded None" 4 0] fixture_texts_differ(7)
    by (simp add: cpmm_tx_swaps_def foreign_pool_pieces fixture_events fixture_key_texts foreign_pool_event)
qed

lemma fallback_amounts:
  "ca_token_amount (cpmm_amounts_of (Some (fallback_event, source)) (swap_target info pool) dat) = 4098714943283"
  "ca_quote_amount (cpmm_amounts_of (Some (fallback_event, source)) (swap_target info pool) dat) = 120823636524"
  "ca_amount_source (cpmm_amounts_of (Some (fallback_event, source)) (swap_target info pool) dat) = source"
proof -
  have "cpmm_resolve_side fallback_event BASE_MINT =
      Some \<lparr>cs_is_buy = False, cs_base_amount = 4098714943283, cs_quote_amount = 120823636524,
        cs_base_reserve_after = 269758432718450, cs_quote_reserve_after = 7957866191075, cs_base_transfer_fee = 0\<rparr>"
    by code_simp
  then show "ca_token_amount (cpmm_amounts_of (Some (fallback_event, source)) (swap_target info pool) dat) = 4098714943283"
    "ca_quote_amount (cpmm_amounts_of (Some (fallback_event, source)) (swap_target info pool) dat) = 120823636524"
    "ca_amount_source (cpmm_amounts_of (Some (fallback_event, source)) (swap_target info pool) dat) = source"
    by (simp_all add: cpmm_amounts_of_def Let_def)
qed

lemma untracked_mint_wrong_quote_and_wrong_pool_are_dropped_passes:
  "untracked_mint_wrong_quote_and_wrong_pool_are_dropped"
proof -
  note run = run_cpmm_eq [OF fixture_tx_parts(1,2)] run_cpmm_eq [OF foreign_pool_tx_parts]
  have 1: "run_cpmm fixture_tx Map.empty = Some []"
    unfolding run using swap_guards(2) [OF fixture_swap_accounts]
    by (simp add: cpmm_records_def cpmm_tx_swaps_def fixture_accounts_of fixture_items)
  have 2: "run_cpmm fixture_tx [BASE_MINT \<mapsto> (tracked_info None None)\<lparr>mi_quote_mint := WSOL_MINT\<rparr>] = Some []"
    unfolding run using swap_guards(1) [OF fixture_swap_accounts, of "(tracked_info None None)\<lparr>mi_quote_mint := WSOL_MINT\<rparr>"]
      fixture_texts_differ(4)
    by (simp add: cpmm_records_def cpmm_tx_swaps_def fixture_accounts_of fixture_items)
  have 3: "run_cpmm foreign_pool_tx [BASE_MINT \<mapsto> tracked_info None None] = Some []"
    unfolding run by (simp add: cpmm_records_def foreign_pool_swaps)
  have 4: "run_cpmm foreign_pool_tx [BASE_MINT \<mapsto> tracked_info (Some ''fake-pool'') None] =
      Some (alt_numbered fixture_ext (cpmm_ctx fixture_ext 0 foreign_pool_tx 446404878 (fixture_program, fixture_config, foreign_pool_message, fixture_meta))
        fixture_meta foreign_pool_accounts 0
        [((fixture_swap, 4, 0), ''swap_base_input'', swap_target (tracked_info (Some ''fake-pool'') None) ''fake-pool'',
           Some (fallback_event, ''vault_balances''))])"
    unfolding run by (simp add: cpmm_records_def foreign_pool_swaps foreign_pool_pieces)
  have 5: "msg_account_keys foreign_pool_message @ m_loaded_writable_addresses fixture_meta @ m_loaded_readonly_addresses fixture_meta =
      foreign_pool_accounts"
    using foreign_pool_pieces(1) by (simp add: cpmm_accounts_def)
  show ?thesis
    unfolding untracked_mint_wrong_quote_and_wrong_pool_are_dropped_def Let_def 5 foreign_pool_pieces(3) option.sel
      foreign_pool_pieces(4) 4
    using 1 2 3 by (simp add: record_of_swap_def alt_record_of_def fallback_amounts)
qed

section \<open>Failed and repeated swaps\<close>

definition failed_fixture_tx :: tx_info where
  "failed_fixture_tx = fixture_tx\<lparr>tx_meta := Some (fixture_meta\<lparr>m_err := Some [1]\<rparr>)\<rparr>"

definition failed_tx_keeps_requested_amounts_and_no_market_cap :: bool where
  "failed_tx_keeps_requested_amounts_and_no_market_cap \<longleftrightarrow>
     (case run_cpmm failed_fixture_tx [BASE_MINT \<mapsto> tracked_info None (Some 8)] of
        Some [r] \<Rightarrow>
          \<not> ar_success r \<and> ar_amount_source r = ''instruction_request'' \<and> \<not> ar_is_buy r \<and>
          ar_market_cap r = None \<and> ar_base_reserves r = None \<and>
          (case do { swap \<leftarrow> find_swap fixture_message fixture_meta;
                     amount_in \<leftarrow> slice_index (ci_data swap) 8 16;
                     min_out \<leftarrow> slice_index (ci_data swap) 16 24;
                     Some (from_le_bytes amount_in :: u64, from_le_bytes min_out :: u64) } of
             Some (amount_in, min_out) \<Rightarrow>
               ar_token_amount r = amount_in \<and> ar_quote_amount r = min_out \<and>
               amount_in = 4098714943283 + 41401161044
           | None \<Rightarrow> False)
      | _ \<Rightarrow> False)"

lemma failed_pieces:
  "cpmm_items (fixture_program, fixture_config, fixture_message, fixture_meta\<lparr>m_err := Some [1]\<rparr>) = [(fixture_swap, 4, 0)]"
  "find_swap fixture_message fixture_meta = Some fixture_swap"
  "slice_get (ci_data fixture_swap) 8 16 = Some (to_le_bytes 8 (4140116104327 :: u64))"
  "slice_get (ci_data fixture_swap) 16 24 = Some (to_le_bytes 8 (75293812898 :: u64))"
  by code_simp+

lemma failed_tx_keeps_requested_amounts_and_no_market_cap_passes:
  "failed_tx_keeps_requested_amounts_and_no_market_cap"
proof -
  let ?meta = "fixture_meta\<lparr>m_err := Some [1]\<rparr>"
  have parts: "tx_transaction failed_fixture_tx = Some (Some fixture_message)" "tx_meta failed_fixture_tx = Some ?meta"
    by (simp_all add: failed_fixture_tx_def fixture_tx_parts)
  have acc: "cpmm_accounts (fixture_program, fixture_config, fixture_message, ?meta) = fixture_accounts"
    using fixture_accounts_of by (simp add: cpmm_accounts_def)
  have failed: "\<not> tx_succeeded failed_fixture_tx" by (simp add: tx_succeeded_def parts)
  have swaps: "cpmm_tx_swaps fixture_ext failed_fixture_tx [BASE_MINT \<mapsto> tracked_info None (Some 8)]
      (fixture_program, fixture_config, fixture_message, ?meta) =
      [((fixture_swap, 4, 0), ''swap_base_input'', swap_target (tracked_info None (Some 8)) POOL, None)]"
    using failed swap_guards(1) [OF fixture_swap_accounts, of "tracked_info None (Some 8)" 4 0]
    by (simp add: cpmm_tx_swaps_def acc failed_pieces fixture_key_texts)
  show ?thesis
    unfolding failed_tx_keeps_requested_amounts_and_no_market_cap_def run_cpmm_eq [OF parts]
    using failed fixture_swap_data(4)
    by (simp add: cpmm_records_def swaps acc record_of_swap_def alt_record_of_def cpmm_amounts_of_def requested_cpmm_amounts_def
          failed_pieces from_le_bytes_to_le_bytes)
qed

text \<open>A second swap on the same pool, as a CPI of the instruction before the first one. Its event is the recorded one; the
  event of the top-level swap is appended to the logs.\<close>

definition second_swap_payload :: "bytes may_panic" where
  "second_swap_payload = do {
     body \<leftarrow> copy_into 0 fixture_pool (replicate 162 0);
     body \<leftarrow> copy_into 32 (to_le_bytes 8 (ce_input_vault_before fixture_event + ce_input_amount fixture_event)) body;
     body \<leftarrow> copy_into 40 (to_le_bytes 8 (ce_output_vault_before fixture_event - ce_output_amount fixture_event)) body;
     body \<leftarrow> copy_into 48 (to_le_bytes 8 (1000 :: u64)) body;
     body \<leftarrow> copy_into 56 (to_le_bytes 8 (30 :: u64)) body;
     body \<leftarrow> copy_into 80 [1] body;
     body \<leftarrow> copy_into 81 fixture_base body;
     body \<leftarrow> copy_into 113 fixture_quote body;
     Some (CPMM_SWAP_EVENT_DISC @ body) }"

text \<open>The appended log line carries the base64 of that payload.\<close>

lemma second_swap_encoded: "x_base64_decode fixture_ext second_swap_data = second_swap_payload"
  by code_simp

definition multi_swap_meta :: transaction_status_meta where
  "multi_swap_meta =
     (let swap_ix = the (find_swap fixture_message fixture_meta);
          top_idx = the (position (\<lambda>i. is_swap_base_input (ci_data i)) (msg_instructions fixture_message));
          parent = top_idx - 1;
          blocks = m_inner_instructions fixture_meta;
          b = the (position (\<lambda>b. unat (block_index b) = parent) blocks);
          copied = \<lparr>ii_program_id_index = ci_program_id_index swap_ix, ii_accounts = ci_accounts swap_ix,
                    ii_data = ci_data swap_ix, ii_stack_height = Some 2\<rparr>
      in fixture_meta
           \<lparr>m_inner_instructions := blocks[b := (blocks ! b)\<lparr>block_instructions := block_instructions (blocks ! b) @ [copied]\<rparr>],
            m_log_messages := m_log_messages fixture_meta @ [''Program data: '' @ second_swap_data]\<rparr>)"

definition multi_swap_tx :: tx_info where
  "multi_swap_tx = fixture_tx\<lparr>tx_meta := Some multi_swap_meta\<rparr>"

definition multi_swap_tx_matches_events_in_execution_order :: bool where
  "multi_swap_tx_matches_events_in_execution_order \<longleftrightarrow>
     (let first = cpmm_swap_events_from_logs fixture_ext fixture_logs ! 0
      in case run_cpmm multi_swap_tx [BASE_MINT \<mapsto> tracked_info None (Some 8)] of
           Some [r0, r1] \<Rightarrow>
             ar_is_cpi r0 \<and> ar_ix_index r0 = 0 \<and> ar_amount_source r0 = ''event'' \<and> ar_token_amount r0 = 4098714943283 \<and>
             \<not> ar_is_cpi r1 \<and> ar_ix_index r1 = 1 \<and> ar_amount_source r1 = ''event'' \<and> ar_token_amount r1 = 1000 \<and>
             ar_quote_amount r1 = 30 \<and>
             ar_base_reserves r1 = Some (ce_input_vault_before first + ce_input_amount first + 1000)
         | _ \<Rightarrow> False)"

definition second_event :: cpmm_swap_event where
  "second_event = \<lparr>ce_pool_id = POOL, ce_input_vault_before = 269492128397846, ce_output_vault_before = 7923428228813,
     ce_input_amount = 1000, ce_output_amount = 30, ce_input_transfer_fee = 0, ce_output_transfer_fee = 0,
     ce_base_input = True, ce_input_mint = BASE_MINT, ce_output_mint = QUOTE_MINT, ce_trade_fee = 0, ce_creator_fee = 0,
     ce_creator_fee_on_input = False\<rparr>"

lemma multi_swap_pieces:
  "cpmm_items (fixture_program, fixture_config, fixture_message, multi_swap_meta) = [(fixture_swap, 3, 12), (fixture_swap, 4, 0)]"
  "m_log_messages multi_swap_meta = fixture_logs @ [''Program data: '' @ second_swap_data]"
  "m_loaded_writable_addresses multi_swap_meta = m_loaded_writable_addresses fixture_meta"
  "m_loaded_readonly_addresses multi_swap_meta = m_loaded_readonly_addresses fixture_meta"
  "m_err multi_swap_meta = None"
  by (code_simp, simp_all add: multi_swap_meta_def Let_def fixture_meta_def)

lemma multi_swap_events:
  "cpmm_swap_events_from_logs fixture_ext (fixture_logs @ [''Program data: '' @ second_swap_data]) = [fixture_event, second_event]"
proof -
  have append: "cpmm_swap_events_from_logs X (xs @ ys) = cpmm_swap_events_from_logs X xs @ cpmm_swap_events_from_logs X ys" for X xs ys
    by (simp add: cpmm_swap_events_from_logs_def List.map_filter_def)
  have "cpmm_swap_events_from_logs fixture_ext [''Program data: '' @ second_swap_data] = [second_event]" by code_simp
  then show ?thesis by (simp only: append fixture_events append_Cons append_Nil)
qed

lemma multi_swap_tx_matches_events_in_execution_order_passes: "multi_swap_tx_matches_events_in_execution_order"
proof -
  let ?info = "tracked_info None (Some 8)"
  have parts: "tx_transaction multi_swap_tx = Some (Some fixture_message)" "tx_meta multi_swap_tx = Some multi_swap_meta"
    by (simp_all add: multi_swap_tx_def fixture_tx_parts)
  have acc: "cpmm_accounts (fixture_program, fixture_config, fixture_message, multi_swap_meta) = fixture_accounts"
    using fixture_accounts_of multi_swap_pieces by (simp add: cpmm_accounts_def)
  have ok: "tx_succeeded multi_swap_tx" by (simp add: tx_succeeded_def parts multi_swap_pieces)
  have take: "take_pool_event POOL [fixture_event, second_event] = Some (fixture_event, [second_event])"
    "take_pool_event POOL [second_event] = Some (second_event, [])"
    by (simp_all add: take_pool_event_def fixture_event_def second_event_def)
  have events: "cpmm_swap_events_from_logs fixture_ext (m_log_messages multi_swap_meta) = [fixture_event, second_event]"
    unfolding multi_swap_pieces(2) by (rule multi_swap_events)
  have swaps: "cpmm_tx_swaps fixture_ext multi_swap_tx [BASE_MINT \<mapsto> ?info]
      (fixture_program, fixture_config, fixture_message, multi_swap_meta) =
      [((fixture_swap, 3, 12), ''swap_base_input'', swap_target ?info POOL, Some (fixture_event, ''event'')),
       ((fixture_swap, 4, 0), ''swap_base_input'', swap_target ?info POOL, Some (second_event, ''event''))]"
    using ok swap_guards(1) [OF fixture_swap_accounts, of ?info]
    by (simp add: cpmm_tx_swaps_def acc multi_swap_pieces(1) events fixture_key_texts swap_event_log take)
  have side: "cpmm_resolve_side second_event BASE_MINT =
      Some \<lparr>cs_is_buy = False, cs_base_amount = 1000, cs_quote_amount = 30, cs_base_reserve_after = 269492128398846,
        cs_quote_reserve_after = 7923428228783, cs_base_transfer_fee = 0\<rparr>" by code_simp
  have second: "ca_token_amount (cpmm_amounts_of (Some (second_event, source)) (swap_target info pool) dat) = 1000"
    "ca_quote_amount (cpmm_amounts_of (Some (second_event, source)) (swap_target info pool) dat) = 30"
    "ca_base_reserves (cpmm_amounts_of (Some (second_event, source)) (swap_target info pool) dat) = Some 269492128398846"
    "ca_amount_source (cpmm_amounts_of (Some (second_event, source)) (swap_target info pool) dat) = source" for source info pool dat
    by (simp_all add: cpmm_amounts_of_def side Let_def)
  have first: "ce_input_vault_before fixture_event + ce_input_amount fixture_event + 1000 = 269492128398846" by code_simp
  show ?thesis
    unfolding multi_swap_tx_matches_events_in_execution_order_def run_cpmm_eq [OF parts] fixture_events
    using first
    by (simp add: cpmm_records_def swaps acc record_of_swap_def alt_record_of_def fixture_amounts second)
qed

end
