(* ===== verification/TaskTests.thy ===== *)
theory TaskTests
  imports Trades Grpc
begin

text \<open>
  The unit tests of \<open>src/src/database/trades.rs\<close> and \<open>src/src/grpc/connection.rs\<close>.
\<close>

definition trade :: "string \<Rightarrow> i32 \<Rightarrow> u64 \<Rightarrow> trade_record" where
  "trade tx_signature ix_index token_amount =
     \<lparr>tr_tx_signature = tx_signature, tr_ix_index = ix_index, tr_pool_address = ''pool'', tr_mint_address = ''mint'',
      tr_quote_mint_address = ''quote'', tr_instruction_type = ''buy'', tr_amount_source = ''event'', tr_is_cpi = False,
      tr_user_pubkey = ''user'', tr_is_buy = True, tr_token_amount = token_amount, tr_sol_amount = 1,
      tr_market_cap = Some 1, tr_is_usdc = False, tr_success = True, tr_slot = 1, tr_created_at = 0,
      tr_priority_fee = None, tr_transfer_tip = None, tr_tip_provider = None, tr_compute_units_consumed = None,
      tr_lamports_per_compute_unit = None\<rparr>"

definition coalesces_duplicate_upsert_keys_and_keeps_latest_delivery :: bool where
  "coalesces_duplicate_upsert_keys_and_keeps_latest_delivery \<longleftrightarrow>
     (let trades = [trade ''same'' 0 10, trade ''other'' 0 20, trade ''same'' 0 30, trade ''same'' 1 40]
      in case coalesce_duplicate_rows (\<lambda>t. (tr_tx_signature t, tr_ix_index t)) trades of
           Some unique \<Rightarrow> length unique = 3 \<and>
             tr_tx_signature (unique ! 0) = ''same'' \<and> tr_ix_index (unique ! 0) = 0 \<and> tr_token_amount (unique ! 0) = 30 \<and>
             tr_tx_signature (unique ! 1) = ''other'' \<and> tr_ix_index (unique ! 2) = 1
         | None \<Rightarrow> False)"

lemma coalesces_duplicate_upsert_keys_and_keeps_latest_delivery_passes:
  "coalesces_duplicate_upsert_keys_and_keeps_latest_delivery"
  by code_simp

definition out_of_range_replay_is_reported :: bool where
  "out_of_range_replay_is_reported \<longleftrightarrow>
     (let handler = (\<lambda>_ _ s. Some (Inr (), s)) :: (unit, unit) tx_handler
      in case process_stream handler [Inl OutOfRange] () of
           Some (ended, _) \<Rightarrow> se_replay_unavailable ended \<and> se_last_processed_slot ended = None
         | None \<Rightarrow> False)"

lemma out_of_range_replay_is_reported_passes: "out_of_range_replay_is_reported"
  by (simp add: out_of_range_replay_is_reported_def process_stream_def)

end
