(* ===== verification/Json.thy ===== *)
theory Json
  imports Wire
begin

text \<open>
  JSON values (\<open>serde_json::Value\<close>) as the tests read them, and the conversion of an RPC response to the message of the stream
  (\<open>src/src/test_support.rs\<close>). Numbers are the integers the tests read; parsing a text is left to the crate.
\<close>

section \<open>Values\<close>

datatype json = Null | Bool bool | Num int | Str string | Arr "json list" | Obj "(string \<times> json) list"

text \<open>\<open>value[key]\<close>: a missing key and a value that is no object give \<open>Null\<close>.\<close>
definition field_of :: "json \<Rightarrow> string \<Rightarrow> json" where
  "field_of v k = (case v of Obj kvs \<Rightarrow> (case map_of kvs k of Some x \<Rightarrow> x | None \<Rightarrow> Null) | _ \<Rightarrow> Null)"

text \<open>\<open>value[index]\<close>\<close>
definition item_of :: "json \<Rightarrow> nat \<Rightarrow> json" where
  "item_of v i = (case v of Arr xs \<Rightarrow> (case vec_get xs i of Some x \<Rightarrow> x | None \<Rightarrow> Null) | _ \<Rightarrow> Null)"

text \<open>\<open>value.get(key)\<close>\<close>
definition json_get :: "json \<Rightarrow> string \<Rightarrow> json option" where
  "json_get v k = (case v of Obj kvs \<Rightarrow> map_of kvs k | _ \<Rightarrow> None)"

definition as_array :: "json \<Rightarrow> json list option" where
  "as_array v = (case v of Arr xs \<Rightarrow> Some xs | _ \<Rightarrow> None)"

definition as_str :: "json \<Rightarrow> string option" where
  "as_str v = (case v of Str s \<Rightarrow> Some s | _ \<Rightarrow> None)"

definition as_u64 :: "json \<Rightarrow> u64 option" where
  "as_u64 v = (case v of Num n \<Rightarrow> (if 0 \<le> n \<and> n < 2 ^ 64 then Some (word_of_int n) else None) | _ \<Rightarrow> None)"

definition is_null :: "json \<Rightarrow> bool" where
  "is_null v \<longleftrightarrow> v = Null"

lemma field_of_Obj [simp]: "field_of (Obj kvs) k = (case map_of kvs k of Some x \<Rightarrow> x | None \<Rightarrow> Null)"
  by (simp add: field_of_def)

lemma json_simps [simp]:
  "as_array (Arr xs) = Some xs" "as_array Null = None" "as_str (Str s) = Some s" "as_str Null = None"
  "item_of (Arr (x # xs)) 0 = x" "as_u64 Null = None" "is_null Null" "\<not> is_null (Obj kvs)"
  by (simp_all add: as_array_def as_str_def item_of_def as_u64_def is_null_def)

section \<open>The conversion\<close>

text \<open>\<open>b58 = bs58::decode(..).into_vec().unwrap()\<close>; the decoder is the parameter \<open>decode\<close>.\<close>

definition b58_of :: "(string \<Rightarrow> bytes option) \<Rightarrow> json \<Rightarrow> bytes may_panic" where
  "b58_of decode v = do { s \<leftarrow> as_str v; decode s }"

text \<open>The closure \<open>compiled\<close>.\<close>
definition compiled_of_json :: "(string \<Rightarrow> bytes option) \<Rightarrow> json \<Rightarrow> compiled_instruction may_panic" where
  "compiled_of_json decode ix = do {
     program \<leftarrow> as_u64 (field_of ix ''programIdIndex'');
     accounts \<leftarrow> as_array (field_of ix ''accounts'');
     accounts \<leftarrow> map_may_panic (\<lambda>a. do { a \<leftarrow> as_u64 a; Some (ucast a :: u8) }) accounts;
     dat \<leftarrow> b58_of decode (field_of ix ''data'');
     Some \<lparr>ci_program_id_index = ucast program, ci_accounts = accounts, ci_data = dat\<rparr> }"

definition inner_of_json :: "(string \<Rightarrow> bytes option) \<Rightarrow> json \<Rightarrow> inner_instruction may_panic" where
  "inner_of_json decode ix = do {
     c \<leftarrow> compiled_of_json decode ix;
     Some \<lparr>ii_program_id_index = ci_program_id_index c, ii_accounts = ci_accounts c, ii_data = ci_data c,
       ii_stack_height = map_option (\<lambda>h. ucast h :: u32) (as_u64 (field_of ix ''stackHeight''))\<rparr> }"

definition block_of_json :: "(string \<Rightarrow> bytes option) \<Rightarrow> json \<Rightarrow> inner_instructions may_panic" where
  "block_of_json decode g = do {
     index \<leftarrow> as_u64 (field_of g ''index'');
     ixs \<leftarrow> as_array (field_of g ''instructions'');
     ixs \<leftarrow> map_may_panic (inner_of_json decode) ixs;
     Some \<lparr>block_index = ucast index, block_instructions = ixs\<rparr> }"

text \<open>\<open>value.as_array().map(..).unwrap_or_default()\<close>\<close>
definition items_or_default :: "(json \<Rightarrow> 'a may_panic) \<Rightarrow> json \<Rightarrow> 'a list may_panic" where
  "items_or_default f v = (case as_array v of Some xs \<Rightarrow> map_may_panic f xs | None \<Rightarrow> Some [])"

text \<open>The closures \<open>loaded\<close>, \<open>token_balances\<close> and \<open>balances\<close>, on the value they look up.\<close>

definition token_balance_of_json :: "json \<Rightarrow> token_balance may_panic" where
  "token_balance_of_json b = do {
     let u = field_of b ''uiTokenAmount'';
     index \<leftarrow> as_u64 (field_of b ''accountIndex'');
     mint \<leftarrow> as_str (field_of b ''mint'');
     decimals \<leftarrow> as_u64 (field_of u ''decimals'');
     amount \<leftarrow> as_str (field_of u ''amount'');
     Some \<lparr>tb_account_index = ucast index, tb_mint = mint,
       tb_ui_token_amount = Some \<lparr>uta_amount = amount, uta_decimals = ucast decimals\<rparr>\<rparr> }"

text \<open>\<open>v.get("result").cloned().unwrap_or(v)\<close>\<close>
definition result_of :: "json \<Rightarrow> json" where
  "result_of v = (case json_get v ''result'' of Some t \<Rightarrow> t | None \<Rightarrow> v)"

definition rpc_json_to_grpc :: "(string \<Rightarrow> bytes option) \<Rightarrow> json \<Rightarrow> (tx_info \<times> u64) may_panic" where
  "rpc_json_to_grpc decode v = do {
     let t = result_of v;
     slot \<leftarrow> as_u64 (field_of t ''slot'');
     let msg = field_of (field_of t ''transaction'') ''message'';
     let meta = field_of t ''meta'';
     instructions \<leftarrow> as_array (field_of msg ''instructions'');
     instructions \<leftarrow> map_may_panic (compiled_of_json decode) instructions;
     inner_instructions \<leftarrow> items_or_default (block_of_json decode) (field_of meta ''innerInstructions'');
     signature \<leftarrow> b58_of decode (item_of (field_of (field_of t ''transaction'') ''signatures'') 0);
     keys \<leftarrow> as_array (field_of msg ''accountKeys'');
     keys \<leftarrow> map_may_panic (b58_of decode) keys;
     pre_balances \<leftarrow> items_or_default as_u64 (field_of meta ''preBalances'');
     post_balances \<leftarrow> items_or_default as_u64 (field_of meta ''postBalances'');
     pre_token_balances \<leftarrow> items_or_default token_balance_of_json (field_of meta ''preTokenBalances'');
     post_token_balances \<leftarrow> items_or_default token_balance_of_json (field_of meta ''postTokenBalances'');
     writable \<leftarrow> items_or_default (b58_of decode) (field_of (field_of meta ''loadedAddresses'') ''writable'');
     readonly \<leftarrow> items_or_default (b58_of decode) (field_of (field_of meta ''loadedAddresses'') ''readonly'');
     Some (\<lparr>tx_signature_bytes = signature,
         tx_transaction = Some (Some \<lparr>msg_account_keys = keys, msg_instructions = instructions\<rparr>),
         tx_meta = Some \<lparr>m_err = (if is_null (field_of meta ''err'') then None else Some [1]),
           m_inner_instructions = inner_instructions, m_loaded_writable_addresses = writable,
           m_loaded_readonly_addresses = readonly, m_pre_balances = pre_balances, m_post_balances = post_balances,
           m_pre_token_balances = pre_token_balances, m_post_token_balances = post_token_balances, m_log_messages = [],
           m_compute_units_consumed = as_u64 (field_of meta ''computeUnitsConsumed'')\<rparr>\<rparr>, slot) }"

section \<open>Decoding with tables\<close>

text \<open>Base58 on the texts of one transaction: a table of keys, then a table of data. That no text occurs twice is read off a
  projection of the texts, which is cheap to evaluate.\<close>

definition table_decode :: "(bytes \<times> string) list \<Rightarrow> (string \<times> bytes) list \<Rightarrow> string \<Rightarrow> bytes option" where
  "table_decode keys dat s = (case map_of (map prod.swap keys) s of Some k \<Rightarrow> Some k | None \<Rightarrow> map_of dat s)"

definition text_mark :: "string \<Rightarrow> string" where
  "text_mark s = take 6 s @ take 2 (drop 68 s)"

lemma map_of_swap:
  assumes "distinct (map snd kvs)" "p \<in> set kvs"
  shows "map_of (map prod.swap kvs) (snd p) = Some (fst p)"
proof (rule map_of_is_SomeI)
  show "distinct (map fst (map prod.swap kvs))" using assms(1) by (simp add: comp_def)
  show "(snd p, fst p) \<in> set (map prod.swap kvs)" using imageI [OF assms(2), of prod.swap] by (simp add: prod.swap_def)
qed

lemma table_decode_key:
  assumes "distinct (map text_mark (map snd keys @ map fst dat))" "p \<in> set keys"
  shows "table_decode keys dat (snd p) = Some (fst p)"
proof -
  have "distinct (map snd keys @ map fst dat)" using assms(1) by (simp only: distinct_map)
  then have "distinct (map snd keys)" by simp
  from map_of_swap [OF this assms(2)] show ?thesis by (simp add: table_decode_def)
qed

lemma table_decode_data:
  assumes "distinct (map text_mark (map snd keys @ map fst dat))" "(t, d) \<in> set dat"
  shows "table_decode keys dat t = Some d"
proof -
  have d: "distinct (map snd keys @ map fst dat)" using assms(1) by (simp only: distinct_map)
  then have "t \<notin> set (map snd keys)" "distinct (map fst dat)"
    using imageI [OF assms(2), of fst] unfolding distinct_append set_map fst_conv by blast+
  moreover from this(1) have "map_of (map prod.swap keys) t = None"
    unfolding map_of_eq_None_iff set_map image_image fst_swap .
  ultimately show ?thesis using map_of_is_SomeI [OF _ assms(2)] by (simp add: table_decode_def)
qed

lemma table_decode_all:
  assumes "distinct (map text_mark (map snd keys @ map fst dat))"
  shows "list_all (\<lambda>(b, t). table_decode keys dat t = Some b) keys" "list_all (\<lambda>(t, d). table_decode keys dat t = Some d) dat"
  using table_decode_key [OF assms] table_decode_data [OF assms] by (auto simp: list_all_iff)

lemma table_decode_keys:
  assumes "distinct (map text_mark (map snd keys @ map fst dat))" "set ps \<subseteq> set keys"
  shows "map_may_panic (b58_of (table_decode keys dat)) (map (Str \<circ> snd) ps) = Some (map fst ps)"
  using assms(2) by (induction ps) (simp_all add: b58_of_def table_decode_key [OF assms(1)])

lemma table_text_all:
  assumes "distinct (map (take 8) (map fst kvs))"
  shows "list_all (\<lambda>(b, t). map_of (kvs @ rest) b = Some t) kvs"
proof -
  have "distinct (map fst kvs)" using assms by (simp only: distinct_map)
  then show ?thesis by (auto simp: list_all_iff map_of_append intro!: map_add_find_right map_of_is_SomeI)
qed

lemma as_str_all: "map_may_panic as_str (map (Str \<circ> snd) ps) = Some (map snd ps)"
  by (induction ps) simp_all

lemma sublist_keys: "set (take n ps) \<subseteq> set ps" "set (drop n ps) \<subseteq> set ps" "set (take n (drop k ps)) \<subseteq> set ps"
  by (auto dest: in_set_takeD in_set_dropD)

text \<open>What the readers unfold to.\<close>
lemmas json_parts = field_of_def item_of_def json_get_def as_array_def as_str_def as_u64_def is_null_def vec_get_def

section \<open>Round trip\<close>

text \<open>A response in the form of \<open>getTransaction\<close> for a message, with base58 texts made by \<open>encode\<close>.\<close>

definition json_of_bytes :: "(bytes \<Rightarrow> string) \<Rightarrow> bytes \<Rightarrow> json" where
  "json_of_bytes encode b = Str (encode b)"

definition json_of_word :: "'a::len word \<Rightarrow> json" where
  "json_of_word w = Num (uint w)"

definition json_of_option :: "('a \<Rightarrow> json) \<Rightarrow> 'a option \<Rightarrow> json" where
  "json_of_option f x = (case x of None \<Rightarrow> Null | Some a \<Rightarrow> f a)"

definition json_of_compiled :: "(bytes \<Rightarrow> string) \<Rightarrow> compiled_instruction \<Rightarrow> (string \<times> json) list" where
  "json_of_compiled encode ix =
     [(''accounts'', Arr (map json_of_word (ci_accounts ix))), (''data'', json_of_bytes encode (ci_data ix)),
      (''programIdIndex'', json_of_word (ci_program_id_index ix))]"

definition json_of_inner :: "(bytes \<Rightarrow> string) \<Rightarrow> inner_instruction \<Rightarrow> json" where
  "json_of_inner encode ix =
     Obj (json_of_compiled encode \<lparr>ci_program_id_index = ii_program_id_index ix, ci_accounts = ii_accounts ix, ci_data = ii_data ix\<rparr> @
       [(''stackHeight'', json_of_option json_of_word (ii_stack_height ix))])"

definition json_of_block :: "(bytes \<Rightarrow> string) \<Rightarrow> inner_instructions \<Rightarrow> json" where
  "json_of_block encode b =
     Obj [(''index'', json_of_word (block_index b)), (''instructions'', Arr (map (json_of_inner encode) (block_instructions b)))]"

definition json_of_token_balance :: "token_balance \<Rightarrow> json" where
  "json_of_token_balance b = (let u = the (tb_ui_token_amount b) in
     Obj [(''accountIndex'', json_of_word (tb_account_index b)), (''mint'', Str (tb_mint b)),
       (''uiTokenAmount'', Obj [(''amount'', Str (uta_amount u)), (''decimals'', json_of_word (uta_decimals u))])])"

definition rpc_json_of :: "(bytes \<Rightarrow> string) \<Rightarrow> bytes \<Rightarrow> message \<Rightarrow> transaction_status_meta \<Rightarrow> u64 \<Rightarrow> json" where
  "rpc_json_of encode signature msg meta slot =
     Obj [(''jsonrpc'', Str ''2.0''), (''result'', Obj
       [(''meta'', Obj
          [(''computeUnitsConsumed'', json_of_option json_of_word (m_compute_units_consumed meta)),
           (''err'', if m_err meta = None then Null else Obj []),
           (''innerInstructions'', Arr (map (json_of_block encode) (m_inner_instructions meta))),
           (''loadedAddresses'', Obj [(''readonly'', Arr (map (json_of_bytes encode) (m_loaded_readonly_addresses meta))),
              (''writable'', Arr (map (json_of_bytes encode) (m_loaded_writable_addresses meta)))]),
           (''postBalances'', Arr (map json_of_word (m_post_balances meta))),
           (''postTokenBalances'', Arr (map json_of_token_balance (m_post_token_balances meta))),
           (''preBalances'', Arr (map json_of_word (m_pre_balances meta))),
           (''preTokenBalances'', Arr (map json_of_token_balance (m_pre_token_balances meta)))]),
        (''slot'', json_of_word slot),
        (''transaction'', Obj
          [(''message'', Obj [(''accountKeys'', Arr (map (json_of_bytes encode) (msg_account_keys msg))),
              (''instructions'', Arr (map (\<lambda>ix. Obj (json_of_compiled encode ix)) (msg_instructions msg)))]),
           (''signatures'', Arr [json_of_bytes encode signature])])])]"

text \<open>What an RPC response can carry of a message: an error is one marker byte, token balances have amounts, the logs are not
  read.\<close>
definition rpc_meta :: "transaction_status_meta \<Rightarrow> bool" where
  "rpc_meta meta \<longleftrightarrow> m_err meta \<in> {None, Some [1]} \<and> m_log_messages meta = [] \<and>
     list_all (\<lambda>b. tb_ui_token_amount b \<noteq> None) (m_pre_token_balances meta @ m_post_token_balances meta)"

lemma map_may_panic_inverse:
  assumes "\<And>x. x \<in> set xs \<Longrightarrow> f (g x) = Some x"
  shows "map_may_panic f (map g xs) = Some xs"
  using assms by (induction xs) simp_all

lemma uint_less_64:
  assumes "LENGTH('a) \<le> 64"
  shows "uint (w :: 'a::len word) < 2 ^ 64"
proof -
  have "uint w < 2 ^ LENGTH('a)" using unsigned_less [of w, where ?'a = int] by simp
  also have "(2::int) ^ LENGTH('a) \<le> 2 ^ 64" using assms by (intro power_increasing) auto
  finally show ?thesis .
qed

lemma as_u64_word:
  assumes "LENGTH('a) \<le> 64"
  shows "as_u64 (json_of_word (w :: 'a::len word)) = Some (ucast w)"
proof -
  have "word_of_int (uint w) = (ucast w :: u64)"
    by (rule word_uint_eqI) (simp add: uint_word_of_int_eq unsigned_ucast_eq)
  then show ?thesis using uint_less_64 [OF assms, of w] by (simp add: as_u64_def json_of_word_def)
qed

lemma ucast_back:
  assumes "LENGTH('a) \<le> 64"
  shows "ucast (ucast (w :: 'a::len word) :: u64) = w"
proof -
  have "take_bit 64 (uint w) = uint w" using uint_less_64 [OF assms, of w] by (simp add: take_bit_int_eq_self)
  then show ?thesis by (intro word_uint_eqI) (simp add: unsigned_ucast_eq unsigned_take_bit_eq)
qed

lemma json_of_word_not_Null [simp]: "json_of_word w \<noteq> Null"
  by (simp add: json_of_word_def)

lemma compiled_of_json_inverse:
  assumes "\<And>b. decode (encode b) = Some b"
  shows "compiled_of_json decode (Obj (json_of_compiled encode ix @ rest)) = Some ix"
  by (simp add: compiled_of_json_def json_of_compiled_def as_u64_word ucast_back map_may_panic_inverse b58_of_def
    json_of_bytes_def assms)

lemma inner_of_json_inverse:
  assumes "\<And>b. decode (encode b) = Some b"
  shows "inner_of_json decode (json_of_inner encode ix) = Some ix"
  by (cases "ii_stack_height ix")
    (simp_all add: inner_of_json_def json_of_inner_def compiled_of_json_inverse assms, simp_all add: json_of_compiled_def json_of_option_def as_u64_word ucast_back)

lemma block_of_json_inverse:
  assumes "\<And>b. decode (encode b) = Some b"
  shows "block_of_json decode (json_of_block encode b) = Some b"
  by (simp add: block_of_json_def json_of_block_def as_u64_word ucast_back map_may_panic_inverse inner_of_json_inverse assms)

lemma token_balance_inverse:
  "tb_ui_token_amount b \<noteq> None \<Longrightarrow> token_balance_of_json (json_of_token_balance b) = Some b"
  by (cases b) (auto simp: token_balance_of_json_def json_of_token_balance_def as_u64_word ucast_back Let_def)

lemma items_inverse:
  assumes "\<And>x. x \<in> set xs \<Longrightarrow> f (g x) = Some x"
  shows "items_or_default f (Arr (map g xs)) = Some xs"
  using assms by (simp add: items_or_default_def map_may_panic_inverse)

text \<open>The conversion of an RPC response gives back the message the response describes, and its slot, whatever the transaction;
  so a replay of recorded responses runs the handlers on the message the stream would deliver.\<close>

theorem rpc_json_roundtrip:
  assumes "\<And>b. decode (encode b) = Some b" "rpc_meta meta"
  shows "rpc_json_to_grpc decode (rpc_json_of encode signature msg meta slot) =
    Some (\<lparr>tx_signature_bytes = signature, tx_transaction = Some (Some msg), tx_meta = Some meta\<rparr>, slot)"
proof -
  have cu: "as_u64 (json_of_option json_of_word x) = x" for x :: "u64 option"
    by (cases x) (simp_all add: json_of_option_def as_u64_word)
  have ix: "compiled_of_json decode (Obj (json_of_compiled encode ix)) = Some ix" for ix
    using compiled_of_json_inverse [of decode encode ix "[]"] assms(1) by simp
  have tok: "items_or_default token_balance_of_json (Arr (map json_of_token_balance bs)) = Some bs"
    if "list_all (\<lambda>b. tb_ui_token_amount b \<noteq> None) bs" for bs
    using that by (intro items_inverse token_balance_inverse) (simp add: list_all_iff)
  have err: "(if is_null (if m_err meta = None then Null else Obj []) then None else Some [1]) = m_err meta"
    using assms(2) by (auto simp: rpc_meta_def)
  have key: "b58_of decode (json_of_bytes encode b) = Some b" for b
    by (simp add: b58_of_def json_of_bytes_def assms(1))
  show ?thesis
    using assms(2)
    by (simp add: rpc_json_to_grpc_def rpc_json_of_def result_of_def json_get_def Let_def cu ix tok err key as_u64_word ucast_back
      map_may_panic_inverse items_inverse block_of_json_inverse assms(1) rpc_meta_def)
qed

end
