(* ===== verification/PumpIdl.thy ===== *)
theory PumpIdl
  imports Json
begin

text \<open>
  The vendored IDL of PumpSwap (\<open>src/fixtures/pump/pump_amm_idl.json\<close>), reduced to what the tests read of it: the names,
  discriminators, account names and arguments of the instructions, and the names and discriminators of the events. The
  type of an argument that is no name is left empty.
\<close>

text \<open>An instruction, as the IDL nests it.\<close>
definition idl_instruction :: "string \<Rightarrow> int list \<Rightarrow> string list \<Rightarrow> (string \<times> string) list \<Rightarrow> json" where
  "idl_instruction name discriminator accounts args =
     Obj [(''name'', Str name), (''discriminator'', Arr (map Num discriminator)),
       (''accounts'', Arr (map (\<lambda>a. Obj [(''name'', Str a)]) accounts)),
       (''args'', Arr (map (\<lambda>(a, t). Obj [(''name'', Str a), (''type'', if t = [] then Obj [] else Str t)]) args))]"

definition idl_event :: "string \<times> int list \<Rightarrow> json" where
  "idl_event = (\<lambda>(name, discriminator). Obj [(''name'', Str name), (''discriminator'', Arr (map Num discriminator))])"

definition pump_amm_instructions :: "json list" where
  "pump_amm_instructions =
    [idl_instruction ''admin_cto_pool'' [45, 61, 165, 151, 104, 0, 49, 189]
       [''payer'', ''global_config'', ''pool'', ''pool_authority'', ''system_program'', ''event_authority'',
        ''program'']
       [(''coin_creator'', ''pubkey''), (''is_holder_reward'', ''bool''), (''creator_fee_bps'', '''')],
     idl_instruction ''admin_update_token_incentives'' [209, 11, 115, 87, 213, 23, 124, 204]
       [''admin'', ''global_config'', ''global_volume_accumulator'', ''mint'', ''global_incentive_token_account'',
        ''associated_token_program'', ''system_program'', ''token_program'', ''event_authority'', ''program'']
       [(''start_time'', ''i64''), (''end_time'', ''i64''), (''seconds_in_a_day'', ''i64''),
        (''day_number'', ''u64''), (''token_supply_per_day'', ''u64'')],
     idl_instruction ''boost_buy_and_burn'' [105, 68, 6, 175, 0, 7, 35, 162]
       [''pool'', ''authority'', ''global_config'', ''base_mint'', ''quote_mint'', ''pool_base_token_account'',
        ''pool_quote_token_account'', ''boost_vault_authority'', ''boost_vault'', ''base_token_program'',
        ''quote_token_program'', ''event_authority'', ''program'']
       [(''quote_amount_in'', ''u64''), (''min_base_amount_burned'', ''u64'')],
     idl_instruction ''buy'' [102, 6, 61, 18, 1, 218, 235, 234]
       [''pool'', ''user'', ''global_config'', ''base_mint'', ''quote_mint'', ''user_base_token_account'',
        ''user_quote_token_account'', ''pool_base_token_account'', ''pool_quote_token_account'',
        ''protocol_fee_recipient'', ''protocol_fee_recipient_token_account'', ''base_token_program'',
        ''quote_token_program'', ''system_program'', ''associated_token_program'', ''event_authority'', ''program'',
        ''coin_creator_vault_ata'', ''coin_creator_vault_authority'', ''global_volume_accumulator'',
        ''user_volume_accumulator'', ''fee_config'', ''fee_program'']
       [(''base_amount_out'', ''u64''), (''max_quote_amount_in'', ''u64''), (''track_volume'', '''')],
     idl_instruction ''buy_exact_quote_in'' [198, 46, 21, 82, 180, 217, 232, 112]
       [''pool'', ''user'', ''global_config'', ''base_mint'', ''quote_mint'', ''user_base_token_account'',
        ''user_quote_token_account'', ''pool_base_token_account'', ''pool_quote_token_account'',
        ''protocol_fee_recipient'', ''protocol_fee_recipient_token_account'', ''base_token_program'',
        ''quote_token_program'', ''system_program'', ''associated_token_program'', ''event_authority'', ''program'',
        ''coin_creator_vault_ata'', ''coin_creator_vault_authority'', ''global_volume_accumulator'',
        ''user_volume_accumulator'', ''fee_config'', ''fee_program'']
       [(''spendable_quote_in'', ''u64''), (''min_base_amount_out'', ''u64''), (''track_volume'', '''')],
     idl_instruction ''buy_exact_quote_in_v2'' [194, 171, 28, 70, 104, 77, 91, 47]
       [''pool'', ''user'', ''global_config'', ''base_mint'', ''quote_mint'', ''user_base_token_account'',
        ''user_quote_token_account'', ''pool_base_token_account'', ''pool_quote_token_account'',
        ''base_token_program'', ''quote_token_program'', ''system_program'', ''user_volume_accumulator'',
        ''fee_config'', ''buyback_fee_recipient'', ''event_authority'', ''program'']
       [(''spendable_quote_in'', ''u64''), (''min_base_amount_out'', ''u64'')],
     idl_instruction ''buy_v2'' [184, 23, 238, 97, 103, 197, 211, 61]
       [''pool'', ''user'', ''global_config'', ''base_mint'', ''quote_mint'', ''user_base_token_account'',
        ''user_quote_token_account'', ''pool_base_token_account'', ''pool_quote_token_account'',
        ''base_token_program'', ''quote_token_program'', ''system_program'', ''user_volume_accumulator'',
        ''fee_config'', ''buyback_fee_recipient'', ''event_authority'', ''program'']
       [(''base_amount_out'', ''u64''), (''max_quote_amount_in'', ''u64'')],
     idl_instruction ''claim_cashback'' [37, 58, 35, 126, 190, 53, 228, 197]
       [''user'', ''user_volume_accumulator'', ''quote_mint'', ''quote_token_program'',
        ''user_volume_accumulator_wsol_token_account'', ''user_wsol_token_account'', ''system_program'',
        ''event_authority'', ''program'']
       [],
     idl_instruction ''claim_token_incentives'' [16, 4, 71, 28, 204, 1, 40, 27]
       [''user'', ''user_ata'', ''global_volume_accumulator'', ''global_incentive_token_account'',
        ''user_volume_accumulator'', ''mint'', ''token_program'', ''system_program'', ''associated_token_program'',
        ''event_authority'', ''program'', ''payer'']
       [],
     idl_instruction ''close_user_volume_accumulator'' [249, 69, 164, 218, 150, 103, 84, 138]
       [''user'', ''user_volume_accumulator'', ''event_authority'', ''program'']
       [],
     idl_instruction ''collect_coin_creator_fee'' [160, 57, 89, 42, 181, 139, 43, 66]
       [''quote_mint'', ''quote_token_program'', ''coin_creator'', ''coin_creator_vault_authority'',
        ''coin_creator_vault_ata'', ''coin_creator_token_account'', ''event_authority'', ''program'']
       [],
     idl_instruction ''create_config'' [201, 207, 243, 114, 75, 111, 47, 189]
       [''admin'', ''global_config'', ''system_program'', ''event_authority'', ''program'']
       [(''lp_fee_basis_points'', ''u64''), (''protocol_fee_basis_points'', ''u64''),
        (''protocol_fee_recipients'', ''''), (''coin_creator_fee_basis_points'', ''u64''),
        (''admin_set_coin_creator_authority'', ''pubkey'')],
     idl_instruction ''create_pool'' [233, 146, 209, 142, 207, 104, 64, 188]
       [''pool'', ''global_config'', ''creator'', ''base_mint'', ''quote_mint'', ''lp_mint'',
        ''user_base_token_account'', ''user_quote_token_account'', ''user_pool_token_account'',
        ''pool_base_token_account'', ''pool_quote_token_account'', ''system_program'', ''token_2022_program'',
        ''base_token_program'', ''quote_token_program'', ''associated_token_program'', ''event_authority'',
        ''program'']
       [(''index'', ''u16''), (''base_amount_in'', ''u64''), (''quote_amount_in'', ''u64''),
        (''coin_creator'', ''pubkey''), (''is_mayhem_mode'', ''bool''), (''is_cashback_coin'', ''''),
        (''creator_fee_bps'', ''''), (''can_edit_creator_fee'', ''''), (''is_holder_reward'', '''')],
     idl_instruction ''deposit'' [242, 35, 198, 137, 82, 225, 242, 182]
       [''pool'', ''global_config'', ''user'', ''base_mint'', ''quote_mint'', ''lp_mint'',
        ''user_base_token_account'', ''user_quote_token_account'', ''user_pool_token_account'',
        ''pool_base_token_account'', ''pool_quote_token_account'', ''token_program'', ''token_2022_program'',
        ''event_authority'', ''program'']
       [(''lp_token_amount_out'', ''u64''), (''max_base_amount_in'', ''u64''), (''max_quote_amount_in'', ''u64'')],
     idl_instruction ''disable'' [185, 173, 187, 90, 216, 15, 238, 233]
       [''admin'', ''global_config'', ''event_authority'', ''program'']
       [(''disable_create_pool'', ''bool''), (''disable_deposit'', ''bool''), (''disable_withdraw'', ''bool''),
        (''disable_buy'', ''bool''), (''disable_sell'', ''bool'')],
     idl_instruction ''extend_account'' [234, 102, 194, 203, 150, 72, 62, 229]
       [''account'', ''user'', ''system_program'', ''event_authority'', ''program'']
       [],
     idl_instruction ''init_boost'' [140, 233, 33, 94, 132, 90, 194, 143]
       [''pool'', ''global_config'', ''creator'', ''base_mint'', ''quote_mint'', ''pool_base_token_account'',
        ''pool_quote_token_account'', ''boost_vault_authority'', ''boost_vault'', ''quote_token_program'',
        ''system_program'', ''associated_token_program'', ''event_authority'', ''program'']
       [],
     idl_instruction ''init_user_volume_accumulator'' [94, 6, 202, 115, 255, 96, 232, 183]
       [''payer'', ''user'', ''user_volume_accumulator'', ''system_program'', ''event_authority'', ''program'']
       [],
     idl_instruction ''migrate_pool_coin_creator'' [208, 8, 159, 4, 74, 175, 16, 58]
       [''pool'', ''sharing_config'', ''event_authority'', ''program'']
       [],
     idl_instruction ''multi_hop_swap'' [43, 100, 73, 19, 233, 246, 111, 148]
       [''user'', ''user_in_token_account'', ''user_out_token_account'', ''global_config'', ''fee_config'',
        ''user_volume_accumulator'', ''buyback_fee_recipient'', ''token_program'', ''token_2022_program'',
        ''system_program'', ''event_authority'', ''program'', ''pump_program'', ''pump_global'', ''pump_fee_config'',
        ''pump_event_authority'']
       [(''amount_in'', ''u64''), (''min_amount_out'', ''u64'')],
     idl_instruction ''sell'' [51, 230, 133, 164, 1, 127, 131, 173]
       [''pool'', ''user'', ''global_config'', ''base_mint'', ''quote_mint'', ''user_base_token_account'',
        ''user_quote_token_account'', ''pool_base_token_account'', ''pool_quote_token_account'',
        ''protocol_fee_recipient'', ''protocol_fee_recipient_token_account'', ''base_token_program'',
        ''quote_token_program'', ''system_program'', ''associated_token_program'', ''event_authority'', ''program'',
        ''coin_creator_vault_ata'', ''coin_creator_vault_authority'', ''fee_config'', ''fee_program'']
       [(''base_amount_in'', ''u64''), (''min_quote_amount_out'', ''u64'')],
     idl_instruction ''sell_v2'' [93, 246, 130, 60, 231, 233, 64, 178]
       [''pool'', ''user'', ''global_config'', ''base_mint'', ''quote_mint'', ''user_base_token_account'',
        ''user_quote_token_account'', ''pool_base_token_account'', ''pool_quote_token_account'',
        ''base_token_program'', ''quote_token_program'', ''system_program'', ''user_volume_accumulator'',
        ''fee_config'', ''buyback_fee_recipient'', ''event_authority'', ''program'']
       [(''base_amount_in'', ''u64''), (''min_quote_amount_out'', ''u64'')],
     idl_instruction ''set_boost_authority'' [227, 149, 76, 42, 130, 39, 234, 205]
       [''admin'', ''global_config'', ''boost_authority'', ''system_program'', ''event_authority'', ''program'']
       [],
     idl_instruction ''set_coin_creator'' [210, 149, 128, 45, 188, 58, 78, 175]
       [''pool'', ''metadata'', ''bonding_curve'', ''event_authority'', ''program'']
       [],
     idl_instruction ''set_reserved_fee_recipients'' [111, 172, 162, 232, 114, 89, 213, 142]
       [''global_config'', ''admin'', ''event_authority'', ''program'']
       [(''whitelist_pda'', ''pubkey'')],
     idl_instruction ''sweep_creator_fee'' [32, 246, 191, 52, 8, 201, 73, 186]
       [''payer'', ''global_config'', ''pool'', ''quote_mint'', ''quote_token_program'', ''pool_quote_token_account'',
        ''recipient'', ''recipient_token_account'', ''system_program'', ''associated_token_program'',
        ''event_authority'', ''program'']
       [],
     idl_instruction ''sweep_protocol_fee'' [8, 48, 190, 7, 182, 68, 183, 229]
       [''payer'', ''global_config'', ''pool'', ''quote_mint'', ''quote_token_program'', ''pool_quote_token_account'',
        ''recipient'', ''recipient_token_account'', ''system_program'', ''associated_token_program'',
        ''event_authority'', ''program'']
       [],
     idl_instruction ''sync_user_volume_accumulator'' [86, 31, 192, 87, 163, 87, 79, 238]
       [''user'', ''global_volume_accumulator'', ''user_volume_accumulator'', ''event_authority'', ''program'']
       [],
     idl_instruction ''toggle_boost'' [117, 161, 160, 74, 223, 137, 118, 99]
       [''admin'', ''global_config'']
       [(''enabled'', ''bool'')],
     idl_instruction ''toggle_cashback_enabled'' [115, 103, 224, 255, 189, 89, 86, 195]
       [''admin'', ''global_config'', ''event_authority'', ''program'']
       [(''enabled'', ''bool'')],
     idl_instruction ''toggle_mayhem_mode'' [1, 9, 111, 208, 100, 31, 255, 163]
       [''admin'', ''global_config'', ''event_authority'', ''program'']
       [(''enabled'', ''bool'')],
     idl_instruction ''transfer_creator_fees_to_pump'' [139, 52, 134, 85, 228, 229, 108, 241]
       [''wsol_mint'', ''token_program'', ''system_program'', ''associated_token_program'', ''coin_creator'',
        ''coin_creator_vault_authority'', ''coin_creator_vault_ata'', ''pump_creator_vault'', ''event_authority'',
        ''program'']
       [],
     idl_instruction ''transfer_creator_fees_to_pump_v2'' [1, 33, 78, 185, 33, 67, 44, 92]
       [''payer'', ''quote_mint'', ''token_program'', ''system_program'', ''associated_token_program'',
        ''coin_creator'', ''coin_creator_vault_authority'', ''coin_creator_vault_ata'', ''pump_creator_vault'',
        ''pump_creator_vault_ata'', ''event_authority'', ''program'']
       [],
     idl_instruction ''update_admin'' [161, 176, 40, 213, 60, 184, 179, 228]
       [''admin'', ''global_config'', ''new_admin'', ''event_authority'', ''program'']
       [],
     idl_instruction ''update_buyback_config'' [251, 224, 171, 146, 160, 26, 113, 233]
       [''admin'', ''global_config'', ''event_authority'', ''program'']
       [(''buyback_basis_points'', '''')],
     idl_instruction ''update_creator_fee_config'' [61, 175, 160, 249, 66, 66, 136, 175]
       [''admin'', ''global_config'', ''system_program'', ''event_authority'', ''program'']
       [(''creator_fee_configurable'', ''bool''), (''max_configurable_creator_fee_bps'', ''u64'')],
     idl_instruction ''update_fee_config'' [104, 184, 103, 242, 88, 151, 107, 20]
       [''admin'', ''global_config'', ''event_authority'', ''program'']
       [(''lp_fee_basis_points'', ''u64''), (''protocol_fee_basis_points'', ''u64''),
        (''protocol_fee_recipients'', ''''), (''coin_creator_fee_basis_points'', ''u64''),
        (''admin_set_coin_creator_authority'', ''pubkey'')],
     idl_instruction ''withdraw'' [183, 18, 70, 156, 148, 109, 161, 34]
       [''pool'', ''global_config'', ''user'', ''base_mint'', ''quote_mint'', ''lp_mint'',
        ''user_base_token_account'', ''user_quote_token_account'', ''user_pool_token_account'',
        ''pool_base_token_account'', ''pool_quote_token_account'', ''token_program'', ''token_2022_program'',
        ''event_authority'', ''program'']
       [(''lp_token_amount_in'', ''u64''), (''min_base_amount_out'', ''u64''), (''min_quote_amount_out'', ''u64'')]]"

definition pump_amm_events :: "json list" where
  "pump_amm_events = map idl_event
    [(''AdminCtoPoolEvent'', [47, 35, 163, 249, 150, 157, 147, 122]),
     (''AdminUpdateTokenIncentivesEvent'', [147, 250, 108, 120, 247, 29, 67, 222]),
     (''BoostBuyAndBurnEvent'', [63, 69, 28, 22, 48, 92, 194, 185]),
     (''BuyEvent'', [103, 244, 82, 31, 44, 245, 119, 119]),
     (''ClaimCashbackEvent'', [226, 214, 246, 33, 7, 242, 147, 229]),
     (''ClaimTokenIncentivesEvent'', [79, 172, 246, 49, 205, 91, 206, 232]),
     (''CloseUserVolumeAccumulatorEvent'', [146, 159, 189, 172, 146, 88, 56, 244]),
     (''CollectCoinCreatorFeeEvent'', [232, 245, 194, 238, 234, 218, 58, 89]),
     (''CreateConfigEvent'', [107, 52, 89, 129, 55, 226, 81, 22]),
     (''CreatePoolEvent'', [177, 49, 12, 210, 160, 118, 167, 116]),
     (''DepositEvent'', [120, 248, 61, 83, 31, 142, 107, 144]),
     (''DisableEvent'', [107, 253, 193, 76, 228, 202, 27, 104]),
     (''ExtendAccountEvent'', [97, 97, 215, 144, 93, 146, 22, 124]),
     (''InitBoostEvent'', [174, 124, 74, 249, 4, 81, 246, 17]),
     (''InitUserVolumeAccumulatorEvent'', [134, 36, 13, 72, 232, 101, 130, 216]),
     (''MigratePoolCoinCreatorEvent'', [170, 221, 82, 199, 147, 165, 247, 46]),
     (''ReservedFeeRecipientsEvent'', [43, 188, 250, 18, 221, 75, 187, 95]),
     (''SellEvent'', [62, 47, 55, 10, 165, 3, 220, 42]),
     (''SetBondingCurveCoinCreatorEvent'', [242, 231, 235, 102, 65, 99, 189, 211]),
     (''SetBoostAuthorityEvent'', [89, 128, 240, 141, 91, 202, 71, 105]),
     (''SetMetaplexCoinCreatorEvent'', [150, 107, 199, 123, 124, 207, 102, 228]),
     (''SweepPoolFeeEvent'', [130, 164, 36, 97, 228, 130, 135, 165]),
     (''SyncUserVolumeAccumulatorEvent'', [197, 122, 167, 124, 116, 81, 91, 255]),
     (''UpdateAdminEvent'', [225, 152, 171, 87, 246, 63, 66, 234]),
     (''UpdateCreatorFeeConfigEvent'', [152, 198, 124, 124, 106, 246, 127, 191]),
     (''UpdateFeeConfigEvent'', [90, 23, 65, 35, 62, 244, 188, 208]),
     (''WithdrawEvent'', [22, 9, 133, 26, 160, 44, 71, 192])]"

definition pump_amm_idl :: json where
  "pump_amm_idl = Obj [(''instructions'', Arr pump_amm_instructions), (''events'', Arr pump_amm_events)]"

end
