(* ===== verification/IdlTests.thy ===== *)
theory IdlTests
  imports PumpIdl Instructions
begin

text \<open>
  The test of \<open>src/src/utils/constants.rs\<close>: discriminators, account positions and argument orders the handler relies on,
  against the vendored IDL. The lemmas at the end state what it covers of the model.
\<close>

section \<open>The test\<close>

definition idl_ix :: "json \<Rightarrow> string \<Rightarrow> json may_panic" where
  "idl_ix idl name = do {
     ixs \<leftarrow> as_array (field_of idl ''instructions'');
     List.find (\<lambda>ix. field_of ix ''name'' = Str name) ixs }"

definition idl_disc :: "json \<Rightarrow> bytes may_panic" where
  "idl_disc v = do {
     bs \<leftarrow> as_array (field_of v ''discriminator'');
     bs \<leftarrow> map_may_panic (\<lambda>b. do { b \<leftarrow> as_u64 b; Some (ucast b :: u8) }) bs;
     try_array 8 bs }"

definition account_pos :: "json \<Rightarrow> string \<Rightarrow> nat may_panic" where
  "account_pos ix name = do {
     accounts \<leftarrow> as_array (field_of ix ''accounts'');
     position (\<lambda>a. field_of a ''name'' = Str name) accounts }"

text \<open>\<open>str::contains\<close>\<close>
definition contains :: "string \<Rightarrow> string \<Rightarrow> bool" where
  "contains s pattern \<longleftrightarrow> list_ex (\<lambda>i. take (length pattern) (drop i s) = pattern) [0..<Suc (length s)]"

definition trade_ixs :: "(string \<times> bytes) list" where
  "trade_ixs =
     [(''buy'', AMM_BUY_DISCRIMINATOR), (''buy_exact_quote_in'', BUY_EXACT_IN_DISCRIMINATOR), (''sell'', AMM_SELL_DISCRIMINATOR),
      (''buy_v2'', AMM_BUY_V2_DISCRIMINATOR), (''buy_exact_quote_in_v2'', AMM_BUY_EXACT_QUOTE_IN_V2_DISCRIMINATOR),
      (''sell_v2'', AMM_SELL_V2_DISCRIMINATOR), (''boost_buy_and_burn'', BOOST_BUY_AND_BURN_DISCRIMINATOR)]"

text \<open>The checks of one trade instruction.\<close>
definition trade_ix_matches :: "json \<Rightarrow> string \<times> bytes \<Rightarrow> bool may_panic" where
  "trade_ix_matches idl x = (let (name, constant) = x in do {
     ix \<leftarrow> idl_ix idl name;
     disc \<leftarrow> idl_disc ix;
     kind \<leftarrow> pump_swap_trade_ix constant;
     if name = ''boost_buy_and_burn'' then Some (disc = constant \<and> ti_name kind = name)
     else do {
       pool \<leftarrow> account_pos ix ''pool'';
       user \<leftarrow> account_pos ix ''user'';
       base \<leftarrow> account_pos ix ''base_mint'';
       quote \<leftarrow> account_pos ix ''quote_mint'';
       args \<leftarrow> as_array (field_of ix ''args'');
       args \<leftarrow> map_may_panic (\<lambda>a. do {
           arg \<leftarrow> as_str (field_of a ''name'');
           Some (arg, unwrap_or [] (as_str (field_of a ''type''))) }) (take 2 args);
       (arg0, _) \<leftarrow> vec_get args 0;
       Some (disc = constant \<and> ti_name kind = name \<and> pool = PUMP_SWAP_POOL_IX_POS \<and> user = 1 \<and>
         base = PUMP_SWAP_MINT_IX_POS \<and> quote = PUMP_SWAP_QUOTE_MINT_IX_POS \<and>
         contains arg0 ''quote'' = ti_is_exact_in kind \<and> list_all (\<lambda>(_, t). t = ''u64'') args) } })"

text \<open>Every instruction of the buy and sell families is classified.\<close>
definition family_classified :: "json \<Rightarrow> bool may_panic" where
  "family_classified ix = do {
     name \<leftarrow> as_str (field_of ix ''name'');
     if (take 3 name = ''buy'' \<or> take 4 name = ''sell'') \<and> name \<noteq> ''buyback''
     then do { disc \<leftarrow> idl_disc ix; Some (pump_swap_trade_ix disc \<noteq> None) }
     else Some True }"

definition multi_hop_matches :: "json \<Rightarrow> bool may_panic" where
  "multi_hop_matches idl = do {
     mh \<leftarrow> idl_ix idl ''multi_hop_swap'';
     disc \<leftarrow> idl_disc mh;
     accounts \<leftarrow> as_array (field_of mh ''accounts'');
     user \<leftarrow> account_pos mh ''user'';
     user_in \<leftarrow> account_pos mh ''user_in_token_account'';
     args \<leftarrow> as_array (field_of mh ''args'');
     args \<leftarrow> map_may_panic (\<lambda>a. as_str (field_of a ''name'')) args;
     Some (disc = AMM_MULTI_HOP_SWAP_DISCRIMINATOR \<and> length accounts = PUMP_SWAP_MULTI_HOP_FIXED_ACCOUNTS \<and>
       user = PUMP_SWAP_MULTI_HOP_USER_IX_POS \<and> user_in = PUMP_SWAP_MULTI_HOP_USER_IN_IX_POS \<and>
       args = [''amount_in'', ''min_amount_out'']) }"

definition event_matches :: "json \<Rightarrow> string \<times> bytes \<Rightarrow> bool may_panic" where
  "event_matches idl x = (let (name, constant) = x in do {
     events \<leftarrow> as_array (field_of idl ''events'');
     ev \<leftarrow> List.find (\<lambda>e. field_of e ''name'' = Str name) events;
     disc \<leftarrow> idl_disc ev;
     Some (disc = constant) })"

definition pump_swap_discriminators_and_positions_match_idl :: "json \<Rightarrow> bool" where
  "pump_swap_discriminators_and_positions_match_idl idl \<longleftrightarrow>
     (case do {
        trades \<leftarrow> map_may_panic (trade_ix_matches idl) trade_ixs;
        ixs \<leftarrow> as_array (field_of idl ''instructions'');
        families \<leftarrow> map_may_panic family_classified ixs;
        multi_hop \<leftarrow> multi_hop_matches idl;
        events \<leftarrow> map_may_panic (event_matches idl)
          [(''BuyEvent'', PUMP_SWAP_BUY_EVENT_DISC), (''SellEvent'', PUMP_SWAP_SELL_EVENT_DISC),
           (''BoostBuyAndBurnEvent'', PUMP_SWAP_BOOST_BUY_EVENT_DISC)];
        Some (list_all id (trades @ families @ [multi_hop] @ events)) } of
        Some b \<Rightarrow> b | None \<Rightarrow> False)"

lemma pump_swap_discriminators_and_positions_match_idl_passes:
  "pump_swap_discriminators_and_positions_match_idl pump_amm_idl"
  by code_simp

end
