(* ===== verification/Replay.thy ===== *)
theory Replay
  imports Json AmmHandler Decimal "HOL-Library.List_Lexorder" "HOL-Library.Char_ord"
begin

text \<open>
  The replay tests (\<open>src/src/handler/pump_upgrade_replay_tests.rs\<close>): what a recorded transaction should leave behind, decoded
  from the RPC response without the handler, and the comparison of it with the records of the handler. A failing \<open>unwrap\<close>
  or \<open>assert\<close> while the truth is decoded is \<open>None\<close>. \<open>decode\<close> is \<open>bs58::decode\<close>.
\<close>

section \<open>Pieces\<close>

definition key_at :: "externals \<Rightarrow> bytes \<Rightarrow> nat \<Rightarrow> string may_panic" where
  "key_at X d off = do { k \<leftarrow> slice_index d off (off + 32); Some (x_bs58_encode X k) }"

text \<open>The names of the instructions by discriminator; of equal discriminators the last wins.\<close>
definition idl_names :: "json \<Rightarrow> (bytes \<Rightarrow> string option) may_panic" where
  "idl_names idl = do {
     ixs \<leftarrow> as_array (field_of idl ''instructions'');
     entries \<leftarrow> map_may_panic (\<lambda>ix. do {
         disc \<leftarrow> as_array (field_of ix ''discriminator'');
         disc \<leftarrow> map_may_panic (\<lambda>b. do { b \<leftarrow> as_u64 b; Some (ucast b :: u8) }) disc;
         name \<leftarrow> as_str (field_of ix ''name'');
         Some (disc, name) }) ixs;
     Some (map_of (rev entries)) }"

text \<open>The address of the canonical pool of a pair, as a text.\<close>
definition canonical :: "externals \<Rightarrow> string \<Rightarrow> string \<Rightarrow> string may_panic" where
  "canonical X base quote = do {
     pump \<leftarrow> x_pubkey_from_str X PUMP_PROGRAM_ID;
     amm \<leftarrow> x_pubkey_from_str X PUMP_SWAP_PROGRAM_ID;
     base \<leftarrow> x_pubkey_from_str X base;
     quote \<leftarrow> x_pubkey_from_str X quote;
     let authority = x_find_program_address X [ascii ''pool-authority'', base] pump;
     Some (x_pubkey_to_string X
       (x_find_program_address X [ascii ''pool'', to_le_bytes 2 (0 :: u16), authority, base, quote] amm)) }"

record expected =
  ex_pool :: string
  ex_mint :: string
  ex_quote_mint :: string
  ex_user :: string
  ex_is_buy :: bool
  ex_token_amount :: u64
  ex_instruction_type :: string

record truth =
  tt_expected :: "expected list"
  tt_pool_events :: "(string \<times> string \<times> string \<times> bool) list"
  tt_multi_hop :: bool

text \<open>\<open>str::parse::<i128>()\<close>, for the digits the balances are written with.\<close>
definition parse_i128 :: "string \<Rightarrow> int option" where
  "parse_i128 s =
     (let (neg, digits) = (case s of c # cs \<Rightarrow> (if c = CHR ''-'' then (True, cs) else if c = CHR ''+'' then (False, cs) else (False, s)) | [] \<Rightarrow> (False, []))
      in if digits = [] \<or> \<not> list_all is_decimal digits then None
         else (let n = foldl (\<lambda>acc c. 10 * acc + char_digit c) 0 digits; n = (if neg then - n else n)
               in if - (2 ^ 127) \<le> n \<and> n < 2 ^ 127 then Some n else None))"

text \<open>The rows of a list of token balances: owner, mint, amount.\<close>
definition balance_rows :: "json \<Rightarrow> string \<Rightarrow> (string \<times> string \<times> int) list may_panic" where
  "balance_rows meta k = do {
     bs \<leftarrow> as_array (field_of meta k);
     map_may_panic (\<lambda>b. do {
       mint \<leftarrow> as_str (field_of b ''mint'');
       amount \<leftarrow> as_str (field_of (field_of b ''uiTokenAmount'') ''amount'');
       amount \<leftarrow> parse_i128 amount;
       Some (unwrap_or [] (as_str (field_of b ''owner'')), mint, amount) }) bs }"

definition payer_balance :: "string \<Rightarrow> (string \<times> string \<times> int) list \<Rightarrow> string \<Rightarrow> int" where
  "payer_balance payer rows mint = sum_list (map (\<lambda>(_, _, a). a) (filter (\<lambda>(ow, m, _). ow = payer \<and> m = mint) rows))"

definition pool_mints :: "(string \<times> string \<times> int) list \<Rightarrow> string \<Rightarrow> string list" where
  "pool_mints post pool = remdups_adj (sort (map (\<lambda>(_, m, _). m) (filter (\<lambda>(ow, _, _). ow = pool) post)))"

text \<open>An executed instruction: program, data, stack height.\<close>
type_synonym flat_ix = "string \<times> bytes \<times> u32"

definition flat_inner :: "(string \<Rightarrow> bytes option) \<Rightarrow> string list \<Rightarrow> json \<Rightarrow> flat_ix may_panic" where
  "flat_inner decode keys ii = do {
     p \<leftarrow> as_u64 (field_of ii ''programIdIndex'');
     program \<leftarrow> vec_get keys (unat p);
     dat \<leftarrow> b58_of decode (field_of ii ''data'');
     h \<leftarrow> as_u64 (field_of ii ''stackHeight'');
     Some (program, dat, ucast h) }"

text \<open>All instructions in execution order: each top-level one, then the ones its blocks hold.\<close>
definition flat_ixs :: "(string \<Rightarrow> bytes option) \<Rightarrow> string list \<Rightarrow> json \<Rightarrow> json \<Rightarrow> flat_ix list may_panic" where
  "flat_ixs decode keys msg meta = do {
     ixs \<leftarrow> as_array (field_of msg ''instructions'');
     parts \<leftarrow> map_may_panic (\<lambda>(i, ix). do {
       p \<leftarrow> as_u64 (field_of ix ''programIdIndex'');
       program \<leftarrow> vec_get keys (unat p);
       dat \<leftarrow> b58_of decode (field_of ix ''data'');
       blocks \<leftarrow> as_array (field_of meta ''innerInstructions'');
       inner \<leftarrow> map_may_panic (\<lambda>block. do {
         index \<leftarrow> as_u64 (field_of block ''index'');
         if unat index \<noteq> i then Some []
         else do { iis \<leftarrow> as_array (field_of block ''instructions''); map_may_panic (flat_inner decode keys) iis } }) blocks;
       Some ((program, dat, 1) # concat inner) }) (List.enumerate 0 ixs);
     Some (concat parts) }"

text \<open>The name of the nearest PumpSwap instruction one level up.\<close>
definition parent_name :: "(bytes \<Rightarrow> string option) \<Rightarrow> flat_ix list \<Rightarrow> u32 \<Rightarrow> string may_panic" where
  "parent_name names earlier stack = do {
     level \<leftarrow> checked_sub stack 1;
     (_, d, _) \<leftarrow> List.find (\<lambda>(p, _, s). s = level \<and> p = PUMP_SWAP_PROGRAM_ID) (rev earlier);
     disc \<leftarrow> slice_index d 0 8;
     names disc }"

section \<open>The truth of a transaction\<close>

text \<open>An event of a pool: the pair from the balances of the pool and the canonical address, the kind from the parent.\<close>
definition truth_event ::
  "externals \<Rightarrow> (bytes \<Rightarrow> string option) \<Rightarrow> string \<Rightarrow> (string \<times> string \<times> int) list \<Rightarrow> (string \<times> string \<times> int) list \<Rightarrow>
   flat_ix list \<Rightarrow> bytes \<Rightarrow> bool \<Rightarrow> u32 \<Rightarrow> truth \<Rightarrow> truth may_panic" where
  "truth_event X names payer pre post earlier ev is_buy stack out = do {
     pool \<leftarrow> key_at X ev 120;
     user \<leftarrow> key_at X ev 152;
     let mints = pool_mints post pool;
     (base, quote) \<leftarrow> (case mints of
         [m0, m1] \<Rightarrow> do {
           c \<leftarrow> canonical X m0 m1;
           if c = pool then Some (m0, m1)
           else do { c \<leftarrow> canonical X m1 m0; if c = pool then Some (m1, m0) else None } }
       | _ \<Rightarrow> None);
     parent \<leftarrow> parent_name names earlier stack;
     let instruction_type =
       (if parent = ''multi_hop_swap''
        then if payer_balance payer pre base = payer_balance payer post base then ''multi_hop_swap_routed'' else ''multi_hop_swap''
        else parent);
     token_amount \<leftarrow> u64_index ev 16;
     let out = out\<lparr>tt_pool_events := tt_pool_events out @ [(pool, base, quote, is_buy)]\<rparr>;
     Some (if base \<noteq> WSOL_MINT
           then out\<lparr>tt_expected := tt_expected out @
             [\<lparr>ex_pool = pool, ex_mint = base, ex_quote_mint = quote, ex_user = user, ex_is_buy = is_buy,
               ex_token_amount = token_amount, ex_instruction_type = instruction_type\<rparr>]\<rparr>
           else out) }"

text \<open>The body of the loop; \<open>earlier\<close> are the instructions before this one.\<close>
definition truth_step ::
  "externals \<Rightarrow> (bytes \<Rightarrow> string option) \<Rightarrow> string \<Rightarrow> (string \<times> string \<times> int) list \<Rightarrow> (string \<times> string \<times> int) list \<Rightarrow>
   flat_ix list \<Rightarrow> flat_ix \<Rightarrow> truth \<Rightarrow> truth may_panic" where
  "truth_step X names payer pre post earlier ix out =
     (let (program, dat, stack) = ix in
      if program \<noteq> PUMP_SWAP_PROGRAM_ID then Some out
      else
        (let out = (if names (take 8 dat) = Some ''multi_hop_swap'' then out\<lparr>tt_multi_hop := True\<rparr> else out) in
         if length dat < 16 then Some out
         else do {
           ev \<leftarrow> slice_from dat 8;
           disc \<leftarrow> slice_index ev 0 8;
           if disc = PUMP_SWAP_BUY_EVENT_DISC then truth_event X names payer pre post earlier ev True stack out
           else if disc = PUMP_SWAP_SELL_EVENT_DISC then truth_event X names payer pre post earlier ev False stack out
           else Some out }))"

primrec truth_loop ::
  "externals \<Rightarrow> (bytes \<Rightarrow> string option) \<Rightarrow> string \<Rightarrow> (string \<times> string \<times> int) list \<Rightarrow> (string \<times> string \<times> int) list \<Rightarrow>
   flat_ix list \<Rightarrow> flat_ix list \<Rightarrow> truth \<Rightarrow> truth may_panic" where
  "truth_loop X names payer pre post earlier [] out = Some out"
| "truth_loop X names payer pre post earlier (ix # ixs) out = do {
     out \<leftarrow> truth_step X names payer pre post earlier ix out;
     truth_loop X names payer pre post (earlier @ [ix]) ixs out }"

definition account_keys :: "json \<Rightarrow> string list may_panic" where
  "account_keys t = do {
     keys \<leftarrow> as_array (field_of (field_of (field_of t ''transaction'') ''message'') ''accountKeys'');
     keys \<leftarrow> map_may_panic as_str keys;
     loaded \<leftarrow> map_may_panic (\<lambda>k. items_or_default as_str (field_of (field_of (field_of t ''meta'') ''loadedAddresses'') k))
       [''writable'', ''readonly''];
     Some (keys @ concat loaded) }"

definition truth_of :: "externals \<Rightarrow> (string \<Rightarrow> bytes option) \<Rightarrow> json \<Rightarrow> json \<Rightarrow> truth may_panic" where
  "truth_of X decode idl v = do {
     names \<leftarrow> idl_names idl;
     let t = result_of v;
     let meta = field_of t ''meta'';
     keys \<leftarrow> account_keys t;
     payer \<leftarrow> vec_get keys 0;
     pre \<leftarrow> balance_rows meta ''preTokenBalances'';
     post \<leftarrow> balance_rows meta ''postTokenBalances'';
     flat \<leftarrow> flat_ixs decode keys (field_of (field_of t ''transaction'') ''message'') meta;
     truth_loop X names payer pre post [] flat \<lparr>tt_expected = [], tt_pool_events = [], tt_multi_hop = False\<rparr> }"

section \<open>The comparison\<close>

definition run :: "externals \<Rightarrow> tx_info \<Rightarrow> u64 \<Rightarrow> string set \<Rightarrow> trade_record list may_panic" where
  "run X tx slot whitelist =
     (case process_pump_swap_tx X 0 tx slot whitelist False
             \<lparr>as_channel = [], as_channel_closed = False, as_trade_counter = 0, as_log = []\<rparr> of
        Some (Inr _, st) \<Rightarrow> Some (as_channel st)
      | _ \<Rightarrow> None)"

text \<open>Every mint the transaction mentions.\<close>
definition whitelist_all :: "json \<Rightarrow> string set may_panic" where
  "whitelist_all v = do {
     let meta = field_of (result_of v) ''meta'';
     mints \<leftarrow> map_may_panic (\<lambda>k. do {
       bs \<leftarrow> as_array (field_of meta k);
       map_may_panic (\<lambda>b. as_str (field_of b ''mint'')) bs }) [''preTokenBalances'', ''postTokenBalances''];
     Some (set (concat mints)) }"

definition expected_of :: "trade_record \<Rightarrow> expected" where
  "expected_of r = \<lparr>ex_pool = tr_pool_address r, ex_mint = tr_mint_address r, ex_quote_mint = tr_quote_mint_address r,
     ex_user = tr_user_pubkey r, ex_is_buy = tr_is_buy r, ex_token_amount = tr_token_amount r,
     ex_instruction_type = tr_instruction_type r\<rparr>"

text \<open>The checks of one fixture in \<open>real_upgrade_transactions_record_exactly_the_chain_pool_trades\<close>.\<close>
definition records_exactly_the_chain_pool_trades :: "externals \<Rightarrow> (string \<Rightarrow> bytes option) \<Rightarrow> json \<Rightarrow> json \<Rightarrow> bool" where
  "records_exactly_the_chain_pool_trades X decode idl v \<longleftrightarrow>
     (case do {
        truth \<leftarrow> truth_of X decode idl v;
        (tx, slot) \<leftarrow> rpc_json_to_grpc decode v;
        whitelist \<leftarrow> whitelist_all v;
        records \<leftarrow> run X tx slot whitelist;
        Some (map expected_of records = tt_expected truth \<and>
          list_all (\<lambda>(i, r). tr_ix_index r = of_nat i \<and> tr_success r \<and> tr_amount_source r = ''event'' \<and>
            (case tr_market_cap r of Some mc \<Rightarrow> 0 < mc | None \<Rightarrow> False) \<and> tr_slot r = slot) (List.enumerate 0 records) \<and>
          (tt_multi_hop truth \<longrightarrow> length records \<le> length (tt_pool_events truth))) } of
        Some b \<Rightarrow> b | None \<Rightarrow> False)"

text \<open>A failed route: no events, only the CPI into \<open>multi_hop_swap\<close> itself, unchanged balances.\<close>
definition fail_route :: "tx_info \<Rightarrow> tx_info" where
  "fail_route tx = tx\<lparr>tx_meta := map_option (\<lambda>meta. meta\<lparr>m_err := Some [1],
     m_inner_instructions := map (\<lambda>b. b\<lparr>block_instructions :=
       filter (\<lambda>ix. slice_get (ii_data ix) 0 8 = Some AMM_MULTI_HOP_SWAP_DISCRIMINATOR) (block_instructions b)\<rparr>) (m_inner_instructions meta),
     m_post_token_balances := m_pre_token_balances meta\<rparr>) (tx_meta tx)\<rparr>"

text \<open>The checks of one fixture in \<open>failed_multi_hop_routes_record_each_hop_from_the_instruction\<close>, and the number of its
  records.\<close>
definition failed_route_records :: "externals \<Rightarrow> (string \<Rightarrow> bytes option) \<Rightarrow> json \<Rightarrow> json \<Rightarrow> (bool \<times> nat) may_panic" where
  "failed_route_records X decode idl v = do {
     truth \<leftarrow> truth_of X decode idl v;
     if \<not> tt_multi_hop truth then Some (True, 0)
     else do {
       (tx, slot) \<leftarrow> rpc_json_to_grpc decode v;
       whitelist \<leftarrow> whitelist_all v;
       records \<leftarrow> run X (fail_route tx) slot whitelist;
       Some (map (\<lambda>r. (tr_mint_address r, tr_is_buy r, tr_instruction_type r)) records =
             map (\<lambda>e. (ex_mint e, ex_is_buy e, ex_instruction_type e)) (tt_expected truth) \<and>
           list_all (\<lambda>r. \<not> tr_success r \<and> tr_amount_source r = ''instruction_request'' \<and> tr_market_cap r = None) records,
         length records) } }"

end
