(* ===== verification/BuyFixture.thy ===== *)
theory BuyFixture
  imports Json Instructions
begin

text \<open>
  A mainnet buy on a SOL pool (\<open>src/fixtures/pump/upgrade_2026_10/mainnet_amm_buy_exact_quote_in_v2.json\<close>): the fields the
  tests read of the RPC response, with the third-party functions on what the transaction needs of them (base58 as tables,
  the derived addresses of its pairs).
\<close>

text \<open>Keys and their base58 texts.\<close>

definition bv_b0 :: pubkey where
  "bv_b0 = [193, 119, 208, 105, 252, 19, 132, 163, 235, 47, 149, 155, 211, 8, 253, 244, 107, 94, 134, 56, 93,
     60, 34, 241, 144, 247, 116, 107, 116, 71, 21, 176]"

definition bv_s0 :: string where
  "bv_s0 = ''E2DehCVgwJKhD9gmE9brzhuZJs8Uuwr7fyS1frVDJYvj''"

definition bv_b1 :: pubkey where
  "bv_b1 = [141, 218, 96, 25, 113, 151, 64, 67, 168, 121, 156, 209, 68, 247, 188, 205, 143, 42, 122, 148, 9,
     214, 205, 1, 106, 159, 159, 137, 108, 123, 16, 184]"

definition bv_s1 :: string where
  "bv_s1 = ''AYjcpthhkjnnLzgFoDXpb9g7MuziieGWvrEqhYk7H2zj''"

definition bv_b2 :: pubkey where
  "bv_b2 = [5, 4, 60, 246, 118, 100, 226, 229, 105, 179, 123, 102, 88, 149, 159, 213, 106, 133, 238, 85, 244,
     70, 14, 93, 118, 114, 94, 108, 252, 76, 185, 244]"

definition bv_s2 :: string where
  "bv_s2 = ''LandX2gHE7y6RejuvoLJK4hJiKkrAwcrJJ34u19Gmo1''"

definition bv_b3 :: pubkey where
  "bv_b3 = [163, 171, 36, 133, 100, 56, 12, 250, 214, 226, 124, 237, 223, 81, 56, 205, 47, 27, 82, 132, 143,
     79, 190, 166, 80, 76, 7, 61, 255, 239, 111, 116]"

definition bv_s3 :: string where
  "bv_s3 = ''C1tpDsdmb9Ug5LXkJVaYBU1RQLmi1YR7A6Y9a8EmU1PZ''"

definition bv_b4 :: pubkey where
  "bv_b4 = [214, 254, 253, 147, 104, 96, 231, 110, 35, 166, 138, 75, 204, 148, 28, 194, 13, 161, 93, 166, 103,
     136, 181, 136, 197, 81, 165, 15, 114, 213, 140, 84]"

definition bv_s4 :: string where
  "bv_s4 = ''FUFmDAvcueS4smWVKDwT4DHZuNoZuBAaMcFZJ9WEjCbM''"

definition bv_b5 :: pubkey where
  "bv_b5 = [151, 32, 79, 149, 32, 156, 103, 139, 203, 7, 88, 41, 72, 83, 213, 122, 240, 120, 78, 188, 179, 68,
     191, 214, 106, 14, 61, 243, 223, 55, 14, 98]"

definition bv_s5 :: string where
  "bv_s5 = ''BAw926tuDeBMWvTUMPk7uSnSvcvTVam2ZztsqNFzQz6M''"

definition bv_b6 :: pubkey where
  "bv_b6 = [236, 123, 228, 52, 39, 7, 161, 130, 117, 109, 130, 57, 129, 85, 132, 118, 34, 108, 35, 4, 1, 122,
     250, 188, 71, 120, 182, 110, 9, 187, 117, 120]"

definition bv_s6 :: string where
  "bv_s6 = ''Gv8ne3DearqSMvjzVQ1ZeSb4zyqgZ1vyxMprXxqDQ8Fy''"

definition bv_b7 :: pubkey where
  "bv_b7 = [161, 77, 51, 98, 237, 157, 30, 148, 72, 207, 219, 203, 73, 19, 244, 56, 247, 241, 219, 202, 60,
     138, 10, 230, 95, 138, 64, 212, 97, 75, 147, 253]"

definition bv_s7 :: string where
  "bv_s7 = ''Brev8cKpNhX9kBQZAyRyW7RmAmWaKe6aoQXwghpPmSFn''"

definition bv_b8 :: pubkey where
  "bv_b8 = [149, 28, 144, 51, 15, 139, 58, 213, 62, 0, 164, 64, 250, 245, 246, 129, 156, 155, 255, 182, 39,
     114, 120, 117, 50, 104, 36, 124, 217, 234, 58, 97]"

definition bv_s8 :: string where
  "bv_s8 = ''B351VWdVi3DHpVeQLjd6oRPD7PvoHNUwy2WF93ubnR4k''"

definition bv_b9 :: pubkey where
  "bv_b9 = [225, 62, 99, 112, 138, 238, 100, 88, 227, 145, 129, 184, 235, 130, 36, 192, 12, 170, 218, 199, 93,
     196, 64, 200, 185, 193, 207, 135, 194, 225, 68, 43]"

definition bv_s9 :: string where
  "bv_s9 = ''GAFuhgcd328SkkBYHpfadzmef9hTGAFRCi9QoCnsZQug''"

definition bv_b10 :: pubkey where
  "bv_b10 = [6, 167, 213, 23, 25, 44, 86, 142, 224, 138, 132, 95, 115, 210, 151, 136, 207, 3, 92, 49, 69, 178,
     26, 179, 68, 216, 6, 46, 169, 64, 0, 0]"

definition bv_s10 :: string where
  "bv_s10 = ''SysvarRecentB1ockHashes11111111111111111111''"

definition bv_b11 :: pubkey where
  "bv_b11 = [0, 0, 0, 0, 0, 0, 0, 0, 0, 0, 0, 0, 0, 0, 0, 0, 0, 0, 0, 0, 0, 0, 0, 0, 0, 0, 0, 0, 0, 0, 0, 0]"

definition bv_s11 :: string where
  "bv_s11 = ''11111111111111111111111111111111''"

definition bv_b12 :: pubkey where
  "bv_b12 = [117, 94, 71, 30, 60, 215, 74, 213, 20, 10, 45, 176, 32, 43, 212, 233, 156, 78, 42, 126, 100, 225,
     210, 28, 238, 39, 221, 177, 53, 200, 86, 127]"

definition bv_s12 :: string where
  "bv_s12 = ''8uA5fVLw2TeK3UMympuorTXNY7ni8qpuW4MdfP6apump''"

definition bv_b13 :: pubkey where
  "bv_b13 = [6, 221, 246, 225, 238, 117, 143, 222, 24, 66, 93, 188, 228, 108, 205, 218, 182, 26, 252, 77, 131,
     185, 13, 39, 254, 189, 249, 40, 216, 161, 139, 252]"

definition bv_s13 :: string where
  "bv_s13 = ''TokenzQdBNbLqP5VEhdkAS6EPFLC1PHnBqCXEpPxuEb''"

definition bv_b14 :: pubkey where
  "bv_b14 = [137, 11, 166, 68, 254, 31, 85, 170, 25, 241, 28, 210, 210, 236, 20, 211, 35, 59, 110, 10, 75, 234,
     238, 247, 43, 105, 133, 142, 33, 225, 112, 214]"

definition bv_s14 :: string where
  "bv_s14 = ''ADyA8hdefvWN2dbGGWFotbzWxrAvLW83WG6QCVXvJKqw''"

definition bv_b15 :: pubkey where
  "bv_b15 = [6, 155, 136, 87, 254, 171, 129, 132, 251, 104, 127, 99, 70, 24, 192, 53, 218, 196, 57, 220, 26,
     235, 59, 85, 152, 160, 240, 0, 0, 0, 0, 1]"

definition bv_s15 :: string where
  "bv_s15 = ''So11111111111111111111111111111111111111112''"

definition bv_b16 :: pubkey where
  "bv_b16 = [6, 221, 246, 225, 215, 101, 161, 147, 217, 203, 225, 70, 206, 235, 121, 172, 28, 180, 133, 237, 95,
     91, 55, 145, 58, 140, 245, 133, 126, 255, 0, 169]"

definition bv_s16 :: string where
  "bv_s16 = ''TokenkegQfeZyiNwAJbNbGKPFXCWuBvf9Ss623VQ5DA''"

definition bv_b17 :: pubkey where
  "bv_b17 = [65, 36, 110, 204, 125, 120, 254, 129, 228, 23, 115, 164, 105, 101, 65, 153, 55, 146, 58, 7, 100,
     71, 151, 223, 111, 62, 181, 20, 66, 96, 16, 203]"

definition bv_s17 :: string where
  "bv_s17 = ''5PHirr8joyTMp9JMm6nW7hNDVyEYdkzDqazxPD7RaTjx''"

definition bv_b18 :: pubkey where
  "bv_b18 = [229, 74, 112, 149, 40, 131, 159, 97, 192, 185, 184, 96, 121, 137, 28, 19, 146, 22, 228, 122, 113,
     182, 47, 183, 59, 236, 114, 22, 148, 88, 116, 94]"

definition bv_s18 :: string where
  "bv_s18 = ''GS4CU59F31iL7aR2Q8zVS8DRrcRnXX1yjQ66TqNVQnaR''"

definition bv_b19 :: pubkey where
  "bv_b19 = [12, 20, 222, 252, 130, 94, 198, 118, 148, 37, 8, 24, 187, 101, 64, 101, 244, 41, 141, 49, 86, 213,
     113, 180, 212, 248, 9, 12, 24, 233, 168, 99]"

definition bv_s19 :: string where
  "bv_s19 = ''pAMMBay6oceH9fJKBRHGP5D4bD4sWpmSwMn52FMfXEA''"

definition bv_b20 :: pubkey where
  "bv_b20 = [1, 86, 224, 246, 147, 102, 90, 207, 68, 219, 21, 104, 191, 23, 91, 170, 81, 137, 203, 151, 245,
     210, 255, 59, 101, 93, 43, 182, 253, 109, 24, 176]"

definition bv_s20 :: string where
  "bv_s20 = ''6EF8rrecthR5Dkzon8Nwu78hRvfCKubJ14M5uBEwF6P''"

definition bv_b21 :: pubkey where
  "bv_b21 = [3, 6, 70, 111, 229, 33, 23, 50, 255, 236, 173, 186, 114, 195, 155, 231, 188, 140, 229, 187, 197,
     247, 18, 107, 44, 67, 155, 58, 64, 0, 0, 0]"

definition bv_s21 :: string where
  "bv_s21 = ''ComputeBudget111111111111111111111111111111''"

definition bv_b22 :: pubkey where
  "bv_b22 = [19, 93, 26, 174, 121, 185, 40, 252, 133, 138, 167, 203, 171, 197, 50, 89, 71, 101, 173, 61, 2, 22,
     66, 25, 217, 92, 94, 144, 120, 55, 158, 55]"

definition bv_s22 :: string where
  "bv_s22 = ''2Jb67PWRvkUMn4VqCkisjRQPq3H3cZ5YyD63H4eBn1HG''"

definition bv_b23 :: pubkey where
  "bv_b23 = [146, 87, 25, 76, 158, 29, 100, 79, 50, 174, 95, 132, 145, 129, 63, 79, 0, 85, 233, 34, 102, 229,
     102, 195, 83, 53, 254, 104, 45, 241, 70, 213]"

definition bv_s23 :: string where
  "bv_s23 = ''ArFZAPgyCYBNDRGTKxAxgsNgcRoi2uN4ehK3e1iEZKBS''"

definition bv_b24 :: pubkey where
  "bv_b24 = [130, 157, 74, 251, 207, 198, 3, 30, 233, 157, 165, 101, 77, 242, 229, 64, 68, 247, 123, 208, 11,
     10, 190, 41, 216, 196, 55, 1, 203, 215, 251, 221]"

definition bv_s24 :: string where
  "bv_s24 = ''9ns7TazTEx3S6z25F97zWGpd32eEcvgpQ59avGF3wsnL''"

text \<open>The account keys first, then the other keys the tests meet.\<close>
definition bv_keys :: "(bytes \<times> string) list" where
  "bv_keys =
    [(bv_b0, bv_s0), (bv_b1, bv_s1), (bv_b2, bv_s2), (bv_b3, bv_s3), (bv_b4, bv_s4), (bv_b5, bv_s5), (bv_b6, bv_s6),
     (bv_b7, bv_s7), (bv_b8, bv_s8), (bv_b9, bv_s9), (bv_b10, bv_s10), (bv_b11, bv_s11), (bv_b12, bv_s12), (bv_b13,
     bv_s13), (bv_b14, bv_s14), (bv_b15, bv_s15), (bv_b16, bv_s16), (bv_b17, bv_s17), (bv_b18, bv_s18), (bv_b19,
     bv_s19), (bv_b20, bv_s20), (bv_b21, bv_s21), (bv_b22, bv_s22), (bv_b23, bv_s23), (bv_b24, bv_s24)]"

text \<open>The texts of the instruction data, and last the signature, with their bytes.\<close>

definition bv_t0 :: string where
  "bv_t0 = ''6vx8P''"

definition bv_d0 :: bytes where
  "bv_d0 = [4, 0, 0, 0]"

definition bv_t1 :: string where
  "bv_t1 = ''3Bxs4NPqg44RZdFd''"

definition bv_d1 :: bytes where
  "bv_d1 = [2, 0, 0, 0, 128, 195, 201, 1, 0, 0, 0, 0]"

definition bv_t2 :: string where
  "bv_t2 = ''WrAciiGYhz1en9aCigCP4rGHCheWivK4y3LFVYBaJJWXURVNCggFSwi3nq9QxedL1SUUdkXyLCYj7MBZRcNRTjLsUP'' @
        ''FJsEH7Pjrw2HW2zKPJnC9C7p2BBj8skvRhynExZNUZrdH4X''"

definition bv_d2 :: bytes where
  "bv_d2 = [3, 0, 0, 0, 193, 119, 208, 105, 252, 19, 132, 163, 235, 47, 149, 155, 211, 8, 253, 244, 107, 94,
     134, 56, 93, 60, 34, 241, 144, 247, 116, 107, 116, 71, 21, 176, 9, 0, 0, 0, 0, 0, 0, 0, 81, 15, 122,
     38, 13, 75, 74, 50, 53, 186, 242, 32, 0, 0, 0, 0, 0, 182, 0, 0, 0, 0, 0, 0, 0, 6, 221, 246, 225,
     238, 117, 143, 222, 24, 66, 93, 188, 228, 108, 205, 218, 182, 26, 252, 77, 131, 185, 13, 39, 254,
     189, 249, 40, 216, 161, 139, 252]"

definition bv_t3 :: string where
  "bv_t3 = ''6a9vKdQ2VE9bXUdnHKJoCUgLwokiJKh7pNtbsASB2bhMh''"

definition bv_d3 :: bytes where
  "bv_d3 = [18, 193, 119, 208, 105, 252, 19, 132, 163, 235, 47, 149, 155, 211, 8, 253, 244, 107, 94, 134, 56,
     93, 60, 34, 241, 144, 247, 116, 107, 116, 71, 21, 176]"

definition bv_t4 :: string where
  "bv_t4 = ''JkK5BJGr6ZGoRpM96qUVWA3D1Gs5taAuV''"

definition bv_d4 :: bytes where
  "bv_d4 = [194, 171, 28, 70, 104, 77, 91, 47, 0, 47, 104, 89, 0, 0, 0, 0, 221, 46, 182, 154, 220, 25, 0, 0]"

definition bv_t5 :: string where
  "bv_t5 = ''ho155dZYVBzFf''"

definition bv_d5 :: bytes where
  "bv_d5 = [12, 132, 209, 6, 245, 106, 26, 0, 0, 6]"

definition bv_t6 :: string where
  "bv_t6 = ''h1R96FpD1g4rk''"

definition bv_d6 :: bytes where
  "bv_d6 = [12, 71, 17, 255, 88, 0, 0, 0, 0, 9]"

definition bv_t7 :: string where
  "bv_t7 = ''iTcTAcFeseGT2''"

definition bv_d7 :: bytes where
  "bv_d7 = [12, 185, 29, 105, 0, 0, 0, 0, 0, 9]"

definition bv_t8 :: string where
  "bv_t8 = ''4C5F6eoo1tP34joSMZoupfit7uexX7yCS9RWQ98VMbLiW6qeT1nDTkvFrge45TMRjkBgoykBvjk2DBgbhFLj4Ztm1o'' @
        ''SGPEVHWAHz6W74aHMMjDL1weeC6VjWurChaN5ytT6GnAXWvsLpa8TicuLvm6Y5SHj4BAW1h4TZe4qCUfvTQqkxHM6P'' @
        ''keGrcHLHbaaKziLA38G6VaC9qYiyhHd8y7qcSNTUWxQkvGApeLz5VPa6VauJbB13WB5V5KDPTvTpeEdmxBEeg7nhgg'' @
        ''L8hdaDxF3qQ7yRrY1q6vnDjffZjJPK8v4QzJyZkYWxPJoYWCpJjhYZYJLPi5n2UQkNZSkJnVS1kQcZvdL1XVf6JRx1'' @
        ''HBNbHgCs3AY6bsupXrkaCRRUc8swz5kKDYZoxkraqCQNiDfEEtCb4gY9UA7tzNZV9LAbp8FdS5bHG5m8WHpkeVBZyN'' @
        ''kKYbQy4df46zg1HtwriYvJ8DVPPoX6gvaX15x4TZuBZZK1SnLvhBE64ewEd8sB3wFVyCt9XPv1Z6iWYFGV2b1nrCQU'' @
        ''NXvQ78abKpJfAYwCpfFAPNnKZQDGJT8vnstg3k6jadd4Xn6KdPE1C48PWQmimqoB4Z6572j5CqHEA6HEAzu7VrUfKL'' @
        ''599BLBMPQFdi7odw7CJHT6Y64KYStkTTkMDJxiqkZxd4ZDhZNqKqvnvEWZF4FZfj98w6T8Vjfm''"

definition bv_d8 :: bytes where
  "bv_d8 = [228, 69, 165, 46, 81, 203, 154, 29, 103, 244, 82, 31, 44, 245, 119, 119, 92, 142, 199, 106, 0, 0,
     0, 0, 132, 209, 6, 245, 106, 26, 0, 0, 0, 47, 104, 89, 0, 0, 0, 0, 0, 0, 0, 0, 0, 0, 0, 0, 61, 215,
     251, 74, 1, 0, 0, 0, 91, 94, 90, 154, 254, 37, 2, 0, 33, 134, 203, 190, 2, 0, 0, 0, 0, 47, 104, 89,
     0, 0, 0, 0, 2, 0, 0, 0, 0, 0, 0, 0, 105, 133, 4, 0, 0, 0, 0, 0, 93, 0, 0, 0, 0, 0, 0, 0, 114, 59,
     210, 0, 0, 0, 0, 0, 113, 34, 82, 88, 0, 0, 0, 0, 8, 157, 77, 88, 0, 0, 0, 0, 214, 254, 253, 147,
     104, 96, 231, 110, 35, 166, 138, 75, 204, 148, 28, 194, 13, 161, 93, 166, 103, 136, 181, 136, 197,
     81, 165, 15, 114, 213, 140, 84, 193, 119, 208, 105, 252, 19, 132, 163, 235, 47, 149, 155, 211, 8,
     253, 244, 107, 94, 134, 56, 93, 60, 34, 241, 144, 247, 116, 107, 116, 71, 21, 176, 163, 171, 36,
     133, 100, 56, 12, 250, 214, 226, 124, 237, 223, 81, 56, 205, 47, 27, 82, 132, 143, 79, 190, 166, 80,
     76, 7, 61, 255, 239, 111, 116, 151, 32, 79, 149, 32, 156, 103, 139, 203, 7, 88, 41, 72, 83, 213,
     122, 240, 120, 78, 188, 179, 68, 191, 214, 106, 14, 61, 243, 223, 55, 14, 98, 0, 0, 0, 0, 0, 0, 0,
     0, 0, 0, 0, 0, 0, 0, 0, 0, 0, 0, 0, 0, 0, 0, 0, 0, 0, 0, 0, 0, 0, 0, 0, 0, 0, 0, 0, 0, 0, 0, 0, 0,
     0, 0, 0, 0, 0, 0, 0, 0, 0, 0, 0, 0, 0, 0, 0, 0, 0, 0, 0, 0, 0, 0, 0, 0, 123, 147, 56, 140, 186, 160,
     250, 54, 23, 106, 149, 72, 100, 35, 106, 53, 198, 193, 197, 243, 204, 140, 251, 228, 157, 107, 78,
     202, 98, 172, 29, 26, 30, 0, 0, 0, 0, 0, 0, 0, 29, 209, 67, 0, 0, 0, 0, 0, 0, 0, 0, 0, 0, 0, 0, 0,
     0, 0, 0, 0, 0, 0, 0, 0, 0, 0, 0, 0, 0, 0, 0, 0, 0, 0, 0, 0, 0, 0, 0, 0, 0, 221, 46, 182, 154, 220,
     25, 0, 0, 21, 0, 0, 0, 98, 117, 121, 95, 101, 120, 97, 99, 116, 95, 113, 117, 111, 116, 101, 95,
     105, 110, 95, 118, 50, 0, 0, 0, 0, 0, 0, 0, 0, 0, 0, 0, 0, 0, 0, 0, 0, 136, 19, 0, 0, 0, 0, 0, 0,
     185, 29, 105, 0, 0, 0, 0, 0, 183, 32, 75, 23, 4, 0, 0, 0, 0, 0, 0, 0, 0, 0, 0, 0, 1, 201, 129, 17,
     33, 203, 95, 3, 0, 0, 0, 0, 0, 0, 0, 0, 0, 0, 0, 0, 0, 0, 0, 0, 0, 202, 128, 154, 0, 0, 0, 0, 0]"

definition bv_t9 :: string where
  "bv_t9 = ''5rjb7utffTdrcfsezqB5yqTXig1QV9UTrMRkxANLm9ij98qQF8zGA4XwE1yfdi1mXjL3NNxghCsD5ZjNm8V5eW1''"

definition bv_d9 :: bytes where
  "bv_d9 = [4, 48, 92, 152, 199, 160, 56, 158, 76, 175, 4, 144, 108, 221, 9, 127, 246, 77, 136, 224, 246, 170,
     207, 72, 9, 206, 119, 103, 196, 118, 128, 46, 19, 130, 248, 157, 54, 122, 247, 133, 192, 227, 237,
     136, 26, 235, 208, 48, 174, 3, 180, 126, 240, 199, 253, 4, 50, 157, 156, 83, 117, 185, 100, 6]"

definition bv_data :: "(string \<times> bytes) list" where
  "bv_data =
    [(bv_t0, bv_d0), (bv_t1, bv_d1), (bv_t2, bv_d2), (bv_t3, bv_d3), (bv_t4, bv_d4), (bv_t5, bv_d5), (bv_t6, bv_d6),
     (bv_t7, bv_d7), (bv_t8, bv_d8), (bv_t9, bv_d9)]"

definition bv_ix :: "int \<Rightarrow> int list \<Rightarrow> string \<Rightarrow> (string \<times> json) list" where
  "bv_ix program accounts t = [(''programIdIndex'', Num program), (''accounts'', Arr (map Num accounts)), (''data'', Str t)]"

definition bv_inner :: "int \<Rightarrow> int list \<Rightarrow> string \<Rightarrow> int \<Rightarrow> json" where
  "bv_inner program accounts t height = Obj (bv_ix program accounts t @ [(''stackHeight'', Num height)])"

text \<open>A row of token balances: account index, mint, owner, amount, decimals.\<close>
definition bv_balance :: "int \<Rightarrow> string \<Rightarrow> string \<Rightarrow> string \<Rightarrow> int \<Rightarrow> json" where
  "bv_balance account mint owner amount decimals =
     Obj [(''accountIndex'', Num account), (''mint'', Str mint), (''owner'', Str owner),
       (''uiTokenAmount'', Obj [(''amount'', Str amount), (''decimals'', Num decimals)])]"

definition bv_instructions :: "json list" where
  "bv_instructions =
    [Obj (bv_ix 11 [1, 10, 0] bv_t0),
     Obj (bv_ix 11 [0, 2] bv_t1),
     Obj (bv_ix 11 [0, 3] bv_t2),
     Obj (bv_ix 13 [3, 12] bv_t3),
     Obj (bv_ix 19 [4, 0, 14, 12, 15, 3, 5, 6, 7, 13, 16, 11, 8, 17, 9, 18, 19] bv_t4)]"

definition bv_blocks :: "json list" where
  "bv_blocks =
    [Obj [(''index'', Num 4), (''instructions'', Arr
      [bv_inner 13 [6, 12, 3, 4] bv_t5 2,
       bv_inner 16 [5, 15, 7, 0] bv_t6 2,
       bv_inner 16 [5, 15, 9, 0] bv_t7 2,
       bv_inner 19 [18] bv_t8 2])]]"

definition bv_pre :: "json list" where
  "bv_pre =
    [bv_balance 5 bv_s15 bv_s0 ''5552985917'' 9,
     bv_balance 6 bv_s12 bv_s4 ''604725394955867'' 6,
     bv_balance 7 bv_s15 bv_s4 ''11790943777'' 9,
     bv_balance 9 bv_s15 ''9M4giFFMxmFGXtc3feFzRai56WbBqehoSeRE5GK7gf7'' ''2194904'' 9]"

definition bv_post :: "json list" where
  "bv_post =
    [bv_balance 3 bv_s12 bv_s0 ''29046679720324'' 6,
     bv_balance 5 bv_s15 bv_s0 ''4052985917'' 9,
     bv_balance 6 bv_s12 bv_s4 ''575678715235543'' 6,
     bv_balance 7 bv_s15 bv_s4 ''13284054888'' 9,
     bv_balance 9 bv_s15 ''9M4giFFMxmFGXtc3feFzRai56WbBqehoSeRE5GK7gf7'' ''9083793'' 9]"

definition bv_json :: json where
  "bv_json = Obj
     [(''slot'', Num 454546689),
      (''transaction'', Obj
        [(''message'', Obj [(''accountKeys'', Arr (map (Str \<circ> snd) (take 20 bv_keys))), (''instructions'', Arr bv_instructions)]),
         (''signatures'', Arr [Str bv_t9])]),
      (''meta'', Obj
        [(''err'', Null), (''innerInstructions'', Arr bv_blocks), (''loadedAddresses'', Obj
           [(''writable'', Arr []), (''readonly'', Arr [])]),
         (''preBalances'', Arr [Num 5585211528, Num 1056640, Num 717582691, Num 0, Num 2179320, Num 5554474357, Num 1513840, Num
          11792432217, Num 1346200, Num 4234184, Num 42706560, Num 1, Num 2697480, Num 70228638, Num 9272823,
          Num 1850025996548, Num 200654906, Num 33103977, Num 4641093, Num 1260746836]),
         (''postBalances'', Arr [Num 5550047238, Num 1056640, Num 747582691, Num 2159290, Num 2179320, Num 4054474357, Num 1513840,
          Num 13285543328, Num 1346200, Num 11123073, Num 42706560, Num 1, Num 2697480, Num 70228638, Num
          9272823, Num 1850025996548, Num 200654906, Num 33103977, Num 4641093, Num 1260746836]),
         (''preTokenBalances'', Arr bv_pre), (''postTokenBalances'', Arr bv_post),
         (''computeUnitsConsumed'', Num 55967)])]"

text \<open>The derived addresses of the pairs of the transaction, in both orders.\<close>
definition bv_derived :: "((bytes list \<times> pubkey) \<times> pubkey) list" where
  "bv_derived =
    [(([ascii ''pool-authority'', bv_b12], bv_b20),
      bv_b22),
     (([ascii ''pool'', [0, 0], bv_b22, bv_b12, bv_b15], bv_b19),
      bv_b4),
     (([ascii ''pool-authority'', bv_b15], bv_b20),
      bv_b23),
     (([ascii ''pool'', [0, 0], bv_b23, bv_b15, bv_b12], bv_b19),
      bv_b24)]"

text \<open>The message the response describes.\<close>
definition bv_message :: message where
  "bv_message = \<lparr>msg_account_keys = map fst (take 20 bv_keys), msg_instructions =
    [\<lparr>ci_program_id_index = 11, ci_accounts = [1, 10, 0], ci_data = bv_d0\<rparr>,
     \<lparr>ci_program_id_index = 11, ci_accounts = [0, 2], ci_data = bv_d1\<rparr>,
     \<lparr>ci_program_id_index = 11, ci_accounts = [0, 3], ci_data = bv_d2\<rparr>,
     \<lparr>ci_program_id_index = 13, ci_accounts = [3, 12], ci_data = bv_d3\<rparr>,
     \<lparr>ci_program_id_index = 19, ci_accounts = [4, 0, 14, 12, 15, 3, 5, 6, 7, 13, 16, 11, 8, 17, 9, 18, 19],
       ci_data = bv_d4\<rparr>]\<rparr>"

definition bv_meta :: transaction_status_meta where
  "bv_meta =
    \<lparr>m_err = None,
     m_inner_instructions =
      [\<lparr>block_index = 4, block_instructions =
        [\<lparr>ii_program_id_index = 13, ii_accounts = [6, 12, 3, 4], ii_data = bv_d5, ii_stack_height = Some
           2\<rparr>,
         \<lparr>ii_program_id_index = 16, ii_accounts = [5, 15, 7, 0], ii_data = bv_d6, ii_stack_height = Some
           2\<rparr>,
         \<lparr>ii_program_id_index = 16, ii_accounts = [5, 15, 9, 0], ii_data = bv_d7, ii_stack_height = Some
           2\<rparr>,
         \<lparr>ii_program_id_index = 19, ii_accounts = [18], ii_data = bv_d8, ii_stack_height = Some 2\<rparr>]\<rparr>],
     m_loaded_writable_addresses = [], m_loaded_readonly_addresses = [],
     m_pre_balances = [5585211528, 1056640, 717582691, 0, 2179320, 5554474357, 1513840, 11792432217, 1346200, 4234184,
        42706560, 1, 2697480, 70228638, 9272823, 1850025996548, 200654906, 33103977, 4641093, 1260746836],
     m_post_balances = [5550047238, 1056640, 747582691, 2159290, 2179320, 4054474357, 1513840, 13285543328, 1346200,
        11123073, 42706560, 1, 2697480, 70228638, 9272823, 1850025996548, 200654906, 33103977, 4641093,
        1260746836],
     m_pre_token_balances =
      [\<lparr>tb_account_index = 5, tb_mint = bv_s15, tb_ui_token_amount = Some \<lparr>uta_amount = ''5552985917'', uta_decimals = 9\<rparr>\<rparr>,
       \<lparr>tb_account_index = 6, tb_mint = bv_s12, tb_ui_token_amount = Some \<lparr>uta_amount = ''604725394955867'', uta_decimals = 6\<rparr>\<rparr>,
       \<lparr>tb_account_index = 7, tb_mint = bv_s15, tb_ui_token_amount = Some \<lparr>uta_amount = ''11790943777'', uta_decimals = 9\<rparr>\<rparr>,
       \<lparr>tb_account_index = 9, tb_mint = bv_s15, tb_ui_token_amount = Some \<lparr>uta_amount = ''2194904'', uta_decimals = 9\<rparr>\<rparr>],
     m_post_token_balances =
      [\<lparr>tb_account_index = 3, tb_mint = bv_s12, tb_ui_token_amount = Some \<lparr>uta_amount = ''29046679720324'', uta_decimals = 6\<rparr>\<rparr>,
       \<lparr>tb_account_index = 5, tb_mint = bv_s15, tb_ui_token_amount = Some \<lparr>uta_amount = ''4052985917'', uta_decimals = 9\<rparr>\<rparr>,
       \<lparr>tb_account_index = 6, tb_mint = bv_s12, tb_ui_token_amount = Some \<lparr>uta_amount = ''575678715235543'', uta_decimals = 6\<rparr>\<rparr>,
       \<lparr>tb_account_index = 7, tb_mint = bv_s15, tb_ui_token_amount = Some \<lparr>uta_amount = ''13284054888'', uta_decimals = 9\<rparr>\<rparr>,
       \<lparr>tb_account_index = 9, tb_mint = bv_s15, tb_ui_token_amount = Some \<lparr>uta_amount = ''9083793'', uta_decimals = 9\<rparr>\<rparr>],
     m_log_messages = [], m_compute_units_consumed = Some 55967\<rparr>"

definition bv_tx :: tx_info where
  "bv_tx = \<lparr>tx_signature_bytes = bv_d9, tx_transaction = Some (Some bv_message), tx_meta = Some bv_meta\<rparr>"

definition bv_decode :: "string \<Rightarrow> bytes option" where
  "bv_decode = table_decode bv_keys bv_data"

definition bv_text :: "bytes \<Rightarrow> string" where
  "bv_text b = (case map_of (bv_keys @ map prod.swap bv_data) b of Some s \<Rightarrow> s | None \<Rightarrow> ''unknown'')"

definition bv_ext :: externals where
  "bv_ext = demo_ext\<lparr>
     x_pubkey_to_string := bv_text, x_pubkey_from_str := map_of (map prod.swap bv_keys),
     x_find_program_address := (\<lambda>seeds program. case map_of bv_derived (seeds, program) of Some k \<Rightarrow> k | None \<Rightarrow> replicate 32 0),
     x_compute_budget_id := bv_b21, x_bs58_encode := bv_text\<rparr>"

end
