(* ===== verification/ReplayTests.thy ===== *)
theory ReplayTests
  imports Replay BuyFixture PumpIdl AmmHandlerTests
begin

text \<open>
  The replay of a mainnet buy (\<open>mainnet_amm_buy_exact_quote_in_v2.json\<close>): the handler records exactly the trade that the
  response and the IDL say the transaction made, with its event, currency and market cap.
\<close>

section \<open>The handler on the message\<close>

lemma bv_marks: "distinct (map text_mark (map snd bv_keys @ map fst bv_data))"
  by code_simp

lemmas bv_decoded = table_decode_all(2) [OF bv_marks, folded bv_decode_def, unfolded bv_data_def, simplified]

lemmas bv_decoded_keys = table_decode_keys [OF bv_marks sublist_keys(1), folded bv_decode_def]

lemma bv_key_marks: "distinct (map (take 8) (map fst bv_keys))"
  by code_simp

lemma bv_all_texts: "list_all (\<lambda>(b, t). x_pubkey_to_string bv_ext b = t) bv_keys"
  using table_text_all [OF bv_key_marks, of "map prod.swap bv_data"] by (simp add: list_all_iff split_beta bv_ext_def bv_text_def)

lemmas bv_key_texts = bv_all_texts [unfolded bv_keys_def, simplified]

definition bv_full :: "bytes list" where
  "bv_full = full_account_list bv_message bv_meta"

definition bv_trade :: compiled_instruction where
  "bv_trade = \<lparr>ci_program_id_index = 19, ci_accounts = [4, 0, 14, 12, 15, 3, 5, 6, 7, 13, 16, 11, 8, 17, 9, 18, 19], ci_data = bv_d4\<rparr>"

definition bv_event_ix :: compiled_instruction where
  "bv_event_ix = \<lparr>ci_program_id_index = 19, ci_accounts = [18], ci_data = bv_d8\<rparr>"

definition bv_fill :: trade_fill where
  "bv_fill = \<lparr>fl_pool_address = bv_s4, fl_mint = bv_s12, fl_quote_mint = bv_s15, fl_quote_currency = Sol,
     fl_instruction_type = ''buy_exact_quote_in_v2'', fl_is_cpi = False, fl_user = bv_s0, fl_is_buy = True,
     fl_token_amount = 29046679720324, fl_quote_volume = 1481481480,
     fl_market_cap = Some (get_market_cap_from_reserves 604725394955867 29361612504 Sol),
     fl_base_reserves = 604725394955867, fl_quote_reserves = 29361612504, fl_amount_source = ''event''\<rparr>"

lemma bv_inputs: "amm_inputs bv_ext bv_tx = Inr (bv_b19, bv_b20, bv_message, bv_meta)"
proof -
  have "x_pubkey_from_str bv_ext PUMP_SWAP_PROGRAM_ID = Some bv_b19" "x_pubkey_from_str bv_ext PUMP_PROGRAM_ID = Some bv_b20" by code_simp+
  then show ?thesis by (simp add: amm_inputs_def bv_tx_def)
qed

lemma bv_items: "get_program_instructions bv_message bv_meta bv_full bv_b19 = [(bv_trade, 4, 0), (bv_event_ix, 4, 4)]"
  by code_simp

lemma bv_trade_data:
  "length bv_d4 \<ge> 8" "take 8 bv_d4 \<noteq> AMM_MULTI_HOP_SWAP_DISCRIMINATOR" 
  "length bv_d8 \<ge> 8" "take 8 bv_d8 \<noteq> AMM_MULTI_HOP_SWAP_DISCRIMINATOR" "pump_swap_trade_ix (take 8 bv_d8) = None"
  by code_simp+

lemma bv_kind: "pump_swap_trade_ix (take 8 bv_d4) = Some \<lparr>ti_name = ''buy_exact_quote_in_v2'', ti_is_buy = True, ti_is_exact_in = True,
     ti_event_disc = PUMP_SWAP_BUY_EVENT_DISC\<rparr>"
  by code_simp

lemma bv_trade_keys: "trade_keys bv_ext bv_trade bv_full = Some ((bv_s12, bv_s15, bv_s4), (bv_b12, bv_b15, bv_b4))"
  by code_simp

lemma bv_user: "resolve_instruction_account bv_ext bv_trade bv_full 1 = Some bv_s0"
  by code_simp

lemma bv_found: "find_event_data bv_meta 4 0 19 PUMP_SWAP_BUY_EVENT_DISC = Some (Some (drop 8 bv_d8))"
  by code_simp

lemma bv_event:
  "extract_pool_reserves_from_data (drop 8 bv_d8) = Some (Some 604725394955867, Some 11790943777)"
  "extract_quote_volume (drop 8 bv_d8) = Some (Some 1481481480, Some 1500000000)"
  "extract_transaction_amounts (drop 8 bv_d8) = Some (Some 29046679720324)"
  "extract_pump_swap_virtual_quote_reserves (drop 8 bv_d8) True = Some (Some 17570668727)"
  by code_simp+

lemma bv_amounts:
  "event_amounts (drop 8 bv_d8) PUMP_SWAP_BUY_EVENT_DISC True Sol = Some (Some (29046679720324, 1481481480,
     Some (get_market_cap_from_reserves 604725394955867 29361612504 Sol), 604725394955867, 29361612504))"
proof -
  have "PUMP_SWAP_BUY_EVENT_DISC \<noteq> PUMP_SWAP_BOOST_BUY_EVENT_DISC" by code_simp
  moreover have "effective_quote_reserves 11790943777 (Some 17570668727) = 29361612504"
    by (simp add: effective_of_spec)
  ultimately show ?thesis by (simp add: event_amounts_def bv_event)
qed

lemma bv_canonical: "canonical_pump_swap_pool bv_ext bv_b12 bv_b15 bv_b20 bv_b19 = bv_b4"
  by code_simp

lemma bv_eligible_texts: "x_pubkey_to_string bv_ext bv_b12 = bv_s12" "x_pubkey_to_string bv_ext bv_b15 = bv_s15"
  "quote_currency_of bv_ext bv_s15 = Some Sol" "bv_s12 \<noteq> WSOL_MINT"
  by (simp_all add: bv_key_texts) code_simp+

lemma bv_cap: "get_market_cap_from_reserves 604725394955867 29361612504 Sol = 48553629050"
proof -
  have "f64_round (cap_val 604725394955867 29361612504 Sol) = 48553629050" by code_simp
  then show ?thesis by (simp add: market_cap_closed f64_as_u64_def)
qed

section \<open>The record\<close>

abbreviation bv_input :: amm_input where "bv_input \<equiv> (bv_b19, bv_b20, bv_message, bv_meta)"

abbreviation bv_ctx :: tx_context where
  "bv_ctx \<equiv> amm_context bv_ext 0 bv_tx 454546689 {bv_s12, bv_s15} False bv_input"

lemma bv_ok: "tx_succeeded bv_tx"
  by (simp add: tx_succeeded_def bv_tx_def bv_meta_def)

lemma bv_eligible: "eligible bv_ext bv_ctx bv_b4 bv_b12 bv_b15 = Some Sol"
  by (simp add: eligible_def bv_eligible_texts bv_canonical)

lemma bv_trade_amounts:
  "trade_amounts bv_ctx bv_trade bv_meta 4 0 \<lparr>ti_name = ''buy_exact_quote_in_v2'', ti_is_buy = True, ti_is_exact_in = True,
     ti_event_disc = PUMP_SWAP_BUY_EVENT_DISC\<rparr> Sol = Some ((29046679720324, 1481481480,
     Some (get_market_cap_from_reserves 604725394955867 29361612504 Sol), 604725394955867, 29361612504), ''event'')"
  by (simp add: trade_amounts_def bv_ok bv_trade_def bv_found bv_amounts)

lemma bv_fills: "amm_fills bv_ext 0 bv_tx 454546689 {bv_s12, bv_s15} False bv_input = [bv_fill]"
proof -
  have "single_trade_fill bv_ext bv_ctx bv_trade bv_meta bv_full 4 0 \<lparr>ti_name = ''buy_exact_quote_in_v2'', ti_is_buy = True,
      ti_is_exact_in = True, ti_event_disc = PUMP_SWAP_BUY_EVENT_DISC\<rparr> = Some (Some bv_fill)"
    by (simp add: single_trade_fill_def bv_trade_keys bv_eligible bv_trade_amounts bv_user [unfolded One_nat_def] unwrap_or_def bv_fill_def)
  moreover have "ci_data bv_trade = bv_d4" "ci_data bv_event_ix = bv_d8" by (simp_all add: bv_trade_def bv_event_ix_def)
  ultimately show ?thesis
    using bv_trade_data by (simp add: amm_fills_def fills_of_items_def fills_of_item_def bv_full_def [symmetric] bv_items bv_kind)
qed

lemma bv_run: "run bv_ext bv_tx 454546689 {bv_s12, bv_s15} = Some [trade_record_of bv_ctx bv_fill 0]"
  unfolding run_def process_closed [OF bv_inputs] bv_fills
  by (subst emit_fills_send) simp_all

section \<open>The comparison\<close>

lemma bv_instructions_read: "map_may_panic (compiled_of_json bv_decode) bv_instructions = Some (msg_instructions bv_message)"
  by (simp add: bv_instructions_def bv_message_def compiled_of_json_def bv_ix_def json_parts b58_of_def bv_decoded)

lemma bv_blocks_read: "map_may_panic (block_of_json bv_decode) bv_blocks = Some (m_inner_instructions bv_meta)"
  by (simp add: bv_blocks_def bv_meta_def block_of_json_def inner_of_json_def compiled_of_json_def bv_inner_def
    bv_ix_def json_parts b58_of_def bv_decoded)

lemma bv_balances_read:
  "map_may_panic token_balance_of_json bv_pre = Some (m_pre_token_balances bv_meta)"
  "map_may_panic token_balance_of_json bv_post = Some (m_post_token_balances bv_meta)"
  by (simp_all add: bv_pre_def bv_post_def bv_meta_def bv_balance_def token_balance_of_json_def json_parts Let_def)

lemma bv_parsed: "rpc_json_to_grpc bv_decode bv_json = Some (bv_tx, 454546689)"
  by (simp add: rpc_json_to_grpc_def result_of_def json_get_def bv_json_def Let_def items_or_default_def as_u64_def b58_of_def bv_decoded
    bv_decoded_keys bv_instructions_read bv_blocks_read bv_balances_read)
    (simp add: bv_tx_def bv_message_def bv_meta_def)

text \<open>What the truth is computed from: the executed instructions and the rows of token balances.\<close>

definition bv_flat :: "flat_ix list" where
  "bv_flat =
     [(bv_s11, bv_d0, 1),
      (bv_s11, bv_d1, 1),
      (bv_s11, bv_d2, 1),
      (bv_s13, bv_d3, 1),
      (bv_s19, bv_d4, 1),
      (bv_s13, bv_d5, 2),
      (bv_s16, bv_d6, 2),
      (bv_s16, bv_d7, 2),
      (bv_s19, bv_d8, 2)]"

definition bv_pre_rows :: "(string \<times> string \<times> int) list" where
  "bv_pre_rows =
     [(bv_s0, bv_s15, 5552985917),
      (bv_s4, bv_s12, 604725394955867),
      (bv_s4, bv_s15, 11790943777),
      (''9M4giFFMxmFGXtc3feFzRai56WbBqehoSeRE5GK7gf7'', bv_s15, 2194904)]"

definition bv_post_rows :: "(string \<times> string \<times> int) list" where
  "bv_post_rows =
     [(bv_s0, bv_s12, 29046679720324),
      (bv_s0, bv_s15, 4052985917),
      (bv_s4, bv_s12, 575678715235543),
      (bv_s4, bv_s15, 13284054888),
      (''9M4giFFMxmFGXtc3feFzRai56WbBqehoSeRE5GK7gf7'', bv_s15, 9083793)]"

lemma bv_flat_read:
  "flat_ixs bv_decode (map snd (take 20 bv_keys)) (field_of (field_of bv_json ''transaction'') ''message'') (field_of bv_json ''meta'') =
   Some bv_flat"
  by (simp add: flat_ixs_def flat_inner_def bv_json_def bv_instructions_def bv_blocks_def bv_ix_def bv_inner_def json_parts b58_of_def
    bv_decoded bv_keys_def bv_flat_def)

lemma bv_accounts_read: "account_keys bv_json = Some (map snd (take 20 bv_keys))"
  by (simp add: account_keys_def bv_json_def as_str_all items_or_default_def)

lemma bv_rows_read:
  "balance_rows (field_of bv_json ''meta'') ''preTokenBalances'' = Some bv_pre_rows"
  "balance_rows (field_of bv_json ''meta'') ''postTokenBalances'' = Some bv_post_rows"
  by code_simp+

lemma bv_result: "result_of bv_json = bv_json"
  by (simp add: result_of_def json_get_def bv_json_def)

lemma bv_payer: "vec_get (map snd (take 20 bv_keys)) 0 = Some bv_s0"
  by (simp add: bv_keys_def vec_get_def)

lemma bv_loop:
  "(case idl_names pump_amm_idl of None \<Rightarrow> None | Some names \<Rightarrow> truth_loop bv_ext names bv_s0 bv_pre_rows bv_post_rows [] bv_flat
      \<lparr>tt_expected = [], tt_pool_events = [], tt_multi_hop = False\<rparr>) =
   Some \<lparr>tt_expected =
      [\<lparr>ex_pool = bv_s4, ex_mint = bv_s12, ex_quote_mint = bv_s15, ex_user = bv_s0, ex_is_buy = True,
        ex_token_amount = 29046679720324, ex_instruction_type = ''buy_exact_quote_in_v2''\<rparr>],
     tt_pool_events = [(bv_s4, bv_s12, bv_s15, True)], tt_multi_hop = False\<rparr>"
  by code_simp

lemma bv_truth:
  "truth_of bv_ext bv_decode pump_amm_idl bv_json = Some \<lparr>tt_expected = [expected_of (trade_record_of bv_ctx bv_fill 0)],
     tt_pool_events = [(bv_s4, bv_s12, bv_s15, True)], tt_multi_hop = False\<rparr>"
  using bv_loop
  by (simp add: truth_of_def bv_result bv_accounts_read bv_payer bv_rows_read bv_flat_read expected_of_def trade_record_of_def bv_fill_def
    split: option.splits)

lemma bv_whitelist: "whitelist_all bv_json = Some {bv_s12, bv_s15}"
  by code_simp

text \<open>The checks of \<open>real_upgrade_transactions_record_exactly_the_chain_pool_trades\<close> on this fixture.\<close>

lemma bv_replayed: "records_exactly_the_chain_pool_trades bv_ext bv_decode pump_amm_idl bv_json"
  by (simp add: records_exactly_the_chain_pool_trades_def bv_truth bv_parsed bv_whitelist bv_run)
    (simp add: trade_record_of_def bv_fill_def bv_cap bv_ok)
end
