(* ===== verification/RouteFixture.thy ===== *)
theory RouteFixture
  imports Json Instructions
begin

text \<open>
  A devnet route over two pools, called by an aggregator (\<open>src/fixtures/pump/upgrade_2026_10/devnet_mh_cpi_pool_pool_buy.json\<close>): the fields the
  tests read of the RPC response, with the third-party functions on what the transaction needs of them (base58 as tables,
  the derived addresses of its pairs).
\<close>

text \<open>Keys and their base58 texts.\<close>

definition rb_b0 :: pubkey where
  "rb_b0 = [130, 229, 252, 228, 172, 19, 133, 194, 79, 122, 15, 30, 88, 132, 124, 238, 97, 41, 180, 30, 178,
     193, 89, 175, 134, 100, 58, 82, 89, 109, 24, 108]"

definition rb_s0 :: string where
  "rb_s0 = ''9oyQPAqwmgdVikuEYtiD55jLtHRtEoBqafipCto2ZF2j''"

definition rb_b1 :: pubkey where
  "rb_b1 = [35, 161, 33, 249, 190, 47, 5, 151, 20, 218, 174, 228, 250, 211, 205, 220, 147, 159, 182, 164, 68,
     176, 211, 72, 136, 197, 165, 12, 70, 143, 117, 15]"

definition rb_s1 :: string where
  "rb_s1 = ''3Q5n1WXoCs2RcXepVwdV5JvuBGEZGSZ5z11tMsTHwZFt''"

definition rb_b2 :: pubkey where
  "rb_b2 = [101, 29, 52, 60, 207, 129, 219, 204, 93, 142, 192, 41, 101, 178, 171, 7, 231, 89, 39, 35, 95, 229,
     96, 55, 153, 175, 185, 53, 99, 245, 229, 190]"

definition rb_s2 :: string where
  "rb_s2 = ''7oi1L8U9MRu5zDz5syFahsiLUric47LzvJBQX6r827ws''"

definition rb_b3 :: pubkey where
  "rb_b3 = [233, 135, 150, 83, 127, 194, 237, 242, 139, 73, 25, 105, 44, 93, 164, 21, 182, 33, 120, 50, 60,
     171, 18, 159, 108, 18, 192, 116, 148, 189, 114, 26]"

definition rb_s3 :: string where
  "rb_s3 = ''Gibue9oXLHexyyvc3ksjtw5aUMX4ch8WaBvqhzgbrXLm''"

definition rb_b4 :: pubkey where
  "rb_b4 = [104, 224, 163, 123, 236, 146, 150, 152, 111, 79, 16, 61, 24, 224, 244, 239, 151, 9, 116, 166, 180,
     178, 44, 90, 55, 196, 109, 70, 1, 51, 236, 139]"

definition rb_s4 :: string where
  "rb_s4 = ''84Q5BX5oSvDDmzctA6FqZTAccjxBCBNLi3BXWvw7oauG''"

definition rb_b5 :: pubkey where
  "rb_b5 = [248, 152, 57, 161, 203, 125, 233, 89, 93, 205, 119, 209, 194, 133, 213, 106, 118, 200, 245, 43,
     125, 228, 46, 79, 31, 120, 218, 130, 31, 108, 74, 219]"

definition rb_s5 :: string where
  "rb_s5 = ''HjQjngTDqoHE6aaGhUqfz9aQ7WZcBRjy5xB8PScLSr8i''"

definition rb_b6 :: pubkey where
  "rb_b6 = [31, 247, 208, 31, 119, 3, 240, 70, 177, 96, 161, 202, 226, 150, 232, 17, 239, 156, 206, 90, 135,
     100, 225, 204, 104, 78, 150, 8, 128, 198, 130, 145]"

definition rb_s6 :: string where
  "rb_s6 = ''39nojL6jbV1weAw5mmZbf74rGCbHWazyuvWCCEYLzqxc''"

definition rb_b7 :: pubkey where
  "rb_b7 = [144, 164, 2, 132, 225, 1, 233, 179, 50, 137, 16, 214, 210, 164, 164, 115, 17, 123, 103, 152, 203,
     231, 19, 67, 70, 36, 128, 231, 203, 188, 157, 11]"

definition rb_s7 :: string where
  "rb_s7 = ''Ajcm4LLiVszS6ZnLUw7xXd3Dr5pXb7JThkHVv5pdAKge''"

definition rb_b8 :: pubkey where
  "rb_b8 = [102, 158, 247, 43, 213, 108, 72, 148, 90, 19, 199, 233, 217, 255, 21, 146, 44, 95, 75, 253, 202,
     229, 31, 32, 239, 121, 119, 169, 122, 107, 25, 45]"

definition rb_s8 :: string where
  "rb_s8 = ''7ubB9xbS3bNYHpj6wqTjmCSvQZZh8ByESHfjmka4DQa8''"

definition rb_b9 :: pubkey where
  "rb_b9 = [112, 71, 188, 84, 68, 248, 114, 83, 224, 152, 102, 18, 186, 142, 120, 131, 15, 60, 219, 52, 167,
     180, 8, 237, 171, 233, 186, 146, 170, 140, 237, 241]"

definition rb_s9 :: string where
  "rb_s9 = ''8ZJ781SL4SgboQCdqZJxZSCK3yP8nV7yCnPh5P5NwR92''"

definition rb_b10 :: pubkey where
  "rb_b10 = [244, 224, 110, 159, 41, 63, 168, 241, 111, 131, 64, 32, 78, 103, 90, 21, 139, 182, 157, 244, 112,
     244, 101, 222, 194, 238, 6, 218, 207, 162, 158, 224]"

definition rb_s10 :: string where
  "rb_s10 = ''HUty6WYEz8pCXyg8cx9xrw7trxiagq76BuAm6ZYLjvDM''"

definition rb_b11 :: pubkey where
  "rb_b11 = [124, 253, 222, 140, 8, 36, 163, 47, 149, 57, 22, 111, 187, 67, 151, 211, 240, 192, 171, 189, 246,
     150, 235, 123, 5, 13, 121, 37, 195, 252, 69, 108]"

definition rb_s11 :: string where
  "rb_s11 = ''9Qv5WrTZDCD2g35sbzfjTCVuvRjSx8x4ocn2Y2NW83du''"

definition rb_b12 :: pubkey where
  "rb_b12 = [203, 163, 50, 119, 249, 2, 171, 124, 55, 92, 87, 157, 71, 160, 123, 192, 159, 82, 134, 94, 91, 62,
     243, 193, 235, 179, 204, 189, 202, 205, 218, 76]"

definition rb_s12 :: string where
  "rb_s12 = ''Ehv6WfkzBSPkwGwwjcngjMREX49d3yaJpAcr8oX8TCiw''"

definition rb_b13 :: pubkey where
  "rb_b13 = [3, 6, 70, 111, 229, 33, 23, 50, 255, 236, 173, 186, 114, 195, 155, 231, 188, 140, 229, 187, 197,
     247, 18, 107, 44, 67, 155, 58, 64, 0, 0, 0]"

definition rb_s13 :: string where
  "rb_s13 = ''ComputeBudget111111111111111111111111111111''"

definition rb_b14 :: pubkey where
  "rb_b14 = [211, 37, 213, 150, 69, 18, 215, 179, 114, 140, 151, 115, 159, 152, 41, 61, 15, 174, 138, 210, 120,
     57, 47, 60, 243, 185, 195, 67, 155, 41, 151, 232]"

definition rb_s14 :: string where
  "rb_s14 = ''FDEV8rztEFgdYhYEgAtMqCFy6ZiMgQWHPbidd15XsHsd''"

definition rb_b15 :: pubkey where
  "rb_b15 = [0, 0, 0, 0, 0, 0, 0, 0, 0, 0, 0, 0, 0, 0, 0, 0, 0, 0, 0, 0, 0, 0, 0, 0, 0, 0, 0, 0, 0, 0, 0, 0]"

definition rb_s15 :: string where
  "rb_s15 = ''11111111111111111111111111111111''"

definition rb_b16 :: pubkey where
  "rb_b16 = [12, 20, 222, 252, 130, 94, 198, 118, 148, 37, 8, 24, 187, 101, 64, 101, 244, 41, 141, 49, 86, 213,
     113, 180, 212, 248, 9, 12, 24, 233, 168, 99]"

definition rb_s16 :: string where
  "rb_s16 = ''pAMMBay6oceH9fJKBRHGP5D4bD4sWpmSwMn52FMfXEA''"

definition rb_b17 :: pubkey where
  "rb_b17 = [137, 11, 166, 68, 254, 31, 85, 170, 25, 241, 28, 210, 210, 236, 20, 211, 35, 59, 110, 10, 75, 234,
     238, 247, 43, 105, 133, 142, 33, 225, 112, 214]"

definition rb_s17 :: string where
  "rb_s17 = ''ADyA8hdefvWN2dbGGWFotbzWxrAvLW83WG6QCVXvJKqw''"

definition rb_b18 :: pubkey where
  "rb_b18 = [65, 36, 110, 204, 125, 120, 254, 129, 228, 23, 115, 164, 105, 101, 65, 153, 55, 146, 58, 7, 100,
     71, 151, 223, 111, 62, 181, 20, 66, 96, 16, 203]"

definition rb_s18 :: string where
  "rb_s18 = ''5PHirr8joyTMp9JMm6nW7hNDVyEYdkzDqazxPD7RaTjx''"

definition rb_b19 :: pubkey where
  "rb_b19 = [6, 221, 246, 225, 215, 101, 161, 147, 217, 203, 225, 70, 206, 235, 121, 172, 28, 180, 133, 237, 95,
     91, 55, 145, 58, 140, 245, 133, 126, 255, 0, 169]"

definition rb_s19 :: string where
  "rb_s19 = ''TokenkegQfeZyiNwAJbNbGKPFXCWuBvf9Ss623VQ5DA''"

definition rb_b20 :: pubkey where
  "rb_b20 = [6, 221, 246, 225, 238, 117, 143, 222, 24, 66, 93, 188, 228, 108, 205, 218, 182, 26, 252, 77, 131,
     185, 13, 39, 254, 189, 249, 40, 216, 161, 139, 252]"

definition rb_s20 :: string where
  "rb_s20 = ''TokenzQdBNbLqP5VEhdkAS6EPFLC1PHnBqCXEpPxuEb''"

definition rb_b21 :: pubkey where
  "rb_b21 = [229, 74, 112, 149, 40, 131, 159, 97, 192, 185, 184, 96, 121, 137, 28, 19, 146, 22, 228, 122, 113,
     182, 47, 183, 59, 236, 114, 22, 148, 88, 116, 94]"

definition rb_s21 :: string where
  "rb_s21 = ''GS4CU59F31iL7aR2Q8zVS8DRrcRnXX1yjQ66TqNVQnaR''"

definition rb_b22 :: pubkey where
  "rb_b22 = [1, 86, 224, 246, 147, 102, 90, 207, 68, 219, 21, 104, 191, 23, 91, 170, 81, 137, 203, 151, 245,
     210, 255, 59, 101, 93, 43, 182, 253, 109, 24, 176]"

definition rb_s22 :: string where
  "rb_s22 = ''6EF8rrecthR5Dkzon8Nwu78hRvfCKubJ14M5uBEwF6P''"

definition rb_b23 :: pubkey where
  "rb_b23 = [58, 134, 94, 105, 238, 15, 84, 128, 202, 188, 246, 99, 87, 228, 220, 47, 24, 213, 141, 69, 193,
     234, 116, 137, 251, 55, 35, 217, 121, 60, 114, 166]"

definition rb_s23 :: string where
  "rb_s23 = ''4wTV1YmiEkRvAtNtsSGPtUrqRYQMe5SKy2uB4Jjaxnjf''"

definition rb_b24 :: pubkey where
  "rb_b24 = [111, 154, 180, 164, 241, 149, 141, 192, 169, 201, 76, 63, 183, 44, 7, 153, 88, 67, 237, 164, 133,
     227, 162, 79, 16, 198, 147, 153, 248, 25, 148, 15]"

definition rb_s24 :: string where
  "rb_s24 = ''8Wf5TiAheLUqBrKXeYg2JtAFFMWtKdG2BSFgqUcPVwTt''"

definition rb_b25 :: pubkey where
  "rb_b25 = [172, 241, 54, 235, 1, 252, 28, 78, 136, 61, 35, 200, 181, 132, 74, 181, 154, 55, 246, 106, 221, 87,
     197, 233, 172, 59, 83, 224, 89, 211, 92, 100]"

definition rb_s25 :: string where
  "rb_s25 = ''Ce6TQqeHC9p8KetsN6JsjHK7UTZk7nasjjnr7XxXp9F1''"

definition rb_b26 :: pubkey where
  "rb_b26 = [0, 0, 186, 154, 190, 21, 225, 118, 44, 222, 148, 1, 123, 194, 209, 28, 255, 219, 149, 103, 109,
     157, 164, 34, 105, 20, 237, 3, 195, 103, 55, 144]"

definition rb_s26 :: string where
  "rb_s26 = ''11ePeeKne8XJ8WvYwved1apRsQa8hWR8NesYs3QgmGs''"

definition rb_b27 :: pubkey where
  "rb_b27 = [6, 155, 136, 87, 254, 171, 129, 132, 251, 104, 127, 99, 70, 24, 192, 53, 218, 196, 57, 220, 26,
     235, 59, 85, 152, 160, 240, 0, 0, 0, 0, 1]"

definition rb_s27 :: string where
  "rb_s27 = ''So11111111111111111111111111111111111111112''"

definition rb_b28 :: pubkey where
  "rb_b28 = [102, 37, 112, 115, 61, 154, 161, 203, 234, 28, 221, 103, 15, 47, 113, 66, 161, 228, 254, 230, 124,
     128, 165, 90, 202, 10, 168, 2, 61, 12, 19, 125]"

definition rb_s28 :: string where
  "rb_s28 = ''7sjhQW8sMAPajez4h3L69WN76SQ4Ky8p1bdRxPrJ95gg''"

definition rb_b29 :: pubkey where
  "rb_b29 = [89, 185, 223, 132, 129, 43, 233, 217, 195, 83, 135, 25, 164, 154, 231, 151, 23, 42, 248, 149, 240,
     104, 92, 93, 113, 105, 96, 93, 194, 27, 212, 236]"

definition rb_s29 :: string where
  "rb_s29 = ''73FfzNT1yzNDmT283b36BeF6eJ6DhhKbEG2bPWTgTFgX''"

definition rb_b30 :: pubkey where
  "rb_b30 = [146, 87, 25, 76, 158, 29, 100, 79, 50, 174, 95, 132, 145, 129, 63, 79, 0, 85, 233, 34, 102, 229,
     102, 195, 83, 53, 254, 104, 45, 241, 70, 213]"

definition rb_s30 :: string where
  "rb_s30 = ''ArFZAPgyCYBNDRGTKxAxgsNgcRoi2uN4ehK3e1iEZKBS''"

definition rb_b31 :: pubkey where
  "rb_b31 = [114, 234, 96, 219, 23, 146, 20, 220, 175, 236, 46, 99, 88, 159, 190, 40, 180, 51, 5, 226, 167, 179,
     247, 39, 66, 159, 88, 11, 108, 89, 57, 164]"

definition rb_s31 :: string where
  "rb_s31 = ''8jamFXfRQherFJsk7CzsQtUhnkT1QBETocMYJnu6QgqZ''"

definition rb_b32 :: pubkey where
  "rb_b32 = [228, 190, 18, 213, 51, 154, 221, 84, 114, 18, 157, 162, 89, 45, 233, 94, 180, 126, 237, 60, 22, 19,
     225, 185, 170, 19, 92, 22, 189, 204, 126, 135]"

definition rb_s32 :: string where
  "rb_s32 = ''GPv4K8kQMDWujHQYTfZ91oP7E2h3oC5u3VdQccPFg8og''"

definition rb_b33 :: pubkey where
  "rb_b33 = [46, 69, 233, 237, 246, 2, 248, 15, 24, 191, 63, 153, 12, 11, 145, 26, 105, 251, 90, 115, 42, 117,
     236, 188, 241, 117, 79, 250, 150, 139, 254, 196]"

definition rb_s33 :: string where
  "rb_s33 = ''47dazzc9vdsfeXdkXueTCvHyG7Zv1mwSape4YK8VVwfH''"

text \<open>The account keys first, then the other keys the tests meet.\<close>
definition rb_keys :: "(bytes \<times> string) list" where
  "rb_keys =
    [(rb_b0, rb_s0), (rb_b1, rb_s1), (rb_b2, rb_s2), (rb_b3, rb_s3), (rb_b4, rb_s4), (rb_b5, rb_s5), (rb_b6, rb_s6),
     (rb_b7, rb_s7), (rb_b8, rb_s8), (rb_b9, rb_s9), (rb_b10, rb_s10), (rb_b11, rb_s11), (rb_b12, rb_s12), (rb_b13,
     rb_s13), (rb_b14, rb_s14), (rb_b15, rb_s15), (rb_b16, rb_s16), (rb_b17, rb_s17), (rb_b18, rb_s18), (rb_b19,
     rb_s19), (rb_b20, rb_s20), (rb_b21, rb_s21), (rb_b22, rb_s22), (rb_b23, rb_s23), (rb_b24, rb_s24), (rb_b25,
     rb_s25), (rb_b26, rb_s26), (rb_b27, rb_s27), (rb_b28, rb_s28), (rb_b29, rb_s29), (rb_b30, rb_s30), (rb_b31,
     rb_s31), (rb_b32, rb_s32), (rb_b33, rb_s33)]"

text \<open>The texts of the instruction data, and last the signature, with their bytes.\<close>

definition rb_t0 :: string where
  "rb_t0 = ''K1FDJ7''"

definition rb_d0 :: bytes where
  "rb_d0 = [2, 192, 92, 21, 0]"

definition rb_t1 :: string where
  "rb_t1 = ''18vEyVmaTo1eo2V2uoABG8X584D8xX''"

definition rb_d1 :: bytes where
  "rb_d1 = [0, 128, 195, 201, 1, 0, 0, 0, 0, 1, 0, 0, 0, 0, 0, 0, 0, 0, 1, 54, 50, 0]"

definition rb_t2 :: string where
  "rb_t2 = ''4xSCCsPNr7HW2vgJj4cnC1fXnFu5kujWw''"

definition rb_d2 :: bytes where
  "rb_d2 = [43, 100, 73, 19, 233, 246, 111, 148, 128, 195, 201, 1, 0, 0, 0, 0, 1, 0, 0, 0, 0, 0, 0, 0]"

definition rb_t3 :: string where
  "rb_t3 = ''hk1aXv77PWrBz''"

definition rb_d3 :: bytes where
  "rb_d3 = [12, 128, 195, 201, 1, 0, 0, 0, 0, 9]"

definition rb_t4 :: string where
  "rb_t4 = ''jJZWFT33eCGYY''"

definition rb_d4 :: bytes where
  "rb_d4 = [12, 251, 107, 0, 0, 0, 0, 0, 0, 9]"

definition rb_t5 :: string where
  "rb_t5 = ''L5Ur5QC4WAFMyfk57CwNo4HQdub4UAJbvbDcN4rk91D2ZYqeAHNRqvbMD7eRptMzG6eppWYSRsYoiomdaUk8xpfgkb'' @
        ''orE1BCW1mv7XXF4iqh9X9p5Ki46BDgzi4MTc4B1gQBQ5nQVnDBEHRLjkhDtnmNF61ShGMiYy2iMaLQgZ7cztK9S3Wu'' @
        ''AWq3LNZpTwTyyxb6V7mxHfdKbGN53XEx7VsrPm1kvHdVJyC7U9jJAXg3EHkjibtcpt2Kiz9ero7yLCF4cKpEYT5t2t'' @
        ''8rx3YWjfdfdrLYBLbYPPjRYosBMVHwhy6B27m4qitNTioUeEwn2UXteAoat4hPN98qEdq5dayvxH5myK7y2MjeU8ym'' @
        ''EkUy8KnHggeUe58JLWkCL4MqvXAE5errgonWe2Uor54LjQtkhgfuUguDQkWzHc1KGyxNGKSVTytpU6K2RfxmFSwKVE'' @
        ''X1YSgy4DafNvXG9T4ZqqiFNyLp5EykdCXv5e895RrFd3zMpoeTaKDrnMQwqKXKqKFJjJodWGT2sR58cs5DoMQxCMja'' @
        ''kGwsMQSvNSN8Y7DL2Z4RGuW8dTbY5evwGJ2k1NLgFd7G9BUmAPPCtuKoE1mJUYo7Sc4Zi4zwqoExtYuMUduD8GYBHr'' @
        ''GwcXKjcUFi57EdpXmoi6Vt8fpkAKSBE2uMnagtpRQRQrzXByNuPG1bP63QD1JWP9''"

definition rb_d5 :: bytes where
  "rb_d5 = [228, 69, 165, 46, 81, 203, 154, 29, 103, 244, 82, 31, 44, 245, 119, 119, 106, 46, 199, 106, 0, 0,
     0, 0, 149, 77, 248, 195, 74, 0, 0, 0, 128, 195, 201, 1, 0, 0, 0, 0, 0, 0, 0, 0, 0, 0, 0, 0, 128,
     195, 201, 1, 0, 0, 0, 0, 14, 187, 102, 98, 205, 204, 0, 0, 255, 243, 226, 198, 3, 0, 0, 0, 128, 195,
     201, 1, 0, 0, 0, 0, 0, 0, 0, 0, 0, 0, 0, 0, 0, 0, 0, 0, 0, 0, 0, 0, 93, 0, 0, 0, 0, 0, 0, 0, 206,
     55, 4, 0, 0, 0, 0, 0, 178, 139, 197, 1, 0, 0, 0, 0, 178, 139, 197, 1, 0, 0, 0, 0, 31, 247, 208, 31,
     119, 3, 240, 70, 177, 96, 161, 202, 226, 150, 232, 17, 239, 156, 206, 90, 135, 100, 225, 204, 104,
     78, 150, 8, 128, 198, 130, 145, 130, 229, 252, 228, 172, 19, 133, 194, 79, 122, 15, 30, 88, 132,
     124, 238, 97, 41, 180, 30, 178, 193, 89, 175, 134, 100, 58, 82, 89, 109, 24, 108, 0, 0, 0, 0, 0, 0,
     0, 0, 0, 0, 0, 0, 0, 0, 0, 0, 0, 0, 0, 0, 0, 0, 0, 0, 0, 0, 0, 0, 0, 0, 0, 0, 35, 161, 33, 249, 190,
     47, 5, 151, 20, 218, 174, 228, 250, 211, 205, 220, 147, 159, 182, 164, 68, 176, 211, 72, 136, 197,
     165, 12, 70, 143, 117, 15, 0, 0, 0, 0, 0, 0, 0, 0, 0, 0, 0, 0, 0, 0, 0, 0, 0, 0, 0, 0, 0, 0, 0, 0,
     0, 0, 0, 0, 0, 0, 0, 0, 0, 0, 0, 0, 0, 0, 0, 0, 0, 0, 0, 0, 0, 0, 0, 0, 0, 0, 0, 0, 0, 0, 0, 0, 0,
     0, 0, 0, 0, 0, 0, 0, 0, 41, 212, 61, 140, 19, 69, 195, 243, 86, 190, 62, 246, 223, 201, 33, 209, 19,
     103, 14, 12, 106, 144, 172, 181, 165, 213, 62, 222, 49, 134, 178, 0, 0, 0, 0, 0, 0, 0, 0, 0, 0, 0,
     0, 0, 0, 0, 0, 0, 0, 0, 0, 0, 0, 0, 0, 0, 0, 0, 0, 0, 0, 0, 0, 0, 0, 0, 0, 0, 0, 0, 0, 0, 0, 0, 0,
     0, 0, 0, 0, 0, 0, 0, 0, 0, 0, 0, 0, 0, 14, 0, 0, 0, 109, 117, 108, 116, 105, 95, 104, 111, 112, 95,
     115, 119, 97, 112, 0, 0, 0, 0, 0, 0, 0, 0, 0, 0, 0, 0, 0, 0, 0, 0, 232, 3, 0, 0, 0, 0, 0, 0, 251,
     107, 0, 0, 0, 0, 0, 0, 12, 215, 184, 17, 1, 0, 0, 0, 0, 0, 0, 0, 0, 0, 0, 0, 1, 112, 173, 91, 63,
     175, 214, 0, 0, 0, 0, 0, 0, 0, 0, 0, 0, 0, 0, 0, 0, 0, 0, 0, 0, 198, 148, 13, 0, 0, 0, 0, 0]"

definition rb_t6 :: string where
  "rb_t6 = ''i1B5XhcuPAx6Z''"

definition rb_d6 :: bytes where
  "rb_d6 = [12, 149, 77, 248, 195, 74, 0, 0, 0, 6]"

definition rb_t7 :: string where
  "rb_t7 = ''haftU1UC9hdeu''"

definition rb_d7 :: bytes where
  "rb_d7 = [12, 116, 29, 58, 53, 128, 7, 0, 0, 6]"

definition rb_t8 :: string where
  "rb_t8 = ''L5Ur5QC4WAFMyfk57CwNo4HQdub4UAJbvUKncZjwDeRoY8udRTnxkgwBdNWeehnpLVTCom8DdtobrBRGjPWP2s1bre'' @
        ''Exvnr9KB8naGCVVAC8Dn3XfLmNGhuXwyUaXg9yRrerp9v24DDZz95LLeeds3TrLBgx2Rqxo7wU92KNVgxoCmXwuB7X'' @
        ''naFipE6HkJCeKuPN5gh7LzrEGLh5azxTFSiojPiDRJu2TYhxGXsW8bZryTMSM9ckpkWQHLB42GtSx5gj3ERygUUAmm'' @
        ''42zD2VNLZFpZWQjgq2DXejLciu8uxDu98i9hUvi5SFFhJRsemRxjbaX9HzUMURQhxi2SzC8aT8rjqYTQN8756NpoPw'' @
        ''fCWHG9ZwMJZxom5wCaKMXGzwMXAYHhFTqcHz9S8cbMZ38JTv8zFuUxecMsQqBQeKDVR4M57tYvLF18WYsJX8k3NZnB'' @
        ''rL6wjKXvkENafo8Nw5vZuseBSeEviT346cTXGpFKQkzS3WpiNFhkjY2MbycjEmgDrUxBeViuzTRghDimjdQKL6pTt8'' @
        ''Lc3TYsuHshcA15RSwZwAxhx5ohSa1an7BVd67y8JdzqWeQhqbY4NYjJNkS8mdAytYudGBZPE1KFGEJ3p7nrnmJ5XVL'' @
        ''Hzh5Z6XUkhCuU32cLSoFrmEBMXdd5gunkzTsdTMxsvZe2aLWQ2iVzyQTwGvWqKnP''"

definition rb_d8 :: bytes where
  "rb_d8 = [228, 69, 165, 46, 81, 203, 154, 29, 103, 244, 82, 31, 44, 245, 119, 119, 106, 46, 199, 106, 0, 0,
     0, 0, 116, 29, 58, 53, 128, 7, 0, 0, 149, 77, 248, 195, 74, 0, 0, 0, 175, 11, 16, 70, 191, 7, 0, 0,
     0, 0, 0, 0, 0, 0, 0, 0, 130, 64, 31, 21, 198, 204, 1, 0, 112, 220, 47, 255, 243, 8, 0, 0, 149, 77,
     248, 195, 74, 0, 0, 0, 25, 0, 0, 0, 0, 0, 0, 0, 127, 8, 187, 47, 0, 0, 0, 0, 0, 0, 0, 0, 0, 0, 0, 0,
     0, 0, 0, 0, 0, 0, 0, 0, 149, 77, 248, 195, 74, 0, 0, 0, 22, 69, 61, 148, 74, 0, 0, 0, 112, 71, 188,
     84, 68, 248, 114, 83, 224, 152, 102, 18, 186, 142, 120, 131, 15, 60, 219, 52, 167, 180, 8, 237, 171,
     233, 186, 146, 170, 140, 237, 241, 130, 229, 252, 228, 172, 19, 133, 194, 79, 122, 15, 30, 88, 132,
     124, 238, 97, 41, 180, 30, 178, 193, 89, 175, 134, 100, 58, 82, 89, 109, 24, 108, 233, 135, 150, 83,
     127, 194, 237, 242, 139, 73, 25, 105, 44, 93, 164, 21, 182, 33, 120, 50, 60, 171, 18, 159, 108, 18,
     192, 116, 148, 189, 114, 26, 0, 0, 0, 0, 0, 0, 0, 0, 0, 0, 0, 0, 0, 0, 0, 0, 0, 0, 0, 0, 0, 0, 0, 0,
     0, 0, 0, 0, 0, 0, 0, 0, 0, 0, 0, 0, 0, 0, 0, 0, 0, 0, 0, 0, 0, 0, 0, 0, 0, 0, 0, 0, 0, 0, 0, 0, 0,
     0, 0, 0, 0, 0, 0, 0, 0, 0, 0, 0, 0, 0, 0, 0, 0, 0, 0, 0, 0, 0, 0, 0, 0, 0, 0, 0, 0, 0, 0, 0, 0, 0,
     0, 0, 0, 0, 0, 0, 130, 229, 252, 228, 172, 19, 133, 194, 79, 122, 15, 30, 88, 132, 124, 238, 97, 41,
     180, 30, 178, 193, 89, 175, 134, 100, 58, 82, 89, 109, 24, 108, 0, 0, 0, 0, 0, 0, 0, 0, 0, 0, 0, 0,
     0, 0, 0, 0, 0, 0, 0, 0, 0, 0, 0, 0, 0, 0, 0, 0, 0, 0, 0, 0, 0, 0, 0, 0, 0, 0, 0, 0, 0, 0, 0, 0, 0,
     0, 0, 0, 0, 1, 0, 0, 0, 0, 0, 0, 0, 14, 0, 0, 0, 109, 117, 108, 116, 105, 95, 104, 111, 112, 95,
     115, 119, 97, 112, 0, 0, 0, 0, 0, 0, 0, 0, 0, 0, 0, 0, 0, 0, 0, 0, 232, 3, 0, 0, 0, 0, 0, 0, 0, 0,
     0, 0, 0, 0, 0, 0, 8, 38, 244, 205, 166, 8, 0, 0, 0, 0, 0, 0, 0, 0, 0, 0, 1, 49, 76, 47, 91, 133,
     212, 1, 0, 0, 0, 0, 0, 0, 0, 0, 0, 0, 0, 0, 0, 0, 0, 0, 0, 0, 0, 0, 0, 0, 0, 0, 0]"

definition rb_t9 :: string where
  "rb_t9 = ''2VC5i1LUddU7wR7ZGkqjNzXkbsQk61DTFHNozCpynu12d4Jp7Y9QsP2kvKwYdiHv4E9NpdmRy5qUHtctg3qZWbyjns'' @
        ''VHJBxRxTFiZXpoFV1teLV5''"

definition rb_d9 :: bytes where
  "rb_d9 = [7, 0, 6, 155, 136, 87, 254, 171, 129, 132, 251, 104, 127, 99, 70, 24, 192, 53, 218, 196, 57, 220,
     26, 235, 59, 85, 152, 160, 240, 0, 0, 0, 0, 1, 102, 37, 112, 115, 61, 154, 161, 203, 234, 28, 221,
     103, 15, 47, 113, 66, 161, 228, 254, 230, 124, 128, 165, 90, 202, 10, 168, 2, 61, 12, 19, 125, 128,
     195, 201, 1, 0, 0, 0, 0, 116, 29, 58, 53, 128, 7, 0, 0]"

definition rb_t10 :: string where
  "rb_t10 = ''3Bxs4XQKBQPbfk2j''"

definition rb_d10 :: bytes where
  "rb_d10 = [2, 0, 0, 0, 182, 159, 4, 0, 0, 0, 0, 0]"

definition rb_t11 :: string where
  "rb_t11 = ''2vwsR9KpdSZcuk83gbxpDYgFfSXPJCV6rMoKZjYJrWAXLQy4WThLirgaoePnWXc7gGUnaX2NPEuihhnqCXgB8AWQ''"

definition rb_d11 :: bytes where
  "rb_d11 = [96, 137, 186, 87, 35, 95, 68, 37, 190, 223, 157, 186, 233, 54, 160, 46, 89, 166, 30, 31, 201, 101,
     119, 251, 96, 249, 19, 22, 140, 130, 20, 119, 135, 228, 207, 231, 233, 197, 246, 239, 85, 30, 207,
     71, 157, 197, 29, 151, 159, 77, 16, 135, 214, 150, 5, 192, 40, 64, 52, 52, 215, 41, 227, 5]"

definition rb_data :: "(string \<times> bytes) list" where
  "rb_data =
    [(rb_t0, rb_d0), (rb_t1, rb_d1), (rb_t2, rb_d2), (rb_t3, rb_d3), (rb_t4, rb_d4), (rb_t5, rb_d5), (rb_t6, rb_d6),
     (rb_t7, rb_d7), (rb_t8, rb_d8), (rb_t9, rb_d9), (rb_t10, rb_d10), (rb_t11, rb_d11)]"

definition rb_ix :: "int \<Rightarrow> int list \<Rightarrow> string \<Rightarrow> (string \<times> json) list" where
  "rb_ix program accounts t = [(''programIdIndex'', Num program), (''accounts'', Arr (map Num accounts)), (''data'', Str t)]"

definition rb_inner :: "int \<Rightarrow> int list \<Rightarrow> string \<Rightarrow> int \<Rightarrow> json" where
  "rb_inner program accounts t height = Obj (rb_ix program accounts t @ [(''stackHeight'', Num height)])"

text \<open>A row of token balances: account index, mint, owner, amount, decimals.\<close>
definition rb_balance :: "int \<Rightarrow> string \<Rightarrow> string \<Rightarrow> string \<Rightarrow> int \<Rightarrow> json" where
  "rb_balance account mint owner amount decimals =
     Obj [(''accountIndex'', Num account), (''mint'', Str mint), (''owner'', Str owner),
       (''uiTokenAmount'', Obj [(''amount'', Str amount), (''decimals'', Num decimals)])]"

definition rb_instructions :: "json list" where
  "rb_instructions =
    [Obj (rb_ix 13 [] rb_t0),
     Obj (rb_ix 14 [1, 0, 2, 15, 14, 16, 0, 1, 3, 17, 18, 4, 5, 19, 20, 15, 21, 16, 22, 23, 24, 25, 26, 27, 6, 7, 8,
       28, 26, 9, 10, 11, 14, 12, 14, 14, 14, 14] rb_t1)]"

definition rb_blocks :: "json list" where
  "rb_blocks =
    [Obj [(''index'', Num 1), (''instructions'', Arr
      [rb_inner 16 [0, 1, 3, 17, 18, 4, 5, 19, 20, 15, 21, 16, 22, 23, 24, 25, 26, 27, 6, 7, 8, 28, 26, 9, 10, 11]
         rb_t2 2,
       rb_inner 19 [1, 27, 8, 0] rb_t3 3,
       rb_inner 19 [8, 27, 5, 6] rb_t4 3,
       rb_inner 16 [21] rb_t5 3,
       rb_inner 19 [7, 26, 11, 6] rb_t6 3,
       rb_inner 20 [10, 28, 3, 9] rb_t7 3,
       rb_inner 16 [21] rb_t8 3,
       rb_inner 14 [] rb_t9 2,
       rb_inner 15 [0, 12] rb_t10 2])]]"

definition rb_pre :: "json list" where
  "rb_pre =
    [rb_balance 1 rb_s27 rb_s0 ''30000000'' 9,
     rb_balance 3 rb_s28 rb_s0 ''8518095604655'' 6,
     rb_balance 5 rb_s27 ''5YxQFdt3Tr9zJLvkFccqXVUwhdTWJQc1fFg2YPbxvxeD'' ''1536708416'' 9,
     rb_balance 7 rb_s26 rb_s6 ''225182491261710'' 6,
     rb_balance 8 rb_s27 rb_s6 ''16221664255'' 9,
     rb_balance 10 rb_s28 rb_s9 ''506626106671234'' 6,
     rb_balance 11 rb_s26 rb_s9 ''9844051401840'' 6]"

definition rb_post :: "json list" where
  "rb_post =
    [rb_balance 1 rb_s27 rb_s0 ''0'' 9,
     rb_balance 3 rb_s28 rb_s0 ''16765325814051'' 6,
     rb_balance 5 rb_s27 ''5YxQFdt3Tr9zJLvkFccqXVUwhdTWJQc1fFg2YPbxvxeD'' ''1536736059'' 9,
     rb_balance 7 rb_s26 rb_s6 ''224861375851897'' 6,
     rb_balance 8 rb_s27 rb_s6 ''16251636612'' 9,
     rb_balance 10 rb_s28 rb_s9 ''498378876461838'' 6,
     rb_balance 11 rb_s26 rb_s9 ''10165166811653'' 6]"

definition rb_json :: json where
  "rb_json = Obj
     [(''slot'', Num 508715883),
      (''transaction'', Obj
        [(''message'', Obj [(''accountKeys'', Arr (map (Str \<circ> snd) (take 29 rb_keys))), (''instructions'', Arr rb_instructions)]),
         (''signatures'', Arr [Str rb_t11])]),
      (''meta'', Obj
        [(''err'', Null), (''innerInstructions'', Arr rb_blocks), (''loadedAddresses'', Obj
           [(''writable'', Arr []), (''readonly'', Arr [])]),
         (''preBalances'', Arr [Num 12526461123, Num 31488440, Num 266993039, Num 1513840, Num 1844400, Num 1538196856, Num
          2179320, Num 1488440, Num 16223152695, Num 2108200, Num 1513840, Num 1488440, Num 890880, Num 1, Num
          1141440, Num 1, Num 6001159268, Num 7479000, Num 29360880, Num 20369267856, Num 1159846, Num 0, Num
          2782338469, Num 1008382523, Num 29360880, Num 4915501, Num 1461600, Num 1509155950425, Num 2341880]),
         (''postBalances'', Arr [Num 12526153093, Num 1488440, Num 267296069, Num 1513840, Num 1844400, Num 1538224499, Num 2179320,
          Num 1488440, Num 16253125052, Num 2108200, Num 1513840, Num 1488440, Num 890880, Num 1, Num 1141440,
          Num 1, Num 6001159268, Num 7479000, Num 29360880, Num 20369267856, Num 1159846, Num 0, Num
          2782338469, Num 1008382523, Num 29360880, Num 4915501, Num 1461600, Num 1509155950425, Num 2341880]),
         (''preTokenBalances'', Arr rb_pre), (''postTokenBalances'', Arr rb_post),
         (''computeUnitsConsumed'', Num 92317)])]"

text \<open>The derived addresses of the pairs of the transaction, in both orders.\<close>
definition rb_derived :: "((bytes list \<times> pubkey) \<times> pubkey) list" where
  "rb_derived =
    [(([ascii ''pool-authority'', rb_b26], rb_b22),
      rb_b29),
     (([ascii ''pool'', [0, 0], rb_b29, rb_b26, rb_b27], rb_b16),
      rb_b6),
     (([ascii ''pool-authority'', rb_b27], rb_b22),
      rb_b30),
     (([ascii ''pool'', [0, 0], rb_b30, rb_b27, rb_b26], rb_b16),
      rb_b31),
     (([ascii ''pool'', [0, 0], rb_b29, rb_b26, rb_b28], rb_b16),
      rb_b32),
     (([ascii ''pool-authority'', rb_b28], rb_b22),
      rb_b33),
     (([ascii ''pool'', [0, 0], rb_b33, rb_b28, rb_b26], rb_b16),
      rb_b9)]"

text \<open>The message the response describes.\<close>
definition rb_message :: message where
  "rb_message = \<lparr>msg_account_keys = map fst (take 29 rb_keys), msg_instructions =
    [\<lparr>ci_program_id_index = 13, ci_accounts = [], ci_data = rb_d0\<rparr>,
     \<lparr>ci_program_id_index = 14, ci_accounts = [1, 0, 2, 15, 14, 16, 0, 1, 3, 17, 18, 4, 5, 19, 20, 15, 21, 16,
       22, 23, 24, 25, 26, 27, 6, 7, 8, 28, 26, 9, 10, 11, 14, 12, 14, 14, 14, 14], ci_data = rb_d1\<rparr>]\<rparr>"

definition rb_meta :: transaction_status_meta where
  "rb_meta =
    \<lparr>m_err = None,
     m_inner_instructions =
      [\<lparr>block_index = 1, block_instructions =
        [\<lparr>ii_program_id_index = 16, ii_accounts = [0, 1, 3, 17, 18, 4, 5, 19, 20, 15, 21, 16, 22, 23, 24, 25,
           26, 27, 6, 7, 8, 28, 26, 9, 10, 11], ii_data = rb_d2, ii_stack_height = Some 2\<rparr>,
         \<lparr>ii_program_id_index = 19, ii_accounts = [1, 27, 8, 0], ii_data = rb_d3, ii_stack_height = Some
           3\<rparr>,
         \<lparr>ii_program_id_index = 19, ii_accounts = [8, 27, 5, 6], ii_data = rb_d4, ii_stack_height = Some
           3\<rparr>,
         \<lparr>ii_program_id_index = 16, ii_accounts = [21], ii_data = rb_d5, ii_stack_height = Some 3\<rparr>,
         \<lparr>ii_program_id_index = 19, ii_accounts = [7, 26, 11, 6], ii_data = rb_d6, ii_stack_height = Some
           3\<rparr>,
         \<lparr>ii_program_id_index = 20, ii_accounts = [10, 28, 3, 9], ii_data = rb_d7, ii_stack_height = Some
           3\<rparr>,
         \<lparr>ii_program_id_index = 16, ii_accounts = [21], ii_data = rb_d8, ii_stack_height = Some 3\<rparr>,
         \<lparr>ii_program_id_index = 14, ii_accounts = [], ii_data = rb_d9, ii_stack_height = Some 2\<rparr>,
         \<lparr>ii_program_id_index = 15, ii_accounts = [0, 12], ii_data = rb_d10, ii_stack_height = Some 2\<rparr>]\<rparr>],
     m_loaded_writable_addresses = [], m_loaded_readonly_addresses = [],
     m_pre_balances = [12526461123, 31488440, 266993039, 1513840, 1844400, 1538196856, 2179320, 1488440, 16223152695,
        2108200, 1513840, 1488440, 890880, 1, 1141440, 1, 6001159268, 7479000, 29360880, 20369267856,
        1159846, 0, 2782338469, 1008382523, 29360880, 4915501, 1461600, 1509155950425, 2341880],
     m_post_balances = [12526153093, 1488440, 267296069, 1513840, 1844400, 1538224499, 2179320, 1488440, 16253125052,
        2108200, 1513840, 1488440, 890880, 1, 1141440, 1, 6001159268, 7479000, 29360880, 20369267856,
        1159846, 0, 2782338469, 1008382523, 29360880, 4915501, 1461600, 1509155950425, 2341880],
     m_pre_token_balances =
      [\<lparr>tb_account_index = 1, tb_mint = rb_s27, tb_ui_token_amount = Some \<lparr>uta_amount = ''30000000'', uta_decimals = 9\<rparr>\<rparr>,
       \<lparr>tb_account_index = 3, tb_mint = rb_s28, tb_ui_token_amount = Some \<lparr>uta_amount = ''8518095604655'', uta_decimals = 6\<rparr>\<rparr>,
       \<lparr>tb_account_index = 5, tb_mint = rb_s27, tb_ui_token_amount = Some \<lparr>uta_amount = ''1536708416'', uta_decimals = 9\<rparr>\<rparr>,
       \<lparr>tb_account_index = 7, tb_mint = rb_s26, tb_ui_token_amount = Some \<lparr>uta_amount = ''225182491261710'', uta_decimals = 6\<rparr>\<rparr>,
       \<lparr>tb_account_index = 8, tb_mint = rb_s27, tb_ui_token_amount = Some \<lparr>uta_amount = ''16221664255'', uta_decimals = 9\<rparr>\<rparr>,
       \<lparr>tb_account_index = 10, tb_mint = rb_s28, tb_ui_token_amount = Some \<lparr>uta_amount = ''506626106671234'', uta_decimals = 6\<rparr>\<rparr>,
       \<lparr>tb_account_index = 11, tb_mint = rb_s26, tb_ui_token_amount = Some \<lparr>uta_amount = ''9844051401840'', uta_decimals = 6\<rparr>\<rparr>],
     m_post_token_balances =
      [\<lparr>tb_account_index = 1, tb_mint = rb_s27, tb_ui_token_amount = Some \<lparr>uta_amount = ''0'', uta_decimals = 9\<rparr>\<rparr>,
       \<lparr>tb_account_index = 3, tb_mint = rb_s28, tb_ui_token_amount = Some \<lparr>uta_amount = ''16765325814051'', uta_decimals = 6\<rparr>\<rparr>,
       \<lparr>tb_account_index = 5, tb_mint = rb_s27, tb_ui_token_amount = Some \<lparr>uta_amount = ''1536736059'', uta_decimals = 9\<rparr>\<rparr>,
       \<lparr>tb_account_index = 7, tb_mint = rb_s26, tb_ui_token_amount = Some \<lparr>uta_amount = ''224861375851897'', uta_decimals = 6\<rparr>\<rparr>,
       \<lparr>tb_account_index = 8, tb_mint = rb_s27, tb_ui_token_amount = Some \<lparr>uta_amount = ''16251636612'', uta_decimals = 9\<rparr>\<rparr>,
       \<lparr>tb_account_index = 10, tb_mint = rb_s28, tb_ui_token_amount = Some \<lparr>uta_amount = ''498378876461838'', uta_decimals = 6\<rparr>\<rparr>,
       \<lparr>tb_account_index = 11, tb_mint = rb_s26, tb_ui_token_amount = Some \<lparr>uta_amount = ''10165166811653'', uta_decimals = 6\<rparr>\<rparr>],
     m_log_messages = [], m_compute_units_consumed = Some 92317\<rparr>"

definition rb_tx :: tx_info where
  "rb_tx = \<lparr>tx_signature_bytes = rb_d11, tx_transaction = Some (Some rb_message), tx_meta = Some rb_meta\<rparr>"

definition rb_decode :: "string \<Rightarrow> bytes option" where
  "rb_decode = table_decode rb_keys rb_data"

definition rb_text :: "bytes \<Rightarrow> string" where
  "rb_text b = (case map_of (rb_keys @ map prod.swap rb_data) b of Some s \<Rightarrow> s | None \<Rightarrow> ''unknown'')"

definition rb_ext :: externals where
  "rb_ext = demo_ext\<lparr>
     x_pubkey_to_string := rb_text, x_pubkey_from_str := map_of (map prod.swap rb_keys),
     x_find_program_address := (\<lambda>seeds program. case map_of rb_derived (seeds, program) of Some k \<Rightarrow> k | None \<Rightarrow> replicate 32 0),
     x_compute_budget_id := rb_b13, x_bs58_encode := rb_text\<rparr>"

end
