(* ===== verification/RouteReplayTests.thy ===== *)
theory RouteReplayTests
  imports Replay RouteFixture PumpIdl AmmHandlerTests
begin

text \<open>
  The replay of a route over two pools, called by an aggregator (\<open>devnet_mh_cpi_pool_pool_buy.json\<close>): landed, the handler
  records the two hops the chain made, with their events; failed, it records them from the instruction, with the sides
  inferred from the route.
\<close>

section \<open>The pieces of the transaction\<close>

lemma rb_marks: "distinct (map text_mark (map snd rb_keys @ map fst rb_data))"
  by code_simp

lemmas rb_decoded = table_decode_all(2) [OF rb_marks, folded rb_decode_def, unfolded rb_data_def, simplified]

lemmas rb_decoded_keys = table_decode_keys [OF rb_marks sublist_keys(1), folded rb_decode_def]

lemma rb_key_marks: "distinct (map (take 8) (map fst rb_keys))"
  by code_simp

lemma rb_all_texts: "list_all (\<lambda>(b, t). x_pubkey_to_string rb_ext b = t) rb_keys"
  using table_text_all [OF rb_key_marks, of "map prod.swap rb_data"] by (simp add: list_all_iff split_beta rb_ext_def rb_text_def)

lemmas rb_key_texts = rb_all_texts [unfolded rb_keys_def, simplified]

definition rb_full :: "bytes list" where
  "rb_full = full_account_list rb_message rb_meta"

definition rb_route :: compiled_instruction where
  "rb_route = \<lparr>ci_program_id_index = 16, ci_accounts = [0, 1, 3, 17, 18, 4, 5, 19, 20, 15, 21, 16, 22, 23, 24, 25,
     26, 27, 6, 7, 8, 28, 26, 9, 10, 11], ci_data = rb_d2\<rparr>"

definition rb_event_ix :: "bytes \<Rightarrow> compiled_instruction" where
  "rb_event_ix d = \<lparr>ci_program_id_index = 16, ci_accounts = [21], ci_data = d\<rparr>"

definition rb_hops :: "pump_swap_hop list" where
  "rb_hops = [\<lparr>hop_base_mint = rb_b26, hop_quote_mint = rb_b27, hop_pool = rb_b6\<rparr>,
     \<lparr>hop_base_mint = rb_b28, hop_quote_mint = rb_b26, hop_pool = rb_b9\<rparr>]"

lemma rb_instructions_read: "map_may_panic (compiled_of_json rb_decode) rb_instructions = Some (msg_instructions rb_message)"
  by (simp add: rb_instructions_def rb_message_def compiled_of_json_def rb_ix_def json_parts b58_of_def rb_decoded)

lemma rb_blocks_read: "map_may_panic (block_of_json rb_decode) rb_blocks = Some (m_inner_instructions rb_meta)"
  by (simp add: rb_blocks_def rb_meta_def block_of_json_def inner_of_json_def compiled_of_json_def rb_inner_def
    rb_ix_def json_parts b58_of_def rb_decoded)

lemma rb_balances_read:
  "map_may_panic token_balance_of_json rb_pre = Some (m_pre_token_balances rb_meta)"
  "map_may_panic token_balance_of_json rb_post = Some (m_post_token_balances rb_meta)"
  by (simp_all add: rb_pre_def rb_post_def rb_meta_def rb_balance_def token_balance_of_json_def json_parts Let_def)

lemma rb_parsed: "rpc_json_to_grpc rb_decode rb_json = Some (rb_tx, 508715883)"
  by (simp add: rpc_json_to_grpc_def result_of_def json_get_def rb_json_def Let_def items_or_default_def as_u64_def b58_of_def rb_decoded
    rb_decoded_keys rb_instructions_read rb_blocks_read rb_balances_read)
    (simp add: rb_tx_def rb_message_def rb_meta_def)

lemma rb_items: "get_program_instructions rb_message rb_meta rb_full rb_b16 =
   [(rb_route, 1, 1), (rb_event_ix rb_d5, 1, 4), (rb_event_ix rb_d8, 1, 7)]"
  by code_simp

lemma rb_data:
  "length rb_d2 = 24" "take 8 rb_d2 = AMM_MULTI_HOP_SWAP_DISCRIMINATOR"
  "8 \<le> length rb_d5" "take 8 rb_d5 \<noteq> AMM_MULTI_HOP_SWAP_DISCRIMINATOR" "pump_swap_trade_ix (take 8 rb_d5) = None"
  "8 \<le> length rb_d8" "take 8 rb_d8 \<noteq> AMM_MULTI_HOP_SWAP_DISCRIMINATOR" "pump_swap_trade_ix (take 8 rb_d8) = None"
  by code_simp+

lemma rb_route_hops: "route_hops rb_route rb_full = rb_hops"
  by code_simp

lemma rb_user: "resolve_instruction_account rb_ext rb_route rb_full PUMP_SWAP_MULTI_HOP_USER_IX_POS = Some rb_s0"
  by code_simp

lemma rb_events: "map (event_at rb_meta 1) (own_event_positions rb_meta 1 1 16) = [drop 8 rb_d5, drop 8 rb_d8]"
  by code_simp

lemma rb_event_hops:
  "event_hop rb_hops 0 (drop 8 rb_d5) = Some (Some (True, 0))"
  "event_hop rb_hops 1 (drop 8 rb_d8) = Some (Some (True, 1))"
  "take 8 (drop 8 rb_d5) = PUMP_SWAP_BUY_EVENT_DISC" "take 8 (drop 8 rb_d8) = PUMP_SWAP_BUY_EVENT_DISC"
  by code_simp+

lemma rb_event:
  "extract_pool_reserves_from_data (drop 8 rb_d5) = Some (Some 225182491261710, Some 16221664255)"
  "map_option fst (extract_quote_volume (drop 8 rb_d5)) = Some (Some 29723570)"
  "extract_transaction_amounts (drop 8 rb_d5) = Some (Some 321115409813)"
  "extract_pump_swap_virtual_quote_reserves (drop 8 rb_d5) True = Some (Some 4592293644)"
  "extract_pool_reserves_from_data (drop 8 rb_d8) = Some (Some 506626106671234, Some 9844051401840)"
  "map_option fst (extract_quote_volume (drop 8 rb_d8)) = Some (Some 320314623254)"
  "extract_transaction_amounts (drop 8 rb_d8) = Some (Some 8247230209396)"
  "extract_pump_swap_virtual_quote_reserves (drop 8 rb_d8) True = Some (Some 9512512923144)"
  by code_simp+

lemma rb_canonical:
  "canonical_pump_swap_pool rb_ext rb_b26 rb_b27 rb_b22 rb_b16 = rb_b6"
  "canonical_pump_swap_pool rb_ext rb_b28 rb_b26 rb_b22 rb_b16 = rb_b9"
  by code_simp+

lemma rb_texts:
  "x_pubkey_to_string rb_ext rb_b26 = rb_s26" "x_pubkey_to_string rb_ext rb_b27 = rb_s27"
  "x_pubkey_to_string rb_ext rb_b28 = rb_s28" "x_pubkey_to_string rb_ext rb_b6 = rb_s6" "x_pubkey_to_string rb_ext rb_b9 = rb_s9"
  "quote_currency_of rb_ext rb_s27 = Some Sol" "quote_currency_of rb_ext rb_s26 = Some (Other rb_b26)"
  "rb_s26 \<noteq> WSOL_MINT" "rb_s28 \<noteq> WSOL_MINT"
  by (simp_all add: rb_key_texts) code_simp+

lemma rb_routed: "multi_hop_is_routed rb_hops rb_b26 True" "\<not> multi_hop_is_routed rb_hops rb_b28 True"
  by code_simp+

lemma rb_whitelist: "whitelist_all rb_json = Some {rb_s26, rb_s27, rb_s28}"
  by code_simp

text \<open>What the truth is computed from: the executed instructions and the rows of token balances.\<close>

definition rb_flat :: "flat_ix list" where
  "rb_flat =
     [(rb_s13, rb_d0, 1),
      (rb_s14, rb_d1, 1),
      (rb_s16, rb_d2, 2),
      (rb_s19, rb_d3, 3),
      (rb_s19, rb_d4, 3),
      (rb_s16, rb_d5, 3),
      (rb_s19, rb_d6, 3),
      (rb_s20, rb_d7, 3),
      (rb_s16, rb_d8, 3),
      (rb_s14, rb_d9, 2),
      (rb_s15, rb_d10, 2)]"

definition rb_pre_rows :: "(string \<times> string \<times> int) list" where
  "rb_pre_rows =
     [(rb_s0, rb_s27, 30000000),
      (rb_s0, rb_s28, 8518095604655),
      (''5YxQFdt3Tr9zJLvkFccqXVUwhdTWJQc1fFg2YPbxvxeD'', rb_s27, 1536708416),
      (rb_s6, rb_s26, 225182491261710),
      (rb_s6, rb_s27, 16221664255),
      (rb_s9, rb_s28, 506626106671234),
      (rb_s9, rb_s26, 9844051401840)]"

definition rb_post_rows :: "(string \<times> string \<times> int) list" where
  "rb_post_rows =
     [(rb_s0, rb_s27, 0),
      (rb_s0, rb_s28, 16765325814051),
      (''5YxQFdt3Tr9zJLvkFccqXVUwhdTWJQc1fFg2YPbxvxeD'', rb_s27, 1536736059),
      (rb_s6, rb_s26, 224861375851897),
      (rb_s6, rb_s27, 16251636612),
      (rb_s9, rb_s28, 498378876461838),
      (rb_s9, rb_s26, 10165166811653)]"

lemma rb_flat_read:
  "flat_ixs rb_decode (map snd (take 29 rb_keys)) (field_of (field_of rb_json ''transaction'') ''message'') (field_of rb_json ''meta'') =
   Some rb_flat"
  by (simp add: flat_ixs_def flat_inner_def rb_json_def rb_instructions_def rb_blocks_def rb_ix_def rb_inner_def json_parts b58_of_def
    rb_decoded rb_keys_def rb_flat_def)

lemma rb_accounts_read: "account_keys rb_json = Some (map snd (take 29 rb_keys))"
  by (simp add: account_keys_def rb_json_def as_str_all items_or_default_def)

lemma rb_rows_read:
  "balance_rows (field_of rb_json ''meta'') ''preTokenBalances'' = Some rb_pre_rows"
  "balance_rows (field_of rb_json ''meta'') ''postTokenBalances'' = Some rb_post_rows"
  by code_simp+

lemma rb_result: "result_of rb_json = rb_json"
  by (simp add: result_of_def json_get_def rb_json_def)

lemma rb_payer: "vec_get (map snd (take 29 rb_keys)) 0 = Some rb_s0"
  by (simp add: rb_keys_def vec_get_def)

lemma rb_loop:
  "(case idl_names pump_amm_idl of None \<Rightarrow> None | Some names \<Rightarrow> truth_loop rb_ext names rb_s0 rb_pre_rows rb_post_rows [] rb_flat
      \<lparr>tt_expected = [], tt_pool_events = [], tt_multi_hop = False\<rparr>) =
   Some \<lparr>tt_expected =
      [\<lparr>ex_pool = rb_s6, ex_mint = rb_s26, ex_quote_mint = rb_s27, ex_user = rb_s0, ex_is_buy = True,
        ex_token_amount = 321115409813, ex_instruction_type = ''multi_hop_swap_routed''\<rparr>,
       \<lparr>ex_pool = rb_s9, ex_mint = rb_s28, ex_quote_mint = rb_s26, ex_user = rb_s0, ex_is_buy = True,
        ex_token_amount = 8247230209396, ex_instruction_type = ''multi_hop_swap''\<rparr>],
     tt_pool_events = [(rb_s6, rb_s26, rb_s27, True), (rb_s9, rb_s28, rb_s26, True)], tt_multi_hop = True\<rparr>"
  by code_simp

lemma rb_truth:
  "truth_of rb_ext rb_decode pump_amm_idl rb_json = Some \<lparr>tt_expected =
      [\<lparr>ex_pool = rb_s6, ex_mint = rb_s26, ex_quote_mint = rb_s27, ex_user = rb_s0, ex_is_buy = True,
        ex_token_amount = 321115409813, ex_instruction_type = ''multi_hop_swap_routed''\<rparr>,
       \<lparr>ex_pool = rb_s9, ex_mint = rb_s28, ex_quote_mint = rb_s26, ex_user = rb_s0, ex_is_buy = True,
        ex_token_amount = 8247230209396, ex_instruction_type = ''multi_hop_swap''\<rparr>],
     tt_pool_events = [(rb_s6, rb_s26, rb_s27, True), (rb_s9, rb_s28, rb_s26, True)], tt_multi_hop = True\<rparr>"
  using rb_loop
  by (simp add: truth_of_def rb_result rb_accounts_read rb_payer rb_rows_read rb_flat_read split: option.splits)

lemma rb_caps:
  "0 < get_market_cap_from_reserves 225182491261710 20813957899 Sol"
  "0 < get_market_cap_from_reserves 506626106671234 19356564324984 (Other rb_b26)"
proof -
  have "f64_round (cap_val 225182491261710 20813957899 Sol) = 92431510915" by code_simp
  then show "0 < get_market_cap_from_reserves 225182491261710 20813957899 Sol"
    by (simp add: market_cap_closed f64_as_u64_def)
  have "f64_round (cap_val 506626106671234 19356564324984 (Other [])) = 38206803933113" by code_simp
  moreover have "cap_val 506626106671234 19356564324984 (Other rb_b26) = cap_val 506626106671234 19356564324984 (Other [])"
    by (simp add: cap_defs base_unit_def)
  ultimately show "0 < get_market_cap_from_reserves 506626106671234 19356564324984 (Other rb_b26)"
    by (simp add: market_cap_closed f64_as_u64_def)
qed

section \<open>The landed route\<close>

abbreviation rb_input :: amm_input where "rb_input \<equiv> (rb_b16, rb_b22, rb_message, rb_meta)"

abbreviation rb_mints :: "string set" where "rb_mints \<equiv> {rb_s26, rb_s27, rb_s28}"

lemma rb_programs: "x_pubkey_from_str rb_ext PUMP_SWAP_PROGRAM_ID = Some rb_b16" "x_pubkey_from_str rb_ext PUMP_PROGRAM_ID = Some rb_b22"
  by code_simp+

lemma rb_eligible:
  "eligible rb_ext (amm_context rb_ext 0 tx slot rb_mints False (rb_b16, rb_b22, msg, meta)) rb_b6 rb_b26 rb_b27 = Some Sol"
  "eligible rb_ext (amm_context rb_ext 0 tx slot rb_mints False (rb_b16, rb_b22, msg, meta)) rb_b9 rb_b28 rb_b26 = Some (Other rb_b26)"
  by (simp_all add: eligible_def rb_texts rb_canonical)

lemma rb_amounts:
  "event_amounts_fn (drop 8 rb_d5) PUMP_SWAP_BUY_EVENT_DISC True Sol = Some (321115409813, 29723570,
     Some (get_market_cap_from_reserves 225182491261710 20813957899 Sol), 225182491261710, 20813957899)"
  "event_amounts_fn (drop 8 rb_d8) PUMP_SWAP_BUY_EVENT_DISC True (Other k) = Some (8247230209396, 320314623254,
     Some (get_market_cap_from_reserves 506626106671234 19356564324984 (Other k)), 506626106671234, 19356564324984)"
proof -
  have differ: "PUMP_SWAP_BUY_EVENT_DISC \<noteq> PUMP_SWAP_BOOST_BUY_EVENT_DISC" by code_simp
  obtain s5 s8 where vols: "extract_quote_volume (drop 8 rb_d5) = Some (Some 29723570, s5)"
    "extract_quote_volume (drop 8 rb_d8) = Some (Some 320314623254, s8)"
    using rb_event(2,6) by auto
  have "effective_quote_reserves 16221664255 (Some 4592293644) = 20813957899"
    "effective_quote_reserves 9844051401840 (Some 9512512923144) = 19356564324984"
    by (simp_all add: effective_of_spec)
  with differ vols show "event_amounts_fn (drop 8 rb_d5) PUMP_SWAP_BUY_EVENT_DISC True Sol = Some (321115409813, 29723570,
     Some (get_market_cap_from_reserves 225182491261710 20813957899 Sol), 225182491261710, 20813957899)"
    "event_amounts_fn (drop 8 rb_d8) PUMP_SWAP_BUY_EVENT_DISC True (Other k) = Some (8247230209396, 320314623254,
     Some (get_market_cap_from_reserves 506626106671234 19356564324984 (Other k)), 506626106671234, 19356564324984)"
    by (simp_all add: event_amounts_fn_def event_amounts_def rb_event)
qed

lemma rb_no_other_fills:
  "fills_of_item X ctx meta full (rb_event_ix rb_d5, p, q) = []" "fills_of_item X ctx meta full (rb_event_ix rb_d8, p, q) = []"
  using rb_data by (simp_all add: fills_of_item_def rb_event_ix_def)

definition rb_fill :: "nat \<Rightarrow> quote_currency \<Rightarrow> amounts \<Rightarrow> string \<Rightarrow> trade_fill" where
  "rb_fill i ccy amounts source = hop_fill rb_ext rb_hops True rb_s0 (rb_hops ! i) ccy True amounts source"

definition rb_fills :: "trade_fill list" where
  "rb_fills =
     [rb_fill 0 Sol (321115409813, 29723570, Some (get_market_cap_from_reserves 225182491261710 20813957899 Sol),
        225182491261710, 20813957899) ''event'',
      rb_fill 1 (Other rb_b26) (8247230209396, 320314623254,
        Some (get_market_cap_from_reserves 506626106671234 19356564324984 (Other rb_b26)), 506626106671234, 19356564324984) ''event'']"

lemma rb_fill_fields:
  "fl_pool_address (rb_fill 0 ccy a source) = rb_s6" "fl_pool_address (rb_fill 1 ccy a source) = rb_s9"
  "fl_mint (rb_fill 0 ccy a source) = rb_s26" "fl_mint (rb_fill 1 ccy a source) = rb_s28"
  "fl_quote_mint (rb_fill 0 ccy a source) = rb_s27" "fl_quote_mint (rb_fill 1 ccy a source) = rb_s26"
  "fl_instruction_type (rb_fill 0 ccy a source) = ''multi_hop_swap_routed''"
  "fl_instruction_type (rb_fill 1 ccy a source) = ''multi_hop_swap''"
  "fl_user (rb_fill i ccy a source) = rb_s0" "fl_is_buy (rb_fill i ccy a source)"
  "fl_token_amount (rb_fill i ccy a source) = fst a" "fl_market_cap (rb_fill i ccy a source) = fst (snd (snd a))"
  "fl_amount_source (rb_fill i ccy a source) = source"
  using rb_routed
  by (simp_all add: rb_fill_def hop_fill_def rb_texts MULTI_HOP_ROUTED_INSTRUCTION_TYPE_def MULTI_HOP_INSTRUCTION_TYPE_def
      split: prod.splits) (simp_all add: rb_hops_def rb_texts)

lemma rb_landed: "amm_fills rb_ext 0 rb_tx 508715883 rb_mints False rb_input = rb_fills"
proof -
  let ?ctx = "amm_context rb_ext 0 rb_tx 508715883 rb_mints False rb_input"
  have "tc_success ?ctx" by (simp add: tx_succeeded_def rb_tx_def rb_meta_def)
  note fills = multi_hop_fills_success [OF this, of rb_ext rb_route rb_meta rb_full 1 1]
  have ix: "ci_data rb_route = rb_d2" "ci_program_id_index rb_route = 16" by (simp_all add: rb_route_def)
  have "multi_hop_fills rb_ext ?ctx rb_route rb_meta rb_full 1 1 = Some rb_fills"
    unfolding fills ix rb_route_hops rb_user rb_events
    by (simp add: rb_event_hops rb_event_hops [unfolded One_nat_def] rb_amounts rb_fills_def rb_fill_def)
      (simp add: rb_hops_def rb_eligible rb_amounts unwrap_or_def)
  then have "fills_of_item rb_ext ?ctx rb_meta rb_full (rb_route, 1, 1) = rb_fills"
    using rb_data(1,2) by (simp add: fills_of_item_def route_fills_of_def ix)
  then show ?thesis
    by (simp add: amm_fills_def fills_of_items_def rb_full_def [symmetric] rb_items rb_no_other_fills del: One_nat_def)
qed

text \<open>The checks of \<open>real_upgrade_transactions_record_exactly_the_chain_pool_trades\<close> on this fixture.\<close>

lemma rb_replayed: "records_exactly_the_chain_pool_trades rb_ext rb_decode pump_amm_idl rb_json"
proof -
  let ?ctx = "amm_context rb_ext 0 rb_tx 508715883 rb_mints False rb_input"
  have inputs: "amm_inputs rb_ext rb_tx = Inr rb_input" by (simp add: amm_inputs_def rb_programs rb_tx_def)
  have run: "run rb_ext rb_tx 508715883 rb_mints = Some (numbered ?ctx 0 rb_fills)"
    unfolding run_def process_closed [OF inputs] rb_landed by (simp add: emit_fills_send)
  have ok: "tx_succeeded rb_tx" by (simp add: tx_succeeded_def rb_tx_def rb_meta_def)
  show ?thesis
    by (simp add: records_exactly_the_chain_pool_trades_def rb_truth rb_parsed rb_whitelist run)
      (simp add: rb_fills_def expected_of_def trade_record_of_def rb_fill_fields rb_fill_fields [unfolded One_nat_def] rb_caps ok)
qed

section \<open>The failed route\<close>

definition rb_failed_meta :: transaction_status_meta where
  "rb_failed_meta = rb_meta\<lparr>m_err := Some [1],
     m_inner_instructions := [\<lparr>block_index = 1, block_instructions =
       [\<lparr>ii_program_id_index = 16, ii_accounts = ci_accounts rb_route, ii_data = rb_d2, ii_stack_height = Some 2\<rparr>]\<rparr>],
     m_post_token_balances := m_pre_token_balances rb_meta\<rparr>"

lemma rb_failed: "fail_route rb_tx = rb_tx\<lparr>tx_meta := Some rb_failed_meta\<rparr>"
proof -
  have "map (\<lambda>b. b\<lparr>block_instructions :=
       filter (\<lambda>ix. slice_get (ii_data ix) 0 8 = Some AMM_MULTI_HOP_SWAP_DISCRIMINATOR) (block_instructions b)\<rparr>) (m_inner_instructions rb_meta) =
     [\<lparr>block_index = 1, block_instructions =
       [\<lparr>ii_program_id_index = 16, ii_accounts = ci_accounts rb_route, ii_data = rb_d2, ii_stack_height = Some 2\<rparr>]\<rparr>]"
    by code_simp
  then show ?thesis by (simp add: fail_route_def rb_tx_def rb_failed_meta_def)
qed

lemma rb_failed_items: "get_program_instructions rb_message rb_failed_meta rb_full rb_b16 = [(rb_route, 1, 1)]"
  by code_simp

lemma rb_sides: "Option.bind (multi_hop_input_mint rb_ext rb_route rb_failed_meta rb_hops) (multi_hop_sides rb_hops) = Some [True, True]"
  by code_simp

text \<open>The checks of \<open>failed_multi_hop_routes_record_each_hop_from_the_instruction\<close> on this fixture: two records.\<close>

lemma rb_failed_replayed: "failed_route_records rb_ext rb_decode pump_amm_idl rb_json = Some (True, 2)"
proof -
  let ?tx = "rb_tx\<lparr>tx_meta := Some rb_failed_meta\<rparr>"
  let ?inp = "(rb_b16, rb_b22, rb_message, rb_failed_meta)"
  let ?ctx = "amm_context rb_ext 0 ?tx 508715883 rb_mints False ?inp"
  have inputs: "amm_inputs rb_ext ?tx = Inr ?inp" by (simp add: amm_inputs_def rb_programs rb_tx_def)
  have failed: "\<not> tx_succeeded ?tx" by (simp add: tx_succeeded_def rb_failed_meta_def)
  then have "\<not> tc_success ?ctx" by simp
  note fills = multi_hop_fills_failed [OF this, of rb_ext rb_route rb_failed_meta rb_full 1 1]
  have ix: "ci_data rb_route = rb_d2" by (simp add: rb_route_def)
  have full: "full_account_list rb_message rb_failed_meta = rb_full"
    by (simp add: rb_full_def full_account_list_def rb_failed_meta_def)
  obtain a b where "multi_hop_fills rb_ext ?ctx rb_route rb_failed_meta rb_full 1 1 =
      Some [rb_fill 0 Sol a ''instruction_request'', rb_fill 1 (Other rb_b26) b ''instruction_request'']"
    "fst (snd (snd a)) = None" "fst (snd (snd b)) = None"
    unfolding fills ix rb_route_hops rb_user rb_sides using rb_data(1)
    by (simp add: rb_hops_def rb_eligible unwrap_or_def Let_def rb_fill_def)
  moreover from this(1) have "amm_fills rb_ext 0 ?tx 508715883 rb_mints False ?inp =
      [rb_fill 0 Sol a ''instruction_request'', rb_fill 1 (Other rb_b26) b ''instruction_request'']"
    using rb_data(1,2)
    by (simp add: amm_fills_def fills_of_items_def full rb_failed_items fills_of_item_def route_fills_of_def ix)
  ultimately show ?thesis using failed
    by (simp add: failed_route_records_def rb_truth rb_parsed rb_whitelist rb_failed run_def process_closed [OF inputs] emit_fills_send)
      (simp add: trade_record_of_def rb_fill_fields rb_fill_fields [unfolded One_nat_def])
qed
end
