(* ===== verification/PdaFixture.thy ===== *)
theory PdaFixture
  imports Instructions
begin

text \<open>
  The keys of the tests that derive pool addresses, with their base58 texts, and the addresses that
  \<open>Pubkey::find_program_address\<close> gives for the seeds and programs the tests use.
\<close>

definition pd_b0 :: pubkey where
  "pd_b0 = [1, 86, 224, 246, 147, 102, 90, 207, 68, 219, 21, 104, 191, 23, 91, 170, 81, 137, 203, 151, 245,
     210, 255, 59, 101, 93, 43, 182, 253, 109, 24, 176]"

definition pd_s0 :: string where
  "pd_s0 = ''6EF8rrecthR5Dkzon8Nwu78hRvfCKubJ14M5uBEwF6P''"

definition pd_b1 :: pubkey where
  "pd_b1 = [12, 20, 222, 252, 130, 94, 198, 118, 148, 37, 8, 24, 187, 101, 64, 101, 244, 41, 141, 49, 86, 213,
     113, 180, 212, 248, 9, 12, 24, 233, 168, 99]"

definition pd_s1 :: string where
  "pd_s1 = ''pAMMBay6oceH9fJKBRHGP5D4bD4sWpmSwMn52FMfXEA''"

definition pd_b2 :: pubkey where
  "pd_b2 = [6, 155, 136, 87, 254, 171, 129, 132, 251, 104, 127, 99, 70, 24, 192, 53, 218, 196, 57, 220, 26,
     235, 59, 85, 152, 160, 240, 0, 0, 0, 0, 1]"

definition pd_s2 :: string where
  "pd_s2 = ''So11111111111111111111111111111111111111112''"

definition pd_b3 :: pubkey where
  "pd_b3 = [169, 42, 90, 139, 79, 41, 89, 82, 132, 37, 80, 170, 147, 253, 91, 149, 181, 172, 230, 168, 235,
     146, 12, 147, 148, 46, 67, 105, 12, 32, 236, 115]"

definition pd_s3 :: string where
  "pd_s3 = ''CPMMoo8L3F4NbTegBCKVNunggL7H1ZpdTHKxQB5qKP1C''"

definition pd_b4 :: pubkey where
  "pd_b4 = [169, 178, 31, 23, 126, 155, 151, 110, 142, 225, 41, 244, 26, 239, 55, 132, 170, 197, 20, 148, 144,
     149, 176, 2, 230, 17, 125, 89, 208, 54, 150, 143]"

definition pd_s4 :: string where
  "pd_s4 = ''CRRS5ieQmBrZjWhcj99JuGrT5tyuWDaGAXLXLFjbAtjQ''"

definition pd_b5 :: pubkey where
  "pd_b5 = [61, 164, 83, 72, 42, 175, 213, 211, 4, 174, 243, 178, 1, 136, 106, 142, 2, 235, 111, 220, 183, 160,
     36, 112, 241, 207, 153, 223, 251, 201, 17, 255]"

definition pd_s5 :: string where
  "pd_s5 = ''59dCaphi38eZHiuZjJ2n26BuEcktu9ohdH8eAQd8pump''"

definition pd_b6 :: pubkey where
  "pd_b6 = [220, 153, 166, 231, 208, 229, 188, 85, 225, 100, 55, 218, 58, 130, 113, 164, 183, 208, 25, 247,
     249, 155, 83, 115, 42, 174, 222, 21, 134, 111, 255, 232]"

definition pd_s6 :: string where
  "pd_s6 = ''Fr8astXNXz2dJDfvwCQnmqGprADkH89GSbHT5eRwfwMy''"

definition pd_b7 :: pubkey where
  "pd_b7 = [122, 220, 66, 105, 159, 44, 78, 3, 102, 18, 240, 196, 203, 57, 107, 140, 1, 49, 149, 192, 50, 43,
     33, 20, 9, 85, 103, 168, 205, 203, 96, 249]"

definition pd_s7 :: string where
  "pd_s7 = ''9GbYBkTxNGNPkEKe24Ysb6eASNEPyScsGEY75mBng1uA''"

definition pd_b8 :: pubkey where
  "pd_b8 = [146, 87, 25, 76, 158, 29, 100, 79, 50, 174, 95, 132, 145, 129, 63, 79, 0, 85, 233, 34, 102, 229,
     102, 195, 83, 53, 254, 104, 45, 241, 70, 213]"

definition pd_s8 :: string where
  "pd_s8 = ''ArFZAPgyCYBNDRGTKxAxgsNgcRoi2uN4ehK3e1iEZKBS''"

definition pd_b9 :: pubkey where
  "pd_b9 = [142, 99, 219, 194, 234, 190, 233, 222, 205, 29, 212, 5, 109, 204, 60, 1, 11, 65, 228, 187, 49, 240,
     117, 35, 9, 201, 153, 110, 96, 202, 7, 94]"

definition pd_s9 :: string where
  "pd_s9 = ''AaqD63R8JTSzWN5fMaZK259hJswXdnELL6oZ5ouC9XUR''"

definition pd_b10 :: pubkey where
  "pd_b10 = [80, 9, 149, 157, 43, 21, 216, 42, 172, 255, 172, 21, 31, 130, 232, 210, 221, 184, 60, 34, 40, 43,
     165, 12, 2, 5, 43, 61, 214, 95, 169, 4]"

definition pd_s10 :: string where
  "pd_s10 = ''6PS6MdRgu3GdfL1ZW25v9xqVFhjBQYLf6yXEndpwY1ko''"

definition pd_b11 :: pubkey where
  "pd_b11 = [228, 238, 203, 49, 91, 171, 103, 62, 147, 32, 239, 206, 55, 139, 196, 58, 177, 132, 166, 61, 177,
     193, 150, 106, 157, 83, 19, 123, 56, 146, 145, 242]"

definition pd_s11 :: string where
  "pd_s11 = ''GQf9SMW9UVkJTiTibWjLSSQWFAhRvdHi58cyBw5y33NR''"

definition pd_b12 :: pubkey where
  "pd_b12 = [211, 225, 215, 11, 208, 213, 189, 189, 206, 83, 64, 221, 89, 193, 117, 122, 152, 86, 152, 205, 95,
     217, 224, 17, 142, 58, 85, 199, 10, 60, 122, 77]"

definition pd_s12 :: string where
  "pd_s12 = ''FG6kytS15dGaBvAfsFfAyJc157pj8PNpnY93E6JyM2hS''"

definition pd_b13 :: pubkey where
  "pd_b13 = [44, 32, 146, 86, 2, 183, 131, 46, 138, 124, 108, 134, 75, 18, 123, 17, 98, 175, 231, 43, 19, 244,
     146, 115, 23, 0, 24, 165, 29, 219, 98, 123]"

definition pd_s13 :: string where
  "pd_s13 = ''3yFkDtk7RvzhPufHJr2GkkHmDRRffyPT455Ke7wEBncS''"

definition pd_b14 :: pubkey where
  "pd_b14 = [250, 101, 140, 28, 47, 3, 131, 107, 1, 40, 60, 236, 193, 59, 114, 129, 36, 41, 136, 126, 30, 230,
     210, 247, 41, 218, 1, 232, 174, 87, 139, 3]"

definition pd_s14 :: string where
  "pd_s14 = ''HrSjY8WztUJFavB2Joz5ojFLpMhfpNmxMyL57zUENcDg''"

definition pd_b15 :: pubkey where
  "pd_b15 = [190, 38, 47, 11, 129, 189, 83, 209, 239, 37, 99, 43, 174, 153, 186, 230, 244, 54, 97, 158, 83, 67,
     80, 190, 198, 112, 128, 146, 245, 16, 79, 100]"

definition pd_s15 :: string where
  "pd_s15 = ''DoGEV7LASBkQbibMc5k5vKnTZoMg423GpJ5QtJEGfm7R''"

definition pd_b16 :: pubkey where
  "pd_b16 = [186, 4, 176, 74, 164, 203, 67, 254, 255, 211, 82, 1, 202, 207, 150, 97, 48, 211, 110, 162, 181,
     236, 76, 82, 1, 118, 239, 182, 53, 93, 46, 19]"

definition pd_s16 :: string where
  "pd_s16 = ''DX8ykUKbMWduHgfQ5JnjfEec1oWaVbfuVRef6r1HRqHt''"

definition pd_b17 :: pubkey where
  "pd_b17 = [146, 165, 56, 224, 145, 65, 151, 29, 78, 221, 24, 109, 127, 148, 50, 23, 23, 201, 2, 108, 197, 239,
     105, 102, 178, 70, 84, 8, 150, 185, 218, 247]"

definition pd_s17 :: string where
  "pd_s17 = ''AsSeYCDN6LyHKCGuYvTP2ngd2i9w6DUyVnGguFSZqYEA''"

definition pd_b18 :: pubkey where
  "pd_b18 = [5, 218, 235, 48, 215, 226, 94, 128, 12, 115, 252, 236, 93, 217, 103, 190, 72, 108, 70, 10, 131,
     170, 157, 224, 135, 242, 177, 61, 114, 71, 79, 90]"

definition pd_s18 :: string where
  "pd_s18 = ''Pren1FvFX6J3E4kXhJuCiAD5aDmGEb7qJRncwA8Lkhw''"

definition pd_b19 :: pubkey where
  "pd_b19 = [112, 116, 93, 116, 213, 116, 242, 39, 53, 2, 163, 33, 210, 144, 54, 21, 131, 72, 138, 128, 131,
     151, 84, 156, 0, 228, 121, 35, 117, 214, 21, 60]"

definition pd_s19 :: string where
  "pd_s19 = ''8ZyaQfrYJoJN5wDQDWm7qPrbik3LFH2gsfnRrHrLC9cf''"

definition pd_b20 :: pubkey where
  "pd_b20 = [64, 59, 108, 133, 27, 153, 26, 88, 171, 235, 165, 193, 29, 97, 99, 176, 14, 123, 165, 177, 105,
     105, 130, 174, 207, 149, 163, 36, 194, 67, 124, 141]"

definition pd_s20 :: string where
  "pd_s20 = ''5KjeZ4JzTJWyHcKwjcPimApPvY3ASmoJKMGDQat1dFUx''"

definition pd_b21 :: pubkey where
  "pd_b21 = [129, 113, 31, 2, 12, 142, 149, 145, 171, 113, 199, 185, 60, 8, 83, 52, 239, 175, 216, 223, 16, 17,
     33, 30, 158, 197, 218, 10, 102, 47, 68, 193]"

definition pd_s21 :: string where
  "pd_s21 = ''9iHdzvS2C6uAhPvvSQ4Zp4He72LYZFnZx8Z4jV5Zy2ZW''"

definition pd_b22 :: pubkey where
  "pd_b22 = [86, 216, 95, 221, 232, 81, 98, 225, 54, 124, 245, 2, 30, 37, 255, 51, 86, 71, 164, 106, 47, 70,
     211, 55, 1, 218, 181, 13, 89, 226, 15, 91]"

definition pd_s22 :: string where
  "pd_s22 = ''6r1Rdfx6WRmhmfhV7rpbZn1hq7gwS9JveShR5SrTbQUr''"

definition pd_b23 :: pubkey where
  "pd_b23 = [7, 232, 180, 5, 33, 211, 61, 75, 247, 152, 219, 36, 250, 248, 220, 16, 172, 90, 118, 39, 7, 21,
     144, 205, 235, 37, 89, 252, 43, 29, 37, 41]"

definition pd_s23 :: string where
  "pd_s23 = ''Xsf9mBktVB9BSU5kf4nHxPq5hCBJ2j2ui3ecFGxPRGc''"

definition pd_b24 :: pubkey where
  "pd_b24 = [208, 114, 165, 252, 17, 244, 21, 213, 134, 100, 77, 114, 181, 54, 55, 137, 13, 37, 199, 159, 152,
     16, 228, 0, 97, 125, 35, 135, 101, 59, 50, 62]"

definition pd_s24 :: string where
  "pd_s24 = ''F2hCQqTXYhtN2sP8i9Bn3eeqFLYdY6eFoBroT8FcLgvR''"

definition pd_keys :: "(bytes \<times> string) list" where
  "pd_keys =
    [(pd_b0, pd_s0), (pd_b1, pd_s1), (pd_b2, pd_s2), (pd_b3, pd_s3), (pd_b4, pd_s4), (pd_b5, pd_s5), (pd_b6, pd_s6),
     (pd_b7, pd_s7), (pd_b8, pd_s8), (pd_b9, pd_s9), (pd_b10, pd_s10), (pd_b11, pd_s11), (pd_b12, pd_s12), (pd_b13,
     pd_s13), (pd_b14, pd_s14), (pd_b15, pd_s15), (pd_b16, pd_s16), (pd_b17, pd_s17), (pd_b18, pd_s18), (pd_b19,
     pd_s19), (pd_b20, pd_s20), (pd_b21, pd_s21), (pd_b22, pd_s22), (pd_b23, pd_s23), (pd_b24, pd_s24)]"

definition pd_derived :: "((bytes list \<times> pubkey) \<times> pubkey) list" where
  "pd_derived =
    [(([ascii ''pool-authority'', pd_b5], pd_b0), pd_b7),
     (([ascii ''pool'', [0, 0], pd_b7, pd_b5, pd_b2], pd_b1), pd_b6),
     (([ascii ''pool-authority'', pd_b2], pd_b0), pd_b8),
     (([ascii ''pool'', [0, 0], pd_b8, pd_b2, pd_b5], pd_b1), pd_b9),
     (([ascii ''pool-authority'', pd_b10], pd_b0), pd_b12),
     (([ascii ''pool'', [0, 0], pd_b12, pd_b10, pd_b2], pd_b1), pd_b11),
     (([ascii ''pool'', [0, 0], pd_b8, pd_b2, pd_b10], pd_b1), pd_b13),
     (([CPMM_POOL_SEED, pd_b4, pd_b15, pd_b14], pd_b3), pd_b16),
     (([CPMM_POOL_SEED, pd_b4, pd_b18, pd_b17], pd_b3), pd_b19),
     (([CPMM_POOL_SEED, pd_b4, pd_b2, pd_b20], pd_b3), pd_b21),
     (([CPMM_POOL_SEED, pd_b4, pd_b23, pd_b22], pd_b3), pd_b24)]"

definition pd_ext :: externals where
  "pd_ext = demo_ext\<lparr>
     x_pubkey_from_str := map_of (map prod.swap pd_keys),
     x_find_program_address := (\<lambda>seeds program. case map_of pd_derived (seeds, program) of Some k \<Rightarrow> k | None \<Rightarrow> replicate 32 0)\<rparr>"

end
