(* ===== verification/PdaTests.thy ===== *)
theory PdaTests
  imports PdaFixture Cpmm
begin

text \<open>
  The unit tests that derive pool addresses, of \<open>src/src/utils/transaction.rs\<close> and \<open>src/src/utils/cpmm.rs\<close>: seeds, their
  order and the program of the derivation, on live pools. The derivation itself is the parameter \<open>X\<close>; a key that does not
  parse is a panic, and a test that panics fails.
\<close>

text \<open>The checks of one pair, for \<open>recognizes_reproduced_cpi_fills_as_canonical_pools\<close>.\<close>
definition canonical_pair :: "externals \<Rightarrow> string \<times> string \<Rightarrow> bool may_panic" where
  "canonical_pair X c = (let (pool, base) = c in do {
     pump_program \<leftarrow> x_pubkey_from_str X PUMP_PROGRAM_ID;
     pump_swap_program \<leftarrow> x_pubkey_from_str X PUMP_SWAP_PROGRAM_ID;
     quote \<leftarrow> x_pubkey_from_str X WSOL_MINT;
     pool \<leftarrow> x_pubkey_from_str X pool;
     base \<leftarrow> x_pubkey_from_str X base;
     Some (canonical_pump_swap_pool X base quote pump_program pump_swap_program = pool \<and>
       canonical_pump_swap_pool X quote base pump_program pump_swap_program \<noteq> pool) })"

definition recognizes_reproduced_cpi_fills_as_canonical_pools :: "externals \<Rightarrow> bool" where
  "recognizes_reproduced_cpi_fills_as_canonical_pools X \<longleftrightarrow>
     list_all (\<lambda>c. canonical_pair X c = Some True)
       [(''Fr8astXNXz2dJDfvwCQnmqGprADkH89GSbHT5eRwfwMy'', ''59dCaphi38eZHiuZjJ2n26BuEcktu9ohdH8eAQd8pump''),
        (''GQf9SMW9UVkJTiTibWjLSSQWFAhRvdHi58cyBw5y33NR'', ''6PS6MdRgu3GdfL1ZW25v9xqVFhjBQYLf6yXEndpwY1ko'')]"

lemma recognizes_reproduced_cpi_fills_as_canonical_pools_passes: "recognizes_reproduced_cpi_fills_as_canonical_pools pd_ext"
  by code_simp

text \<open>The checks of one triple, for \<open>canonical_pool_pda_matches_live_migration_pools\<close>.\<close>
definition live_pool :: "externals \<Rightarrow> string \<times> string \<times> string \<Rightarrow> bool may_panic" where
  "live_pool X c = (let (base, quote, pool) = c in do {
     program \<leftarrow> x_pubkey_from_str X RAYDIUM_CPMM_PROGRAM_ID;
     config \<leftarrow> x_pubkey_from_str X STONK_CPMM_AMM_CONFIG;
     base \<leftarrow> x_pubkey_from_str X base;
     quote \<leftarrow> x_pubkey_from_str X quote;
     expected \<leftarrow> x_pubkey_from_str X pool;
     Some (cpmm_canonical_pool X program config base quote = expected \<and>
       cpmm_canonical_pool X program config quote base = expected) })"

definition canonical_pool_pda_matches_live_migration_pools :: "externals \<Rightarrow> bool" where
  "canonical_pool_pda_matches_live_migration_pools X \<longleftrightarrow>
     list_all (\<lambda>c. live_pool X c = Some True)
       [(''HrSjY8WztUJFavB2Joz5ojFLpMhfpNmxMyL57zUENcDg'', ''DoGEV7LASBkQbibMc5k5vKnTZoMg423GpJ5QtJEGfm7R'',
         ''DX8ykUKbMWduHgfQ5JnjfEec1oWaVbfuVRef6r1HRqHt''),
        (''AsSeYCDN6LyHKCGuYvTP2ngd2i9w6DUyVnGguFSZqYEA'', ''Pren1FvFX6J3E4kXhJuCiAD5aDmGEb7qJRncwA8Lkhw'',
         ''8ZyaQfrYJoJN5wDQDWm7qPrbik3LFH2gsfnRrHrLC9cf''),
        (''5KjeZ4JzTJWyHcKwjcPimApPvY3ASmoJKMGDQat1dFUx'', ''So11111111111111111111111111111111111111112'',
         ''9iHdzvS2C6uAhPvvSQ4Zp4He72LYZFnZx8Z4jV5Zy2ZW''),
        (''6r1Rdfx6WRmhmfhV7rpbZn1hq7gwS9JveShR5SrTbQUr'', ''Xsf9mBktVB9BSU5kf4nHxPq5hCBJ2j2ui3ecFGxPRGc'',
         ''F2hCQqTXYhtN2sP8i9Bn3eeqFLYdY6eFoBroT8FcLgvR'')]"

lemma canonical_pool_pda_matches_live_migration_pools_passes: "canonical_pool_pda_matches_live_migration_pools pd_ext"
  by code_simp

end
