(* ===== verification/StonkJson.thy ===== *)
theory StonkJson
  imports StonkFixture Json
begin

text \<open>
  The fields that the tests read of \<open>src/fixtures/stonk/tx_cpmm_swap_base_input_2cY4Pc3j.json\<close>, as a JSON value, with
  base58 as a table of the texts that occur.
\<close>

text \<open>The texts of the instruction data, whose bytes are \<open>fx_d0\<close> and so on.\<close>

definition fx_t0 :: string where
  "fx_t0 = ''FkL9x3''"

definition fx_t1 :: string where
  "fx_t1 = ''3EBhxUMQjLMD''"

definition fx_t2 :: string where
  "fx_t2 = ''DVGvGmyf25wiwa''"

definition fx_t3 :: string where
  "fx_t3 = ''5pRTutfY7mA5116eYv7oympUSpVUzY1YvnWSuEyZdKFD9H3xAqQck4CR7NhQdaDQvpZzHwSD5WN9EDAk3jbHERsVDi'' @
        ''tBoFgFLHJo''"

definition fx_t4 :: string where
  "fx_t4 = ''E73fXHPWvSRHFxh5fVErSFHowBxA1waM5''"

definition fx_t5 :: string where
  "fx_t5 = ''9X9PsiSazN3pZFFccBzYVz2zRWAzDbCJrPDZt''"

definition fx_t6 :: string where
  "fx_t6 = ''3Bxs4BcPoFZBeRb5''"

definition fx_t7 :: string where
  "fx_t7 = ''3Bxs46EJF18bdVz7''"

definition fx_t8 :: string where
  "fx_t8 = ''3Bxs4ALq8faav4MM''"

definition fx_t9 :: string where
  "fx_t9 = ''7E6e8TDtD5p5L8RqvZHrq5B8LqQ6KdfiN5eQ2W8zNQ4ZXDYMjuq3AUqxZsrDJfsc3FSDUnCV3gQReXGQQA2xWigpN3'' @
        ''vwmy4MB9b1fkomfoFyXAF8BG8ZJqVoFGVe''"

definition fx_t10 :: string where
  "fx_t10 = ''6S7M6i9DRfsQnwKxgUbqLag3cxeWXQZnPtsA8eFmUTn9K''"

definition fx_t11 :: string where
  "fx_t11 = ''7E6e8TDtD5p5L8RqvZHrq5B8LqQ6KdfiN5eQ2W8zNQ4ZXDYMjuq3AUqxZsrDJfsc3Fak4ZcszMzxyDc7JJefRmoaAS'' @
        ''zZhXRxtCQqf5E7AXNrqM6apBS4H6U4nQTr''"

definition fx_t12 :: string where
  "fx_t12 = ''2''"

definition fx_t13 :: string where
  "fx_t13 = ''84eT''"

definition fx_t14 :: string where
  "fx_t14 = ''111135fAZn8PZBEU8J8iUmUTdbmBE6po1LhhgEJXngDjhxmUTshDA8EHdXaMJUsXdMg3PE''"

definition fx_t15 :: string where
  "fx_t15 = ''P''"

definition fx_t16 :: string where
  "fx_t16 = ''hpreCTZpdkyph''"

definition fx_t17 :: string where
  "fx_t17 = ''gfiWTGeFRS2cF''"

definition fx_t18 :: string where
  "fx_t18 = ''ASCsAbe1UnDzsKA4EMjpm7THNbjcsvJ6wuVvfCMocG8aya5xShN5NZdr''"

definition fx_t19 :: string where
  "fx_t19 = ''hNumgyc4X52Hb''"

definition fx_t20 :: string where
  "fx_t20 = ''9wASJwqWUTBqheztZC8Gcby''"

definition fx_t21 :: string where
  "fx_t21 = ''3WDURcinUc8P''"

definition fx_t22 :: string where
  "fx_t22 = ''3ZjbnXAxaLvT''"

definition fx_t23 :: string where
  "fx_t23 = ''A''"

definition fx_data :: "(string \<times> bytes) list" where
  "fx_data =
    [(fx_t0, fx_d0), (fx_t1, fx_d1), (fx_t2, fx_d2), (fx_t3, fx_d3), (fx_t4, fx_d4), (fx_t5, fx_d5), (fx_t6, fx_d6),
     (fx_t7, fx_d7), (fx_t8, fx_d8), (fx_t9, fx_d9), (fx_t10, fx_d10), (fx_t11, fx_d11), (fx_t12, fx_d12), (fx_t13,
     fx_d13), (fx_t14, fx_d14), (fx_t15, fx_d15), (fx_t16, fx_d16), (fx_t17, fx_d17), (fx_t18, fx_d18), (fx_t19,
     fx_d19), (fx_t20, fx_d20), (fx_t21, fx_d21), (fx_t22, fx_d22), (fx_t23, fx_d23)]"

definition fx_decode :: "string \<Rightarrow> bytes option" where
  "fx_decode = table_decode (fixture_signature # fixture_keys) fx_data"

definition fx_ix :: "int \<Rightarrow> int list \<Rightarrow> string \<Rightarrow> (string \<times> json) list" where
  "fx_ix program accounts t = [(''programIdIndex'', Num program), (''accounts'', Arr (map Num accounts)), (''data'', Str t)]"

definition fx_inner :: "int \<Rightarrow> int list \<Rightarrow> string \<Rightarrow> int \<Rightarrow> json" where
  "fx_inner program accounts t height = Obj (fx_ix program accounts t @ [(''stackHeight'', Num height)])"

text \<open>A row of token balances: account index, mint, amount, decimals, the amount as shown.\<close>
definition fx_balance :: "int \<Rightarrow> string \<Rightarrow> string \<Rightarrow> int \<Rightarrow> string \<Rightarrow> json" where
  "fx_balance account mint amount decimals shown =
     Obj [(''accountIndex'', Num account), (''mint'', Str mint),
       (''uiTokenAmount'', Obj [(''amount'', Str amount), (''decimals'', Num decimals), (''uiAmountString'', Str shown)])]"

definition fx_instructions :: "json list" where
  "fx_instructions =
    [Obj (fx_ix 11 [30] fx_t0),
     Obj (fx_ix 11 [] fx_t1),
     Obj (fx_ix 12 [1, 0] fx_t2),
     Obj (fx_ix 12 [0, 13, 31, 32, 33, 2, 42, 3, 34, 4, 35] fx_t3),
     Obj (fx_ix 14 [0, 36, 15, 5, 6, 2, 7, 8, 32, 31, 16, 42, 9] fx_t4),
     Obj (fx_ix 12 [0, 13, 31, 32, 33, 37, 38, 21, 2, 3, 22, 23, 24, 39, 42, 34, 25, 26, 27, 28, 29, 40, 17, 41,
       18, 19, 3, 4, 2, 42, 3, 34, 4, 35] fx_t5),
     Obj (fx_ix 13 [0, 10] fx_t6),
     Obj (fx_ix 13 [0, 20] fx_t7)]"

definition fx_blocks :: "json list" where
  "fx_blocks =
    [Obj [(''index'', Num 3), (''instructions'', Arr
      [fx_inner 13 [0, 2] fx_t8 2,
       fx_inner 13 [2, 0] fx_t9 2,
       fx_inner 31 [2, 42] fx_t10 2,
       fx_inner 13 [0, 3] fx_t8 2,
       fx_inner 13 [3, 0] fx_t11 2,
       fx_inner 31 [3, 34] fx_t10 2,
       fx_inner 33 [0, 4, 0, 35, 13, 31] fx_t12 2,
       fx_inner 31 [35] fx_t13 3,
       fx_inner 13 [0, 4] fx_t14 3,
       fx_inner 31 [4] fx_t15 3,
       fx_inner 31 [4, 35] fx_t10 3])],
     Obj [(''index'', Num 4), (''instructions'', Arr
      [fx_inner 32 [6, 16, 7, 0] fx_t16 2,
       fx_inner 31 [8, 42, 2, 36] fx_t17 2])],
     Obj [(''index'', Num 5), (''instructions'', Arr
      [fx_inner 37 [0, 38, 21, 2, 3, 22, 23, 24, 31, 32, 39, 42, 34, 25, 26, 27, 28, 29] fx_t18 2,
       fx_inner 31 [2, 42, 22, 0] fx_t17 3,
       fx_inner 31 [23, 34, 3, 21] fx_t19 3,
       fx_inner 40 [31, 17, 41, 18, 19, 3, 4, 0] fx_t20 2,
       fx_inner 31 [3, 19, 0] fx_t21 3,
       fx_inner 31 [18, 4, 41] fx_t22 3,
       fx_inner 31 [2, 0, 0] fx_t23 2,
       fx_inner 31 [3, 0, 0] fx_t23 2,
       fx_inner 31 [4, 0, 0] fx_t23 2])]]"

definition fx_pre :: "json list" where
  "fx_pre =
    [fx_balance 6 fx_s16 ''4140116104327'' 6 ''4140116.104327'',
     fx_balance 7 fx_s16 ''265659717775167'' 6 ''265659717.775167'',
     fx_balance 8 fx_s42 ''8078689827599'' 8 ''80786.89827599'',
     fx_balance 18 fx_s35 ''144576122460211'' 9 ''144576.122460211'',
     fx_balance 19 fx_s34 ''14781544796410'' 6 ''14781544.79641'',
     fx_balance 22 fx_s42 ''154329750609228'' 8 ''1543297.50609228'',
     fx_balance 23 fx_s34 ''101113713611'' 6 ''101113.713611'']"

definition fx_post :: "json list" where
  "fx_post =
    [fx_balance 6 fx_s16 ''0'' 6 ''0'',
     fx_balance 7 fx_s16 ''269758432718450'' 6 ''269758432.71845'',
     fx_balance 8 fx_s42 ''7957866191075'' 8 ''79578.66191075'',
     fx_balance 18 fx_s35 ''144575121055418'' 9 ''144575.121055418'',
     fx_balance 19 fx_s34 ''14781647437918'' 6 ''14781647.437918'',
     fx_balance 22 fx_s42 ''154450574245752'' 8 ''1544505.74245752'',
     fx_balance 23 fx_s34 ''101011072103'' 6 ''101011.072103'']"

definition fixture_json :: json where
  "fixture_json = Obj
     [(''transaction'', Obj
        [(''message'', Obj [(''accountKeys'', Arr (map (Str \<circ> snd) (take 17 fixture_keys))), (''instructions'', Arr fx_instructions)]),
         (''signatures'', Arr [Str (snd fixture_signature)])]),
      (''meta'', Obj
        [(''innerInstructions'', Arr fx_blocks), (''loadedAddresses'', Obj
           [(''writable'', Arr (map (Str \<circ> snd) (take 13 (drop 17 fixture_keys)))),
            (''readonly'', Arr (map (Str \<circ> snd) (drop 30 fixture_keys)))]),
         (''preTokenBalances'', Arr fx_pre), (''postTokenBalances'', Arr fx_post), (''logMessages'', Arr (map Str fixture_logs)),
         (''computeUnitsConsumed'', Num 165878)])]"

end
