(* ===== verification/StonkJsonTests.thy ===== *)
theory StonkJsonTests
  imports StonkJson
begin

text \<open>
  How the tests of \<open>src/src/handler/cpmm_handler.rs\<close> and \<open>src/src/utils/cpmm.rs\<close> read the recorded transaction: the
  conversion of the RPC response to the message of the stream gives \<open>fixture_tx\<close>, the log lines are \<open>fixture_logs\<close>.
\<close>

definition fixture_balance_of_json :: "json \<Rightarrow> token_balance may_panic" where
  "fixture_balance_of_json b = do {
     let u = field_of b ''uiTokenAmount'';
     index \<leftarrow> as_u64 (field_of b ''accountIndex'');
     mint \<leftarrow> as_str (field_of b ''mint'');
     decimals \<leftarrow> as_u64 (field_of u ''decimals'');
     amount \<leftarrow> as_str (field_of u ''amount'');
     _ \<leftarrow> as_str (field_of u ''uiAmountString'');
     Some \<lparr>tb_account_index = ucast index, tb_mint = mint,
       tb_ui_token_amount = Some \<lparr>uta_amount = amount, uta_decimals = ucast decimals\<rparr>\<rparr> }"

text \<open>\<open>value.as_array().unwrap().iter().map(..).collect()\<close>\<close>
definition items_of :: "(json \<Rightarrow> 'a may_panic) \<Rightarrow> json \<Rightarrow> 'a list may_panic" where
  "items_of f v = do { xs \<leftarrow> as_array v; map_may_panic f xs }"

definition fixture_tx_of_json :: "(string \<Rightarrow> bytes option) \<Rightarrow> json \<Rightarrow> tx_info may_panic" where
  "fixture_tx_of_json decode v = do {
     let r = result_of v;
     let msg = field_of (field_of r ''transaction'') ''message'';
     let meta = field_of r ''meta'';
     account_keys \<leftarrow> items_of (b58_of decode) (field_of msg ''accountKeys'');
     instructions \<leftarrow> items_of (compiled_of_json decode) (field_of msg ''instructions'');
     inner_instructions \<leftarrow> items_of (block_of_json decode) (field_of meta ''innerInstructions'');
     log_messages \<leftarrow> items_of as_str (field_of meta ''logMessages'');
     signature \<leftarrow> b58_of decode (item_of (field_of (field_of r ''transaction'') ''signatures'') 0);
     writable \<leftarrow> items_or_default (b58_of decode) (field_of (field_of meta ''loadedAddresses'') ''writable'');
     readonly \<leftarrow> items_or_default (b58_of decode) (field_of (field_of meta ''loadedAddresses'') ''readonly'');
     pre_token_balances \<leftarrow> items_of fixture_balance_of_json (field_of meta ''preTokenBalances'');
     post_token_balances \<leftarrow> items_of fixture_balance_of_json (field_of meta ''postTokenBalances'');
     Some \<lparr>tx_signature_bytes = signature,
       tx_transaction = Some (Some \<lparr>msg_account_keys = account_keys, msg_instructions = instructions\<rparr>),
       tx_meta = Some \<lparr>m_err = None, m_inner_instructions = inner_instructions, m_loaded_writable_addresses = writable,
         m_loaded_readonly_addresses = readonly, m_pre_balances = [], m_post_balances = [],
         m_pre_token_balances = pre_token_balances, m_post_token_balances = post_token_balances,
         m_log_messages = log_messages, m_compute_units_consumed = as_u64 (field_of meta ''computeUnitsConsumed'')\<rparr>\<rparr> }"

definition log_lines :: "json \<Rightarrow> string list may_panic" where
  "log_lines tx = items_of as_str (field_of (field_of tx ''meta'') ''logMessages'')"

section \<open>The recorded transaction\<close>

lemma log_items: "items_of as_str (Arr (map Str xs)) = Some xs"
  by (simp add: items_of_def map_may_panic_inverse)

lemma log_lines_read: "log_lines fixture_json = Some fixture_logs"
  by (simp add: log_lines_def fixture_json_def log_items)

lemma fx_marks: "distinct (map text_mark (map snd (fixture_signature # fixture_keys) @ map fst fx_data))"
  by code_simp

lemmas fx_decoded = table_decode_all(2) [OF fx_marks, folded fx_decode_def, unfolded fx_data_def, simplified]

lemmas fx_decoded_keys = table_decode_keys [OF fx_marks, folded fx_decode_def]

lemma fixture_instructions_read: "map_may_panic (compiled_of_json fx_decode) fx_instructions = Some fixture_instructions"
  by (simp add: fx_instructions_def fixture_instructions_def compiled_of_json_def fx_ix_def json_parts b58_of_def fx_decoded)

lemma fixture_blocks_read: "map_may_panic (block_of_json fx_decode) fx_blocks = Some fixture_inner_instructions"
  by (simp add: fx_blocks_def fixture_inner_instructions_def block_of_json_def inner_of_json_def compiled_of_json_def fx_inner_def
    fx_ix_def json_parts b58_of_def fx_decoded)

lemma fixture_balances_read:
  "map_may_panic fixture_balance_of_json fx_pre = Some fixture_pre_token_balances"
  "map_may_panic fixture_balance_of_json fx_post = Some fixture_post_token_balances"
  by code_simp+

text \<open>The conversion of the tests gives the message they run the handler on.\<close>

lemma fixture_tx_read: "fixture_tx_of_json fx_decode fixture_json = Some fixture_tx"
proof -
  have sub: "set (take n fixture_keys) \<subseteq> set (fixture_signature # fixture_keys)"
    "set (drop n fixture_keys) \<subseteq> set (fixture_signature # fixture_keys)"
    "set (take n (drop k fixture_keys)) \<subseteq> set (fixture_signature # fixture_keys)" for n k
    using sublist_keys [where ps = fixture_keys] by fastforce+
  have "fx_decode (snd fixture_signature) = Some (fst fixture_signature)"
    unfolding fx_decode_def by (rule table_decode_key [OF fx_marks]) simp
  then have "b58_of fx_decode (Str (snd fixture_signature)) = Some (fst fixture_signature)" by (simp add: b58_of_def)
  then show ?thesis
    by (simp add: fixture_tx_of_json_def result_of_def json_get_def fixture_json_def Let_def items_of_def items_or_default_def log_items
      [unfolded items_of_def, simplified] fx_decoded_keys [OF sub(1)] fx_decoded_keys [OF sub(2)] fx_decoded_keys [OF sub(3)] fixture_instructions_read fixture_blocks_read fixture_balances_read
      fixture_tx_def fixture_message_def fixture_meta_def as_u64_def)
qed

end
