(* ===== verification/Spec2Isabelle.thy ===== *)
theory Spec2Isabelle
  imports AmmProperties CpmmProperties Delivery Mints Grpc Renumber Schema Pool Logger
    RouteTests CpmmHandlerTests TaskTests IdlTests ReplayTests
    RouteReplayTests PdaTests StonkJsonTests
begin

text \<open>
  The collector of \<open>all-trade-data\<close>: it subscribes to a Solana gRPC stream, decodes the PumpSwap and
  Raydium CPMM transactions of tracked coins, and writes one row per trade to PostgreSQL.

  \<^bold>\<open>The program and its parts.\<close> \<open>src/src/main.rs\<close> starts everything: it ensures the schema of the two tables,
  loads the mints to follow, spawns the background tasks and the connection task. Each transaction of the
  stream goes to both handlers; a handler sends its records through a bounded channel to the batch inserter
  of its table. The refresh tasks change the shared mints while the handlers read them. A reconnect asks
  the provider to replay from the last slot seen, a restart from the slots committed to \<open>amm_trades\<close>; the
  upserts make a replay harmless.

  \<^bold>\<open>Theories.\<close> In the order of import:

  \<^item> \<open>Prelude\<close> (machine integers, slices, panics as \<open>may_panic\<close>, iterators), \<open>Constants\<close>
    (\<open>utils/constants.rs\<close>), \<open>Wire\<close> (gRPC messages and third-party functions), \<open>Records\<close> (\<open>TradeRecord\<close>,
    \<open>AltTradeRecord\<close>), \<open>Float64\<close> (\<open>f64\<close>), \<open>Decimal\<close> (\<open>u64\<close> to and from text).
  \<^item> \<open>Events\<close>, \<open>MarketCap\<close>, \<open>Instructions\<close>, \<open>EventSearch\<close>, \<open>MultiHop\<close>, \<open>Fees\<close>: the functions of
    \<open>utils/transaction.rs\<close>, one group each. \<open>Cpmm\<close>: those of \<open>utils/cpmm.rs\<close>.
  \<^item> \<open>AmmHandler\<close>, \<open>AmmProperties\<close>: \<open>handler/amm_handler.rs\<close> from \<open>process_pump_swap_tx\<close> down.
    \<open>CpmmHandler\<close>, \<open>CpmmProperties\<close>: \<open>handler/cpmm_handler.rs\<close> from \<open>process_cpmm_tx\<close> down.
  \<^item> \<open>Sql\<close>, \<open>Writer\<close>, \<open>Trades\<close>, \<open>AltTrades\<close>: \<open>batch_insert_trades\<close> and \<open>batch_insert_alt_trades\<close> of
    \<open>database/trades.rs\<close> and \<open>database/alt_trades.rs\<close>. \<open>Schema\<close>: \<open>ensure_table\<close> and \<open>ensure_alt_table\<close>.
    \<open>Retention\<close>: \<open>latest_trade_slot\<close> and the pruner.
  \<^item> \<open>Inserter\<close>, \<open>Delivery\<close>: \<open>spawn_batch_inserter\<close> and \<open>flush_buffer\<close>, for both tables.
  \<^item> \<open>Mints\<close>: \<open>database/whitelist.rs\<close> and \<open>database/alt_mints.rs\<close>. \<open>Pool\<close>: \<open>database/pool.rs\<close>. \<open>Logger\<close>:
    \<open>utils/logger.rs\<close>. \<open>Grpc\<close>: \<open>grpc/connection.rs\<close>. \<open>Supervisor\<close>: \<open>main.rs\<close>.
  \<^item> \<open>Accounting\<close> (what happens to each record while the table is also pruned), \<open>Recovery\<close> (crash and restart), \<open>System\<close> (handlers,
    channels, inserters and pruner as one step relation), \<open>Renumber\<close> (the numbers of records under two whitelists)
    and this theory hold what spans components: shutdown, and a transaction handled during a refresh.
  \<^item> The tests of the source, with a lemma that each passes. \<open>TransactionTests\<close>, \<open>CpmmTests\<close>, \<open>AmmTests\<close>,
    \<open>AmmHandlerTests\<close>, \<open>RouteTests\<close>, \<open>CpmmHandlerTests\<close>, \<open>TaskTests\<close>, \<open>IdlTests\<close>, \<open>PdaTests\<close>: the unit tests of the
    modules. \<open>Json\<close>: the JSON of an RPC response and its conversion to a message (\<open>test_support.rs\<close>). \<open>Replay\<close>,
    \<open>ReplayTests\<close>, \<open>RouteReplayTests\<close>: \<open>handler/pump_upgrade_replay_tests.rs\<close> on a mainnet buy and on a route, landed and
    failed. \<open>StonkJsonTests\<close>: how the tests read the recorded swap. \<open>StonkFixture\<close>, \<open>StonkJson\<close>, \<open>BuyFixture\<close>,
    \<open>RouteFixture\<close>, \<open>PumpIdl\<close>, \<open>PdaFixture\<close>: their data, transcribed from \<open>src/fixtures\<close>.

  \<^bold>\<open>State and operations.\<close> A handler changes \<open>amm_state\<close> or \<open>alt_state\<close> (channel, readonly log, counter) and
  returns the \<open>Result\<close> of the source; the shared mints are an argument. A panic is the outer \<open>None\<close> of
  \<open>may_panic\<close>, an exit by \<open>?\<close> a left value. The inserter is the record \<open>inserter\<close> (buffer, channel, flag,
  table, point of control) with the step relation \<open>task_step\<close> for the task and \<open>world_step\<close> for the rest of
  the program; the database answers every statement with any of \<open>db_outcome\<close>: applied, failed, or
  applied with the acknowledgement lost. A statement is data, as the source assembles it, and \<open>exec_upsert\<close>
  and \<open>exec_ddl\<close> are its meaning in SQL. The connection task is a function of the outcomes of its
  attempts; a refresh is the list of its operations on the concurrent map.

  \<^bold>\<open>What the lemmas show.\<close>

  \<^item> Decoding: encoders give the layout of the events, and the decoders invert them; the search for an
    event is the first direct self-CPI of the instruction, and no event is claimed twice.
  \<^item> Handlers: they never panic and fail exactly on a missing input; records are numbered from zero in
    execution order, pass the filters, and carry amounts that agree with their source.
  \<^item> Numbers: an error bound of the market cap in \<open>f64\<close> against the exact price; wrap-around, saturation and
    clamping of the integers where the source has them.
  \<^item> Writing: a batch is a valid statement with the effect of upserting its latest rows; a replay changes
    nothing; batches agree with row-by-row upserts; the rows have the types of the created tables, and an
    older table is migrated.
  \<^item> Delivery: an invariant over every run (\<open>keyed_store.no_record_lost\<close>) keeps each accepted record in the
    channel, the buffer or the table; a run with nothing waiting refines the sequence of upserts.
  \<^item> The stream: back-off and its bounds, the slot a reconnect asks for, and that no stream stops the
    collector. Readonly mode writes nothing. Restart: what the checkpoint covers, and what it does not.

  The locales are \<open>rounding\<close> (what the bounds need of a rounding), \<open>keyed_upsert\<close> (a table keyed by some of its
  columns), \<open>batch_writer\<close> (a batch statement over it), \<open>keyed_store\<close> (what the inserter needs of a table) and
  \<open>stream_handler\<close> (what the connection task needs of a handler); they are interpreted on \<open>f64\<close>, on both
  tables and on the handler of the program.

  \<^bold>\<open>Bounds.\<close> There is no fuel: every loop of the source runs over data that is given (instructions, rows,
  chunks, the items of one stream, the attempts followed so far), and the definitions recurse over it.
  Statements over all lists of attempts or steps hold for every finite part of a run that never ends.
  Integers have the width of the source; \<open>f64\<close> has an unbounded exponent, which \<open>MarketCap\<close> shows to be
  enough for the values that occur.

  \<^bold>\<open>Assumptions.\<close> Base58, base64, program derived addresses and the text of a key are the fields of \<open>externals\<close>;
  what the properties need of them is \<open>pubkey_text_ok\<close>. The provider, the transport and the clock are
  parameters. \<open>deliveries_agree\<close> says that a replay delivers the content delivered before.

  \<^bold>\<open>Findings.\<close> A whitelist refresh drops the trades handled while it runs. Records are numbered after the whitelist
  filter, so that the same trade delivered under a grown whitelist can take the key of another one. The
  checkpoint of a restart does not cover swaps still buffered. Two swaps
  that fall back on the vault balances of one pool are each given the whole change.
  After a failed chunk, older deliveries of a key can be written
  over newer ones (\<open>retry_writes_older_chunk_last\<close>), which matters only where deliveries disagree.

  \<^bold>\<open>Not modelled.\<close> The module files re-export; \<open>analysis\<close> is offline and not part of the collector; the other fixtures
  of the replay tests, their totals and the tests of \<open>migrate_v2\<close> and of the manifest are left out for the time
  their evaluation takes. Parsing of JSON texts and of connection strings, the filter of the logging library, the creation
  of the directory of the logs and the panic hook are left to the libraries. Log texts are otherwise kept only as the
  values they show. Time appears as the readings of the clock: intervals, the watchdog and the time
  limit of the shutdown are left out. Each handler reads one snapshot of the shared mints per transaction;
  the operations of a refresh between two snapshots are covered by the prefixes of \<open>Mints\<close>. The conversion
  of rows stored before a migration, the number of pruned rows and the time zone of the session are left
  to the database.
\<close>

section \<open>Shutdown of the program\<close>






section \<open>Refresh of the whitelist\<close>

lemma gap_fills:
  assumes "pubkey_text_ok X"
  shows "amm_fills X now tx slot {} False inp = []"
proof (rule ccontr)
  assume "amm_fills X now tx slot {} False inp \<noteq> []"
  then obtain f where "f \<in> set (amm_fills X now tx slot {} False inp)" by (meson list.set_sel(1))
  from amm_fills_props [OF assms this] show False by (auto simp: fill_eligible_def eligible_iff)
qed

text \<open>C30. A refresh of the whitelist loses trades: a transaction handled in the middle of it, when the shared set
  has been cleared and not yet filled, leaves no record at all, whatever it trades and whether or not its
  mint is whitelisted before and after the refresh.\<close>

theorem refresh_gap_drops_trades:
  assumes "pubkey_text_ok X" "amm_inputs X tx = Inr inp"
  shows "process_pump_swap_tx X now tx slot (dom (seen_after 1 whitelist (whitelist_ops rows))) False st =
    Some (Inr (), st)"
  unfolding process_closed [OF assms(2)] whitelist_refresh_gap dom_empty gap_fills [OF assms(1)] by simp

theorem refresh_gap_drops_trades_witness:
  "process_pump_swap_tx demo_ext 0 demo_failed_tx 5
     (dom (seen_after 1 [text_of_bytes (demo_key 2) \<mapsto> ()]
       (whitelist_ops [\<lparr>wm_token_address = Some (text_of_bytes (demo_key 2)), wm_whitelisted = Some True\<rparr>])))
     False demo_state = Some (Inr (), demo_state) \<and>
   (\<exists>r. process_pump_swap_tx demo_ext 0 demo_failed_tx 5 {text_of_bytes (demo_key 2)} False demo_state =
     Some (Inr (), demo_state\<lparr>as_channel := [r]\<rparr>))"
proof (rule conjI)
  show "process_pump_swap_tx demo_ext 0 demo_failed_tx 5
     (dom (seen_after 1 [text_of_bytes (demo_key 2) \<mapsto> ()]
       (whitelist_ops [\<lparr>wm_token_address = Some (text_of_bytes (demo_key 2)), wm_whitelisted = Some True\<rparr>])))
     False demo_state = Some (Inr (), demo_state)"
    by (rule refresh_gap_drops_trades [OF demo_pubkey_text_ok demo_inputs])
  show "\<exists>r. process_pump_swap_tx demo_ext 0 demo_failed_tx 5 {text_of_bytes (demo_key 2)} False demo_state =
      Some (Inr (), demo_state\<lparr>as_channel := [r]\<rparr>)"
    unfolding process_closed [OF demo_inputs] demo_failed_fills
    by (subst emit_fills_send) (simp_all add: demo_state_def)
qed

end
